(* ===== verification/Prelude.thy ===== *)
theory Prelude
  imports Main "HOL-Library.State_Monad" "HOL-Library.Word"
begin

text \<open>
  Shared vocabulary of the development: Go values that every controller uses (errors, reconcile
  results, panics, machine integers), the state in which a handler runs, and a small weakest
  precondition calculus over the library's state monad.

  A handler of the operator is a computation in \<^typ>\<open>('s, 'a) state\<close>. While it runs, the state is a
  \<open>handler\<close> record: the custom resource it holds a pointer to (\<open>inst\<close>, mutated in place by the Go
  code) and the cluster (\<open>world\<close>). The type of the cluster is a type variable: every call that the
  operator makes on the API server, or on a library that talks to it, is an arbitrary transformer of
  that state, so another actor may change the cluster between any two calls.
\<close>

named_theorems wp_simps \<open>weakest preconditions of the primitive computations\<close>
named_theorems keeps_intros \<open>introduction rules for preserved invariants\<close>
named_theorems safe_intros \<open>introduction rules for computations that do not panic\<close>

section \<open>Go values\<close>

type_synonym int32 = "32 word"
type_synonym int64 = "64 word"

text \<open>
  An \<open>error\<close> is what the code observes of it: whether \<open>k8s_errors.IsNotFound\<close> holds for it, and its
  \<open>Error()\<close> text. The nil error is \<^const>\<open>None\<close> of \<open>error option\<close>.
\<close>

record error =
  IsNotFound :: bool
  Error :: string

text \<open>\<open>fmt.Errorf\<close> without \<open>%w\<close> makes an error that is no API status.\<close>

definition Errorf :: "string \<Rightarrow> error" where
  "Errorf msg = \<lparr>IsNotFound = False, Error = msg\<rparr>"

text \<open>\<open>fmt.Errorf\<close> with a final \<open>%w\<close>: the status of the wrapped error stays visible.\<close>

definition Errorf_w :: "string \<Rightarrow> error \<Rightarrow> error" where
  "Errorf_w msg e = \<lparr>IsNotFound = IsNotFound e, Error = msg @ Error e\<rparr>"

text \<open>\<open>ctrl.Result\<close>; durations are nanoseconds, as \<open>time.Duration\<close> counts them.\<close>

record Result =
  Requeue :: bool
  RequeueAfter :: int

definition Result0 :: Result where
  "Result0 = \<lparr>Requeue = False, RequeueAfter = 0\<rparr>"

definition seconds :: "int \<Rightarrow> int" where
  "seconds n = n * 1000000000"

definition requeue_after :: "int \<Rightarrow> Result" where
  "requeue_after d = \<lparr>Requeue = False, RequeueAfter = d\<rparr>"

type_synonym reconcile_result = "Result \<times> error option"

text \<open>How a Go function ends: it returns, or it panics.\<close>

datatype 'a outcome = Return 'a | Panic string

text \<open>\<open>types.NamespacedName\<close> and \<open>client.ObjectKey\<close>: namespace and name.\<close>

record NamespacedName =
  nn_Namespace :: string
  nn_Name :: string

text \<open>A Go map: \<^const>\<open>None\<close> is the nil map. Writing to the nil map panics.\<close>

type_synonym ('k, 'v) gomap = "('k \<rightharpoonup> 'v) option"

definition map_store :: "('k, 'v) gomap \<Rightarrow> 'k \<Rightarrow> 'v \<Rightarrow> ('k, 'v) gomap outcome" where
  "map_store m k v = (case m of
       None \<Rightarrow> Panic ''assignment to entry in nil map''
     | Some f \<Rightarrow> Return (Some (f(k \<mapsto> v))))"

text \<open>Reading a key of a Go \<open>map[string]string\<close>: the empty string when it is absent.\<close>

definition map_read :: "(string \<rightharpoonup> string) \<Rightarrow> string \<Rightarrow> string" where
  "map_read m k = (case m k of None \<Rightarrow> '''' | Some v \<Rightarrow> v)"

text \<open>\<open>for key, data := range over { m[key] = data }\<close>: the entries of \<open>over\<close> win.\<close>

definition map_overwrite :: "(string \<rightharpoonup> string) \<Rightarrow> (string, string) gomap \<Rightarrow> (string \<rightharpoonup> string)" where
  "map_overwrite m over = (case over of None \<Rightarrow> m | Some f \<Rightarrow> m ++ f)"

text \<open>\<open>strings.Join\<close>.\<close>

fun strings_Join :: "string list \<Rightarrow> string \<Rightarrow> string" where
  "strings_Join [] sep = ''''"
| "strings_Join [x] sep = x"
| "strings_Join (x # y # xs) sep = x @ sep @ strings_Join (y # xs) sep"

text \<open>\<open>%s\<close> of a \<open>[]string\<close>: the elements between brackets, separated by blanks.\<close>

definition sprint_strings :: "string list \<Rightarrow> string" where
  "sprint_strings xs = ''['' @ strings_Join xs '' '' @ '']''"

section \<open>Handlers\<close>

record ('i, 'w) handler =
  inst :: 'i
  world :: 'w

definition update_inst :: "('i \<Rightarrow> 'i) \<Rightarrow> (('i, 'w) handler, unit) state" where
  "update_inst f = State_Monad.update (\<lambda>s. s\<lparr>inst := f (inst s)\<rparr>)"

definition get_inst :: "(('i, 'w) handler, 'i) state" where
  "get_inst = State (\<lambda>s. (inst s, s))"

text \<open>A call on the cluster, made from a handler.\<close>

definition api :: "('w, 'a) state \<Rightarrow> (('i, 'w) handler, 'a) state" where
  "api m = State (\<lambda>s. case run_state m (world s) of (a, w) \<Rightarrow> (a, s\<lparr>world := w\<rparr>))"

text \<open>Running a handler on an instance it has fetched.\<close>

definition with_inst :: "'i \<Rightarrow> (('i, 'w) handler, 'a) state \<Rightarrow> ('w, 'a) state" where
  "with_inst i m =
     State (\<lambda>w. case run_state m \<lparr>inst = i, world = w\<rparr> of (a, s) \<Rightarrow> (a, world s))"

text \<open>Sequencing past a computation that may panic.\<close>

definition pbind :: "('s, 'a outcome) state \<Rightarrow> ('a \<Rightarrow> ('s, 'b outcome) state) \<Rightarrow> ('s, 'b outcome) state" where
  "pbind m f = State_Monad.bind m
     (\<lambda>r. case r of Panic msg \<Rightarrow> State_Monad.return (Panic msg) | Return a \<Rightarrow> f a)"

abbreviation return :: "'a \<Rightarrow> ('s, 'a) state" where
  "return \<equiv> State_Monad.return"

text \<open>The return statement of a function that may panic elsewhere.\<close>

definition returns :: "'a \<Rightarrow> ('s, 'a outcome) state" where
  "returns a = return (Return a)"

text \<open>Following a pointer.\<close>

definition deref :: "'a option \<Rightarrow> ('s, 'a outcome) state" where
  "deref p = (case p of
      None \<Rightarrow> return (Panic ''invalid memory address or nil pointer dereference'')
    | Some a \<Rightarrow> returns a)"

section \<open>Weakest preconditions\<close>

definition wp :: "('s, 'a) state \<Rightarrow> ('a \<Rightarrow> 's \<Rightarrow> bool) \<Rightarrow> 's \<Rightarrow> bool" where
  "wp m Q s = (case run_state m s of (a, s') \<Rightarrow> Q a s')"

lemma wp_run: "wp m Q s \<Longrightarrow> run_state m s = (a, s') \<Longrightarrow> Q a s'"
  by (simp add: wp_def)

lemma wpI: "(\<And>a s'. run_state m s = (a, s') \<Longrightarrow> Q a s') \<Longrightarrow> wp m Q s"
  by (auto simp: wp_def split: prod.splits)

lemma wp_mono: "wp m P s \<Longrightarrow> (\<And>a s'. P a s' \<Longrightarrow> Q a s') \<Longrightarrow> wp m Q s"
  by (auto simp: wp_def split: prod.splits)

lemma wp_return [wp_simps]: "wp (return a) Q s = Q a s"
  by (simp add: wp_def)

lemma wp_returns [wp_simps]: "wp (returns a) Q s = Q (Return a) s"
  by (simp add: wp_def returns_def)

lemma wp_bind [wp_simps]: "wp (State_Monad.bind m f) Q s = wp m (\<lambda>a. wp (f a) Q) s"
  by (simp add: wp_def split: prod.splits)

lemma wp_pbind [wp_simps]:
  "wp (pbind m f) Q s =
     wp m (\<lambda>r s'. case r of Panic msg \<Rightarrow> Q (Panic msg) s' | Return a \<Rightarrow> wp (f a) Q s') s"
  by (simp add: wp_def pbind_def split: prod.splits outcome.splits)

lemma run_update_inst [simp]: "run_state (update_inst f) s = ((), s\<lparr>inst := f (inst s)\<rparr>)"
  by (simp add: update_inst_def State_Monad.update_def)

lemma wp_update_inst [wp_simps]: "wp (update_inst f) Q s = Q () (s\<lparr>inst := f (inst s)\<rparr>)"
  by (simp add: wp_def)

lemma run_get_inst [simp]: "run_state get_inst s = (inst s, s)"
  by (simp add: get_inst_def)

lemma wp_get_inst [wp_simps]: "wp get_inst Q s = Q (inst s) s"
  by (simp add: wp_def)

lemma run_api [simp]:
  "run_state (api m) s = (case run_state m (world s) of (a, w) \<Rightarrow> (a, s\<lparr>world := w\<rparr>))"
  by (simp add: api_def)

lemma wp_api: "wp (api m) Q s = wp m (\<lambda>a w. Q a (s\<lparr>world := w\<rparr>)) (world s)"
  by (simp add: wp_def split: prod.splits)

text \<open>What holds after any answer of the cluster holds after the call.\<close>

lemma wp_api_any: "(\<And>a w. Q a (s\<lparr>world := w\<rparr>)) \<Longrightarrow> wp (api m) Q s"
  by (simp add: wp_def split: prod.splits)

lemma wp_if [wp_simps]: "wp (if b then m else n) Q s = (if b then wp m Q s else wp n Q s)"
  by simp

lemma wp_case_prod [wp_simps]: "wp (case p of (a, b) \<Rightarrow> m a b) Q s = (case p of (a, b) \<Rightarrow> wp (m a b) Q s)"
  by (simp split: prod.splits)

lemma wp_case_option [wp_simps]:
  "wp (case x of None \<Rightarrow> m | Some a \<Rightarrow> f a) Q s =
     (case x of None \<Rightarrow> wp m Q s | Some a \<Rightarrow> wp (f a) Q s)"
  by (simp split: option.splits)

lemma wp_case_sum [wp_simps]:
  "wp (case x of Inl e \<Rightarrow> f e | Inr a \<Rightarrow> g a) Q s =
     (case x of Inl e \<Rightarrow> wp (f e) Q s | Inr a \<Rightarrow> wp (g a) Q s)"
  by (simp split: sum.splits)

lemma run_returns [simp]: "run_state (returns a) s = (Return a, s)"
  by (simp add: returns_def)

lemma run_pbind [simp]:
  "run_state (pbind m f) s = (case run_state m s of
      (Panic msg, s') \<Rightarrow> (Panic msg, s') | (Return a, s') \<Rightarrow> run_state (f a) s')"
  by (simp add: pbind_def split: prod.splits outcome.splits)

lemma run_deref_Some [simp]: "deref (Some a) = returns a"
  by (simp add: deref_def)

lemma run_with_inst [simp]:
  "run_state (with_inst i m) w = (case run_state m \<lparr>inst = i, world = w\<rparr> of (a, s) \<Rightarrow> (a, world s))"
  by (simp add: with_inst_def)

section \<open>Invariants of computations\<close>

definition keeps :: "('s \<Rightarrow> bool) \<Rightarrow> ('s, 'a) state \<Rightarrow> bool" where
  "keeps I m \<longleftrightarrow> (\<forall>s. I s \<longrightarrow> I (snd (run_state m s)))"

lemma keepsD: "keeps I m \<Longrightarrow> I s \<Longrightarrow> run_state m s = (a, s') \<Longrightarrow> I s'"
  by (auto simp: keeps_def dest: spec [of _ s])

lemma keeps_wp: "keeps I m \<Longrightarrow> I s \<Longrightarrow> wp m (\<lambda>_. I) s"
  by (auto intro!: wpI elim: keepsD)

lemma keeps_return [keeps_intros]: "keeps I (return a)"
  by (simp add: keeps_def)

lemma keeps_returns [keeps_intros]: "keeps I (returns a)"
  by (simp add: keeps_def)

lemma keeps_get_inst [keeps_intros]: "keeps I get_inst"
  by (simp add: keeps_def)

lemma keeps_bind [keeps_intros]:
  "keeps I m \<Longrightarrow> (\<And>a. keeps I (f a)) \<Longrightarrow> keeps I (State_Monad.bind m f)"
  by (auto simp: keeps_def split: prod.splits)

lemma keeps_pbind [keeps_intros]:
  "keeps I m \<Longrightarrow> (\<And>a. keeps I (f a)) \<Longrightarrow> keeps I (pbind m f)"
  unfolding pbind_def
  by (intro keeps_bind) (auto intro: keeps_return split: outcome.splits)

lemma keeps_if [keeps_intros]: "keeps I m \<Longrightarrow> keeps I n \<Longrightarrow> keeps I (if b then m else n)"
  by simp

lemma keeps_case_option [keeps_intros]:
  "keeps I m \<Longrightarrow> (\<And>a. keeps I (f a)) \<Longrightarrow> keeps I (case x of None \<Rightarrow> m | Some a \<Rightarrow> f a)"
  by (cases x) auto

lemma keeps_case_sum [keeps_intros]:
  "(\<And>e. keeps I (f e)) \<Longrightarrow> (\<And>a. keeps I (g a)) \<Longrightarrow> keeps I (case x of Inl e \<Rightarrow> f e | Inr a \<Rightarrow> g a)"
  by (cases x) auto

lemma keeps_case_prod [keeps_intros]:
  "(\<And>a b. keeps I (f a b)) \<Longrightarrow> keeps I (case x of (a, b) \<Rightarrow> f a b)"
  by (cases x) auto

lemma keeps_case_prod_app [keeps_intros]:
  "(\<And>a b. keeps I (f a b c)) \<Longrightarrow> keeps I ((case x of (a, b) \<Rightarrow> f a b) c)"
  by (cases x) auto

lemma keeps_case_outcome [keeps_intros]:
  "(\<And>a. keeps I (f a)) \<Longrightarrow> (\<And>e. keeps I (g e)) \<Longrightarrow>
     keeps I (case x of Return a \<Rightarrow> f a | Panic e \<Rightarrow> g e)"
  by (cases x) auto

lemma keeps_let [keeps_intros]: "(\<And>a. keeps I (f a)) \<Longrightarrow> keeps I (let a = x in f a)"
  by simp

text \<open>Invariants of the instance: calls on the cluster keep them whatever they answer.\<close>

definition of_inst :: "('i \<Rightarrow> bool) \<Rightarrow> ('i, 'w) handler \<Rightarrow> bool" where
  "of_inst P s \<longleftrightarrow> P (inst s)"

lemma keeps_api [keeps_intros]: "keeps (of_inst P) (api m)"
  by (auto simp: keeps_def of_inst_def split: prod.splits)

lemma keeps_update_inst [keeps_intros]:
  "(\<And>i. P i \<Longrightarrow> P (f i)) \<Longrightarrow> keeps (of_inst P) (update_inst f)"
  by (simp add: keeps_def of_inst_def)

text \<open>Invariants of the cluster: a change of the instance keeps them.\<close>

definition of_world :: "('w \<Rightarrow> bool) \<Rightarrow> ('i, 'w) handler \<Rightarrow> bool" where
  "of_world P s \<longleftrightarrow> P (world s)"

lemma keeps_api_world [keeps_intros]: "keeps P m \<Longrightarrow> keeps (of_world P) (api m)"
  by (auto simp: keeps_def of_world_def split: prod.splits)

lemma keeps_update_inst_world [keeps_intros]: "keeps (of_world P) (update_inst f)"
  by (simp add: keeps_def of_world_def)

lemma keeps_with_inst [keeps_intros]: "keeps (of_world P) m \<Longrightarrow> keeps P (with_inst i m)"
  by (auto simp: keeps_def of_world_def split: prod.splits) (metis handler.select_convs(2) snd_conv)

section \<open>Steady answers\<close>

text \<open>A call that gives the same answer in every state of the cluster.\<close>

definition steady :: "('w, 'a) state \<Rightarrow> 'a \<Rightarrow> bool" where
  "steady m a \<longleftrightarrow> (\<forall>w. fst (run_state m w) = a)"

lemma steadyE:
  assumes "steady m a"
  obtains w' where "run_state m w = (a, w')"
  using assms unfolding steady_def by (metis prod.collapse)

lemma wp_steady: "steady m a \<Longrightarrow> (\<And>w. Q a (s\<lparr>world := w\<rparr>)) \<Longrightarrow> wp (api m) Q s"
  by (auto simp: wp_def elim!: steadyE [where w = "world s"])

lemma wp_steady_eq: "steady m a \<Longrightarrow> wp (api m) Q s = Q a (s\<lparr>world := snd (run_state m (world s))\<rparr>)"
  by (auto simp: wp_def elim!: steadyE [where w = "world s"])

lemma run_api_steady: "steady m a \<Longrightarrow> run_state (api m) s = (a, s\<lparr>world := snd (run_state m (world s))\<rparr>)"
  by (auto elim!: steadyE [where w = "world s"])

lemma steady_return [simp]: "steady (return a) b \<longleftrightarrow> a = b"
  by (auto simp: steady_def)

lemma map_sum_total:
  assumes "\<forall>x. \<exists>y. f x = Inr y" and "\<And>y. Q (g y)"
  shows "\<exists>z. map_sum id g (f x) = Inr z \<and> Q z"
  using assms by (metis map_sum.simps(2))

lemma wp_exists: "wp m Q s \<Longrightarrow> \<exists>a s'. run_state m s = (a, s') \<and> Q a s'"
  by (auto simp: wp_def split: prod.splits)

lemma wp_of_run: "run_state m s = (a, s') \<Longrightarrow> wp m Q s = Q a s'"
  by (simp add: wp_def)

section \<open>Computations that do not panic\<close>

text \<open>From every state with the invariant the computation returns, and the invariant holds again.\<close>

definition safe :: "('s \<Rightarrow> bool) \<Rightarrow> ('s, 'a outcome) state \<Rightarrow> bool" where
  "safe I m \<longleftrightarrow> (\<forall>s. I s \<longrightarrow> (\<exists>r s'. run_state m s = (Return r, s') \<and> I s'))"

lemma safeD: "safe I m \<Longrightarrow> I s \<Longrightarrow> \<exists>r. fst (run_state m s) = Return r"
  by (fastforce simp: safe_def)

lemma safe_returns [safe_intros]: "safe I (returns a)"
  by (simp add: safe_def)

lemma safe_bind [safe_intros]:
  "keeps I m \<Longrightarrow> (\<And>a. safe I (f a)) \<Longrightarrow> safe I (State_Monad.bind m f)"
  by (auto simp: safe_def split: prod.splits dest: keepsD)

lemma safe_pbind [safe_intros]:
  "safe I m \<Longrightarrow> (\<And>a. safe I (f a)) \<Longrightarrow> safe I (pbind m f)"
  by (fastforce simp: safe_def)

lemma safe_if [safe_intros]: "safe I m \<Longrightarrow> safe I n \<Longrightarrow> safe I (if b then m else n)"
  by simp

lemma safe_case_option [safe_intros]:
  "safe I m \<Longrightarrow> (\<And>a. safe I (f a)) \<Longrightarrow> safe I (case x of None \<Rightarrow> m | Some a \<Rightarrow> f a)"
  by (cases x) auto

lemma safe_case_sum [safe_intros]:
  "(\<And>e. safe I (f e)) \<Longrightarrow> (\<And>a. safe I (g a)) \<Longrightarrow> safe I (case x of Inl e \<Rightarrow> f e | Inr a \<Rightarrow> g a)"
  by (cases x) auto

lemma safe_case_prod [safe_intros]: "(\<And>a b. safe I (f a b)) \<Longrightarrow> safe I (case x of (a, b) \<Rightarrow> f a b)"
  by (cases x) auto

lemma safe_case_prod_app [safe_intros]:
  "(\<And>a b. safe I (f a b c)) \<Longrightarrow> safe I ((case x of (a, b) \<Rightarrow> f a b) c)"
  by (cases x) auto

lemma safe_let [safe_intros]: "(\<And>a. safe I (f a)) \<Longrightarrow> safe I (let a = x in f a)"
  by simp

section \<open>Shared list and map facts\<close>

lemma map_store_Some [simp]: "map_store (Some f) k v = Return (Some (f(k \<mapsto> v)))"
  by (simp add: map_store_def)

lemma map_read_upd [simp]: "map_read (m(k \<mapsto> v)) k' = (if k' = k then v else map_read m k')"
  by (simp add: map_read_def)

lemma Result0_simps [simp]: "Requeue Result0 = False" "RequeueAfter Result0 = 0"
  by (simp_all add: Result0_def)

lemma requeue_after_eq_Result0 [simp]: "requeue_after d = Result0 \<longleftrightarrow> d = 0"
  by (simp add: requeue_after_def Result0_def)

lemma IsNotFound_Errorf [simp]: "\<not> IsNotFound (Errorf msg)"
  by (simp add: Errorf_def)

end
