(* ===== verification/Conditions.thy ===== *)
theory Conditions
  imports Prelude
begin

text \<open>
  Status conditions. The package \<open>condition\<close> of lib-common is not part of the repository: the
  operations of it that the controllers call are the fields of \<open>condition_pkg\<close>, a parameter of the
  model, and the locale \<open>condition_laws\<close> states their documented behaviour. The condition types and
  messages of \<^verbatim>\<open>api/v1beta1/conditions.go\<close> are definitions; a constant of lib-common is a
  constructor (types, reasons, severities) or named by \<open>Lib\<close> (messages).

  A condition is a value of the type variable \<open>'c\<close>. \<open>condition.Conditions\<close> is a Go slice, so
  \<open>'c conditions\<close> is a list with \<^const>\<open>None\<close> as the nil slice. Transition times are left out.
\<close>

named_theorems condition_defs \<open>the condition types that the API package declares\<close>

section \<open>Types, reasons, severities, messages\<close>

datatype cond_Type =
    ReadyCondition | InputReadyCondition | ServiceConfigReadyCondition | DeploymentReadyCondition
  | ServiceAccountReadyCondition | RoleReadyCondition | RoleBindingReadyCondition
  | KeystoneServiceReadyCondition | KeystoneEndpointReadyCondition | MemcachedReadyCondition
  | DBReadyCondition | DBSyncReadyCondition | RabbitMqTransportURLReadyCondition
  | ExposeServiceReadyCondition
  | Type string

datatype cond_Reason = InitReason | ErrorReason | RequestedReason | Reason string

datatype cond_Severity = SeverityError | SeverityWarning | SeverityInfo

text \<open>\<open>Lib n\<close> is lib-common's message constant named \<open>n\<close>, \<open>Text s\<close> a text of this repository or one
  computed at run time.\<close>

datatype cond_Message = Lib string | Text string

definition CeilometerReadyCondition :: cond_Type where [condition_defs]:
  "CeilometerReadyCondition = Type ''CeilometerReady''"
definition AutoscalingReadyCondition :: cond_Type where [condition_defs]:
  "AutoscalingReadyCondition = Type ''AutoscalingReady''"
definition MetricStorageReadyCondition :: cond_Type where [condition_defs]:
  "MetricStorageReadyCondition = Type ''MetricStorageReady''"
definition HeatReadyCondition :: cond_Type where [condition_defs]:
  "HeatReadyCondition = Type ''HeatReady''"
definition MonitoringStackReadyCondition :: cond_Type where [condition_defs]:
  "MonitoringStackReadyCondition = Type ''MonitoringStackReady''"
definition ServiceMonitorReadyCondition :: cond_Type where [condition_defs]:
  "ServiceMonitorReadyCondition = Type ''CeilometerServiceMonitorReady''"
definition ScrapeConfigReadyCondition :: cond_Type where [condition_defs]:
  "ScrapeConfigReadyCondition = Type ''NodeExporterScrapeConfigReady''"
definition NodeSetReadyCondition :: cond_Type where [condition_defs]:
  "NodeSetReadyCondition = Type ''NodeSetWatchReady''"

definition CeilometerReadyInitMessage :: cond_Message where
  "CeilometerReadyInitMessage = Text ''Ceilometer not started''"
definition CeilometerReadyMessage :: cond_Message where
  "CeilometerReadyMessage = Text ''Ceilometer completed''"
definition CeilometerReadyErrorMessage :: cond_Message where
  "CeilometerReadyErrorMessage = Text ''Ceilometer error occured %s''"
definition CeilometerReadyRunningMessage :: cond_Message where
  "CeilometerReadyRunningMessage = Text ''Ceilometer in progress''"
definition AutoscalingReadyInitMessage :: cond_Message where
  "AutoscalingReadyInitMessage = Text ''Autoscaling not started''"
definition AutoscalingReadyMessage :: cond_Message where
  "AutoscalingReadyMessage = Text ''Autoscaling completed''"
definition AutoscalingReadyErrorMessage :: cond_Message where
  "AutoscalingReadyErrorMessage = Text ''Autoscaling error occured %s''"
definition AutoscalingReadyRunningMessage :: cond_Message where
  "AutoscalingReadyRunningMessage = Text ''Autoscaling in progress''"
definition MetricStorageReadyInitMessage :: cond_Message where
  "MetricStorageReadyInitMessage = Text ''MetricStorage not started''"
definition MetricStorageReadyMessage :: cond_Message where
  "MetricStorageReadyMessage = Text ''MetricStorage completed''"
definition MetricStorageReadyErrorMessage :: cond_Message where
  "MetricStorageReadyErrorMessage = Text ''MetricStorage error occured %s''"
definition MetricStorageReadyRunningMessage :: cond_Message where
  "MetricStorageReadyRunningMessage = Text ''MetricStorage in progress''"
definition HeatReadyInitMessage :: cond_Message where
  "HeatReadyInitMessage = Text ''Heat not started''"
definition HeatReadyErrorMessage :: cond_Message where
  "HeatReadyErrorMessage = Text ''Heat error occured %s''"
definition HeatReadyNotFoundMessage :: cond_Message where
  "HeatReadyNotFoundMessage = Text ''Heat has not been found''"
definition HeatReadyUnreadyMessage :: cond_Message where
  "HeatReadyUnreadyMessage = Text (''Heat isn'' @ [CHR 0x27] @ ''t ready yet'')"
definition MonitoringStackReadyInitMessage :: cond_Message where
  "MonitoringStackReadyInitMessage = Text ''MonitoringStack not started''"
definition MonitoringStackUnableToOwnMessage :: cond_Message where
  "MonitoringStackUnableToOwnMessage = Text ''Error occured when trying to own: %s''"
definition MonitoringStackReadyMisconfiguredMessage :: cond_Message where
  "MonitoringStackReadyMisconfiguredMessage =
     Text (''MonitoringStack isn'' @ [CHR 0x27] @ ''t configured properly: %s'')"
definition ServiceMonitorReadyInitMessage :: cond_Message where
  "ServiceMonitorReadyInitMessage = Text ''ServiceMonitor not started''"
definition ServiceMonitorUnableToOwnMessage :: cond_Message where
  "ServiceMonitorUnableToOwnMessage = Text ''Error occured when trying to own %s''"
definition ScrapeConfigReadyInitMessage :: cond_Message where
  "ScrapeConfigReadyInitMessage = Text ''ScrapeConfig not started''"
definition ScrapeConfigUnableToOwnMessage :: cond_Message where
  "ScrapeConfigUnableToOwnMessage = Text ''Error occured when trying to own %s''"
definition NodeSetReadyInitMessage :: cond_Message where
  "NodeSetReadyInitMessage = Text ''NodeSet not watched''"
definition NodeSetUnableToWatchMessage :: cond_Message where
  "NodeSetUnableToWatchMessage = Text ''Error occured when trying to watch %s''"

section \<open>The condition package, a parameter\<close>

type_synonym 'c conditions = "'c list option"

text \<open>
  \<open>Set_through_copy cs c\<close> is what a slice \<open>cs\<close> holds after \<open>Set\<close> has run on a copy of its slice header
  (the methods \<open>RbacConditionsSet\<close> have a value receiver).
\<close>

record 'c condition_pkg =
  FalseCondition :: "cond_Type \<Rightarrow> cond_Reason \<Rightarrow> cond_Severity \<Rightarrow> cond_Message \<Rightarrow> string list \<Rightarrow> 'c"
  UnknownCondition :: "cond_Type \<Rightarrow> cond_Reason \<Rightarrow> cond_Message \<Rightarrow> 'c"
  CreateList :: "'c list \<Rightarrow> 'c conditions"
  cond_Init :: "'c conditions \<Rightarrow> 'c conditions \<Rightarrow> 'c conditions"
  cond_Set :: "'c conditions \<Rightarrow> 'c option \<Rightarrow> 'c conditions"
  Set_through_copy :: "'c conditions \<Rightarrow> 'c option \<Rightarrow> 'c conditions"
  MarkTrue :: "'c conditions \<Rightarrow> cond_Type \<Rightarrow> cond_Message \<Rightarrow> 'c conditions"
  MarkFalse :: "'c conditions \<Rightarrow> cond_Type \<Rightarrow> cond_Reason \<Rightarrow> cond_Severity \<Rightarrow> cond_Message \<Rightarrow> string list
     \<Rightarrow> 'c conditions"
  MarkUnknown :: "'c conditions \<Rightarrow> cond_Type \<Rightarrow> cond_Reason \<Rightarrow> cond_Message \<Rightarrow> 'c conditions"
  cond_Remove :: "'c conditions \<Rightarrow> cond_Type \<Rightarrow> 'c conditions"
  IsTrue :: "'c conditions \<Rightarrow> cond_Type \<Rightarrow> bool"
  AllSubConditionIsTrue :: "'c conditions \<Rightarrow> bool"
  Mirror :: "'c conditions \<Rightarrow> cond_Type \<Rightarrow> 'c option"

text \<open>
  Documented behaviour. A slice holds at most one condition per type; \<open>Has\<close> says which types are
  there, \<open>ctype\<close> and \<open>ctrue\<close> are a condition's type and whether its status is True. \<open>Mirror\<close> reports the
  most critical condition (False before Unknown before True), so the mirrored status is True only when
  all are. \<open>Set\<close> on a type that is already there writes the slice's element in place; on another type it appends
  and sorts, after which a slice that shares the memory holds its own conditions or the new one, as many as
  before.
\<close>

locale condition_laws =
  fixes CL :: "'c condition_pkg"
    and Has :: "'c conditions \<Rightarrow> cond_Type \<Rightarrow> bool"
    and ctype :: "'c \<Rightarrow> cond_Type"
    and ctrue :: "'c \<Rightarrow> bool"
  assumes ctype_FalseCondition: "ctype (FalseCondition CL t r sv m xs) = t"
    and ctrue_FalseCondition: "\<not> ctrue (FalseCondition CL t r sv m xs)"
    and ctype_UnknownCondition: "ctype (UnknownCondition CL t r m) = t"
    and ctrue_UnknownCondition: "\<not> ctrue (UnknownCondition CL t r m)"
    and Has_nil: "\<not> Has None t"
    and Has_empty: "\<not> Has (Some []) t"
    and IsTrue_Has: "IsTrue CL cs t \<Longrightarrow> Has cs t"
    and Has_CreateList: "Has (CreateList CL l) t \<longleftrightarrow> (\<exists>c \<in> set l. ctype c = t)"
    and IsTrue_CreateList: "IsTrue CL (CreateList CL l) t \<Longrightarrow> \<exists>c \<in> set l. ctype c = t \<and> ctrue c"
    and Init_not_nil: "cond_Init CL cs cl \<noteq> None"
    and Has_Init: "Has (cond_Init CL cs cl) t \<longleftrightarrow> t = ReadyCondition \<or> Has cs t \<or> Has cl t"
    and IsTrue_Init:
      "IsTrue CL (cond_Init CL (Some []) cl) t \<longleftrightarrow> IsTrue CL cl t"
    and Set_nil: "cond_Set CL cs None = cs"
    and Set_not_nil: "cond_Set CL cs (Some c) \<noteq> None"
    and Has_Set: "Has (cond_Set CL cs (Some c)) t \<longleftrightarrow> t = ctype c \<or> Has cs t"
    and IsTrue_Set:
      "IsTrue CL (cond_Set CL cs (Some c)) t \<longleftrightarrow> (if t = ctype c then ctrue c else IsTrue CL cs t)"
    and Set_copy_present:
      "Has cs (ctype c) \<Longrightarrow> Has (Set_through_copy CL cs (Some c)) t \<longleftrightarrow> Has cs t"
    and IsTrue_Set_copy_present:
      "Has cs (ctype c) \<Longrightarrow>
         IsTrue CL (Set_through_copy CL cs (Some c)) t \<longleftrightarrow>
           (if t = ctype c then ctrue c else IsTrue CL cs t)"
    and MarkTrue_not_nil: "MarkTrue CL cs t m \<noteq> None"
    and Has_MarkTrue: "Has (MarkTrue CL cs t m) t' \<longleftrightarrow> t' = t \<or> Has cs t'"
    and IsTrue_MarkTrue: "IsTrue CL (MarkTrue CL cs t m) t' \<longleftrightarrow> t' = t \<or> IsTrue CL cs t'"
    and Has_MarkFalse: "Has (MarkFalse CL cs t r sv m xs) t' \<longleftrightarrow> t' = t \<or> Has cs t'"
    and IsTrue_MarkFalse: "IsTrue CL (MarkFalse CL cs t r sv m xs) t' \<longleftrightarrow> t' \<noteq> t \<and> IsTrue CL cs t'"
    and Has_MarkUnknown: "Has (MarkUnknown CL cs t r m) t' \<longleftrightarrow> t' = t \<or> Has cs t'"
    and IsTrue_MarkUnknown: "IsTrue CL (MarkUnknown CL cs t r m) t' \<longleftrightarrow> t' \<noteq> t \<and> IsTrue CL cs t'"
    and Has_Remove: "Has (cond_Remove CL cs t) t' \<longleftrightarrow> t' \<noteq> t \<and> Has cs t'"
    and IsTrue_Remove: "IsTrue CL (cond_Remove CL cs t) t' \<longleftrightarrow> t' \<noteq> t \<and> IsTrue CL cs t'"
    and AllSub_iff: "AllSubConditionIsTrue CL cs \<longleftrightarrow>
          (\<forall>t. Has cs t \<and> t \<noteq> ReadyCondition \<longrightarrow> IsTrue CL cs t)"
    and Mirror_Some: "Has cs t' \<Longrightarrow> Mirror CL cs t \<noteq> None"
    and ctype_Mirror: "Mirror CL cs t = Some c \<Longrightarrow> ctype c = t"
    and ctrue_Mirror: "Mirror CL cs t = Some c \<Longrightarrow> ctrue c \<longleftrightarrow> (\<forall>t'. Has cs t' \<longrightarrow> IsTrue CL cs t')"
    and Has_Set_copy: "Has (Set_through_copy CL cs (Some c)) t \<Longrightarrow> t = ctype c \<or> Has cs t"
    and IsTrue_Set_copy: "Has (Set_through_copy CL cs (Some c)) t \<Longrightarrow>
          IsTrue CL (Set_through_copy CL cs (Some c)) t \<longleftrightarrow> (if t = ctype c then ctrue c else IsTrue CL cs t)"
begin

lemmas cond_simps =
  ctype_FalseCondition ctrue_FalseCondition ctype_UnknownCondition ctrue_UnknownCondition
  Has_nil Has_empty Has_Set IsTrue_Set Has_MarkTrue IsTrue_MarkTrue Has_MarkFalse IsTrue_MarkFalse
  Has_MarkUnknown IsTrue_MarkUnknown Has_Remove IsTrue_Remove Has_Init IsTrue_Init

text \<open>Conditions created as Unknown leave nothing True.\<close>

lemma no_True_CreateList_Unknown:
  assumes "\<forall>c \<in> set l. \<not> ctrue c"
  shows "\<not> IsTrue CL (CreateList CL l) t"
  using assms IsTrue_CreateList by blast

end

section \<open>The deferred update of the Ready condition\<close>

text \<open>
  The first half of the deferred function of every \<open>Reconcile\<close>: recompute the Ready condition from
  the other conditions.
\<close>

definition update_ready :: "'c condition_pkg \<Rightarrow> 'c conditions \<Rightarrow> 'c conditions" where
  "update_ready CL cs =
     (if AllSubConditionIsTrue CL cs
      then MarkTrue CL cs ReadyCondition (Lib ''ReadyMessage'')
      else let cs' = MarkUnknown CL cs ReadyCondition InitReason (Lib ''ReadyInitMessage'')
           in cond_Set CL cs' (Mirror CL cs' ReadyCondition))"

context condition_laws begin

lemma IsTrue_update_ready_sub:
  assumes "t \<noteq> ReadyCondition"
  shows "IsTrue CL (update_ready CL cs) t \<longleftrightarrow> IsTrue CL cs t"
  using assms
  by (cases "Mirror CL (MarkUnknown CL cs ReadyCondition InitReason (Lib ''ReadyInitMessage'')) ReadyCondition")
    (auto simp: update_ready_def Let_def cond_simps Set_nil dest: ctype_Mirror)

lemma Has_update_ready:
  "Has (update_ready CL cs) t \<longleftrightarrow> t = ReadyCondition \<or> Has cs t"
  by (cases "Mirror CL (MarkUnknown CL cs ReadyCondition InitReason (Lib ''ReadyInitMessage'')) ReadyCondition")
    (auto simp: update_ready_def Let_def cond_simps Set_nil dest: ctype_Mirror)

text \<open>Ready is reported True exactly when every other condition is True.\<close>

lemma update_ready_iff:
  "IsTrue CL (update_ready CL cs) ReadyCondition \<longleftrightarrow> AllSubConditionIsTrue CL cs"
proof (cases "AllSubConditionIsTrue CL cs")
  case True
  then show ?thesis by (simp add: update_ready_def cond_simps)
next
  case False
  let ?cs = "MarkUnknown CL cs ReadyCondition InitReason (Lib ''ReadyInitMessage'')"
  have "Has ?cs ReadyCondition" by (simp add: cond_simps)
  then obtain c where c: "Mirror CL ?cs ReadyCondition = Some c"
    using Mirror_Some by (metis option.exhaust)
  have "\<not> IsTrue CL ?cs ReadyCondition" by (simp add: cond_simps)
  with \<open>Has ?cs ReadyCondition\<close> have "\<not> ctrue c"
    using ctrue_Mirror [OF c] by blast
  with False c ctype_Mirror [OF c] show ?thesis
    by (simp add: update_ready_def Let_def cond_simps)
qed

lemma update_ready_not_nil: "update_ready CL cs \<noteq> None"
proof (cases "AllSubConditionIsTrue CL cs")
  case True
  then show ?thesis by (simp add: update_ready_def MarkTrue_not_nil del: not_None_eq)
next
  case False
  let ?cs = "MarkUnknown CL cs ReadyCondition InitReason (Lib ''ReadyInitMessage'')"
  have "Has ?cs ReadyCondition" by (simp add: cond_simps)
  then obtain c where "Mirror CL ?cs ReadyCondition = Some c"
    using Mirror_Some by (metis option.exhaust)
  with False show ?thesis by (simp add: update_ready_def Let_def Set_not_nil del: not_None_eq)
qed

end

section \<open>A reference condition package\<close>

text \<open>
  The smallest implementation with the laws: a condition is its type and whether it is True. Theorems
  that assume \<^const>\<open>condition_laws\<close> are instantiated with it in their witnesses.
\<close>

type_synonym ref_cond = "cond_Type \<times> bool"

fun ref_put :: "ref_cond \<Rightarrow> ref_cond list \<Rightarrow> ref_cond list" where
  "ref_put c [] = [c]"
| "ref_put c (d # ds) = (if fst d = fst c then c # ds else d # ref_put c ds)"

definition ref_elems :: "ref_cond conditions \<Rightarrow> ref_cond list" where
  "ref_elems cs = (case cs of None \<Rightarrow> [] | Some l \<Rightarrow> l)"

definition ref_Set :: "ref_cond conditions \<Rightarrow> ref_cond option \<Rightarrow> ref_cond conditions" where
  "ref_Set cs c = (case c of None \<Rightarrow> cs | Some d \<Rightarrow> Some (ref_put d (ref_elems cs)))"

definition ref_Has :: "ref_cond conditions \<Rightarrow> cond_Type \<Rightarrow> bool" where
  "ref_Has cs t = (t \<in> fst ` set (ref_elems cs))"

definition ref_IsTrue :: "ref_cond conditions \<Rightarrow> cond_Type \<Rightarrow> bool" where
  "ref_IsTrue cs t = (map_of (ref_elems cs) t = Some True)"

definition ref_Init :: "ref_cond conditions \<Rightarrow> ref_cond conditions \<Rightarrow> ref_cond conditions" where
  "ref_Init cs cl =
     Some (fold ref_put (rev (ref_elems cl)) (ref_elems (ref_Set cs (Some (ReadyCondition, False)))))"

definition ref_pkg :: "ref_cond condition_pkg" where
  "ref_pkg = \<lparr>
     FalseCondition = (\<lambda>t r sv m xs. (t, False)),
     UnknownCondition = (\<lambda>t r m. (t, False)),
     CreateList = (\<lambda>l. Some l),
     cond_Init = ref_Init,
     cond_Set = ref_Set,
     Set_through_copy = (\<lambda>cs c. case c of None \<Rightarrow> cs
        | Some d \<Rightarrow> if ref_Has cs (fst d) then ref_Set cs c else cs),
     MarkTrue = (\<lambda>cs t m. ref_Set cs (Some (t, True))),
     MarkFalse = (\<lambda>cs t r sv m xs. ref_Set cs (Some (t, False))),
     MarkUnknown = (\<lambda>cs t r m. ref_Set cs (Some (t, False))),
     cond_Remove = (\<lambda>cs t. map_option (filter (\<lambda>c. fst c \<noteq> t)) cs),
     IsTrue = ref_IsTrue,
     AllSubConditionIsTrue = (\<lambda>cs. list_all
        (\<lambda>c. fst c = ReadyCondition \<or> ref_IsTrue cs (fst c)) (ref_elems cs)),
     Mirror = (\<lambda>cs t. if ref_elems cs = [] then None
        else Some (t, list_all (\<lambda>c. ref_IsTrue cs (fst c)) (ref_elems cs)))\<rparr>"

lemma ref_elems_simps [simp]: "ref_elems None = []" "ref_elems (Some l) = l"
  by (simp_all add: ref_elems_def)

lemma map_of_ref_put: "map_of (ref_put c l) t = (if t = fst c then Some (snd c) else map_of l t)"
  by (induction l) auto

lemma keys_ref_put: "fst ` set (ref_put c l) = insert (fst c) (fst ` set l)"
  by (induction l) auto

lemma map_of_fold_ref_put:
  "map_of (fold ref_put l acc) t = (map_of acc ++ map_of (rev l)) t"
proof (induction l arbitrary: acc)
  case (Cons c l)
  then show ?case
    by (cases c) (auto simp: map_of_ref_put map_add_def split: option.splits)
qed simp

lemma keys_fold_ref_put: "fst ` set (fold ref_put l acc) = fst ` set l \<union> fst ` set acc"
  by (induction l arbitrary: acc) (auto simp: keys_ref_put)

lemma keys_filter: "fst ` set (filter (\<lambda>c. fst c \<noteq> t) l) = fst ` set l - {t}"
  by (induction l) auto

lemma map_of_ref_remove:
  "map_of (filter (\<lambda>c. fst c \<noteq> t) l) t' = (if t' = t then None else map_of l t')"
  by (induction l) auto

lemma ref_IsTrue_Has: "ref_IsTrue cs t \<Longrightarrow> ref_Has cs t"
  by (simp add: ref_IsTrue_def ref_Has_def) (metis domI dom_map_of_conv_image_fst)

lemma ref_IsTrue_Init:
  "ref_IsTrue (ref_Init (Some []) cl) t \<longleftrightarrow> ref_IsTrue cl t"
  by (auto simp: ref_IsTrue_def ref_Init_def ref_Set_def map_of_fold_ref_put map_add_def
      split: option.splits if_splits)

lemmas ref_defs = ref_pkg_def ref_Has_def ref_IsTrue_def ref_Set_def

lemmas ref_simps = keys_ref_put map_of_ref_put keys_filter map_of_ref_remove

lemma ref_IsTrue_CreateList:
  "map_of l t = Some True \<Longrightarrow> \<exists>c \<in> set l. fst c = t \<and> snd c"
  by (metis fst_conv map_of_SomeD snd_conv)

lemma ref_elems_map: "ref_elems (map_option f cs) = (case cs of None \<Rightarrow> [] | Some l \<Rightarrow> f l)"
  by (cases cs) simp_all

lemma ref_Mirror:
  assumes "Mirror ref_pkg cs t = Some c"
  shows "fst c = t" and "snd c \<longleftrightarrow> (\<forall>t'. ref_Has cs t' \<longrightarrow> ref_IsTrue cs t')"
proof -
  have c: "c = (t, list_all (\<lambda>c. ref_IsTrue cs (fst c)) (ref_elems cs))"
    using assms by (cases "ref_elems cs = []") (simp_all add: ref_pkg_def)
  show "fst c = t" using c by simp
  have "snd c \<longleftrightarrow> (\<forall>t' \<in> fst ` set (ref_elems cs). ref_IsTrue cs t')"
    using c by (simp add: list_all_iff)
  then show "snd c \<longleftrightarrow> (\<forall>t'. ref_Has cs t' \<longrightarrow> ref_IsTrue cs t')"
    by (auto simp: ref_Has_def)
qed

interpretation ref: condition_laws ref_pkg ref_Has fst snd
proof (unfold_locales, goal_cases)
  case (7 cs t)
  then show ?case using ref_IsTrue_Has by (simp add: ref_pkg_def)
next
  case (8 l t)
  show ?case by (force simp: ref_defs)
next
  case (9 l t)
  then show ?case by (simp add: ref_defs ref_IsTrue_CreateList)
next
  case (11 cs cl t)
  show ?case by (auto simp: ref_defs ref_Init_def keys_fold_ref_put keys_ref_put)
next
  case (12 cl t)
  show ?case by (simp add: ref_pkg_def ref_IsTrue_Init)
next
  case (26 cs t t')
  show ?case by (cases cs) (auto simp: ref_defs ref_elems_map keys_filter simp del: set_filter)
next
  case (27 cs t t')
  show ?case by (cases cs) (simp_all add: ref_defs map_of_ref_remove)
next
  case (28 cs)
  show ?case by (auto simp: ref_pkg_def ref_Has_def list_all_iff)
next
  case (29 cs t' t)
  then show ?case by (auto simp: ref_pkg_def ref_Has_def)
next
  case (30 cs t c)
  then show ?case by (rule ref_Mirror)
next
  case (31 cs t c)
  then show ?case using ref_Mirror(2) by (simp add: ref_pkg_def)
next
  case (32 cs c t)
  then show ?case
    by (cases "ref_Has cs (fst c)") (auto simp: ref_defs keys_ref_put map_of_ref_put simp flip: image_iff split: if_splits)
next
  case (33 cs c t)
  then show ?case
    by (cases "fst c \<in> fst ` set (ref_elems cs)"; cases "t = fst c") (simp_all add: ref_defs map_of_ref_put)
qed (auto simp: ref_defs ref_Init_def keys_ref_put map_of_ref_put)

end
