(* ===== verification/Api_Types.thy ===== *)
theory Api_Types
  imports Conditions
begin

text \<open>
  The custom resources of \<^verbatim>\<open>api/v1beta1\<close> (\<^verbatim>\<open>*_types.go\<close>) and the Kubernetes metadata they embed.
  A struct is a record whose fields carry a short prefix, a pointer is an \<open>option\<close>, \<open>int32\<close> is a
  32-bit word. A custom resource is metadata, spec and status; every status extends \<open>StatusBase\<close>, so
  that \<open>Conditions\<close> reads the conditions of any of them.
\<close>

section \<open>Kubernetes metadata\<close>

record OwnerReference =
  or_Kind :: string
  or_Name :: string

text \<open>
  \<open>DeletionTimestamp\<close> is \<^const>\<open>None\<close> when it \<open>IsZero\<close>. \<open>m_Kind\<close> is \<open>Kind\<close> of the \<open>TypeMeta\<close> that is embedded
  beside the \<open>ObjectMeta\<close>.
\<close>

record ObjectMeta =
  m_Kind :: string
  m_Name :: string
  m_Namespace :: string
  m_DeletionTimestamp :: "int option"
  m_Finalizers :: "string list"
  m_OwnerReferences :: "OwnerReference list"
  m_Labels :: "(string, string) gomap"
  m_Annotations :: "(string, string) gomap"

definition ObjectMeta_named :: "string \<Rightarrow> string \<Rightarrow> ObjectMeta" where
  "ObjectMeta_named name ns = \<lparr>m_Kind = '''', m_Name = name, m_Namespace = ns, m_DeletionTimestamp = None,
     m_Finalizers = [], m_OwnerReferences = [], m_Labels = None, m_Annotations = None\<rparr>"

record ('sp, 'st) CR =
  Meta :: ObjectMeta
  Spec :: 'sp
  Status :: 'st

definition ObjectKeyFromObject :: "ObjectMeta \<Rightarrow> NamespacedName" where
  "ObjectKeyFromObject m = \<lparr>nn_Namespace = m_Namespace m, nn_Name = m_Name m\<rparr>"

text \<open>\<open>metav1.LabelSelector\<close>; the zero value has a nil map and a nil slice.\<close>

record LabelSelector =
  MatchLabels :: "(string, string) gomap"
  MatchExpressions :: "string list option"

definition LabelSelector0 :: LabelSelector where
  "LabelSelector0 = \<lparr>MatchLabels = None, MatchExpressions = None\<rparr>"

section \<open>Status\<close>

record 'c StatusBase =
  Conditions :: "'c conditions"

record 'c HashStatus = "'c StatusBase" +
  Hash :: "(string, string) gomap"

record 'c CeilometerStatus = "'c HashStatus" +
  ces_ReadyCount :: int32
  ces_TransportURLSecret :: string
  ces_Networks :: "string list"

record 'c AutoscalingStatus = "'c HashStatus" +
  ass_ReadyCount :: int32
  ass_Networks :: "string list"
  ass_TransportURLSecret :: string
  ass_DatabaseHostname :: string
  ass_PrometheusHost :: string
  ass_PrometheusPort :: int32
  ass_APIEndpoints :: "(string, string) gomap"

type_synonym 'c LoggingStatus = "'c HashStatus"
type_synonym 'c TelemetryStatus = "'c HashStatus"
type_synonym 'c MetricStorageStatus = "'c StatusBase"

section \<open>Specs\<close>

record PasswordsSelector =
  pw_Service :: string
  pw_AodhService :: string
  pw_Database :: string

record CeilometerSpec =
  ce_RabbitMqClusterName :: string
  ce_PasswordSelectors :: PasswordsSelector
  ce_ServiceUser :: string
  ce_Secret :: string
  ce_CustomServiceConfig :: string
  ce_DefaultConfigOverwrite :: "(string, string) gomap"
  ce_NetworkAttachmentDefinitions :: "string list"
  ce_CentralImage :: string
  ce_NotificationImage :: string
  ce_SgCoreImage :: string
  ce_ComputeImage :: string
  ce_IpmiImage :: string
  ce_NodeExporterImage :: string

text \<open>
  \<open>service.OverrideSpec\<close> and \<open>service.RoutedOverrideSpec\<close> of lib-common: the fields the controller
  touches, and the rest of the override as the field \<open>ov_Rest\<close> it only passes on.
\<close>

record OverrideSpec =
  ov_EmbeddedLabelsAnnotations :: "((string, string) gomap \<times> (string, string) gomap) option"
  ov_Rest :: "(string \<times> string) list"

record RoutedOverrideSpec =
  ro_OverrideSpec :: OverrideSpec
  ro_EndpointURL :: "string option"

record APIOverrideSpec =
  ao_Service :: "RoutedOverrideSpec option"

record Aodh =
  ao_RabbitMqClusterName :: string
  ao_DatabaseInstance :: string
  ao_DatabaseUser :: string
  ao_PasswordSelectors :: PasswordsSelector
  ao_ServiceUser :: string
  ao_Secret :: string
  ao_CustomServiceConfig :: string
  ao_DefaultConfigOverwrite :: "(string, string) gomap"
  ao_NetworkAttachmentDefinitions :: "string list"
  ao_Override :: APIOverrideSpec
  ao_PreserveJobs :: bool
  ao_MemcachedInstance :: string
  ao_APIImage :: string
  ao_EvaluatorImage :: string
  ao_NotifierImage :: string
  ao_ListenerImage :: string

record AutoscalingSpec =
  as_PrometheusHost :: string
  as_PrometheusPort :: int32
  as_Aodh :: Aodh
  as_HeatInstance :: string

record LoggingSpec =
  lo_Network :: string
  lo_IPAddr :: string
  lo_Port :: int32
  lo_TargetPort :: int64
  lo_CLONamespace :: string
  lo_RsyslogRetries :: int32
  lo_RsyslogQueueType :: string
  lo_RsyslogQueueSize :: int32

record PersistentStorage =
  ps_PvcStorageRequest :: string
  ps_PvcStorageSelector :: LabelSelector
  ps_PvcStorageClass :: string

record Storage =
  st_Strategy :: string
  st_Retention :: string
  st_Persistent :: PersistentStorage

record MonitoringStack =
  ms_AlertingEnabled :: bool
  ms_ScrapeInterval :: string
  ms_Storage :: Storage

text \<open>
  \<open>obov1.MonitoringStackSpec\<close> of the observability operator: the fields the repository sets, and
  \<open>mss_Other\<close> for the fields that only a user's custom stack sets.
\<close>

record PersistentVolumeClaimSpec =
  pvc_Selector :: "LabelSelector option"
  pvc_StorageClassName :: "string option"
  pvc_Requests :: "(string \<times> string) list"

record PrometheusConfig =
  pc_Replicas :: "int32 option"
  pc_PersistentVolumeClaim :: "PersistentVolumeClaimSpec option"

record MonitoringStackSpec =
  mss_AlertmanagerDisabled :: bool
  mss_PrometheusConfig :: "PrometheusConfig option"
  mss_Retention :: string
  mss_LogLevel :: string
  mss_ResourceSelector :: "LabelSelector option"
  mss_Other :: "(string \<times> string) list"

definition MonitoringStackSpec0 :: MonitoringStackSpec where
  "MonitoringStackSpec0 = \<lparr>mss_AlertmanagerDisabled = False, mss_PrometheusConfig = None,
     mss_Retention = '''', mss_LogLevel = '''', mss_ResourceSelector = None, mss_Other = []\<rparr>"

record MetricStorageSpec =
  mt_MonitoringStack :: "MonitoringStack option"
  mt_CustomMonitoringStack :: "MonitoringStackSpec option"

record CeilometerSection =
  cse_Enabled :: bool
  cse_CeilometerSpec :: CeilometerSpec

record AutoscalingSection =
  ase_Enabled :: bool
  ase_AutoscalingSpec :: AutoscalingSpec

record MetricStorageSection =
  mse_Enabled :: bool
  mse_MetricStorageSpec :: MetricStorageSpec

record TelemetrySpec =
  te_Autoscaling :: AutoscalingSection
  te_Ceilometer :: CeilometerSection
  te_MetricStorage :: MetricStorageSection

type_synonym 'c Telemetry = "(TelemetrySpec, 'c TelemetryStatus) CR"
type_synonym 'c Ceilometer = "(CeilometerSpec, 'c CeilometerStatus) CR"
type_synonym 'c Autoscaling = "(AutoscalingSpec, 'c AutoscalingStatus) CR"
type_synonym 'c Logging = "(LoggingSpec, 'c LoggingStatus) CR"
type_synonym 'c MetricStorage = "(MetricStorageSpec, 'c MetricStorageStatus) CR"

section \<open>Zero values\<close>

definition PasswordsSelector0 :: PasswordsSelector where
  "PasswordsSelector0 = \<lparr>pw_Service = '''', pw_AodhService = '''', pw_Database = ''''\<rparr>"

definition CeilometerSpec0 :: CeilometerSpec where
  "CeilometerSpec0 = \<lparr>ce_RabbitMqClusterName = '''', ce_PasswordSelectors = PasswordsSelector0,
     ce_ServiceUser = '''', ce_Secret = '''', ce_CustomServiceConfig = '''',
     ce_DefaultConfigOverwrite = None, ce_NetworkAttachmentDefinitions = [],
     ce_CentralImage = '''', ce_NotificationImage = '''', ce_SgCoreImage = '''',
     ce_ComputeImage = '''', ce_IpmiImage = '''', ce_NodeExporterImage = ''''\<rparr>"

definition Aodh0 :: Aodh where
  "Aodh0 = \<lparr>ao_RabbitMqClusterName = '''', ao_DatabaseInstance = '''', ao_DatabaseUser = '''',
     ao_PasswordSelectors = PasswordsSelector0, ao_ServiceUser = '''', ao_Secret = '''',
     ao_CustomServiceConfig = '''', ao_DefaultConfigOverwrite = None,
     ao_NetworkAttachmentDefinitions = [], ao_Override = \<lparr>ao_Service = None\<rparr>,
     ao_PreserveJobs = False, ao_MemcachedInstance = '''', ao_APIImage = '''',
     ao_EvaluatorImage = '''', ao_NotifierImage = '''', ao_ListenerImage = ''''\<rparr>"

definition AutoscalingSpec0 :: AutoscalingSpec where
  "AutoscalingSpec0 = \<lparr>as_PrometheusHost = '''', as_PrometheusPort = 0, as_Aodh = Aodh0,
     as_HeatInstance = ''''\<rparr>"

definition MetricStorageSpec0 :: MetricStorageSpec where
  "MetricStorageSpec0 = \<lparr>mt_MonitoringStack = None, mt_CustomMonitoringStack = None\<rparr>"

definition MonitoringStack0 :: MonitoringStack where
  "MonitoringStack0 = \<lparr>ms_AlertingEnabled = False, ms_ScrapeInterval = '''',
     ms_Storage = \<lparr>st_Strategy = '''', st_Retention = '''',
       st_Persistent = \<lparr>ps_PvcStorageRequest = '''', ps_PvcStorageSelector = LabelSelector0,
         ps_PvcStorageClass = ''''\<rparr>\<rparr>\<rparr>"

definition CeilometerStatus0 :: "'c CeilometerStatus" where
  "CeilometerStatus0 = \<lparr>Conditions = None, Hash = None, ces_ReadyCount = 0,
     ces_TransportURLSecret = '''', ces_Networks = []\<rparr>"

definition AutoscalingStatus0 :: "'c AutoscalingStatus" where
  "AutoscalingStatus0 = \<lparr>Conditions = None, Hash = None, ass_ReadyCount = 0, ass_Networks = [],
     ass_TransportURLSecret = '''', ass_DatabaseHostname = '''', ass_PrometheusHost = '''',
     ass_PrometheusPort = 0, ass_APIEndpoints = None\<rparr>"

definition MetricStorageStatus0 :: "'c MetricStorageStatus" where
  "MetricStorageStatus0 = \<lparr>Conditions = None\<rparr>"

section \<open>Methods of the custom resources\<close>

definition Telemetry_IsReady :: "'c condition_pkg \<Rightarrow> 'c Telemetry \<Rightarrow> bool" where
  "Telemetry_IsReady CL instance' = IsTrue CL (Conditions (Status instance')) ReadyCondition"

definition Ceilometer_IsReady :: "'c condition_pkg \<Rightarrow> 'c Ceilometer \<Rightarrow> bool" where
  "Ceilometer_IsReady CL instance' = IsTrue CL (Conditions (Status instance')) ReadyCondition"

definition Autoscaling_IsReady :: "'c condition_pkg \<Rightarrow> 'c Autoscaling \<Rightarrow> bool" where
  "Autoscaling_IsReady CL instance' = IsTrue CL (Conditions (Status instance')) ReadyCondition"

definition MetricStorage_IsReady :: "'c condition_pkg \<Rightarrow> 'c MetricStorage \<Rightarrow> bool" where
  "MetricStorage_IsReady CL instance' = IsTrue CL (Conditions (Status instance')) ReadyCondition"

text \<open>Changing the conditions of a custom resource in place.\<close>

definition cmap :: "('c conditions \<Rightarrow> 'c conditions) \<Rightarrow> ('sp, ('c, 'z) StatusBase_scheme) CR
    \<Rightarrow> ('sp, ('c, 'z) StatusBase_scheme) CR" where
  "cmap f i = i\<lparr>Status := (Status i)\<lparr>Conditions := f (Conditions (Status i))\<rparr>\<rparr>"

text \<open>
  \<open>RbacConditionsSet\<close> has a value receiver: \<open>Set\<close> runs on a copy of the instance, whose conditions
  share their elements with the instance of the caller.
\<close>

definition Ceilometer_RbacConditionsSet :: "'c condition_pkg \<Rightarrow> 'c \<Rightarrow> 'c Ceilometer \<Rightarrow> 'c Ceilometer" where
  "Ceilometer_RbacConditionsSet CL c = cmap (\<lambda>cs. Set_through_copy CL cs (Some c))"

definition Autoscaling_RbacConditionsSet :: "'c condition_pkg \<Rightarrow> 'c \<Rightarrow> 'c Autoscaling \<Rightarrow> 'c Autoscaling" where
  "Autoscaling_RbacConditionsSet CL c = cmap (\<lambda>cs. Set_through_copy CL cs (Some c))"

definition Logging_RbacConditionsSet :: "'c condition_pkg \<Rightarrow> 'c \<Rightarrow> 'c Logging \<Rightarrow> 'c Logging" where
  "Logging_RbacConditionsSet CL c = cmap (\<lambda>cs. Set_through_copy CL cs (Some c))"

definition Ceilometer_RbacNamespace :: "'c Ceilometer \<Rightarrow> string" where
  "Ceilometer_RbacNamespace instance' = m_Namespace (Meta instance')"

definition Autoscaling_RbacNamespace :: "'c Autoscaling \<Rightarrow> string" where
  "Autoscaling_RbacNamespace instance' = m_Namespace (Meta instance')"

definition Logging_RbacNamespace :: "'c Logging \<Rightarrow> string" where
  "Logging_RbacNamespace instance' = m_Namespace (Meta instance')"

definition Ceilometer_RbacResourceName :: "'c Ceilometer \<Rightarrow> string" where
  "Ceilometer_RbacResourceName instance' = ''telemetry-'' @ m_Name (Meta instance')"

definition Autoscaling_RbacResourceName :: "'c Autoscaling \<Rightarrow> string" where
  "Autoscaling_RbacResourceName instance' = ''telemetry-'' @ m_Name (Meta instance')"

definition Logging_RbacResourceName :: "'c Logging \<Rightarrow> string" where
  "Logging_RbacResourceName instance' = ''telemetry-'' @ m_Name (Meta instance')"

lemma cmap_simps [simp]:
  "Conditions (Status (cmap f i)) = f (Conditions (Status i))"
  "Spec (cmap f i) = Spec i"
  "Meta (cmap f i) = Meta i"
  "cmap f (cmap g i) = cmap (f \<circ> g) i"
  by (simp_all add: cmap_def)

lemma cmap_Hash [simp]: "Hash (Status (cmap f i)) = Hash (Status i)"
  by (simp add: cmap_def)

end
