(* ===== verification/Reconcile.thy ===== *)
theory Reconcile
  imports Api_Types
begin

text \<open>
  What the five \<open>Reconcile\<close> methods share. Each fetches its custom resource, registers a deferred
  function that recomputes the Ready condition and patches the resource, adds the finalizer, initialises
  the conditions, and then works. The libraries are parameters: \<open>controllerutil\<close> of controller-runtime
  as the record \<open>controllerutil\<close>, the client and lib-common's helper as the record \<open>crapi\<close>.

  \<open>reconcile_frame\<close> is the abstract shape of a \<open>Reconcile\<close>; the locale \<open>reconciler\<close> holds what follows
  from the shape alone, and every controller theory interprets it with its own \<open>Reconcile\<close>.
\<close>

section \<open>Library parameters\<close>

text \<open>
  \<open>AddFinalizer\<close> and \<open>RemoveFinalizer\<close> return the changed metadata and whether they changed it.
  \<open>SetControllerReference\<close> takes the owner's kind and metadata and the controlled object's metadata.
\<close>

record controllerutil =
  AddFinalizer :: "ObjectMeta \<Rightarrow> string \<Rightarrow> ObjectMeta \<times> bool"
  RemoveFinalizer :: "ObjectMeta \<Rightarrow> string \<Rightarrow> ObjectMeta \<times> bool"
  SetControllerReference :: "string \<Rightarrow> ObjectMeta \<Rightarrow> ObjectMeta \<Rightarrow> error + ObjectMeta"

text \<open>\<open>PatchInstance\<close> compares the object the helper was made with to the one it is given.\<close>

record ('i, 'w) crapi =
  Get_instance :: "NamespacedName \<Rightarrow> ('w, error + 'i) state"
  NewHelper :: "'i \<Rightarrow> error option"
  GetFinalizer :: string
  PatchInstance :: "'i \<Rightarrow> 'i \<Rightarrow> ('w, error option) state"

text \<open>
  The documented behaviour of the finalizer functions: they add or remove one entry of the list of
  finalizers, touch nothing else, and say whether they did.
\<close>

locale finalizer_laws =
  fixes U :: controllerutil
  assumes AddFinalizer: "AddFinalizer U m f =
      (if f \<in> set (m_Finalizers m) then (m, False)
       else (m\<lparr>m_Finalizers := m_Finalizers m @ [f]\<rparr>, True))"
    and RemoveFinalizer: "RemoveFinalizer U m f =
      (m\<lparr>m_Finalizers := filter (\<lambda>g. g \<noteq> f) (m_Finalizers m)\<rparr>, f \<in> set (m_Finalizers m))"
begin

lemma AddFinalizer_present: "f \<in> set (m_Finalizers (fst (AddFinalizer U m f)))"
  by (simp add: AddFinalizer)

lemma RemoveFinalizer_absent: "f \<notin> set (m_Finalizers (fst (RemoveFinalizer U m f)))"
  by (simp add: RemoveFinalizer)

lemma AddFinalizer_again: "AddFinalizer U (fst (AddFinalizer U m f)) f = (fst (AddFinalizer U m f), False)"
  by (simp add: AddFinalizer)

end

text \<open>A reference instance, for witnesses.\<close>

definition ref_controllerutil :: controllerutil where
  "ref_controllerutil = \<lparr>
     AddFinalizer = (\<lambda>m f. if f \<in> set (m_Finalizers m) then (m, False)
       else (m\<lparr>m_Finalizers := m_Finalizers m @ [f]\<rparr>, True)),
     RemoveFinalizer = (\<lambda>m f.
       (m\<lparr>m_Finalizers := filter (\<lambda>g. g \<noteq> f) (m_Finalizers m)\<rparr>, f \<in> set (m_Finalizers m))),
     SetControllerReference = (\<lambda>k o' m.
       Inr (m\<lparr>m_OwnerReferences := [\<lparr>or_Kind = k, or_Name = m_Name o'\<rparr>]\<rparr>))\<rparr>"

interpretation ref_util: finalizer_laws ref_controllerutil
  by unfold_locales (simp_all add: ref_controllerutil_def)

section \<open>The deferred function and the finalizer\<close>

text \<open>
  The deferred function. \<open>named\<close>: the method has named results and the deferred function assigns
  \<open>_err = err\<close>, so that an error of the patch becomes the error of \<open>Reconcile\<close>; otherwise it is dropped.
  A panic of the body continues after the deferred function has run.
\<close>

definition report :: "bool \<Rightarrow> error option \<Rightarrow> reconcile_result outcome \<Rightarrow> reconcile_result outcome" where
  "report named perr out = (case (perr, out) of
      (Some e, Return (r, _)) \<Rightarrow> if named then Return (r, Some e) else out
    | _ \<Rightarrow> out)"

definition deferred :: "'c condition_pkg \<Rightarrow> (('sp, ('c, 'z) StatusBase_scheme) CR, 'w, 'x) crapi_scheme
    \<Rightarrow> bool \<Rightarrow> ('sp, ('c, 'z) StatusBase_scheme) CR \<Rightarrow> reconcile_result outcome
    \<Rightarrow> ((('sp, ('c, 'z) StatusBase_scheme) CR, 'w) handler, reconcile_result outcome) state" where
  "deferred CL A named before out = do {
     update_inst (cmap (update_ready CL));
     instance' \<leftarrow> get_inst;
     err \<leftarrow> api (PatchInstance A before instance');
     return (report named err out)
   }"

text \<open>\<open>instance.DeletionTimestamp.IsZero() && controllerutil.AddFinalizer(instance, helper.GetFinalizer())\<close>\<close>

definition ensure_finalizer :: "controllerutil \<Rightarrow> (('sp, 'st) CR, 'w, 'x) crapi_scheme
    \<Rightarrow> ((('sp, 'st) CR, 'w) handler, bool) state" where
  "ensure_finalizer U A = do {
     instance' \<leftarrow> get_inst;
     if m_DeletionTimestamp (Meta instance') \<noteq> None then return False
     else do {
       update_inst (\<lambda>i. i\<lparr>Meta := fst (AddFinalizer U (Meta i) (GetFinalizer A))\<rparr>);
       return (snd (AddFinalizer U (Meta instance') (GetFinalizer A)))
     }
   }"

text \<open>\<open>controllerutil.RemoveFinalizer(instance, helper.GetFinalizer())\<close>\<close>

definition remove_finalizer :: "controllerutil \<Rightarrow> (('sp, 'st) CR, 'w, 'x) crapi_scheme
    \<Rightarrow> ((('sp, 'st) CR, 'w) handler, unit) state" where
  "remove_finalizer U A =
     update_inst (\<lambda>i. i\<lparr>Meta := fst (RemoveFinalizer U (Meta i) (GetFinalizer A))\<rparr>)"

text \<open>\<open>instance.Status.Conditions = condition.Conditions{}\<close>, then \<open>Init\<close> with the list of the controller.\<close>

definition init_conditions :: "'c condition_pkg \<Rightarrow> 'c list
    \<Rightarrow> ((('sp, ('c, 'z) StatusBase_scheme) CR, 'w) handler, unit) state" where
  "init_conditions CL cl = do {
     update_inst (cmap (\<lambda>_. Some []));
     update_inst (cmap (\<lambda>cs. cond_Init CL cs (CreateList CL cl)))
   }"

text \<open>Mirroring the conditions of an object into one condition of the instance.\<close>

definition mirror_condition :: "'c condition_pkg \<Rightarrow> 'c conditions \<Rightarrow> cond_Type
    \<Rightarrow> ((('sp, ('c, 'z) StatusBase_scheme) CR, 'w) handler, unit) state" where
  "mirror_condition CL conds t = (case Mirror CL conds t of
      None \<Rightarrow> return ()
    | Some c \<Rightarrow> update_inst (cmap (\<lambda>cs. cond_Set CL cs (Some c))))"

text \<open>\<open>if instance.Status.Hash == nil { instance.Status.Hash = map[string]string{} }\<close>\<close>

definition with_hash :: "('sp, ('c, 'z) HashStatus_scheme) CR \<Rightarrow> ('sp, ('c, 'z) HashStatus_scheme) CR" where
  "with_hash i = (if Hash (Status i) = None
     then i\<lparr>Status := (Status i)\<lparr>Hash := Some Map.empty\<rparr>\<rparr> else i)"

definition init_hash :: "((('sp, ('c, 'z) HashStatus_scheme) CR, 'w) handler, unit) state" where
  "init_hash = update_inst with_hash"

lemma with_hash_simps [simp]:
  "Meta (with_hash i) = Meta i" "Spec (with_hash i) = Spec i"
  "Conditions (Status (with_hash i)) = Conditions (Status i)"
  "Hash (Status (with_hash i)) = Some (case Hash (Status i) of None \<Rightarrow> Map.empty | Some h \<Rightarrow> h)"
  by (auto simp: with_hash_def split: option.splits)

lemma run_init_hash [simp]: "run_state init_hash s = ((), s\<lparr>inst := with_hash (inst s)\<rparr>)"
  by (simp add: init_hash_def)

definition has_hash :: "('sp, ('c, 'z) HashStatus_scheme) CR \<Rightarrow> bool" where
  "has_hash i \<longleftrightarrow> Hash (Status i) \<noteq> None"

lemma safe_init_hash:
  assumes "safe (of_inst has_hash) (f ())"
  shows "safe (\<lambda>_. True) (State_Monad.bind init_hash f)"
  unfolding safe_def
proof (intro allI impI)
  fix s :: "(('a, ('b, 'c) HashStatus_scheme) CR, 'd) handler"
  have "of_inst has_hash (s\<lparr>inst := with_hash (inst s)\<rparr>)"
    by (simp add: of_inst_def has_hash_def)
  with assms obtain r s' where "run_state (f ()) (s\<lparr>inst := with_hash (inst s)\<rparr>) = (Return r, s')"
    unfolding safe_def by blast
  then show "\<exists>r s'. run_state (State_Monad.bind init_hash f) s = (Return r, s') \<and> True" by simp
qed

section \<open>The frame\<close>

definition reconcile_body :: "'c condition_pkg \<Rightarrow> controllerutil
    \<Rightarrow> (('sp, ('c, 'z) StatusBase_scheme) CR, 'w, 'x) crapi_scheme \<Rightarrow> 'c list
    \<Rightarrow> ((('sp, ('c, 'z) StatusBase_scheme) CR, 'w) handler, reconcile_result outcome) state
    \<Rightarrow> ((('sp, ('c, 'z) StatusBase_scheme) CR, 'w) handler, reconcile_result outcome) state" where
  "reconcile_body CL U A cl work = do {
     added \<leftarrow> ensure_finalizer U A;
     if added then returns (Result0, None)
     else do {
       instance' \<leftarrow> get_inst;
       if Conditions (Status instance') = None
       then do { _ \<leftarrow> init_conditions CL cl; returns (Result0, None) }
       else work
     }
   }"

definition reconcile_frame :: "'c condition_pkg \<Rightarrow> controllerutil
    \<Rightarrow> (('sp, ('c, 'z) StatusBase_scheme) CR, 'w, 'x) crapi_scheme \<Rightarrow> 'c list
    \<Rightarrow> (('sp, ('c, 'z) StatusBase_scheme) CR
        \<Rightarrow> ((('sp, ('c, 'z) StatusBase_scheme) CR, 'w) handler, reconcile_result outcome) state)
    \<Rightarrow> bool \<Rightarrow> NamespacedName \<Rightarrow> ('w, reconcile_result outcome) state" where
  "reconcile_frame CL U A cl work named req = do {
     got \<leftarrow> Get_instance A req;
     case got of
       Inl err \<Rightarrow> if IsNotFound err then returns (Result0, None) else returns (Result0, Some err)
     | Inr instance' \<Rightarrow> (case NewHelper A instance' of
           Some err \<Rightarrow> returns (Result0, Some err)
         | None \<Rightarrow> with_inst instance' (do {
             out \<leftarrow> reconcile_body CL U A cl (work instance');
             deferred CL A named instance' out
           }))
   }"

text \<open>How a \<open>Reconcile\<close> ends that has fetched its instance: it patches the instance it has computed.\<close>

definition patch_and_report :: "(('sp, ('c, 'z) StatusBase_scheme) CR, 'w, 'x) crapi_scheme \<Rightarrow> bool
    \<Rightarrow> ('sp, ('c, 'z) StatusBase_scheme) CR \<Rightarrow> ('sp, ('c, 'z) StatusBase_scheme) CR
    \<Rightarrow> reconcile_result outcome \<Rightarrow> ('w, reconcile_result outcome) state" where
  "patch_and_report A named before after out = do {
     err \<leftarrow> PatchInstance A before after;
     return (report named err out)
   }"

text \<open>
  The instance a run of the body leaves behind, with its Ready condition recomputed: what is patched.
\<close>

definition reconciled :: "'c condition_pkg \<Rightarrow> controllerutil
    \<Rightarrow> (('sp, ('c, 'z) StatusBase_scheme) CR, 'w, 'x) crapi_scheme \<Rightarrow> 'c list
    \<Rightarrow> (('sp, ('c, 'z) StatusBase_scheme) CR
        \<Rightarrow> ((('sp, ('c, 'z) StatusBase_scheme) CR, 'w) handler, reconcile_result outcome) state)
    \<Rightarrow> ('sp, ('c, 'z) StatusBase_scheme) CR \<Rightarrow> 'w \<Rightarrow> ('sp, ('c, 'z) StatusBase_scheme) CR" where
  "reconciled CL U A cl work i w = cmap (update_ready CL)
     (inst (snd (run_state (reconcile_body CL U A cl (work i)) \<lparr>inst = i, world = w\<rparr>)))"

lemma run_deferred [simp]:
  "run_state (deferred CL A named before out) s =
     (case run_state (PatchInstance A before (cmap (update_ready CL) (inst s))) (world s) of
        (err, w) \<Rightarrow> (report named err out, s\<lparr>inst := cmap (update_ready CL) (inst s), world := w\<rparr>))"
  by (simp add: deferred_def split: prod.splits)

lemma has_hash_simps [simp]:
  "has_hash (cmap f i) = has_hash i" "has_hash (i\<lparr>Meta := m\<rparr>) = has_hash i"
  by (simp_all add: has_hash_def cmap_def)

lemma keeps_remove_finalizer [keeps_intros]:
  "(\<And>i m. P i \<Longrightarrow> P (i\<lparr>Meta := m\<rparr>)) \<Longrightarrow> keeps (of_inst P) (remove_finalizer U A)"
  by (auto simp: remove_finalizer_def intro!: keeps_intros)

lemma report_simps [simp]:
  "report named None out = out"
  "report False perr out = out"
  "report True (Some e) (Return (r, e')) = Return (r, Some e)"
  "report named perr (Panic m) = Panic m"
  by (auto simp: report_def split: option.splits prod.splits outcome.splits)

text \<open>The metadata let a run pass the finalizer step.\<close>

definition meta_ready :: "controllerutil \<Rightarrow> (('sp, 'st) CR, 'w, 'x) crapi_scheme \<Rightarrow> ('sp, 'st) CR \<Rightarrow> bool" where
  "meta_ready U A i \<longleftrightarrow> m_DeletionTimestamp (Meta i) \<noteq> None \<or>
     AddFinalizer U (Meta i) (GetFinalizer A) = (Meta i, False)"

text \<open>
  Three contracts of a \<open>Reconcile\<close>. It stores an instance whose Ready condition is True exactly when all
  its other conditions are. An error of the patch is reported, or it is dropped. A resource that nothing
  was done for yet is stored as Ready.
\<close>

definition fetches :: "('i, 'w, 'x) crapi_scheme \<Rightarrow> NamespacedName \<Rightarrow> 'w \<Rightarrow> 'i \<Rightarrow> 'w \<Rightarrow> bool" where
  "fetches A req w i w1 \<longleftrightarrow> run_state (Get_instance A req) w = (Inr i, w1) \<and> NewHelper A i = None"

definition stores_ready :: "'c condition_pkg \<Rightarrow> ('c conditions \<Rightarrow> cond_Type \<Rightarrow> bool)
    \<Rightarrow> (('sp, ('c, 'z) StatusBase_scheme) CR, 'w, 'x) crapi_scheme \<Rightarrow> bool
    \<Rightarrow> (NamespacedName \<Rightarrow> ('w, reconcile_result outcome) state) \<Rightarrow> bool" where
  "stores_ready CL Has A named Reconcile \<longleftrightarrow> (\<forall>req w i w1. fetches A req w i w1 \<longrightarrow>
     (\<exists>i' out w2. run_state (Reconcile req) w = run_state (patch_and_report A named i i' out) w2 \<and>
        (IsTrue CL (Conditions (Status i')) ReadyCondition \<longleftrightarrow>
          (\<forall>t. t \<noteq> ReadyCondition \<longrightarrow> Has (Conditions (Status i')) t \<longrightarrow> IsTrue CL (Conditions (Status i')) t))))"

definition reports_patch_error :: "('i, 'w, 'x) crapi_scheme
    \<Rightarrow> (NamespacedName \<Rightarrow> ('w, reconcile_result outcome) state) \<Rightarrow> bool" where
  "reports_patch_error A Reconcile \<longleftrightarrow> (\<forall>req w i w1 e. fetches A req w i w1 \<longrightarrow>
     (\<forall>before after. steady (PatchInstance A before after) (Some e)) \<longrightarrow>
     (case fst (run_state (Reconcile req) w) of Return (r, err) \<Rightarrow> err = Some e | Panic _ \<Rightarrow> True))"

definition drops_patch_error :: "controllerutil \<Rightarrow> (('sp, 'st) CR, 'w, 'x) crapi_scheme
    \<Rightarrow> (NamespacedName \<Rightarrow> ('w, reconcile_result outcome) state) \<Rightarrow> bool" where
  "drops_patch_error U A Reconcile \<longleftrightarrow> (\<forall>req w i w1 e. fetches A req w i w1 \<longrightarrow>
     m_DeletionTimestamp (Meta i) = None \<longrightarrow> snd (AddFinalizer U (Meta i) (GetFinalizer A)) \<longrightarrow>
     (\<forall>before after. steady (PatchInstance A before after) (Some e)) \<longrightarrow>
     fst (run_state (Reconcile req) w) = Return (Result0, None))"

definition fresh_is_ready :: "'c condition_pkg \<Rightarrow> ('c conditions \<Rightarrow> cond_Type \<Rightarrow> bool)
    \<Rightarrow> (('sp, ('c, 'z) StatusBase_scheme) CR, 'w, 'x) crapi_scheme \<Rightarrow> bool
    \<Rightarrow> (NamespacedName \<Rightarrow> ('w, reconcile_result outcome) state) \<Rightarrow> bool" where
  "fresh_is_ready CL Has A named Reconcile \<longleftrightarrow> (\<forall>req w i w1. fetches A req w i w1 \<longrightarrow>
     m_DeletionTimestamp (Meta i) = None \<longrightarrow> GetFinalizer A \<notin> set (m_Finalizers (Meta i)) \<longrightarrow> Conditions (Status i) = None \<longrightarrow>
     (\<exists>i'. run_state (Reconcile req) w = run_state (patch_and_report A named i i' (Return (Result0, None))) w1 \<and>
        IsTrue CL (Conditions (Status i')) ReadyCondition \<and>
        (\<forall>t. Has (Conditions (Status i')) t \<longleftrightarrow> t = ReadyCondition)))"

locale reconciler =
  fixes Reconcile :: "NamespacedName \<Rightarrow> ('w, reconcile_result outcome) state"
    and CL :: "'c condition_pkg"
    and U :: controllerutil
    and A :: "(('sp, ('c, 'z) StatusBase_scheme) CR, 'w, 'x) crapi_scheme"
    and cl :: "'c list"
    and work :: "('sp, ('c, 'z) StatusBase_scheme) CR \<Rightarrow> ((('sp, ('c, 'z) StatusBase_scheme) CR, 'w) handler, reconcile_result outcome) state"
    and named :: bool
  assumes frame: "Reconcile req = reconcile_frame CL U A cl work named req"
begin

lemma not_found:
  "run_state (Get_instance A req) w = (Inl e, w') \<Longrightarrow> IsNotFound e \<Longrightarrow>
     run_state (Reconcile req) w = (Return (Result0, None), w')"
  by (simp add: frame reconcile_frame_def)

lemma get_error:
  "run_state (Get_instance A req) w = (Inl e, w') \<Longrightarrow> \<not> IsNotFound e \<Longrightarrow>
     run_state (Reconcile req) w = (Return (Result0, Some e), w')"
  by (simp add: frame reconcile_frame_def)

text \<open>Every run past the helper ends by patching the instance it has computed, exactly once.\<close>

lemma exit:
  assumes "run_state (Get_instance A req) w = (Inr i, w1)" and "NewHelper A i = None"
    and "run_state (reconcile_body CL U A cl (work i)) \<lparr>inst = i, world = w1\<rparr> = (out, s)"
  shows "run_state (Reconcile req) w =
    run_state (patch_and_report A named i (reconciled CL U A cl work i w1) out) (world s)"
  using assms
  by (simp add: frame reconcile_frame_def patch_and_report_def reconciled_def split: prod.splits)

lemma finalizer_first:
  assumes "run_state (Get_instance A req) w = (Inr i, w1)" and "NewHelper A i = None"
    and "m_DeletionTimestamp (Meta i) = None" and "AddFinalizer U (Meta i) (GetFinalizer A) = (m, True)"
  shows "run_state (Reconcile req) w =
    run_state (patch_and_report A named i (cmap (update_ready CL) (i\<lparr>Meta := m\<rparr>)) (Return (Result0, None))) w1"
  using assms
  by (simp add: frame reconcile_frame_def patch_and_report_def reconcile_body_def ensure_finalizer_def
      returns_def split: prod.splits)

lemma reconciled_finalizer_first:
  assumes "m_DeletionTimestamp (Meta i) = None" and "AddFinalizer U (Meta i) (GetFinalizer A) = (m, True)"
  shows "reconciled CL U A cl work i w = cmap (update_ready CL) (i\<lparr>Meta := m\<rparr>)"
  using assms by (simp add: reconciled_def reconcile_body_def ensure_finalizer_def returns_def)

lemma body_init:
  assumes "meta_ready U A i" and "Conditions (Status i) = None"
  shows "run_state (reconcile_body CL U A cl (work i)) \<lparr>inst = i, world = w\<rparr> =
    (Return (Result0, None),
     \<lparr>inst = cmap (\<lambda>_. cond_Init CL (Some []) (CreateList CL cl)) i, world = w\<rparr>)"
  using assms
  by (auto simp: meta_ready_def reconcile_body_def ensure_finalizer_def init_conditions_def comp_def)

lemma body_work:
  assumes "meta_ready U A i" and "Conditions (Status i) \<noteq> None"
  shows "run_state (reconcile_body CL U A cl (work i)) \<lparr>inst = i, world = w\<rparr> =
    run_state (work i) \<lparr>inst = i, world = w\<rparr>"
  using assms
  by (auto simp: meta_ready_def reconcile_body_def ensure_finalizer_def)

text \<open>Ready is patched in as True exactly when every other condition is True.\<close>

lemma reconciled_ready_iff:
  assumes "condition_laws CL Has ct tr"
  shows "IsTrue CL (Conditions (Status (reconciled CL U A cl work i w))) ReadyCondition \<longleftrightarrow>
    (\<forall>t. t \<noteq> ReadyCondition \<longrightarrow> Has (Conditions (Status (reconciled CL U A cl work i w))) t \<longrightarrow>
       IsTrue CL (Conditions (Status (reconciled CL U A cl work i w))) t)"
  using condition_laws.update_ready_iff [OF assms] condition_laws.AllSub_iff [OF assms]
    condition_laws.IsTrue_update_ready_sub [OF assms] condition_laws.Has_update_ready [OF assms]
  by (auto simp: reconciled_def)

text \<open>
  The first run on a fresh resource adds the finalizer and returns before the conditions are
  initialised; the deferred function then finds no condition that is not True.
\<close>

lemma fresh:
  assumes laws: "condition_laws CL Has ct tr" and fin: "finalizer_laws U"
    and get: "run_state (Get_instance A req) w = (Inr i, w1)" "NewHelper A i = None"
    and new: "m_DeletionTimestamp (Meta i) = None" "GetFinalizer A \<notin> set (m_Finalizers (Meta i))"
      "Conditions (Status i) = None"
  defines "i' \<equiv> cmap (update_ready CL) (i\<lparr>Meta := fst (AddFinalizer U (Meta i) (GetFinalizer A))\<rparr>)"
  shows "run_state (Reconcile req) w = run_state (patch_and_report A named i i' (Return (Result0, None))) w1"
    and "IsTrue CL (Conditions (Status i')) ReadyCondition"
    and "Has (Conditions (Status i')) t \<longleftrightarrow> t = ReadyCondition"
    and "run_state (reconcile_body CL U A cl (work i')) \<lparr>inst = i', world = w2\<rparr> =
      run_state (work i') \<lparr>inst = i', world = w2\<rparr>"
proof -
  have add: "AddFinalizer U (Meta i) (GetFinalizer A) = (fst (AddFinalizer U (Meta i) (GetFinalizer A)), True)"
    using new(2) by (simp add: finalizer_laws.AddFinalizer [OF fin])
  show "run_state (Reconcile req) w = run_state (patch_and_report A named i i' (Return (Result0, None))) w1"
    unfolding i'_def by (rule finalizer_first [OF get new(1) add])
  show "IsTrue CL (Conditions (Status i')) ReadyCondition"
    using new(3) by (simp add: i'_def condition_laws.update_ready_iff [OF laws]
        condition_laws.AllSub_iff [OF laws] condition_laws.Has_nil [OF laws])
  show "Has (Conditions (Status i')) t \<longleftrightarrow> t = ReadyCondition"
    using new(3) by (simp add: i'_def condition_laws.Has_update_ready [OF laws] condition_laws.Has_nil [OF laws])
  have "meta_ready U A i'"
    by (simp add: i'_def meta_ready_def finalizer_laws.AddFinalizer_again [OF fin])
  then show "run_state (reconcile_body CL U A cl (work i')) \<lparr>inst = i', world = w2\<rparr> =
      run_state (work i') \<lparr>inst = i', world = w2\<rparr>"
    by (rule body_work) (simp add: i'_def condition_laws.update_ready_not_nil [OF laws] del: not_None_eq)
qed

text \<open>A \<open>Reconcile\<close> panics only where its own work does.\<close>

lemma no_panic:
  assumes "\<And>i. safe (\<lambda>_. True) (work i)"
  shows "\<exists>r. fst (run_state (Reconcile req) w) = Return r"
proof -
  have body: "\<exists>r. fst (run_state (reconcile_body CL U A cl (work i)) s) = Return r" for i s
    using safeD [OF assms]
    by (cases s) (auto simp: reconcile_body_def ensure_finalizer_def init_conditions_def)
  have "\<exists>r'. report named e (Return r) = Return r'" for e r
    by (cases r) (simp add: report_def split: option.splits)
  then show ?thesis
    using body [of _ "\<lparr>inst = _, world = _\<rparr>"]
    by (auto simp: frame reconcile_frame_def split: prod.splits sum.splits option.splits) (metis fst_conv)
qed

lemma stores_ready:
  assumes "condition_laws CL Has ct tr"
  shows "stores_ready CL Has A named Reconcile"
  unfolding stores_ready_def fetches_def
proof (intro allI impI, elim conjE)
  fix req w i w1
  assume get: "run_state (Get_instance A req) w = (Inr i, w1)" "NewHelper A i = None"
  obtain out s where "run_state (reconcile_body CL U A cl (work i)) \<lparr>inst = i, world = w1\<rparr> = (out, s)"
    by fastforce
  from exit [OF get this] reconciled_ready_iff [OF assms, of i w1]
  show "\<exists>i' out w2. run_state (Reconcile req) w = run_state (patch_and_report A named i i' out) w2 \<and>
      (IsTrue CL (Conditions (Status i')) ReadyCondition \<longleftrightarrow>
        (\<forall>t. t \<noteq> ReadyCondition \<longrightarrow> Has (Conditions (Status i')) t \<longrightarrow> IsTrue CL (Conditions (Status i')) t))"
    by blast
qed

lemma run_patch_and_report_steady:
  assumes "steady (PatchInstance A before after) (Some e)"
  shows "fst (run_state (patch_and_report A nm before after out) w) = report nm (Some e) out"
  using assms by (auto simp: patch_and_report_def elim!: steadyE [where w = w])

lemma reports_patch_error:
  assumes named
  shows "reports_patch_error A Reconcile"
  unfolding reports_patch_error_def fetches_def
proof (intro allI impI, elim conjE)
  fix req w i w1 e
  assume fail: "\<forall>before after. steady (PatchInstance A before after) (Some e)"
    and get: "run_state (Get_instance A req) w = (Inr i, w1)" "NewHelper A i = None"
  obtain out s where body: "run_state (reconcile_body CL U A cl (work i)) \<lparr>inst = i, world = w1\<rparr> = (out, s)"
    by fastforce
  have "fst (run_state (Reconcile req) w) = report True (Some e) out"
    using exit [OF get body] run_patch_and_report_steady fail assms by simp
  then show "case fst (run_state (Reconcile req) w) of Return (r, err) \<Rightarrow> err = Some e | Panic _ \<Rightarrow> True"
    by (cases out) auto
qed

lemma drops_patch_error:
  assumes "\<not> named"
  shows "drops_patch_error U A Reconcile"
  unfolding drops_patch_error_def fetches_def
proof (intro allI impI, elim conjE)
  fix req w i w1 e
  assume fail: "\<forall>before after. steady (PatchInstance A before after) (Some e)"
    and get: "run_state (Get_instance A req) w = (Inr i, w1)" "NewHelper A i = None"
    and new: "m_DeletionTimestamp (Meta i) = None" "snd (AddFinalizer U (Meta i) (GetFinalizer A))"
  obtain m where "AddFinalizer U (Meta i) (GetFinalizer A) = (m, True)" using new(2) by (metis prod.collapse)
  from finalizer_first [OF get new(1) this] show "fst (run_state (Reconcile req) w) = Return (Result0, None)"
    using run_patch_and_report_steady [OF fail [rule_format], of named] assms by simp
qed

lemma fresh_is_ready:
  assumes "condition_laws CL Has ct tr" and "finalizer_laws U"
  shows "fresh_is_ready CL Has A named Reconcile"
  unfolding fresh_is_ready_def fetches_def using fresh(1-3) [OF assms] by blast

end

end
