(* ===== verification/Workloads.thy ===== *)
theory Workloads
  imports Reconcile "HOL-Library.AList"
begin

text \<open>
  The Kubernetes objects that the builders under \<^verbatim>\<open>pkg/\<close> produce and the libraries that the service
  controllers call. \<open>commonlib\<close> holds the pure functions and constants of lib-common, \<open>platform\<close> the
  calls that reach the cluster (through lib-common or the operators for Keystone and RabbitMQ). Both
  are parameters of the model.
\<close>

section \<open>Kubernetes objects\<close>

text \<open>An environment variable with a value, or with a reference to a key of a secret (name and key).\<close>

record EnvVar =
  ev_Name :: string
  ev_Value :: string
  ev_SecretKeyRef :: "(string \<times> string) option"

record HTTPGetAction =
  hg_Path :: string
  hg_Port :: int32

record Probe =
  pr_TimeoutSeconds :: int32
  pr_PeriodSeconds :: int32
  pr_InitialDelaySeconds :: int32
  pr_HTTPGet :: "HTTPGetAction option"

record VolumeMount =
  vm_Name :: string
  vm_MountPath :: string
  vm_SubPath :: string
  vm_ReadOnly :: bool

record SecretVolumeSource =
  sv_DefaultMode :: int32
  sv_Items :: "(string \<times> string) list"
  sv_SecretName :: string

record Volume =
  vo_Name :: string
  vo_Secret :: SecretVolumeSource

record Container =
  co_Name :: string
  co_ImagePullPolicy :: string
  co_Command :: "string list"
  co_Args :: "string list"
  co_Image :: string
  co_Env :: "EnvVar list"
  co_RunAsUser :: "int64 option"
  co_VolumeMounts :: "VolumeMount list"
  co_ReadinessProbe :: "Probe option"
  co_LivenessProbe :: "Probe option"

record PodTemplateSpec =
  po_Meta :: ObjectMeta
  po_RestartPolicy :: string
  po_ServiceAccountName :: string
  po_Containers :: "Container list"
  po_Volumes :: "Volume list"

record StatefulSet =
  ss_Meta :: ObjectMeta
  ss_Replicas :: int32
  ss_Selector :: LabelSelector
  ss_Template :: PodTemplateSpec

record Job =
  jo_Meta :: ObjectMeta
  jo_Template :: PodTemplateSpec

text \<open>\<open>intstr.FromInt\<close> of a Go \<open>int\<close> is the conversion to \<open>int32\<close>.\<close>

definition intstr_FromInt :: "int64 \<Rightarrow> int32" where
  "intstr_FromInt i = ucast i"

record ServicePort =
  sp_Protocol :: string
  sp_Port :: int32
  sp_TargetPort :: int32

record Service =
  sc_Meta :: ObjectMeta
  sc_Ports :: "ServicePort list"
  sc_Selector :: "(string, string) gomap"
  sc_Type :: string

definition Service_named :: "string \<Rightarrow> string \<Rightarrow> Service" where
  "Service_named name ns = \<lparr>sc_Meta = ObjectMeta_named name ns, sc_Ports = [], sc_Selector = None, sc_Type = ''''\<rparr>"

text \<open>A pod mounts only volumes that it declares.\<close>

definition mounts_declared :: "PodTemplateSpec \<Rightarrow> bool" where
  "mounts_declared p \<longleftrightarrow> list_all (\<lambda>c. list_all
     (\<lambda>m. vm_Name m \<in> vo_Name ` set (po_Volumes p)) (co_VolumeMounts c)) (po_Containers p)"

section \<open>Pure library functions\<close>

text \<open>
  \<open>env.Setter\<close> values are made by \<open>env.SetValue\<close>. A \<open>map[string]env.Setter\<close> is an association list with
  distinct keys; storing an entry is \<^const>\<open>AList.update\<close>.
\<close>

datatype Setter = SetValue string

type_synonym env_vars = "(string \<times> Setter) list"

text \<open>
  \<open>MergeEnvs\<close>, \<open>ObjectHash\<close>, \<open>SetHash\<close>, \<open>MergeStringMaps\<close>, \<open>GetNADAnnotation\<close>, \<open>GetLabels\<close> and
  \<open>GetGroupLabel\<close> of lib-common; \<open>ParseQuantity\<close> of apimachinery, whose quantities are kept as the text
  they were parsed from.
\<close>

record commonlib =
  AppSelector :: string
  InputHashName :: string
  CustomServiceConfigFileName :: string
  endpoint_EndpointInternal :: string
  service_EndpointInternal :: string
  service_EndpointPublic :: string
  MergeEnvs :: "EnvVar list \<Rightarrow> env_vars \<Rightarrow> EnvVar list"
  ObjectHash :: "EnvVar list \<Rightarrow> string \<times> error option"
  SetHash :: "(string, string) gomap \<Rightarrow> string \<Rightarrow> string \<Rightarrow> (string, string) gomap \<times> bool"
  MergeStringMaps :: "(string, string) gomap \<Rightarrow> (string, string) gomap \<Rightarrow> (string, string) gomap"
  GetNADAnnotation :: "string \<Rightarrow> string list \<Rightarrow> error + (string, string) gomap"
  GetGroupLabel :: "string \<Rightarrow> string"
  GetLabels :: "ObjectMeta \<Rightarrow> string \<Rightarrow> (string, string) gomap \<Rightarrow> (string, string) gomap"
  ParseQuantity :: "string \<Rightarrow> error + string"

text \<open>
  What the controllers rely on: \<open>SetHash\<close> stores the hash and says whether it was another one before,
  and \<open>MergeEnvs\<close> has a variable for every setter.
\<close>

locale commonlib_laws =
  fixes L :: commonlib
  assumes SetHash_stored: "SetHash L h k v = (h', ch) \<Longrightarrow> h' \<noteq> None \<and> map_read (the h') k = v"
    and SetHash_changed: "snd (SetHash L (Some m) k v) \<longleftrightarrow> map_read m k \<noteq> v"
    and SetHash_others: "SetHash L (Some m) k v = (Some m', ch) \<Longrightarrow> k' \<noteq> k \<Longrightarrow> m' k' = m k'"
    and MergeEnvs_value: "map_of vars n = Some (SetValue v) \<Longrightarrow>
      \<lparr>ev_Name = n, ev_Value = v, ev_SecretKeyRef = None\<rparr> \<in> set (MergeEnvs L base vars)"
    and MergeEnvs_base: "e \<in> set base \<Longrightarrow> ev_Name e \<notin> fst ` set vars \<Longrightarrow> e \<in> set (MergeEnvs L base vars)"
    and MergeEnvs_distinct: "distinct (map ev_Name base) \<Longrightarrow> distinct (map fst vars) \<Longrightarrow>
      distinct (map ev_Name (MergeEnvs L base vars))"
begin

lemma SetHash_again: "SetHash L h k v = (h', ch) \<Longrightarrow> \<not> snd (SetHash L h' k v)"
  using SetHash_stored SetHash_changed by (metis option.collapse)

text \<open>Two sets of variables that differ in one of them are merged into different environments.\<close>

lemma MergeEnvs_inj:
  assumes "distinct (map ev_Name base)" "distinct (map fst vars)" "MergeEnvs L base vars = MergeEnvs L base vars'"
    and "map_of vars n = Some (SetValue v)" "map_of vars' n = Some (SetValue v')"
  shows "v = v'"
proof -
  have "\<lparr>ev_Name = n, ev_Value = v, ev_SecretKeyRef = None\<rparr> \<in> set (MergeEnvs L base vars)"
    "\<lparr>ev_Name = n, ev_Value = v', ev_SecretKeyRef = None\<rparr> \<in> set (MergeEnvs L base vars)"
    using MergeEnvs_value assms(3-5) by metis+
  moreover have "inj_on ev_Name (set (MergeEnvs L base vars))"
    using MergeEnvs_distinct [OF assms(1,2)] by (simp add: distinct_map)
  ultimately have "\<lparr>ev_Name = n, ev_Value = v, ev_SecretKeyRef = None\<rparr> =
      \<lparr>ev_Name = n, ev_Value = v', ev_SecretKeyRef = None\<rparr>"
    by (elim inj_onD) simp_all
  then show ?thesis by simp
qed

end

text \<open>A reference instance, for witnesses. Its hash joins the values.\<close>

definition ref_commonlib :: commonlib where
  "ref_commonlib = \<lparr>
     AppSelector = ''service'', InputHashName = ''input'', CustomServiceConfigFileName = ''custom.conf'',
     endpoint_EndpointInternal = ''internal'', service_EndpointInternal = ''internal'',
     service_EndpointPublic = ''public'',
     MergeEnvs = (\<lambda>base vars. filter (\<lambda>e. ev_Name e \<notin> fst ` set vars) base @
       map (\<lambda>(n, s). case s of SetValue v \<Rightarrow> \<lparr>ev_Name = n, ev_Value = v, ev_SecretKeyRef = None\<rparr>) vars),
     ObjectHash = (\<lambda>es. (concat (map ev_Value es), None)),
     SetHash = (\<lambda>h k v. let m = (case h of None \<Rightarrow> Map.empty | Some m \<Rightarrow> m)
       in if map_read m k = v then (Some m, False) else (Some (m(k \<mapsto> v)), True)),
     MergeStringMaps = (\<lambda>a b. Some ((case a of None \<Rightarrow> Map.empty | Some m \<Rightarrow> m) ++
       (case b of None \<Rightarrow> Map.empty | Some m \<Rightarrow> m))),
     GetNADAnnotation = (\<lambda>ns nads. Inr None),
     GetGroupLabel = (\<lambda>n. n @ ''.openstack.org''),
     GetLabels = (\<lambda>m g l. l),
     ParseQuantity = Inr\<rparr>"

interpretation ref_lib: commonlib_laws ref_commonlib
proof (unfold_locales, goal_cases)
  case (4 vars n v base)
  then have "(n, SetValue v) \<in> set vars" by (rule map_of_SomeD)
  then show ?case by (force simp: ref_commonlib_def)
next
  case (6 base vars)
  have "map ev_Name (map (\<lambda>(n, s). case s of SetValue v \<Rightarrow> \<lparr>ev_Name = n, ev_Value = v, ev_SecretKeyRef = None\<rparr>) vars)
      = map fst vars"
    by (auto split: Setter.splits)
  with 6 show ?case
    by (auto simp: ref_commonlib_def distinct_map_filter simp del: map_map)
qed (auto simp: ref_commonlib_def Let_def split: option.splits if_splits)

lemma ref_InputHashName: "InputHashName ref_commonlib = ''input''"
  by (simp add: ref_commonlib_def)

section \<open>Calls on the cluster\<close>

record Secret =
  se_Name :: string
  se_Data :: "string \<rightharpoonup> string"

record PolicyRule =
  ru_APIGroups :: "string list"
  ru_ResourceNames :: "string list"
  ru_Resources :: "string list"
  ru_Verbs :: "string list"

datatype TemplateType = TemplateTypeScripts | TemplateTypeConfig

datatype template_value = VString string | VInt32 int32

record Template =
  tp_Name :: string
  tp_Namespace :: string
  tp_Type :: TemplateType
  tp_InstanceType :: string
  tp_AdditionalTemplate :: "(string, string) gomap"
  tp_CustomData :: "(string, string) gomap"
  tp_ConfigOptions :: "(string, template_value) gomap"
  tp_Labels :: "(string, string) gomap"

record KeystoneServiceSpec =
  ks_ServiceType :: string
  ks_ServiceName :: string
  ks_ServiceDescription :: string
  ks_Enabled :: bool
  ks_ServiceUser :: string
  ks_Secret :: string
  ks_PasswordSelector :: string

record TransportURL =
  tu_Meta :: ObjectMeta
  tu_RabbitmqClusterName :: string
  tu_SecretName :: string

text \<open>
  \<open>GetSecret\<close> answers the secret (a pointer), its hash and an error. \<open>EnsureSecrets\<close> adds the hashes of
  the rendered templates to the variables. \<open>ReconcileRbac\<close> answers the conditions that it set through
  \<open>RbacConditionsSet\<close>. \<open>GetKeystoneAPI\<close> answers the function \<open>GetEndpoint\<close> of the object it found.
  \<open>KeystoneService_CreateOrPatch\<close> answers its result and then the conditions that \<open>GetConditions\<close>
  returns, \<open>StatefulSet_CreateOrPatch\<close> its result and the ready replicas of the object the helper holds.
\<close>

record ('c, 'w) platform =
  GetSecret :: "string \<Rightarrow> string \<Rightarrow> ('w, Secret option \<times> string \<times> error option) state"
  EnsureSecrets :: "ObjectMeta \<Rightarrow> Template list \<Rightarrow> env_vars \<Rightarrow> ('w, env_vars \<times> error option) state"
  ReconcileRbac :: "string \<Rightarrow> string \<Rightarrow> PolicyRule list \<Rightarrow> ('w, 'c list \<times> reconcile_result) state"
  GetKeystoneAPI :: "string \<Rightarrow> ('w, error + (string \<Rightarrow> error + string)) state"
  GetKeystoneServiceWithName :: "string \<Rightarrow> string \<Rightarrow> ('w, error + ObjectMeta) state"
  Update_KeystoneService :: "ObjectMeta \<Rightarrow> ('w, error option) state"
  KeystoneService_CreateOrPatch :: "KeystoneServiceSpec \<Rightarrow> string \<Rightarrow> (string, string) gomap \<Rightarrow> int
     \<Rightarrow> ('w, reconcile_result \<times> 'c conditions) state"
  TransportURL_CreateOrUpdate :: "TransportURL \<Rightarrow> (TransportURL \<Rightarrow> error + TransportURL)
     \<Rightarrow> ('w, error + TransportURL) state"
  StatefulSet_CreateOrPatch :: "StatefulSet \<Rightarrow> int \<Rightarrow> ('w, reconcile_result \<times> int32) state"
  Service_CreateOrUpdate :: "Service \<Rightarrow> (Service \<Rightarrow> error + Service) \<Rightarrow> ('w, error + Service) state"

text \<open>\<open>GetSecret\<close> answers a secret exactly when it answers no error.\<close>

definition GetSecret_law :: "('c, 'w, 'x) platform_scheme \<Rightarrow> bool" where
  "GetSecret_law P \<longleftrightarrow> (\<forall>name ns w sec hash err w'.
     run_state (GetSecret P name ns) w = ((sec, hash, err), w') \<longrightarrow> (sec = None \<longleftrightarrow> err \<noteq> None))"

lemma safe_GetSecret:
  fixes P :: "('c, 'w, 'x) platform_scheme" and f :: "Secret option \<times> string \<times> error option \<Rightarrow> (('i, 'w) handler, 'a outcome) state"
  assumes "GetSecret_law P" and "\<And>hash e. safe (of_inst I) (f (None, hash, Some e))"
    and "\<And>sec hash. safe (of_inst I) (f (Some sec, hash, None))"
  shows "safe (of_inst I) (State_Monad.bind (api (GetSecret P name ns)) f)"
  unfolding safe_def
proof (intro allI impI)
  fix s :: "('i, 'w) handler"
  assume s: "of_inst I s"
  obtain sec hash err w where g: "run_state (GetSecret P name ns) (world s) = ((sec, hash, err), w)"
    by (metis prod.collapse)
  with assms(1) have "sec = None \<longleftrightarrow> err \<noteq> None" unfolding GetSecret_law_def by blast
  then have "safe (of_inst I) (f (sec, hash, err))" using assms(2,3) by (cases sec; cases err) auto
  moreover have "of_inst I (s\<lparr>world := w\<rparr>)" using s by (simp add: of_inst_def)
  ultimately show "\<exists>r s'. run_state (State_Monad.bind (api (GetSecret P name ns)) f) s = (Return r, s') \<and> of_inst I s'"
    using g by (auto simp: safe_def)
qed

text \<open>The rules that every service controller asks for.\<close>

definition rbacRules :: "PolicyRule list" where
  "rbacRules =
    [\<lparr>ru_APIGroups = [''security.openshift.io''], ru_ResourceNames = [''anyuid''],
      ru_Resources = [''securitycontextconstraints''], ru_Verbs = [''use'']\<rparr>,
     \<lparr>ru_APIGroups = [''''], ru_ResourceNames = [], ru_Resources = [''pods''],
      ru_Verbs = [''create'', ''get'', ''list'', ''watch'', ''update'', ''patch'', ''delete'']\<rparr>]"

text \<open>
  The API server as the deletion relies on it: \<open>svc\<close> is the stored KeystoneService; \<open>Get\<close> reads it and
  \<open>Update\<close> stores it.
\<close>

definition keystone_store :: "('c, 'w, 'x) platform_scheme \<Rightarrow> ('w \<Rightarrow> ObjectMeta option) \<Rightarrow> bool" where
  "keystone_store P svc \<longleftrightarrow>
    (\<forall>name ns w got w'. run_state (GetKeystoneServiceWithName P name ns) w = (got, w') \<longrightarrow>
       w' = w \<and> (case got of Inr m \<Rightarrow> svc w = Some m | Inl e \<Rightarrow> IsNotFound e \<longrightarrow> svc w = None)) \<and>
    (\<forall>m w err w'. run_state (Update_KeystoneService P m) w = (err, w') \<longrightarrow>
       (case err of None \<Rightarrow> svc w' = Some m | Some e \<Rightarrow> IsNotFound e \<longrightarrow> svc w' = None))"

lemma keystone_store_get:
  "keystone_store P svc \<Longrightarrow> run_state (GetKeystoneServiceWithName P name ns) w = (got, w') \<Longrightarrow>
     w' = w \<and> (case got of Inr m \<Rightarrow> svc w = Some m | Inl e \<Rightarrow> IsNotFound e \<longrightarrow> svc w = None)"
  unfolding keystone_store_def by blast

lemma keystone_store_update:
  "keystone_store P svc \<Longrightarrow> run_state (Update_KeystoneService P m) w = (err, w') \<Longrightarrow>
     case err of None \<Rightarrow> svc w' = Some m | Some e \<Rightarrow> IsNotFound e \<longrightarrow> svc w' = None"
  unfolding keystone_store_def by blast

section \<open>A reference cluster\<close>

text \<open>For witnesses: the world is the log of the calls, every call succeeds.\<close>

definition ref_NotFound :: error where
  "ref_NotFound = \<lparr>IsNotFound = True, Error = ''not found''\<rparr>"

definition ref_log :: "string \<Rightarrow> 'a \<Rightarrow> (string list, 'a) state" where
  "ref_log msg a = State (\<lambda>w. (a, w @ [msg]))"

definition ref_platform :: "(ref_cond, string list) platform" where
  "ref_platform = \<lparr>
     GetSecret = (\<lambda>name ns. ref_log (''get secret '' @ name)
       (Some \<lparr>se_Name = name, se_Data = Map.empty\<rparr>, ''hash-'' @ name, None)),
     EnsureSecrets = (\<lambda>m ts vars. ref_log ''ensure secrets''
       (fold (\<lambda>t. AList.update (tp_Name t) (SetValue ''rendered'')) ts vars, None)),
     ReconcileRbac = (\<lambda>ns name rules. ref_log ''rbac'' ([], Result0, None)),
     GetKeystoneAPI = (\<lambda>ns. ref_log ''get keystone api'' (Inr (\<lambda>e. Inr (''http://'' @ e)))),
     GetKeystoneServiceWithName = (\<lambda>name ns. ref_log ''get keystone service'' (Inl ref_NotFound)),
     Update_KeystoneService = (\<lambda>m. ref_log ''update keystone service'' None),
     KeystoneService_CreateOrPatch = (\<lambda>spec ns labels t.
       ref_log ''patch keystone service'' ((Result0, None), Some [(ReadyCondition, True)])),
     TransportURL_CreateOrUpdate = (\<lambda>t f. ref_log ''patch transport url''
       (map_sum id (\<lambda>t. t\<lparr>tu_SecretName := ''rabbitmq-transport-url''\<rparr>) (f t))),
     StatefulSet_CreateOrPatch = (\<lambda>ss t. ref_log ''patch statefulset'' ((Result0, None), 1)),
     Service_CreateOrUpdate = (\<lambda>sv f. ref_log ''patch service'' (f sv))\<rparr>"

lemma steady_ref_log [simp]: "steady (ref_log msg a) b \<longleftrightarrow> a = b"
  by (auto simp: steady_def ref_log_def)

lemma wp_ref_log [wp_simps]: "wp (api (ref_log msg a)) Q s = Q a (s\<lparr>world := world s @ [msg]\<rparr>)"
  by (simp add: wp_def ref_log_def)

text \<open>What the reference instances answer, one call at a time.\<close>

lemma ref_platform_calls:
  "GetSecret ref_platform name ns = ref_log (''get secret '' @ name)
     (Some \<lparr>se_Name = name, se_Data = Map.empty\<rparr>, ''hash-'' @ name, None)"
  "EnsureSecrets ref_platform m ts vars = ref_log ''ensure secrets''
     (fold (\<lambda>t. AList.update (tp_Name t) (SetValue ''rendered'')) ts vars, None)"
  "ReconcileRbac ref_platform ns name rules = ref_log ''rbac'' ([], Result0, None)"
  "GetKeystoneAPI ref_platform ns = ref_log ''get keystone api'' (Inr (\<lambda>e. Inr (''http://'' @ e)))"
  "KeystoneService_CreateOrPatch ref_platform spec ns labels t =
     ref_log ''patch keystone service'' ((Result0, None), Some [(ReadyCondition, True)])"
  "TransportURL_CreateOrUpdate ref_platform u f = ref_log ''patch transport url''
     (map_sum id (\<lambda>t. t\<lparr>tu_SecretName := ''rabbitmq-transport-url''\<rparr>) (f u))"
  "StatefulSet_CreateOrPatch ref_platform ss t = ref_log ''patch statefulset'' ((Result0, None), 1)"
  by (simp_all add: ref_platform_def)

lemma ref_commonlib_calls:
  "GetNADAnnotation ref_commonlib ns nads = Inr None"
  "service_EndpointInternal ref_commonlib = ''internal''" "service_EndpointPublic ref_commonlib = ''public''"
  by (simp_all add: ref_commonlib_def)

lemma ref_SetControllerReference:
  "SetControllerReference ref_controllerutil k o' m = Inr (m\<lparr>m_OwnerReferences := [\<lparr>or_Kind = k, or_Name = m_Name o'\<rparr>]\<rparr>)"
  by (simp add: ref_controllerutil_def)

lemmas ref_calls = ref_platform_calls ref_commonlib_calls ref_SetControllerReference

end
