(* ===== verification/Input_Hash.thy ===== *)
theory Input_Hash
  imports Workloads
begin

text \<open>
  The hash over the inputs of a service. Ceilometer, Autoscaling and Logging each have a method
  \<open>createHashOfInputHashes\<close>; \<open>hash_of_inputs\<close> is what they promise, the locale \<open>input_hasher\<close> holds what
  follows from it, and each controller interprets the locale with its own method.
\<close>

definition set_Hash :: "(string, string) gomap \<Rightarrow> ('sp, ('c, 'z) HashStatus_scheme) CR
    \<Rightarrow> ('sp, ('c, 'z) HashStatus_scheme) CR" where
  "set_Hash h i = i\<lparr>Status := (Status i)\<lparr>Hash := h\<rparr>\<rparr>"

lemma set_Hash_simps [simp]:
  "Meta (set_Hash h i) = Meta i" "Spec (set_Hash h i) = Spec i"
  "Hash (Status (set_Hash h i)) = h" "Conditions (Status (set_Hash h i)) = Conditions (Status i)"
  "has_hash (set_Hash h i) \<longleftrightarrow> h \<noteq> None"
  by (simp_all add: set_Hash_def has_hash_def)

text \<open>\<open>instance.Status.Hash[key] = value\<close>\<close>

definition store_Hash :: "string \<Rightarrow> string \<Rightarrow> ((('sp, ('c, 'z) HashStatus_scheme) CR, 'w) handler, unit outcome) state" where
  "store_Hash k v = do {
     i \<leftarrow> get_inst;
     case map_store (Hash (Status i)) k v of
       Panic msg \<Rightarrow> return (Panic msg)
     | Return h \<Rightarrow> do { update_inst (set_Hash h); returns () }
   }"

lemma safe_store_Hash [safe_intros]: "safe (of_inst has_hash) (store_Hash k v)"
  unfolding safe_def by (auto simp: of_inst_def has_hash_def store_Hash_def)

lemma run_store_Hash [simp]:
  "Hash (Status (inst s)) = Some h \<Longrightarrow>
     run_state (store_Hash k v) s = (Return (), s\<lparr>inst := set_Hash (Some (h(k \<mapsto> v))) (inst s)\<rparr>)"
  by (simp add: store_Hash_def)

lemma wp_store_Hash:
  "Hash (Status (inst s)) = Some h \<Longrightarrow>
     wp (store_Hash k v) Q s = Q (Return ()) (s\<lparr>inst := set_Hash (Some (h(k \<mapsto> v))) (inst s)\<rparr>)"
  by (simp add: wp_of_run)

definition hash_of_inputs :: "commonlib \<Rightarrow> env_vars
    \<Rightarrow> ((('sp, ('c, 'z) HashStatus_scheme) CR, 'w) handler, string \<times> bool \<times> error option) state" where
  "hash_of_inputs L envVars = do {
     i \<leftarrow> get_inst;
     let (hash, err) = ObjectHash L (MergeEnvs L [] envVars);
     if err \<noteq> None then return (hash, False, err)
     else do {
       let (hashMap, changed) = SetHash L (Hash (Status i)) (InputHashName L) hash;
       (if changed then update_inst (set_Hash hashMap) else return ());
       return (hash, changed, None)
     }
   }"

locale input_hasher =
  fixes createHash :: "env_vars \<Rightarrow> ((('sp, ('c, 'z) HashStatus_scheme) CR, 'w) handler, string \<times> bool \<times> error option) state"
    and L :: commonlib
  assumes createHash: "createHash = hash_of_inputs L"
begin

text \<open>The method changes at most the hash map.\<close>

lemma keeps_createHash:
  assumes "\<And>i h. P i \<Longrightarrow> P (set_Hash h i)"
  shows "keeps (of_inst P) (createHash vars)"
  unfolding createHash hash_of_inputs_def Let_def
  by (intro keeps_intros assms) simp_all

lemma keeps_has_hash:
  assumes "commonlib_laws L"
  shows "keeps (of_inst has_hash) (createHash vars)"
  using commonlib_laws.SetHash_stored [OF assms]
  by (auto simp: createHash hash_of_inputs_def Let_def keeps_def of_inst_def has_hash_def split: prod.splits)

text \<open>
  A changed hash is stored, and the next call with the same inputs finds it: it reports no change and
  leaves the instance as it is.
\<close>

lemma converges:
  assumes "commonlib_laws L"
    and "run_state (createHash vars) s = ((hash, True, err), s')"
  shows "err = None \<and> world s' = world s \<and>
    (\<exists>h. inst s' = set_Hash h (inst s) \<and> map_read (the h) (InputHashName L) = hash) \<and>
    run_state (createHash vars) \<lparr>inst = inst s', world = w\<rparr> = ((hash, False, None), \<lparr>inst = inst s', world = w\<rparr>)"
proof -
  obtain h e where oh: "ObjectHash L (MergeEnvs L [] vars) = (h, e)" by fastforce
  obtain m ch where sh: "SetHash L (Hash (Status (inst s))) (InputHashName L) h = (m, ch)" by fastforce
  have run: "e = None" "ch" "hash = h" "err = None" "s' = s\<lparr>inst := set_Hash m (inst s)\<rparr>"
    using assms(2) oh sh by (auto simp: createHash hash_of_inputs_def split: if_splits)
  have "\<not> snd (SetHash L m (InputHashName L) h)"
    using commonlib_laws.SetHash_again [OF assms(1) sh] .
  then have again: "run_state (createHash vars) \<lparr>inst = inst s', world = w\<rparr> =
      ((hash, False, None), \<lparr>inst = inst s', world = w\<rparr>)"
    using run oh by (auto simp: createHash hash_of_inputs_def split: prod.splits)
  show ?thesis
    using run again commonlib_laws.SetHash_stored [OF assms(1) sh] by auto
qed

lemma unchanged:
  assumes "run_state (createHash vars) s = ((hash, False, err), s')"
  shows "s' = s"
  using assms by (auto simp: createHash hash_of_inputs_def split: prod.splits if_splits)

lemma wp_createHash:
  assumes "ObjectHash L (MergeEnvs L [] vars) = (hash, None)"
    and "SetHash L (Hash (Status (inst s))) (InputHashName L) hash = (m, ch)"
  shows "wp (createHash vars) Q s =
    Q (hash, ch, None) (if ch then s\<lparr>inst := set_Hash m (inst s)\<rparr> else s)"
  using assms by (simp add: createHash hash_of_inputs_def wp_simps)

lemma wp_createHash_any:
  assumes "\<And>hash e. Q (hash, False, Some e) s" and "\<And>hash. Q (hash, False, None) s"
    and "\<And>hash m. SetHash L (Hash (Status (inst s))) (InputHashName L) hash = (m, True) \<Longrightarrow>
      Q (hash, True, None) (s\<lparr>inst := set_Hash m (inst s)\<rparr>)"
  shows "wp (createHash vars) Q s"
  by (auto simp: createHash hash_of_inputs_def wp_simps assms(1,2) intro!: assms(3) split: prod.splits)

end

end
