(* ===== verification/Consts.thy ===== *)
theory Consts
  imports Prelude
begin

text \<open>
  The constants of the packages under \<^verbatim>\<open>pkg/\<close> (\<^verbatim>\<open>const.go\<close> of each), with the package as prefix.
  Modes are written in octal in the source: 0740 is 480 and 0640 is 416.
\<close>

section \<open>\<open>pkg/telemetry\<close>\<close>

definition telemetry_ServiceName :: string where "telemetry_ServiceName = ''telemetry''"
definition telemetry_ServiceType :: string where "telemetry_ServiceType = ''telemetry''"

section \<open>\<open>pkg/ceilometer\<close>\<close>

definition ceilometer_ServiceName :: string where "ceilometer_ServiceName = ''ceilometer''"
definition ceilometer_ComputeServiceName :: string where "ceilometer_ComputeServiceName = ''ceilometer-compute''"
definition ceilometer_ServiceType :: string where "ceilometer_ServiceType = ''Ceilometer''"
definition CeilometerPrometheusPort :: int64 where "CeilometerPrometheusPort = 3000"
definition KollaConfigCentral :: string where
  "KollaConfigCentral = ''/var/lib/config-data/merged/config-central.json''"
definition KollaConfigNotification :: string where
  "KollaConfigNotification = ''/var/lib/config-data/merged/config-notification.json''"

section \<open>\<open>pkg/autoscaling\<close>\<close>

definition autoscaling_ServiceName :: string where "autoscaling_ServiceName = ''aodh''"
definition autoscaling_ServiceType :: string where "autoscaling_ServiceType = ''alarming''"
definition autoscaling_PrometheusRetention :: string where "autoscaling_PrometheusRetention = ''5h''"
definition autoscaling_DatabaseName :: string where "autoscaling_DatabaseName = ''aodh''"
definition AodhAPIPort :: int32 where "AodhAPIPort = 8042"
definition autoscaling_PrometheusReplicas :: int32 where "autoscaling_PrometheusReplicas = 1"

section \<open>\<open>pkg/logging\<close>\<close>

definition logging_ServiceName :: string where "logging_ServiceName = ''logging''"
definition logging_ComputeServiceName :: string where "logging_ComputeServiceName = ''logging-compute''"
definition logging_ServiceType :: string where "logging_ServiceType = ''Logging''"

section \<open>\<open>pkg/metricstorage\<close>\<close>

definition metricstorage_DefaultServiceName :: string where
  "metricstorage_DefaultServiceName = ''metric-storage''"
definition DefaultPvcStorageRequest :: string where "DefaultPvcStorageRequest = ''20G''"
definition DefaultPrometheusPort :: int32 where "DefaultPrometheusPort = 9090"
definition DefaultNodeExporterPort :: int where "DefaultNodeExporterPort = 9100"
definition DefaultScrapeInterval :: string where "DefaultScrapeInterval = ''30s''"
definition PauseBetweenWatchAttempts :: int where "PauseBetweenWatchAttempts = seconds 10"
definition metricstorage_PrometheusReplicas :: int32 where "metricstorage_PrometheusReplicas = 1"

section \<open>\<open>DbSyncHash\<close> of \<open>autoscaling_types.go\<close>\<close>

definition DbSyncHash :: string where "DbSyncHash = ''dbsync''"

end
