(* ===== verification/Autoscaling_Pkg.thy ===== *)
theory Autoscaling_Pkg
  imports Workloads Consts
begin

text \<open>
  \<^verbatim>\<open>pkg/autoscaling\<close>: the volumes, the StatefulSet and the database job of Aodh, and the monitoring stack
  for autoscaling.
\<close>

section \<open>\<open>volumes.go\<close>\<close>

definition aodh_scriptVolume :: string where "aodh_scriptVolume = ''aodh-scripts''"
definition aodh_configVolume :: string where "aodh_configVolume = ''aodh-config-data''"
definition aodh_scriptMode :: int32 where "aodh_scriptMode = 480"
definition aodh_configMode :: int32 where "aodh_configMode = 416"

definition aodh_getVolumes :: "string \<Rightarrow> Volume list" where
  "aodh_getVolumes name =
    [\<lparr>vo_Name = ''scripts'', vo_Secret = \<lparr>sv_DefaultMode = aodh_scriptMode, sv_Items = [],
        sv_SecretName = aodh_scriptVolume\<rparr>\<rparr>,
     \<lparr>vo_Name = ''config-data'', vo_Secret = \<lparr>sv_DefaultMode = aodh_configMode, sv_Items = [],
        sv_SecretName = aodh_configVolume\<rparr>\<rparr>]"

definition aodh_getVolumeMounts :: "string \<Rightarrow> VolumeMount list" where
  "aodh_getVolumeMounts serviceName =
    [\<lparr>vm_Name = ''scripts'', vm_MountPath = ''/var/lib/openstack/bin'', vm_SubPath = '''', vm_ReadOnly = True\<rparr>,
     \<lparr>vm_Name = ''config-data'', vm_MountPath = ''/var/lib/openstack/config'', vm_SubPath = '''', vm_ReadOnly = True\<rparr>,
     \<lparr>vm_Name = ''config-data'', vm_MountPath = ''/var/lib/kolla/config_files/config.json'',
      vm_SubPath = serviceName @ ''-config.json'', vm_ReadOnly = True\<rparr>]"

section \<open>\<open>aodh_statefulset.go\<close>\<close>

definition aodh_ServiceCommand :: string where
  "aodh_ServiceCommand = ''/usr/local/bin/kolla_set_configs && /usr/local/bin/kolla_start''"

text \<open>The probes are built as in the source, where no container refers to them.\<close>

definition AodhStatefulSet :: "commonlib \<Rightarrow> 'c Autoscaling \<Rightarrow> string \<Rightarrow> (string, string) gomap
    \<Rightarrow> error + StatefulSet" where
  "AodhStatefulSet L instance' configHash labels =
    (let runAsUser = 0 :: int64;
         httpGet = \<lparr>hg_Path = ''/'', hg_Port = AodhAPIPort\<rparr>;
         livenessProbe = \<lparr>pr_TimeoutSeconds = 5, pr_PeriodSeconds = 3, pr_InitialDelaySeconds = 3,
           pr_HTTPGet = Some httpGet\<rparr>;
         readinessProbe = \<lparr>pr_TimeoutSeconds = 5, pr_PeriodSeconds = 5, pr_InitialDelaySeconds = 5,
           pr_HTTPGet = Some httpGet\<rparr>;
         args = [''-c''] @ [aodh_ServiceCommand];
         envVarsAodh = AList.update ''CONFIG_HASH'' (SetValue configHash)
           (AList.update ''KOLLA_CONFIG_STRATEGY'' (SetValue ''COPY_ALWAYS'') []);
         replicas = 1 :: int32;
         apiContainer = \<lparr>co_Name = ''aodh-api'', co_ImagePullPolicy = ''Always'',
           co_Command = [''/bin/bash''], co_Args = args, co_Image = ao_APIImage (as_Aodh (Spec instance')),
           co_Env = MergeEnvs L [] envVarsAodh, co_RunAsUser = Some runAsUser,
           co_VolumeMounts = aodh_getVolumeMounts ''aodh-api'',
           co_ReadinessProbe = None, co_LivenessProbe = None\<rparr>;
         evaluatorContainer = \<lparr>co_Name = ''aodh-evaluator'', co_ImagePullPolicy = ''Always'',
           co_Command = [''/bin/bash''], co_Args = args, co_Image = ao_EvaluatorImage (as_Aodh (Spec instance')),
           co_Env = MergeEnvs L [] envVarsAodh, co_RunAsUser = Some runAsUser,
           co_VolumeMounts = aodh_getVolumeMounts ''aodh-evaluator'',
           co_ReadinessProbe = None, co_LivenessProbe = None\<rparr>;
         notifierContainer = \<lparr>co_Name = ''aodh-notifier'', co_ImagePullPolicy = ''Always'',
           co_Command = [''/bin/bash''], co_Args = args, co_Image = ao_NotifierImage (as_Aodh (Spec instance')),
           co_Env = MergeEnvs L [] envVarsAodh, co_RunAsUser = Some runAsUser,
           co_VolumeMounts = aodh_getVolumeMounts ''aodh-notifier'',
           co_ReadinessProbe = None, co_LivenessProbe = None\<rparr>;
         listenerContainer = \<lparr>co_Name = ''aodh-listener'', co_ImagePullPolicy = ''Always'',
           co_Command = [''/bin/bash''], co_Args = args, co_Image = ao_ListenerImage (as_Aodh (Spec instance')),
           co_Env = MergeEnvs L [] envVarsAodh, co_RunAsUser = Some runAsUser,
           co_VolumeMounts = aodh_getVolumeMounts ''aodh-listener'',
           co_ReadinessProbe = None, co_LivenessProbe = None\<rparr>;
         meta = (ObjectMeta_named autoscaling_ServiceName (m_Namespace (Meta instance')))\<lparr>m_Labels := labels\<rparr>;
         pod = \<lparr>po_Meta = meta, po_RestartPolicy = '''',
           po_ServiceAccountName = Autoscaling_RbacResourceName instance',
           po_Containers = [apiContainer, evaluatorContainer, notifierContainer, listenerContainer],
           po_Volumes = []\<rparr>;
         statefulset = \<lparr>ss_Meta = meta, ss_Replicas = replicas,
           ss_Selector = \<lparr>MatchLabels = labels, MatchExpressions = None\<rparr>,
           ss_Template = pod\<lparr>po_Volumes := aodh_getVolumes autoscaling_ServiceName\<rparr>\<rparr>
     in case GetNADAnnotation L (m_Namespace (Meta instance'))
            (ao_NetworkAttachmentDefinitions (as_Aodh (Spec instance'))) of
          Inl err \<Rightarrow> Inl (Errorf_w (''failed create network annotation from '' @
              sprint_strings (ao_NetworkAttachmentDefinitions (as_Aodh (Spec instance'))) @ '': '') err)
        | Inr nwAnnotation \<Rightarrow> Inr (statefulset\<lparr>ss_Template := (ss_Template statefulset)
             \<lparr>po_Meta := (po_Meta (ss_Template statefulset))
               \<lparr>m_Annotations := MergeStringMaps L (m_Annotations (po_Meta (ss_Template statefulset))) nwAnnotation\<rparr>\<rparr>\<rparr>))"

section \<open>\<open>dbsync.go\<close>\<close>

definition dbSyncCommand :: string where
  "dbSyncCommand = ''/usr/local/bin/kolla_set_configs && /usr/local/bin/kolla_start''"

definition DbSyncJob :: "commonlib \<Rightarrow> 'c Autoscaling \<Rightarrow> (string, string) gomap \<Rightarrow> Job" where
  "DbSyncJob L instance' labels =
    (let args = [''-c''] @ [dbSyncCommand];
         runAsUser = 0 :: int64;
         envVars = AList.update ''KOLLA_BOOTSTRAP'' (SetValue ''TRUE'')
           (AList.update ''KOLLA_CONFIG_STRATEGY'' (SetValue ''COPY_ALWAYS'') []);
         aodhPassword = [\<lparr>ev_Name = ''AodhPassword'', ev_Value = '''',
           ev_SecretKeyRef = Some (ao_Secret (as_Aodh (Spec instance')),
             pw_Service (ao_PasswordSelectors (as_Aodh (Spec instance'))))\<rparr>]
     in \<lparr>jo_Meta = (ObjectMeta_named (autoscaling_ServiceName @ ''-db-sync'') (m_Namespace (Meta instance')))
            \<lparr>m_Labels := labels\<rparr>,
         jo_Template = \<lparr>po_Meta = ObjectMeta_named '''' '''', po_RestartPolicy = ''OnFailure'',
           po_ServiceAccountName = Autoscaling_RbacResourceName instance',
           po_Containers = [\<lparr>co_Name = autoscaling_ServiceName @ ''-db-sync'', co_ImagePullPolicy = '''',
             co_Command = [''/bin/bash''], co_Args = args, co_Image = ao_APIImage (as_Aodh (Spec instance')),
             co_Env = MergeEnvs L aodhPassword envVars, co_RunAsUser = Some runAsUser,
             co_VolumeMounts = aodh_getVolumeMounts ''aodh-dbsync'',
             co_ReadinessProbe = None, co_LivenessProbe = None\<rparr>],
           po_Volumes = aodh_getVolumes autoscaling_ServiceName\<rparr>\<rparr>)"

section \<open>\<open>prometheus.go\<close>\<close>

text \<open>\<open>obov1.MonitoringStack\<close>: metadata and spec.\<close>

type_synonym MonitoringStackObj = "(MonitoringStackSpec, unit) CR"

definition Prometheus :: "'c Autoscaling \<Rightarrow> (string, string) gomap \<Rightarrow> MonitoringStackObj" where
  "Prometheus instance' labels =
    \<lparr>Meta = (ObjectMeta_named (m_Name (Meta instance') @ ''-prometheus'') (m_Namespace (Meta instance')))
        \<lparr>m_Labels := labels\<rparr>,
     Spec = MonitoringStackSpec0\<lparr>mss_AlertmanagerDisabled := True,
       mss_PrometheusConfig := Some \<lparr>pc_Replicas = Some autoscaling_PrometheusReplicas, pc_PersistentVolumeClaim = None\<rparr>,
       mss_Retention := autoscaling_PrometheusRetention, mss_LogLevel := ''debug'',
       mss_ResourceSelector := Some \<lparr>MatchLabels = labels, MatchExpressions = None\<rparr>\<rparr>,
     Status = ()\<rparr>"

section \<open>Properties\<close>

lemma AodhStatefulSet_env:
  assumes "AodhStatefulSet L i h labels = Inr ss"
  shows "map co_Env (po_Containers (ss_Template ss)) = replicate 4
    (MergeEnvs L [] [(''KOLLA_CONFIG_STRATEGY'', SetValue ''COPY_ALWAYS''), (''CONFIG_HASH'', SetValue h)])"
  using assms by (auto simp: AodhStatefulSet_def Let_def numeral_eq_Suc split: sum.splits)

text \<open>
  The StatefulSet of Aodh is consistent: its selector matches the labels of its pods, every volume
  that a container mounts is declared, and the containers run the images of the spec. No container has
  a probe: the liveness and readiness probes that the function builds are never attached.
\<close>

theorem aodh_statefulset_consistent:
  assumes "AodhStatefulSet L i h labels = Inr ss"
  shows "MatchLabels (ss_Selector ss) = m_Labels (po_Meta (ss_Template ss)) \<and>
    mounts_declared (ss_Template ss) \<and>
    map co_Image (po_Containers (ss_Template ss)) = [ao_APIImage (as_Aodh (Spec i)),
      ao_EvaluatorImage (as_Aodh (Spec i)), ao_NotifierImage (as_Aodh (Spec i)), ao_ListenerImage (as_Aodh (Spec i))] \<and>
    list_all (\<lambda>c. co_LivenessProbe c = None \<and> co_ReadinessProbe c = None) (po_Containers (ss_Template ss))"
  using assms
  by (auto simp: AodhStatefulSet_def Let_def mounts_declared_def aodh_getVolumeMounts_def
      aodh_getVolumes_def ObjectMeta_named_def split: sum.splits)

text \<open>An Autoscaling resource for witnesses.\<close>

definition ref_autoscaling :: "ref_cond Autoscaling" where
  "ref_autoscaling = \<lparr>Meta = (ObjectMeta_named ''autoscaling'' ''openstack'')\<lparr>m_Finalizers := [''autoscaling'']\<rparr>,
     Spec = AutoscalingSpec0\<lparr>as_Aodh := Aodh0\<lparr>ao_APIImage := ''aodh-api'', ao_DatabaseUser := ''aodh'', ao_Secret := ''osp-secret'',
       ao_PasswordSelectors := \<lparr>pw_Service = ''CeilometerPassword'', pw_AodhService = ''AodhPassword'',
         pw_Database = ''AodhDatabasePassword''\<rparr>\<rparr>\<rparr>,
     Status = AutoscalingStatus0\<lparr>Conditions := Some [(ReadyCondition, False)]\<rparr>\<rparr>"

text \<open>
  A new configuration restarts the pods of Aodh: for two different configuration hashes the pod
  templates differ.
\<close>

theorem aodh_hash_changes_pods:
  assumes "commonlib_laws L"
    and "AodhStatefulSet L i h labels = Inr ss" and "AodhStatefulSet L i' h' labels' = Inr ss'"
    and "h \<noteq> h'"
  shows "ss_Template ss \<noteq> ss_Template ss'"
proof
  assume "ss_Template ss = ss_Template ss'"
  with AodhStatefulSet_env [OF assms(2)] AodhStatefulSet_env [OF assms(3)]
  have "MergeEnvs L [] [(''KOLLA_CONFIG_STRATEGY'', SetValue ''COPY_ALWAYS''), (''CONFIG_HASH'', SetValue h)] =
    MergeEnvs L [] [(''KOLLA_CONFIG_STRATEGY'', SetValue ''COPY_ALWAYS''), (''CONFIG_HASH'', SetValue h')]"
    by simp
  from commonlib_laws.MergeEnvs_inj [OF assms(1) _ _ this, of "''CONFIG_HASH''" h h'] assms(4)
  show False by simp
qed

text \<open>
  The database job runs the API image, mounts declared volumes only, and its environment takes
  \<open>AodhPassword\<close> from the key that \<open>passwordSelectors.service\<close> names, which is the key of the Ceilometer
  user, not from the key of \<open>passwordSelectors.aodhService\<close> that the configuration uses.
\<close>

theorem dbsync_job_password:
  assumes "commonlib_laws L"
  shows "mounts_declared (jo_Template (DbSyncJob L i labels)) \<and>
    map co_Image (po_Containers (jo_Template (DbSyncJob L i labels))) = [ao_APIImage (as_Aodh (Spec i))] \<and>
    \<lparr>ev_Name = ''AodhPassword'', ev_Value = '''', ev_SecretKeyRef = Some (ao_Secret (as_Aodh (Spec i)),
       pw_Service (ao_PasswordSelectors (as_Aodh (Spec i))))\<rparr>
     \<in> set (co_Env (hd (po_Containers (jo_Template (DbSyncJob L i labels)))))"
  by (simp add: DbSyncJob_def Let_def mounts_declared_def aodh_getVolumeMounts_def aodh_getVolumes_def
      commonlib_laws.MergeEnvs_base [OF assms])

theorem dbsync_job_password_witness:
  "\<lparr>ev_Name = ''AodhPassword'', ev_Value = '''', ev_SecretKeyRef = Some (''osp-secret'', ''CeilometerPassword'')\<rparr>
     \<in> set (co_Env (hd (po_Containers (jo_Template (DbSyncJob ref_commonlib ref_autoscaling None)))))"
  using dbsync_job_password [OF ref_lib.commonlib_laws_axioms, of ref_autoscaling None]
  by (simp add: ref_autoscaling_def)

end
