(* ===== verification/Aodh_Controller.thy ===== *)
theory Aodh_Controller
  imports Input_Hash Autoscaling_Pkg
begin

text \<open>
  \<^verbatim>\<open>controllers/aodh_controller.go\<close>: the part of the Autoscaling controller that deals with Aodh. It
  registers the service with Keystone, has a database created and migrated, runs the Aodh services as a
  StatefulSet and exposes the API under an internal and a public endpoint.
\<close>

section \<open>Libraries\<close>

text \<open>
  The package \<open>service\<close> of lib-common. A service helper is a value of the type variable \<open>'s\<close>; the
  methods that change it return it changed.
\<close>

record GenericServiceDetails =
  gs_Name :: string
  gs_Namespace :: string
  gs_Labels :: "(string, string) gomap"
  gs_Selector :: "(string, string) gomap"
  gs_PortName :: string
  gs_Port :: int32
  gs_Protocol :: string

record 's service_pkg =
  AnnotationEndpointKey :: string
  AnnotationIngressCreateKey :: string
  AnnotationHostnameKey :: string
  NewService :: "GenericServiceDetails \<Rightarrow> int \<Rightarrow> OverrideSpec \<Rightarrow> error + 's"
  AddAnnotation :: "'s \<Rightarrow> (string \<rightharpoonup> string) \<Rightarrow> 's"
  GetServiceType :: "'s \<Rightarrow> string"
  GetServiceHostname :: "'s \<Rightarrow> string"
  GetAPIEndpoint :: "'s \<Rightarrow> string option \<Rightarrow> string option \<Rightarrow> string \<Rightarrow> error + string"

text \<open>\<open>endpoint.Data\<close>\<close>

record endpoint_Data =
  ed_Port :: int32
  ed_Path :: string
  ed_Protocol :: "string option"

text \<open>The arguments of \<open>mariadbv1.NewDatabaseWithNamespace\<close>.\<close>

record Database =
  db_DatabaseName :: string
  db_DatabaseUser :: string
  db_Secret :: string
  db_Labels :: "string \<rightharpoonup> string"
  db_Name :: string
  db_Namespace :: string

record KeystoneEndpointSpec =
  ke_ServiceName :: string
  ke_Endpoints :: "(string, string) gomap"

record Memcached =
  mc_Name :: string
  mc_IsReady :: bool
  mc_ServerList :: "string list"
  mc_ServerListWithInet :: "string list"

record Heat =
  ht_Name :: string
  ht_IsReady :: bool

text \<open>
  The calls of the Autoscaling controller beside those of \<open>platform\<close>. \<open>GetDatabaseByName\<close> takes the
  namespace from the helper, which holds the instance. \<open>WaitForDBCreated\<close> answers its result and the host
  name that \<open>GetDatabaseHostname\<close> then returns. \<open>DoJob\<close> takes the fields of \<open>job.NewJob\<close> and
  answers its result, then \<open>HasChanged\<close> and \<open>GetHash\<close>.
\<close>

record ('c, 's, 'w) autoscaling_api = "('c Autoscaling, 'w) crapi" +
  GetDatabaseByName :: "string \<Rightarrow> string \<Rightarrow> ('w, error + ObjectMeta) state"
  DB_DeleteFinalizer :: "ObjectMeta \<Rightarrow> ('w, error option) state"
  GetKeystoneEndpointWithName :: "string \<Rightarrow> string \<Rightarrow> ('w, error + ObjectMeta) state"
  Update_KeystoneEndpoint :: "ObjectMeta \<Rightarrow> ('w, error option) state"
  CreateOrPatchDBByName :: "Database \<Rightarrow> string \<Rightarrow> ('w, reconcile_result) state"
  WaitForDBCreated :: "Database \<Rightarrow> ('w, reconcile_result \<times> string) state"
  DoJob :: "Job \<Rightarrow> string \<Rightarrow> bool \<Rightarrow> int \<Rightarrow> string \<Rightarrow> ('w, reconcile_result \<times> bool \<times> string) state"
  Svc_CreateOrPatch :: "'s \<Rightarrow> ('w, reconcile_result \<times> 's) state"
  KeystoneEndpoint_CreateOrPatch :: "string \<Rightarrow> string \<Rightarrow> KeystoneEndpointSpec \<Rightarrow> (string, string) gomap \<Rightarrow> int
     \<Rightarrow> ('w, reconcile_result \<times> 'c conditions) state"
  Get_Memcached :: "NamespacedName \<Rightarrow> ('w, error + Memcached) state"
  Get_Heat :: "NamespacedName \<Rightarrow> ('w, error + Heat) state"

section \<open>Deletion\<close>

text \<open>
  Removing the finalizer from an object that may be gone: the error to return, if any. The code has this
  step twice, for the KeystoneService and for the KeystoneEndpoint.
\<close>

definition release :: "controllerutil \<Rightarrow> string \<Rightarrow> ('w, error + ObjectMeta) state \<Rightarrow> (ObjectMeta \<Rightarrow> ('w, error option) state)
    \<Rightarrow> ('w, error option) state" where
  "release U finalizer get_object update_object = do {
     got \<leftarrow> get_object;
     case got of
       Inl err \<Rightarrow> return (if IsNotFound err then None else Some err)
     | Inr m \<Rightarrow>
         (let (m', removed) = RemoveFinalizer U m finalizer
          in if removed then do {
               err \<leftarrow> update_object m';
               return (case err of None \<Rightarrow> None | Some e \<Rightarrow> if IsNotFound e then None else Some e)
             }
             else return None)
   }"

definition reconcileDeleteAodh :: "controllerutil \<Rightarrow> ('c, 'w) platform \<Rightarrow> ('c, 's, 'w) autoscaling_api
    \<Rightarrow> (('c Autoscaling, 'w) handler, reconcile_result) state" where
  "reconcileDeleteAodh U P A = do {
     instance' \<leftarrow> get_inst;
     let ns = m_Namespace (Meta instance');
     db \<leftarrow> api (GetDatabaseByName A autoscaling_ServiceName ns);
     err \<leftarrow> (case db of
       Inl e \<Rightarrow> return (if IsNotFound e then None else Some e)
     | Inr d \<Rightarrow> api (DB_DeleteFinalizer A d));
     if err \<noteq> None then return (Result0, err)
     else do {
       err \<leftarrow> api (release U (GetFinalizer A) (GetKeystoneServiceWithName P autoscaling_ServiceName ns) (Update_KeystoneService P));
       if err \<noteq> None then return (Result0, err)
       else do {
         err \<leftarrow> api (release U (GetFinalizer A) (GetKeystoneEndpointWithName A autoscaling_ServiceName ns) (Update_KeystoneEndpoint A));
         if err \<noteq> None then return (Result0, err)
         else return (Result0, None)
       }
     }
   }"

section \<open>Initialisation\<close>

text \<open>\<open>reconcileInitAodh\<close> from the database job on.\<close>

definition aodh_dbsync :: "'c condition_pkg \<Rightarrow> commonlib \<Rightarrow> ('c, 's, 'w) autoscaling_api \<Rightarrow> (string, string) gomap
    \<Rightarrow> (('c Autoscaling, 'w) handler, reconcile_result outcome) state" where
  "aodh_dbsync CL L A serviceLabels = do {
     instance' \<leftarrow> get_inst;
     let dbSyncHash = (case Hash (Status instance') of None \<Rightarrow> '''' | Some h \<Rightarrow> map_read h DbSyncHash);
     let jobDef = DbSyncJob L instance' serviceLabels;
     ((ctrlResult, err), changed, hash) \<leftarrow> api (DoJob A jobDef DbSyncHash (ao_PreserveJobs (as_Aodh (Spec instance')))
       (seconds 5) dbSyncHash);
     if ctrlResult \<noteq> Result0 then do {
       update_inst (cmap (\<lambda>cs. cond_Set CL cs (Some (FalseCondition CL DBSyncReadyCondition RequestedReason
         SeverityInfo (Lib ''DBSyncReadyRunningMessage'') []))));
       returns (ctrlResult, None)
     }
     else (case err of
       Some e \<Rightarrow> do {
         update_inst (cmap (\<lambda>cs. cond_Set CL cs (Some (FalseCondition CL DBSyncReadyCondition ErrorReason
           SeverityWarning (Lib ''DBSyncReadyErrorMessage'') [Error e]))));
         returns (Result0, Some e)
       }
     | None \<Rightarrow> pbind (if changed then store_Hash DbSyncHash hash else returns ()) (\<lambda>_. do {
         update_inst (cmap (\<lambda>cs. MarkTrue CL cs DBSyncReadyCondition (Lib ''DBSyncReadyMessage'')));
         returns (Result0, None)
       }))
   }"

text \<open>\<open>reconcileInitAodh\<close> from the database on.\<close>

definition aodh_database :: "'c condition_pkg \<Rightarrow> commonlib \<Rightarrow> ('c, 's, 'w) autoscaling_api \<Rightarrow> (string, string) gomap
    \<Rightarrow> (('c Autoscaling, 'w) handler, reconcile_result outcome) state" where
  "aodh_database CL L A serviceLabels = do {
     instance' \<leftarrow> get_inst;
     let aodh = as_Aodh (Spec instance');
     let failed = (\<lambda>e. update_inst (cmap (\<lambda>cs. cond_Set CL cs (Some (FalseCondition CL DBReadyCondition ErrorReason
       SeverityWarning (Lib ''DBReadyErrorMessage'') [Error e])))));
     let running = update_inst (cmap (\<lambda>cs. cond_Set CL cs (Some (FalseCondition CL DBReadyCondition RequestedReason
       SeverityInfo (Lib ''DBReadyRunningMessage'') []))));
     let db = \<lparr>db_DatabaseName = ao_DatabaseUser aodh, db_DatabaseUser = ao_DatabaseUser aodh, db_Secret = ao_Secret aodh,
       db_Labels = [''dbName'' \<mapsto> ao_DatabaseInstance aodh], db_Name = autoscaling_ServiceName,
       db_Namespace = m_Namespace (Meta instance')\<rparr>;
     (ctrlResult, err) \<leftarrow> api (CreateOrPatchDBByName A db (ao_DatabaseInstance aodh));
     case err of
       Some e \<Rightarrow> do { _ \<leftarrow> failed e; returns (Result0, Some e) }
     | None \<Rightarrow>
       if ctrlResult \<noteq> Result0 then do { _ \<leftarrow> running; returns (ctrlResult, None) }
       else do {
         ((ctrlResult, err), hostname) \<leftarrow> api (WaitForDBCreated A db);
         case err of
           Some e \<Rightarrow> do { _ \<leftarrow> failed e; returns (ctrlResult, Some e) }
         | None \<Rightarrow>
           if ctrlResult \<noteq> Result0 then do { _ \<leftarrow> running; returns (ctrlResult, None) }
           else do {
             update_inst (\<lambda>i. i\<lparr>Status := (Status i)\<lparr>ass_DatabaseHostname := hostname\<rparr>\<rparr>);
             update_inst (cmap (\<lambda>cs. MarkTrue CL cs DBReadyCondition (Lib ''DBReadyMessage'')));
             aodh_dbsync CL L A serviceLabels
           }
       }
   }"

definition reconcileInitAodh :: "'c condition_pkg \<Rightarrow> commonlib \<Rightarrow> ('c, 'w) platform \<Rightarrow> ('c, 's, 'w) autoscaling_api
    \<Rightarrow> (string, string) gomap \<Rightarrow> (('c Autoscaling, 'w) handler, reconcile_result outcome) state" where
  "reconcileInitAodh CL L P A serviceLabels = do {
     instance' \<leftarrow> get_inst;
     let aodh = as_Aodh (Spec instance');
     let ns = m_Namespace (Meta instance');
     (_, _, err) \<leftarrow> api (GetSecret P (ao_Secret aodh) ns);
     case err of
       Some e \<Rightarrow>
         if IsNotFound e
         then returns (requeue_after (seconds 10), Some (Errorf (''OpenStack secret '' @ ao_Secret aodh @ '' not found'')))
         else returns (Result0, Some e)
     | None \<Rightarrow> do {
         let ksSvcSpec = \<lparr>ks_ServiceType = autoscaling_ServiceType, ks_ServiceName = autoscaling_ServiceName,
           ks_ServiceDescription = ''Aodh for autoscaling Service'', ks_Enabled = True,
           ks_ServiceUser = ao_ServiceUser aodh, ks_Secret = ao_Secret aodh,
           ks_PasswordSelector = pw_AodhService (ao_PasswordSelectors aodh)\<rparr>;
         ((ctrlResult, err), conds) \<leftarrow> api (KeystoneService_CreateOrPatch P ksSvcSpec ns serviceLabels 10);
         if err \<noteq> None then returns (ctrlResult, err)
         else do {
           mirror_condition CL conds KeystoneServiceReadyCondition;
           if ctrlResult \<noteq> Result0 then returns (ctrlResult, None)
           else do {
             _ \<leftarrow> init_hash;
             aodh_database CL L A serviceLabels
           }
         }
       }
   }"


section \<open>The workload and its endpoints\<close>

definition allocate_labels :: "RoutedOverrideSpec \<Rightarrow> RoutedOverrideSpec" where
  "allocate_labels r = (if ov_EmbeddedLabelsAnnotations (ro_OverrideSpec r) = None
     then r\<lparr>ro_OverrideSpec := (ro_OverrideSpec r)\<lparr>ov_EmbeddedLabelsAnnotations := Some (None, None)\<rparr>\<rparr> else r)"

text \<open>
  \<open>svcOverride\<close> is a pointer: the one of the spec when it is set, so that allocating
  \<open>EmbeddedLabelsAnnotations\<close> through it writes to the spec of the instance, and a fresh struct otherwise.
\<close>

definition aodh_svcOverride :: "(('c Autoscaling, 'w) handler, RoutedOverrideSpec) state" where
  "aodh_svcOverride = do {
     instance' \<leftarrow> get_inst;
     case ao_Service (ao_Override (as_Aodh (Spec instance'))) of
       None \<Rightarrow> return (allocate_labels
         \<lparr>ro_OverrideSpec = \<lparr>ov_EmbeddedLabelsAnnotations = None, ov_Rest = []\<rparr>, ro_EndpointURL = None\<rparr>)
     | Some r \<Rightarrow> do {
         update_inst (\<lambda>i. i\<lparr>Spec := (Spec i)\<lparr>as_Aodh := (as_Aodh (Spec i))\<lparr>ao_Override :=
           \<lparr>ao_Service = Some (allocate_labels r)\<rparr>\<rparr>\<rparr>\<rparr>);
         return (allocate_labels r)
       }
   }"

text \<open>The annotations that the loop adds to a service helper.\<close>

definition aodh_annotate :: "commonlib \<Rightarrow> 's service_pkg \<Rightarrow> string \<Rightarrow> 's \<Rightarrow> 's" where
  "aodh_annotate L V endpointType svc =
    (let svc1 = AddAnnotation V svc [AnnotationEndpointKey V \<mapsto> endpointType]
     in if endpointType = service_EndpointPublic L \<and> GetServiceType V svc1 = ''ClusterIP''
        then AddAnnotation V svc1 [AnnotationIngressCreateKey V \<mapsto> ''true'']
        else (let svc2 = AddAnnotation V svc1 [AnnotationIngressCreateKey V \<mapsto> ''false'']
              in if GetServiceType V svc2 = ''LoadBalancer''
                 then AddAnnotation V svc2 [AnnotationHostnameKey V \<mapsto> GetServiceHostname V svc2]
                 else svc2))"

text \<open>The body of the loop: \<open>Inl\<close> when the function returns from it, \<open>Inr\<close> with the new \<open>apiEndpoints\<close> otherwise.\<close>

definition aodh_endpoint :: "'c condition_pkg \<Rightarrow> commonlib \<Rightarrow> 's service_pkg \<Rightarrow> ('c, 's, 'w) autoscaling_api
    \<Rightarrow> string \<Rightarrow> endpoint_Data \<Rightarrow> (string \<rightharpoonup> string)
    \<Rightarrow> (('c Autoscaling, 'w) handler, reconcile_result + (string \<rightharpoonup> string)) state" where
  "aodh_endpoint CL L V A endpointType data apiEndpoints = do {
     let failed = (\<lambda>e. update_inst (cmap (\<lambda>cs. cond_Set CL cs (Some (FalseCondition CL ExposeServiceReadyCondition ErrorReason
       SeverityWarning (Lib ''ExposeServiceReadyErrorMessage'') [Error e])))));
     let serviceLabels = Some [AppSelector L \<mapsto> autoscaling_ServiceName];
     let endpointName = autoscaling_ServiceName @ ''-'' @ endpointType;
     svcOverride \<leftarrow> aodh_svcOverride;
     instance' \<leftarrow> get_inst;
     let exportLabels = MergeStringMaps L serviceLabels (Some [AnnotationEndpointKey V \<mapsto> endpointType]);
     case NewService V \<lparr>gs_Name = endpointName, gs_Namespace = m_Namespace (Meta instance'), gs_Labels = exportLabels,
         gs_Selector = serviceLabels, gs_PortName = endpointName, gs_Port = ed_Port data, gs_Protocol = ''TCP''\<rparr>
         5 (ro_OverrideSpec svcOverride) of
       Inl e \<Rightarrow> do { _ \<leftarrow> failed e; return (Inl (Result0, Some e)) }
     | Inr svc \<Rightarrow> do {
         ((ctrlResult, err), svc) \<leftarrow> api (Svc_CreateOrPatch A (aodh_annotate L V endpointType svc));
         case err of
           Some e \<Rightarrow> do { _ \<leftarrow> failed e; return (Inl (ctrlResult, Some e)) }
         | None \<Rightarrow>
           if ctrlResult \<noteq> Result0 then do {
             update_inst (cmap (\<lambda>cs. cond_Set CL cs (Some (FalseCondition CL ExposeServiceReadyCondition RequestedReason
               SeverityInfo (Lib ''ExposeServiceReadyRunningMessage'') []))));
             return (Inl (ctrlResult, None))
           }
           else (case GetAPIEndpoint V svc (ro_EndpointURL svcOverride) (ed_Protocol data) (ed_Path data) of
             Inl e \<Rightarrow> return (Inl (Result0, Some e))
           | Inr url \<Rightarrow> return (Inr (apiEndpoints(endpointType \<mapsto> url))))
       }
   }"

fun aodh_endpoints_loop :: "'c condition_pkg \<Rightarrow> commonlib \<Rightarrow> 's service_pkg \<Rightarrow> ('c, 's, 'w) autoscaling_api
    \<Rightarrow> (string \<times> endpoint_Data) list \<Rightarrow> (string \<rightharpoonup> string)
    \<Rightarrow> (('c Autoscaling, 'w) handler, reconcile_result + (string \<rightharpoonup> string)) state" where
  "aodh_endpoints_loop CL L V A [] apiEndpoints = return (Inr apiEndpoints)"
| "aodh_endpoints_loop CL L V A ((endpointType, data) # rest) apiEndpoints = do {
     r \<leftarrow> aodh_endpoint CL L V A endpointType data apiEndpoints;
     case r of
       Inl ret \<Rightarrow> return (Inl ret)
     | Inr apiEndpoints \<Rightarrow> aodh_endpoints_loop CL L V A rest apiEndpoints
   }"

definition aodhEndpoints :: "commonlib \<Rightarrow> (string \<times> endpoint_Data) list" where
  "aodhEndpoints L =
    (let data = \<lparr>ed_Port = AodhAPIPort, ed_Path = '''', ed_Protocol = None\<rparr>
     in AList.update (service_EndpointPublic L) data (AList.update (service_EndpointInternal L) data []))"

text \<open>
  \<open>reconcileNormalAodh\<close> from the endpoints on. Go leaves the order of a loop over a map open: \<open>visit\<close> is
  the order in which this run visits the entries.
\<close>

definition aodh_expose :: "'c condition_pkg \<Rightarrow> commonlib \<Rightarrow> 's service_pkg \<Rightarrow> ('c, 's, 'w) autoscaling_api
    \<Rightarrow> ((string \<times> endpoint_Data) list \<Rightarrow> (string \<times> endpoint_Data) list)
    \<Rightarrow> (('c Autoscaling, 'w) handler, reconcile_result) state" where
  "aodh_expose CL L V A visit = do {
     r \<leftarrow> aodh_endpoints_loop CL L V A (visit (aodhEndpoints L)) Map.empty;
     case r of
       Inl ret \<Rightarrow> return ret
     | Inr apiEndpoints \<Rightarrow> do {
         update_inst (cmap (\<lambda>cs. MarkTrue CL cs ExposeServiceReadyCondition (Lib ''ExposeServiceReadyMessage'')));
         update_inst (\<lambda>i. i\<lparr>Status := (Status i)\<lparr>ass_APIEndpoints := Some apiEndpoints\<rparr>\<rparr>);
         instance' \<leftarrow> get_inst;
         ((ctrlResult, err), conds) \<leftarrow> api (KeystoneEndpoint_CreateOrPatch A autoscaling_ServiceName (m_Namespace (Meta instance'))
           \<lparr>ke_ServiceName = autoscaling_ServiceName, ke_Endpoints = ass_APIEndpoints (Status instance')\<rparr>
           (Some [AppSelector L \<mapsto> autoscaling_ServiceName]) (seconds 10));
         if err \<noteq> None then return (ctrlResult, err)
         else do {
           mirror_condition CL conds KeystoneEndpointReadyCondition;
           if ctrlResult \<noteq> Result0 then return (ctrlResult, None)
           else return (Result0, None)
         }
       }
   }"

definition reconcileNormalAodh :: "'c condition_pkg \<Rightarrow> controllerutil \<Rightarrow> commonlib \<Rightarrow> 's service_pkg \<Rightarrow> ('c, 'w) platform
    \<Rightarrow> ('c, 's, 'w) autoscaling_api \<Rightarrow> ((string \<times> endpoint_Data) list \<Rightarrow> (string \<times> endpoint_Data) list) \<Rightarrow> string
    \<Rightarrow> (('c Autoscaling, 'w) handler, reconcile_result) state" where
  "reconcileNormalAodh CL U L V P A visit inputHash = do {
     let serviceLabels = Some [AppSelector L \<mapsto> autoscaling_ServiceName];
     instance' \<leftarrow> get_inst;
     case AodhStatefulSet L instance' inputHash serviceLabels of
       Inl e \<Rightarrow> return (Result0, Some e)
     | Inr sfsetDef \<Rightarrow> do {
         ((ctrlResult, err), readyReplicas) \<leftarrow> api (StatefulSet_CreateOrPatch P sfsetDef (seconds 5));
         case err of
           Some e \<Rightarrow> do {
             update_inst (cmap (\<lambda>cs. cond_Set CL cs (Some (FalseCondition CL DeploymentReadyCondition ErrorReason
               SeverityWarning (Lib ''DeploymentReadyErrorMessage'') [Error e]))));
             return (ctrlResult, Some e)
           }
         | None \<Rightarrow>
           if ctrlResult \<noteq> Result0 then do {
             update_inst (cmap (\<lambda>cs. cond_Set CL cs (Some (FalseCondition CL DeploymentReadyCondition RequestedReason
               SeverityInfo (Lib ''DeploymentReadyRunningMessage'') []))));
             return (ctrlResult, None)
           }
           else (case SetControllerReference U ''Autoscaling'' (Meta instance') (ss_Meta sfsetDef) of
             Inl e \<Rightarrow> return (Result0, Some e)
           | Inr _ \<Rightarrow> do {
               update_inst (\<lambda>i. i\<lparr>Status := (Status i)\<lparr>ass_ReadyCount := readyReplicas\<rparr>\<rparr>);
               (if 0 <s readyReplicas
                then update_inst (cmap (\<lambda>cs. MarkTrue CL cs DeploymentReadyCondition (Lib ''DeploymentReadyMessage'')))
                else return ());
               update_inst (\<lambda>i. i\<lparr>Status := (Status i)\<lparr>ass_Networks := ao_NetworkAttachmentDefinitions (as_Aodh (Spec i))\<rparr>\<rparr>);
               aodh_expose CL L V A visit
             })
       }
   }"


section \<open>Properties\<close>

text \<open>What the loop over the endpoints may change: one condition, and the pointer it allocates in the spec.\<close>

definition allocated :: "AutoscalingSpec \<Rightarrow> AutoscalingSpec" where
  "allocated spec = spec\<lparr>as_Aodh := (as_Aodh spec)\<lparr>ao_Override :=
     \<lparr>ao_Service = map_option allocate_labels (ao_Service (ao_Override (as_Aodh spec)))\<rparr>\<rparr>\<rparr>"

lemma allocate_labels_idem [simp]: "allocate_labels (allocate_labels r) = allocate_labels r"
  by (simp add: allocate_labels_def)

lemma allocated_idem [simp]: "allocated (allocated spec) = allocated spec"
  by (simp add: allocated_def option.map_comp comp_def)

lemma allocated_simps [simp]:
  "as_PrometheusHost (allocated spec) = as_PrometheusHost spec" "as_PrometheusPort (allocated spec) = as_PrometheusPort spec"
  "as_HeatInstance (allocated spec) = as_HeatInstance spec"
  "ao_NetworkAttachmentDefinitions (as_Aodh (allocated spec)) = ao_NetworkAttachmentDefinitions (as_Aodh spec)"
  "ao_Service (ao_Override (as_Aodh (allocated spec))) = map_option allocate_labels (ao_Service (ao_Override (as_Aodh spec)))"
  by (simp_all add: allocated_def)

definition expose_frame :: "'c condition_pkg \<Rightarrow> 'c Autoscaling \<Rightarrow> 'c Autoscaling \<Rightarrow> bool" where
  "expose_frame CL i i' \<longleftrightarrow> Meta i' = Meta i \<and> (Spec i' = Spec i \<or> Spec i' = allocated (Spec i)) \<and>
     (Status i')\<lparr>Conditions := None\<rparr> = (Status i)\<lparr>Conditions := None\<rparr> \<and>
     (\<forall>t. t \<noteq> ExposeServiceReadyCondition \<longrightarrow>
        IsTrue CL (Conditions (Status i')) t = IsTrue CL (Conditions (Status i)) t)"

lemma expose_frame_refl [simp]: "expose_frame CL i i"
  by (simp add: expose_frame_def)

lemma expose_frame_trans: "expose_frame CL i j \<Longrightarrow> expose_frame CL j k \<Longrightarrow> expose_frame CL i k"
  unfolding expose_frame_def by (elim conjE disjE) simp_all

lemma wp_aodh_svcOverride:
  "wp aodh_svcOverride (\<lambda>r s'. world s' = world s \<and> expose_frame CL (inst s) (inst s')) s"
proof (cases "ao_Service (ao_Override (as_Aodh (Spec (inst s))))")
  case (Some r)
  then have "(Spec (inst s))\<lparr>as_Aodh := (as_Aodh (Spec (inst s)))\<lparr>ao_Override := \<lparr>ao_Service = Some (allocate_labels r)\<rparr>\<rparr>\<rparr>
      = allocated (Spec (inst s))"
    by (simp add: allocated_def)
  with Some show ?thesis
    by (simp add: aodh_svcOverride_def wp_simps expose_frame_def)
qed (simp add: aodh_svcOverride_def wp_simps)


lemma expose_frame_fields:
  assumes "expose_frame CL i i'"
  shows "Hash (Status i') = Hash (Status i)" "ass_ReadyCount (Status i') = ass_ReadyCount (Status i)"
    "ass_Networks (Status i') = ass_Networks (Status i)"
    "ass_PrometheusHost (Status i') = ass_PrometheusHost (Status i)"
    "ass_PrometheusPort (Status i') = ass_PrometheusPort (Status i)"
    "ass_TransportURLSecret (Status i') = ass_TransportURLSecret (Status i)"
    "ass_DatabaseHostname (Status i') = ass_DatabaseHostname (Status i)"
    "Meta i' = Meta i"
    "ao_NetworkAttachmentDefinitions (as_Aodh (Spec i')) = ao_NetworkAttachmentDefinitions (as_Aodh (Spec i))"
    "as_PrometheusHost (Spec i') = as_PrometheusHost (Spec i)" "as_PrometheusPort (Spec i') = as_PrometheusPort (Spec i)"
proof -
  have st: "(Status i')\<lparr>Conditions := None\<rparr> = (Status i)\<lparr>Conditions := None\<rparr>"
    using assms by (simp add: expose_frame_def)
  show "Hash (Status i') = Hash (Status i)" using arg_cong [OF st, of Hash] by simp
  show "ass_ReadyCount (Status i') = ass_ReadyCount (Status i)" using arg_cong [OF st, of ass_ReadyCount] by simp
  show "ass_Networks (Status i') = ass_Networks (Status i)" using arg_cong [OF st, of ass_Networks] by simp
  show "ass_PrometheusHost (Status i') = ass_PrometheusHost (Status i)" using arg_cong [OF st, of ass_PrometheusHost] by simp
  show "ass_PrometheusPort (Status i') = ass_PrometheusPort (Status i)" using arg_cong [OF st, of ass_PrometheusPort] by simp
  show "ass_TransportURLSecret (Status i') = ass_TransportURLSecret (Status i)"
    using arg_cong [OF st, of ass_TransportURLSecret] by simp
  show "ass_DatabaseHostname (Status i') = ass_DatabaseHostname (Status i)"
    using arg_cong [OF st, of ass_DatabaseHostname] by simp
qed (use assms in \<open>auto simp: expose_frame_def\<close>)

lemma expose_frame_Set:
  assumes "condition_laws CL Has ct tr" "expose_frame CL i j"
  shows "expose_frame CL i (cmap (\<lambda>cs. cond_Set CL cs (Some (FalseCondition CL ExposeServiceReadyCondition r sv m xs))) j)"
  using assms(2) by (simp add: expose_frame_def condition_laws.IsTrue_Set [OF assms(1)]
      condition_laws.ctype_FalseCondition [OF assms(1)]) (simp add: cmap_def)

lemma wp_aodh_endpoint:
  assumes laws: "condition_laws CL Has ct tr"
  shows "wp (aodh_endpoint CL L V A t d m) (\<lambda>r s'. expose_frame CL (inst s) (inst s') \<and>
    (case r of Inl (r, e) \<Rightarrow> r \<noteq> Result0 \<or> e \<noteq> None | Inr m' \<Rightarrow> \<exists>url. m' = m(t \<mapsto> url))) s"
  unfolding aodh_endpoint_def Let_def wp_simps
  by (rule wp_mono [OF wp_aodh_svcOverride [where CL = CL]])
    (auto simp: wp_simps intro!: wp_api_any expose_frame_Set [OF laws] split: sum.splits option.splits)

lemma wp_aodh_endpoints_loop:
  assumes laws: "condition_laws CL Has ct tr"
  shows "wp (aodh_endpoints_loop CL L V A xs m) (\<lambda>r s'. expose_frame CL (inst s) (inst s') \<and>
    (case r of Inl (r, e) \<Rightarrow> r \<noteq> Result0 \<or> e \<noteq> None | Inr m' \<Rightarrow> dom m' = dom m \<union> fst ` set xs)) s"
proof (induction xs arbitrary: m s)
  case Nil
  then show ?case by (simp add: wp_simps)
next
  case (Cons x xs)
  obtain t d where x: "x = (t, d)" by fastforce
  show ?case
    unfolding x aodh_endpoints_loop.simps wp_simps
  proof (rule wp_mono [OF wp_aodh_endpoint [OF laws]], goal_cases)
    case (1 r s')
    show ?case
    proof (cases r)
      case (Inl a)
      with 1 show ?thesis by (auto simp: wp_simps)
    next
      case (Inr m')
      with 1 obtain url where m': "m' = m(t \<mapsto> url)" by auto
      show ?thesis
        unfolding Inr sum.case
        by (rule wp_mono [OF Cons.IH]) (use 1 in \<open>auto simp: m' x split: sum.splits intro: expose_frame_trans\<close>)
    qed
  qed
qed

end
