(* ===== verification/Autoscaling_Controller.thy ===== *)
theory Autoscaling_Controller
  imports Aodh_Controller
begin

text \<open>
  \<^verbatim>\<open>controllers/autoscaling_controller.go\<close>: the Autoscaling controller asks for a message queue, checks
  the secret, Memcached and Heat it needs, renders the configuration of Aodh and then leaves the service
  to the functions of \<open>Aodh_Controller\<close>.
\<close>

section \<open>Inputs\<close>

definition Autoscaling_getSecret :: "'c condition_pkg \<Rightarrow> ('c, 'w) platform \<Rightarrow> string \<Rightarrow> env_vars
    \<Rightarrow> (('c Autoscaling, 'w) handler, (env_vars \<times> reconcile_result) outcome) state" where
  "Autoscaling_getSecret CL P secretName envVars = do {
     instance' \<leftarrow> get_inst;
     (secret, hash, err) \<leftarrow> api (GetSecret P secretName (m_Namespace (Meta instance')));
     case err of
       Some e \<Rightarrow>
         if IsNotFound e then do {
           update_inst (cmap (\<lambda>cs. cond_Set CL cs (Some (FalseCondition CL InputReadyCondition RequestedReason
             SeverityInfo (Lib ''InputReadyWaitingMessage'') []))));
           returns (envVars, requeue_after (seconds 10), Some (Errorf (''secret '' @ secretName @ '' not found'')))
         }
         else do {
           update_inst (cmap (\<lambda>cs. cond_Set CL cs (Some (FalseCondition CL InputReadyCondition ErrorReason
             SeverityWarning (Lib ''InputReadyErrorMessage'') [Error e]))));
           returns (envVars, Result0, Some e)
         }
     | None \<Rightarrow> pbind (deref secret) (\<lambda>s.
         returns (AList.update (''secret-'' @ se_Name s) (SetValue hash) envVars, Result0, None))
   }"

definition getAutoscalingMemcached :: "('c, 's, 'w) autoscaling_api \<Rightarrow> 'c Autoscaling \<Rightarrow> ('w, error + Memcached) state" where
  "getAutoscalingMemcached A instance' = Get_Memcached A
     \<lparr>nn_Namespace = m_Namespace (Meta instance'), nn_Name = ao_MemcachedInstance (as_Aodh (Spec instance'))\<rparr>"

definition getAutoscalingHeat :: "('c, 's, 'w) autoscaling_api \<Rightarrow> 'c Autoscaling \<Rightarrow> ('w, error + Heat) state" where
  "getAutoscalingHeat A instance' = Get_Heat A
     \<lparr>nn_Namespace = m_Namespace (Meta instance'), nn_Name = as_HeatInstance (Spec instance')\<rparr>"

definition Autoscaling_generateServiceConfig :: "commonlib \<Rightarrow> ('c, 'w) platform \<Rightarrow> env_vars \<Rightarrow> Memcached
    \<Rightarrow> (('c Autoscaling, 'w) handler, (env_vars \<times> error option) outcome) state" where
  "Autoscaling_generateServiceConfig L P envVars mc = do {
     instance' \<leftarrow> get_inst;
     let ns = m_Namespace (Meta instance');
     let aodh = as_Aodh (Spec instance');
     let cmLabels = GetLabels L (Meta instance') (GetGroupLabel L autoscaling_ServiceName) (Some Map.empty);
     let customData = map_overwrite [CustomServiceConfigFileName L \<mapsto> ao_CustomServiceConfig aodh]
       (ao_DefaultConfigOverwrite aodh);
     keystone \<leftarrow> api (GetKeystoneAPI P ns);
     case keystone of
       Inl err \<Rightarrow> returns (envVars, Some err)
     | Inr keystoneAPI \<Rightarrow> (case keystoneAPI (endpoint_EndpointInternal L) of
           Inl err \<Rightarrow> returns (envVars, Some err)
         | Inr keystoneInternalURL \<Rightarrow> do {
             (ospSecret, _, err) \<leftarrow> api (GetSecret P (ao_Secret aodh) ns);
             if err \<noteq> None then returns (envVars, err)
             else do {
               (transportURLSecret, _, err) \<leftarrow> api (GetSecret P (ass_TransportURLSecret (Status instance')) ns);
               if err \<noteq> None then returns (envVars, err)
               else pbind (deref ospSecret) (\<lambda>osp. pbind (deref transportURLSecret) (\<lambda>ts. do {
                 let templateParameters = [
                   ''AodhUser'' \<mapsto> VString (ao_ServiceUser aodh),
                   ''AodhPassword'' \<mapsto> VString (map_read (se_Data osp) (pw_AodhService (ao_PasswordSelectors aodh))),
                   ''KeystoneInternalURL'' \<mapsto> VString keystoneInternalURL,
                   ''TransportURL'' \<mapsto> VString (map_read (se_Data ts) ''transport_url''),
                   ''PrometheusHost'' \<mapsto> VString (ass_PrometheusHost (Status instance')),
                   ''PrometheusPort'' \<mapsto> VInt32 (ass_PrometheusPort (Status instance')),
                   ''MemcachedServers'' \<mapsto> VString (strings_Join (mc_ServerList mc) '',''),
                   ''MemcachedServersWithInet'' \<mapsto> VString (strings_Join (mc_ServerListWithInet mc) '',''),
                   ''DatabaseConnection'' \<mapsto> VString (''mysql+pymysql://'' @ ao_DatabaseUser aodh @ '':'' @
                     map_read (se_Data osp) (pw_Database (ao_PasswordSelectors aodh)) @ ''@'' @
                     ass_DatabaseHostname (Status instance') @ ''/'' @ autoscaling_DatabaseName)];
                 let cms = [
                   \<lparr>tp_Name = autoscaling_ServiceName @ ''-scripts'', tp_Namespace = ns, tp_Type = TemplateTypeScripts,
                    tp_InstanceType = m_Kind (Meta instance'),
                    tp_AdditionalTemplate = Some [''common.sh'' \<mapsto> ''/common/common.sh''],
                    tp_CustomData = None, tp_ConfigOptions = None, tp_Labels = cmLabels\<rparr>,
                   \<lparr>tp_Name = autoscaling_ServiceName @ ''-config-data'', tp_Namespace = ns, tp_Type = TemplateTypeConfig,
                    tp_InstanceType = m_Kind (Meta instance'), tp_AdditionalTemplate = None,
                    tp_CustomData = Some customData, tp_ConfigOptions = Some templateParameters, tp_Labels = cmLabels\<rparr>];
                 r \<leftarrow> api (EnsureSecrets P (Meta instance') cms envVars);
                 returns r
               }))
             }
           })
   }"

definition Autoscaling_createHashOfInputHashes :: "commonlib \<Rightarrow> env_vars
    \<Rightarrow> (('c Autoscaling, 'w) handler, string \<times> bool \<times> error option) state" where
  "Autoscaling_createHashOfInputHashes L envVars = do {
     instance' \<leftarrow> get_inst;
     let (hash, err) = ObjectHash L (MergeEnvs L [] envVars);
     if err \<noteq> None then return (hash, False, err)
     else do {
       let (hashMap, changed) = SetHash L (Hash (Status instance')) (InputHashName L) hash;
       (if changed then update_inst (set_Hash hashMap) else return ());
       return (hash, changed, None)
     }
   }"

interpretation aut_hash: input_hasher "Autoscaling_createHashOfInputHashes L" L for L
  by unfold_locales (rule ext, unfold Autoscaling_createHashOfInputHashes_def hash_of_inputs_def, rule refl)

definition Autoscaling_mutate_transportURL :: "controllerutil \<Rightarrow> 'c Autoscaling \<Rightarrow> TransportURL \<Rightarrow> error + TransportURL" where
  "Autoscaling_mutate_transportURL U instance' t =
    (let t1 = t\<lparr>tu_RabbitmqClusterName := ao_RabbitMqClusterName (as_Aodh (Spec instance'))\<rparr>
     in case SetControllerReference U ''Autoscaling'' (Meta instance') (tu_Meta t1) of
          Inl err \<Rightarrow> Inl err
        | Inr m \<Rightarrow> Inr (t1\<lparr>tu_Meta := m\<rparr>))"

definition Autoscaling_transportURLCreateOrUpdate :: "controllerutil \<Rightarrow> ('c, 'w) platform \<Rightarrow> 'c Autoscaling
    \<Rightarrow> ('w, error + TransportURL) state" where
  "Autoscaling_transportURLCreateOrUpdate U P instance' =
     TransportURL_CreateOrUpdate P
       \<lparr>tu_Meta = ObjectMeta_named (autoscaling_ServiceName @ ''-transport'') (m_Namespace (Meta instance')),
        tu_RabbitmqClusterName = '''', tu_SecretName = ''''\<rparr>
       (Autoscaling_mutate_transportURL U instance')"

section \<open>Reconcile\<close>

definition Autoscaling_reconcileDelete :: "controllerutil \<Rightarrow> ('c, 'w) platform \<Rightarrow> ('c, 's, 'w) autoscaling_api
    \<Rightarrow> (('c Autoscaling, 'w) handler, reconcile_result) state" where
  "Autoscaling_reconcileDelete U P A = do {
     (ctrlResult, err) \<leftarrow> reconcileDeleteAodh U P A;
     if err \<noteq> None then return (ctrlResult, err)
     else if ctrlResult \<noteq> Result0 then return (ctrlResult, None)
     else do {
       remove_finalizer U A;
       return (Result0, None)
     }
   }"

definition Autoscaling_reconcileInit :: "'c condition_pkg \<Rightarrow> commonlib \<Rightarrow> ('c, 'w) platform \<Rightarrow> ('c, 's, 'w) autoscaling_api
    \<Rightarrow> (string, string) gomap \<Rightarrow> (('c Autoscaling, 'w) handler, reconcile_result outcome) state" where
  "Autoscaling_reconcileInit CL L P A serviceLabels =
     pbind (reconcileInitAodh CL L P A serviceLabels) (\<lambda>(ctrlResult, err).
       if err \<noteq> None then returns (ctrlResult, err)
       else if ctrlResult \<noteq> Result0 then returns (ctrlResult, None)
       else returns (Result0, None))"

text \<open>The host and port of Prometheus.\<close>

definition set_prometheus :: "'c Autoscaling \<Rightarrow> 'c Autoscaling" where
  "set_prometheus i = i\<lparr>Status := (Status i)\<lparr>
     ass_PrometheusHost := (if as_PrometheusHost (Spec i) = ''''
       then metricstorage_DefaultServiceName @ ''-prometheus.'' @ m_Namespace (Meta i) @ ''.svc''
       else as_PrometheusHost (Spec i)),
     ass_PrometheusPort := (if as_PrometheusPort (Spec i) = 0 then DefaultPrometheusPort
       else as_PrometheusPort (Spec i))\<rparr>\<rparr>"


text \<open>\<open>reconcileNormal\<close> from the service init on: the result is looked at before the error.\<close>

definition Autoscaling_deploy :: "'c condition_pkg \<Rightarrow> controllerutil \<Rightarrow> commonlib \<Rightarrow> 's service_pkg \<Rightarrow> ('c, 'w) platform
    \<Rightarrow> ('c, 's, 'w) autoscaling_api \<Rightarrow> ((string \<times> endpoint_Data) list \<Rightarrow> (string \<times> endpoint_Data) list) \<Rightarrow> string
    \<Rightarrow> (('c Autoscaling, 'w) handler, reconcile_result outcome) state" where
  "Autoscaling_deploy CL U L V P A visit inputHash =
     pbind (Autoscaling_reconcileInit CL L P A (Some [AppSelector L \<mapsto> autoscaling_ServiceName])) (\<lambda>(ctrlResult, err).
       if ctrlResult \<noteq> Result0 then returns (ctrlResult, None)
       else if err \<noteq> None then returns (ctrlResult, err)
       else do {
         (ctrlResult, err) \<leftarrow> reconcileNormalAodh CL U L V P A visit inputHash;
         if ctrlResult \<noteq> Result0 then returns (ctrlResult, None)
         else if err \<noteq> None then returns (ctrlResult, err)
         else returns (Result0, None)
       })"

text \<open>\<open>reconcileNormal\<close> from the address of Prometheus to the stored hash.\<close>

definition Autoscaling_configure :: "'c condition_pkg \<Rightarrow> controllerutil \<Rightarrow> commonlib \<Rightarrow> 's service_pkg \<Rightarrow> ('c, 'w) platform
    \<Rightarrow> ('c, 's, 'w) autoscaling_api \<Rightarrow> ((string \<times> endpoint_Data) list \<Rightarrow> (string \<times> endpoint_Data) list)
    \<Rightarrow> Memcached \<Rightarrow> env_vars \<Rightarrow> (('c Autoscaling, 'w) handler, reconcile_result outcome) state" where
  "Autoscaling_configure CL U L V P A visit memcached configMapVars =
    (let failed = (\<lambda>e. do {
           update_inst (cmap (\<lambda>cs. cond_Set CL cs (Some (FalseCondition CL ServiceConfigReadyCondition ErrorReason
             SeverityWarning (Lib ''ServiceConfigReadyErrorMessage'') [Error e]))));
           returns (Result0, Some e)
         })
     in do {
       update_inst set_prometheus;
       pbind (Autoscaling_generateServiceConfig L P configMapVars memcached) (\<lambda>(configMapVars, err).
         case err of
           Some e \<Rightarrow> failed e
         | None \<Rightarrow> do {
             (inputHash, hashChanged, err) \<leftarrow> Autoscaling_createHashOfInputHashes L configMapVars;
             case err of
               Some e \<Rightarrow> failed e
             | None \<Rightarrow>
               if hashChanged then returns (Result0, None)
               else pbind (store_Hash (InputHashName L) inputHash) (\<lambda>_. Autoscaling_deploy CL U L V P A visit inputHash)
           })
     })"

text \<open>\<open>reconcileNormal\<close> from Heat to the secret of the message queue.\<close>

definition Autoscaling_heat :: "'c condition_pkg \<Rightarrow> controllerutil \<Rightarrow> commonlib \<Rightarrow> 's service_pkg \<Rightarrow> ('c, 'w) platform
    \<Rightarrow> ('c, 's, 'w) autoscaling_api \<Rightarrow> ((string \<times> endpoint_Data) list \<Rightarrow> (string \<times> endpoint_Data) list)
    \<Rightarrow> Memcached \<Rightarrow> env_vars \<Rightarrow> (('c Autoscaling, 'w) handler, reconcile_result outcome) state" where
  "Autoscaling_heat CL U L V P A visit memcached configMapVars = do {
     let set_false = (\<lambda>reason severity message args. update_inst (cmap (\<lambda>cs. cond_Set CL cs
       (Some (FalseCondition CL HeatReadyCondition reason severity message args)))));
     instance' \<leftarrow> get_inst;
     heat \<leftarrow> api (getAutoscalingHeat A instance');
     case heat of
       Inl e \<Rightarrow>
         if IsNotFound e then do {
           _ \<leftarrow> set_false RequestedReason SeverityInfo HeatReadyNotFoundMessage [];
           returns (requeue_after (seconds 10), Some (Errorf (''heat '' @ as_HeatInstance (Spec instance') @ '' not found'')))
         }
         else do {
           _ \<leftarrow> set_false ErrorReason SeverityWarning HeatReadyErrorMessage [Error e];
           returns (Result0, Some e)
         }
     | Inr heat \<Rightarrow>
         if \<not> ht_IsReady heat then do {
           _ \<leftarrow> set_false RequestedReason SeverityInfo HeatReadyUnreadyMessage [];
           returns (requeue_after (seconds 10), Some (Errorf (''heat '' @ ht_Name heat @ '' is not ready'')))
         }
         else do {
           update_inst (cmap (\<lambda>cs. MarkTrue CL cs HeatReadyCondition (Lib ''ReadyMessage'')));
           instance' \<leftarrow> get_inst;
           pbind (Autoscaling_getSecret CL P (ass_TransportURLSecret (Status instance')) configMapVars)
             (\<lambda>(configMapVars, ctrlResult, err).
               if err \<noteq> None then returns (ctrlResult, err)
               else Autoscaling_configure CL U L V P A visit memcached configMapVars)
         }
   }"

text \<open>\<open>reconcileNormal\<close>: Memcached and what follows.\<close>

definition Autoscaling_memcached :: "'c condition_pkg \<Rightarrow> controllerutil \<Rightarrow> commonlib \<Rightarrow> 's service_pkg \<Rightarrow> ('c, 'w) platform
    \<Rightarrow> ('c, 's, 'w) autoscaling_api \<Rightarrow> ((string \<times> endpoint_Data) list \<Rightarrow> (string \<times> endpoint_Data) list)
    \<Rightarrow> env_vars \<Rightarrow> (('c Autoscaling, 'w) handler, reconcile_result outcome) state" where
  "Autoscaling_memcached CL U L V P A visit configMapVars = do {
     let set_false = (\<lambda>reason severity message args. update_inst (cmap (\<lambda>cs. cond_Set CL cs
       (Some (FalseCondition CL MemcachedReadyCondition reason severity message args)))));
     instance' \<leftarrow> get_inst;
     memcached \<leftarrow> api (getAutoscalingMemcached A instance');
     case memcached of
       Inl e \<Rightarrow>
         if IsNotFound e then do {
           _ \<leftarrow> set_false RequestedReason SeverityInfo (Lib ''MemcachedReadyWaitingMessage'') [];
           returns (requeue_after (seconds 10),
             Some (Errorf (''memcached '' @ ao_MemcachedInstance (as_Aodh (Spec instance')) @ '' not found'')))
         }
         else do {
           _ \<leftarrow> set_false ErrorReason SeverityWarning (Lib ''MemcachedReadyErrorMessage'') [Error e];
           returns (Result0, Some e)
         }
     | Inr memcached \<Rightarrow>
         if \<not> mc_IsReady memcached then do {
           _ \<leftarrow> set_false RequestedReason SeverityInfo (Lib ''MemcachedReadyWaitingMessage'') [];
           returns (requeue_after (seconds 10), Some (Errorf (''memcached '' @ mc_Name memcached @ '' is not ready'')))
         }
         else do {
           update_inst (cmap (\<lambda>cs. MarkTrue CL cs MemcachedReadyCondition (Lib ''MemcachedReadyMessage'')));
           Autoscaling_heat CL U L V P A visit memcached configMapVars
         }
   }"

definition Autoscaling_reconcileNormal :: "'c condition_pkg \<Rightarrow> controllerutil \<Rightarrow> commonlib \<Rightarrow> 's service_pkg \<Rightarrow> ('c, 'w) platform
    \<Rightarrow> ('c, 's, 'w) autoscaling_api \<Rightarrow> ((string \<times> endpoint_Data) list \<Rightarrow> (string \<times> endpoint_Data) list)
    \<Rightarrow> (('c Autoscaling, 'w) handler, reconcile_result outcome) state" where
  "Autoscaling_reconcileNormal CL U L V P A visit = do {
     instance' \<leftarrow> get_inst;
     (conds, rbacResult, err) \<leftarrow> api (ReconcileRbac P (Autoscaling_RbacNamespace instance')
       (Autoscaling_RbacResourceName instance') rbacRules);
     update_inst (fold (Autoscaling_RbacConditionsSet CL) conds);
     if err \<noteq> None then returns (rbacResult, err)
     else if rbacResult \<noteq> Result0 then returns (rbacResult, None)
     else do {
       update_inst (cmap (\<lambda>cs. MarkTrue CL cs ServiceConfigReadyCondition (Lib ''ServiceConfigReadyMessage'')));
       instance' \<leftarrow> get_inst;
       t \<leftarrow> api (Autoscaling_transportURLCreateOrUpdate U P instance');
       case t of
         Inl e \<Rightarrow> do {
           update_inst (cmap (\<lambda>cs. cond_Set CL cs (Some (FalseCondition CL RabbitMqTransportURLReadyCondition ErrorReason
             SeverityWarning (Lib ''RabbitMqTransportURLReadyErrorMessage'') [Error e]))));
           returns (Result0, Some e)
         }
       | Inr transportURL \<Rightarrow> do {
           update_inst (\<lambda>i. i\<lparr>Status := (Status i)\<lparr>ass_TransportURLSecret := tu_SecretName transportURL\<rparr>\<rparr>);
           if tu_SecretName transportURL = '''' then do {
             update_inst (cmap (\<lambda>cs. cond_Set CL cs (Some (FalseCondition CL RabbitMqTransportURLReadyCondition RequestedReason
               SeverityInfo (Lib ''RabbitMqTransportURLReadyRunningMessage'') []))));
             returns (requeue_after (seconds 10), None)
           }
           else do {
             update_inst (cmap (\<lambda>cs. MarkTrue CL cs RabbitMqTransportURLReadyCondition (Lib ''RabbitMqTransportURLReadyMessage'')));
             pbind (Autoscaling_getSecret CL P (ao_Secret (as_Aodh (Spec instance'))) []) (\<lambda>(configMapVars, ctrlResult, err).
               if err \<noteq> None then returns (ctrlResult, err)
               else Autoscaling_memcached CL U L V P A visit configMapVars)
           }
         }
     }
   }"

definition Autoscaling_conditions :: "'c condition_pkg \<Rightarrow> 'c list" where
  "Autoscaling_conditions CL =
    [UnknownCondition CL ServiceAccountReadyCondition InitReason (Lib ''ServiceAccountReadyInitMessage''),
     UnknownCondition CL RoleReadyCondition InitReason (Lib ''RoleReadyInitMessage''),
     UnknownCondition CL RoleBindingReadyCondition InitReason (Lib ''RoleBindingReadyInitMessage''),
     UnknownCondition CL HeatReadyCondition InitReason HeatReadyInitMessage,
     UnknownCondition CL MemcachedReadyCondition InitReason (Lib ''MemcachedReadyInitMessage''),
     UnknownCondition CL ServiceConfigReadyCondition InitReason (Lib ''ServiceConfigReadyInitMessage''),
     UnknownCondition CL DBReadyCondition InitReason (Lib ''DBReadyInitMessage''),
     UnknownCondition CL DBSyncReadyCondition InitReason (Lib ''DBSyncReadyInitMessage''),
     UnknownCondition CL RabbitMqTransportURLReadyCondition InitReason (Lib ''RabbitMqTransportURLReadyInitMessage''),
     UnknownCondition CL DeploymentReadyCondition InitReason (Lib ''DeploymentReadyInitMessage''),
     UnknownCondition CL KeystoneServiceReadyCondition InitReason (Text ''''),
     UnknownCondition CL KeystoneEndpointReadyCondition InitReason (Text '''')]"

definition Autoscaling_work :: "'c condition_pkg \<Rightarrow> controllerutil \<Rightarrow> commonlib \<Rightarrow> 's service_pkg \<Rightarrow> ('c, 'w) platform
    \<Rightarrow> ('c, 's, 'w) autoscaling_api \<Rightarrow> ((string \<times> endpoint_Data) list \<Rightarrow> (string \<times> endpoint_Data) list)
    \<Rightarrow> 'c Autoscaling \<Rightarrow> (('c Autoscaling, 'w) handler, reconcile_result outcome) state" where
  "Autoscaling_work CL U L V P A visit before = do {
     _ \<leftarrow> init_hash;
     instance' \<leftarrow> get_inst;
     if m_DeletionTimestamp (Meta instance') \<noteq> None
     then do { r \<leftarrow> Autoscaling_reconcileDelete U P A; returns r }
     else Autoscaling_reconcileNormal CL U L V P A visit
   }"

definition Autoscaling_Reconcile :: "'c condition_pkg \<Rightarrow> controllerutil \<Rightarrow> commonlib \<Rightarrow> 's service_pkg \<Rightarrow> ('c, 'w) platform
    \<Rightarrow> ('c, 's, 'w) autoscaling_api \<Rightarrow> ((string \<times> endpoint_Data) list \<Rightarrow> (string \<times> endpoint_Data) list)
    \<Rightarrow> NamespacedName \<Rightarrow> ('w, reconcile_result outcome) state" where
  "Autoscaling_Reconcile CL U L V P A visit req = do {
     got \<leftarrow> Get_instance A req;
     case got of
       Inl err \<Rightarrow> if IsNotFound err then returns (Result0, None) else returns (Result0, Some err)
     | Inr instance' \<Rightarrow> (case NewHelper A instance' of
           Some err \<Rightarrow> returns (Result0, Some err)
         | None \<Rightarrow> with_inst instance' (do {
             out \<leftarrow> (do {
               added \<leftarrow> ensure_finalizer U A;
               if added then returns (Result0, None)
               else do {
                 i \<leftarrow> get_inst;
                 if Conditions (Status i) = None
                 then do { _ \<leftarrow> init_conditions CL (Autoscaling_conditions CL); returns (Result0, None) }
                 else Autoscaling_work CL U L V P A visit instance'
               }
             });
             deferred CL A False instance' out
           }))
   }"

interpretation aut: reconciler "Autoscaling_Reconcile CL U L V P A visit" CL U A "Autoscaling_conditions CL"
    "Autoscaling_work CL U L V P A visit" False for CL U L V P A visit
  by unfold_locales (unfold Autoscaling_Reconcile_def reconcile_frame_def reconcile_body_def, rule refl)

end
