(* ===== verification/Autoscaling_Passes.thy ===== *)
theory Autoscaling_Passes
  imports Autoscaling_Controller
begin

text \<open>
  What a pass of the Autoscaling controller achieves when it reports no error and no requeue, for every
  answer of the cluster and every order in which Go visits the endpoints, and that no pass panics.
\<close>

section \<open>The outcome of a pass\<close>

lemma fold_autoscaling_rbac:
  "Spec (fold (Autoscaling_RbacConditionsSet CL) conds i) = Spec i"
  "Meta (fold (Autoscaling_RbacConditionsSet CL) conds i) = Meta i"
  "Hash (Status (fold (Autoscaling_RbacConditionsSet CL) conds i)) = Hash (Status i)"
  by (induction conds arbitrary: i) (simp_all add: Autoscaling_RbacConditionsSet_def)

lemma cmap_ass [simp]:
  "ass_ReadyCount (Status (cmap f i)) = ass_ReadyCount (Status i)"
  "ass_Networks (Status (cmap f i)) = ass_Networks (Status i)"
  "ass_TransportURLSecret (Status (cmap f i)) = ass_TransportURLSecret (Status i)"
  "ass_DatabaseHostname (Status (cmap f i)) = ass_DatabaseHostname (Status i)"
  "ass_PrometheusHost (Status (cmap f i)) = ass_PrometheusHost (Status i)"
  "ass_PrometheusPort (Status (cmap f i)) = ass_PrometheusPort (Status i)"
  "ass_APIEndpoints (Status (cmap f i)) = ass_APIEndpoints (Status i)"
  by (simp_all add: cmap_def)

lemma set_Hash_ass [simp]:
  "ass_PrometheusHost (Status (set_Hash h i)) = ass_PrometheusHost (Status i)"
  "ass_PrometheusPort (Status (set_Hash h i)) = ass_PrometheusPort (Status i)"
  by (simp_all add: set_Hash_def)

lemma with_hash_ass [simp]:
  "ass_PrometheusHost (Status (with_hash i)) = ass_PrometheusHost (Status i)"
  "ass_PrometheusPort (Status (with_hash i)) = ass_PrometheusPort (Status i)"
  by (simp_all add: with_hash_def)

lemma HeatReadyCondition_distinct [simp]:
  "HeatReadyCondition \<noteq> ReadyCondition" "HeatReadyCondition \<noteq> InputReadyCondition"
  "HeatReadyCondition \<noteq> ServiceConfigReadyCondition" "HeatReadyCondition \<noteq> DeploymentReadyCondition"
  "HeatReadyCondition \<noteq> KeystoneServiceReadyCondition" "HeatReadyCondition \<noteq> KeystoneEndpointReadyCondition"
  "HeatReadyCondition \<noteq> MemcachedReadyCondition" "HeatReadyCondition \<noteq> DBReadyCondition"
  "HeatReadyCondition \<noteq> DBSyncReadyCondition" "HeatReadyCondition \<noteq> RabbitMqTransportURLReadyCondition"
  "HeatReadyCondition \<noteq> ExposeServiceReadyCondition" "HeatReadyCondition \<noteq> ServiceAccountReadyCondition"
  "HeatReadyCondition \<noteq> RoleReadyCondition" "HeatReadyCondition \<noteq> RoleBindingReadyCondition"
  by (simp_all add: HeatReadyCondition_def)

lemmas HeatReadyCondition_distinct' [simp] = HeatReadyCondition_distinct [symmetric]

text \<open>The inputs of Aodh are there, and the address of Prometheus is the one that the spec asks for.\<close>

definition aodh_inputs :: "'c condition_pkg \<Rightarrow> 'c Autoscaling \<Rightarrow> bool" where
  "aodh_inputs CL i \<longleftrightarrow>
     IsTrue CL (Conditions (Status i)) RabbitMqTransportURLReadyCondition \<and>
     IsTrue CL (Conditions (Status i)) MemcachedReadyCondition \<and>
     IsTrue CL (Conditions (Status i)) HeatReadyCondition \<and>
     IsTrue CL (Conditions (Status i)) ServiceConfigReadyCondition \<and>
     ass_PrometheusHost (Status i) = (if as_PrometheusHost (Spec i) = ''''
       then ''metric-storage-prometheus.'' @ m_Namespace (Meta i) @ ''.svc'' else as_PrometheusHost (Spec i)) \<and>
     ass_PrometheusPort (Status i) = (if as_PrometheusPort (Spec i) = 0 then 9090 else as_PrometheusPort (Spec i))"

definition aodh_database_ready :: "'c condition_pkg \<Rightarrow> 'c Autoscaling \<Rightarrow> bool" where
  "aodh_database_ready CL i \<longleftrightarrow> aodh_inputs CL i \<and>
     IsTrue CL (Conditions (Status i)) DBReadyCondition \<and> IsTrue CL (Conditions (Status i)) DBSyncReadyCondition"

definition aodh_deployed :: "'c condition_pkg \<Rightarrow> 'c Autoscaling \<Rightarrow> bool" where
  "aodh_deployed CL i \<longleftrightarrow> aodh_database_ready CL i \<and>
     ass_Networks (Status i) = ao_NetworkAttachmentDefinitions (as_Aodh (Spec i)) \<and>
     (0 <s ass_ReadyCount (Status i) \<longrightarrow> IsTrue CL (Conditions (Status i)) DeploymentReadyCondition)"

definition autoscaling_configured :: "'c condition_pkg \<Rightarrow> commonlib \<Rightarrow> 'c Autoscaling \<Rightarrow> bool" where
  "autoscaling_configured CL L i \<longleftrightarrow> aodh_deployed CL i \<and>
     IsTrue CL (Conditions (Status i)) ExposeServiceReadyCondition \<and>
     (\<exists>m. ass_APIEndpoints (Status i) = Some m \<and> dom m = {service_EndpointInternal L, service_EndpointPublic L})"

lemma aodhEndpoints_keys: "fst ` set (aodhEndpoints L) = {service_EndpointInternal L, service_EndpointPublic L}"
  by (auto simp: aodhEndpoints_def Let_def)

lemma aodh_deployed_frame:
  assumes "expose_frame CL i i'" "aodh_deployed CL i"
  shows "aodh_deployed CL i'"
  using assms(2) expose_frame_fields [OF assms(1)] assms(1)
  by (simp add: aodh_deployed_def aodh_database_ready_def aodh_inputs_def expose_frame_def)

lemma wp_aodh_expose:
  assumes laws: "condition_laws CL Has ct tr" and visit: "\<And>xs. set (visit xs) = set xs"
    and "aodh_deployed CL (inst s)"
  shows "wp (aodh_expose CL L V A visit) (\<lambda>(r, e) s'. r = Result0 \<and> e = None \<longrightarrow> autoscaling_configured CL L (inst s')) s"
  unfolding aodh_expose_def wp_simps
proof (rule wp_mono [OF wp_aodh_endpoints_loop [OF laws]], goal_cases)
  case (1 r s')
  then have d: "aodh_deployed CL (inst s')" using aodh_deployed_frame assms(3) by blast
  show ?case
    using 1 d condition_laws.ctype_Mirror [OF laws]
    by (auto simp: wp_simps mirror_condition_def visit aodhEndpoints_keys autoscaling_configured_def aodh_deployed_def aodh_database_ready_def
        aodh_inputs_def condition_laws.IsTrue_MarkTrue [OF laws] condition_laws.IsTrue_Set [OF laws]
        intro!: wp_api_any split: sum.splits option.splits)
qed


lemma wp_reconcileNormalAodh:
  assumes laws: "condition_laws CL Has ct tr" and visit: "\<And>xs. set (visit xs) = set xs"
    and "aodh_database_ready CL (inst s)"
  shows "wp (reconcileNormalAodh CL U L V P A visit hash)
    (\<lambda>(r, e) s'. r = Result0 \<and> e = None \<longrightarrow> autoscaling_configured CL L (inst s')) s"
  unfolding reconcileNormalAodh_def Let_def
  using assms(3)
  by (auto simp: wp_simps aodh_deployed_def aodh_database_ready_def aodh_inputs_def
      condition_laws.IsTrue_MarkTrue [OF laws]
      intro!: wp_api_any wp_aodh_expose [OF laws visit] split: sum.splits option.splits)

lemma wp_aodh_dbsync:
  assumes laws: "condition_laws CL Has ct tr"
    and "aodh_inputs CL (inst s)" "IsTrue CL (Conditions (Status (inst s))) DBReadyCondition"
    and "has_hash (inst s)"
  shows "wp (aodh_dbsync CL L A labels)
    (\<lambda>out s'. out = Return (Result0, None) \<longrightarrow> aodh_database_ready CL (inst s')) s"
proof -
  obtain h where h: "Hash (Status (inst s)) = Some h" using assms(4) by (auto simp: has_hash_def)
  show ?thesis
    unfolding aodh_dbsync_def Let_def
    using assms(2,3)
    by (auto simp: wp_simps wp_store_Hash h aodh_database_ready_def aodh_inputs_def condition_laws.IsTrue_MarkTrue [OF laws]
        intro!: wp_api_any split: option.splits)
qed

lemma wp_reconcileInitAodh:
  assumes laws: "condition_laws CL Has ct tr" and "aodh_inputs CL (inst s)"
  shows "wp (reconcileInitAodh CL L P A labels)
    (\<lambda>out s'. out = Return (Result0, None) \<longrightarrow> aodh_database_ready CL (inst s')) s"
  unfolding reconcileInitAodh_def mirror_condition_def aodh_database_def Let_def
  using assms(2) condition_laws.ctype_Mirror [OF laws]
  by (auto simp: wp_simps init_hash_def has_hash_def aodh_inputs_def condition_laws.IsTrue_MarkTrue [OF laws]
      condition_laws.IsTrue_Set [OF laws] seconds_def
      intro!: wp_api_any wp_aodh_dbsync [OF laws] split: option.splits)


lemma wp_autoscaling_deploy:
  assumes laws: "condition_laws CL Has ct tr" and visit: "\<And>xs. set (visit xs) = set xs"
    and "aodh_inputs CL (inst s)"
  shows "wp (Autoscaling_deploy CL U L V P A visit hash)
    (\<lambda>out s'. out = Return (Result0, None) \<longrightarrow> autoscaling_configured CL L (inst s')) s"
  unfolding Autoscaling_deploy_def Autoscaling_reconcileInit_def wp_simps
  by (rule wp_mono [OF wp_reconcileInitAodh [OF laws assms(3)]])
    (auto simp: wp_simps intro!: wp_mono [OF wp_reconcileNormalAodh [OF laws visit]] split: outcome.splits)

text \<open>What the steps that collect and render the inputs do to the instance, whatever the cluster answers.\<close>

lemma wp_autoscaling_getSecret:
  assumes "\<And>vars' w. Q (Return (vars', Result0, None)) (s\<lparr>world := w\<rparr>)"
    and "\<And>e r f w. Q (Return (vars, r, Some e)) (s\<lparr>world := w, inst := cmap f (inst s)\<rparr>)"
    and "\<And>m w. Q (Panic m) (s\<lparr>world := w\<rparr>)"
  shows "wp (Autoscaling_getSecret CL P name vars) Q s"
  unfolding Autoscaling_getSecret_def
  by (auto simp: wp_simps deref_def assms intro!: wp_api_any split: option.splits)

lemma wp_autoscaling_config:
  assumes "\<And>r w. Q (Return r) (s\<lparr>world := w\<rparr>)" and "\<And>m w. Q (Panic m) (s\<lparr>world := w\<rparr>)"
  shows "wp (Autoscaling_generateServiceConfig L P vars mc) Q s"
  unfolding Autoscaling_generateServiceConfig_def Let_def
  by (auto simp: wp_simps deref_def assms intro!: wp_api_any split: option.splits sum.splits)

lemma aodh_inputs_set_prometheus:
  "aodh_inputs CL (set_prometheus i) \<longleftrightarrow>
     IsTrue CL (Conditions (Status i)) RabbitMqTransportURLReadyCondition \<and>
     IsTrue CL (Conditions (Status i)) MemcachedReadyCondition \<and>
     IsTrue CL (Conditions (Status i)) HeatReadyCondition \<and>
     IsTrue CL (Conditions (Status i)) ServiceConfigReadyCondition"
  by (auto simp: aodh_inputs_def set_prometheus_def metricstorage_DefaultServiceName_def DefaultPrometheusPort_def)

lemma aodh_inputs_set_Hash [simp]: "aodh_inputs CL (set_Hash h i) = aodh_inputs CL i"
  by (simp add: aodh_inputs_def)

lemma set_prometheus_simps [simp]:
  "Conditions (Status (set_prometheus i)) = Conditions (Status i)" "Hash (Status (set_prometheus i)) = Hash (Status i)"
  "Spec (set_prometheus i) = Spec i" "Meta (set_prometheus i) = Meta i"
  by (simp_all add: set_prometheus_def)

lemma wp_autoscaling_configure:
  assumes laws: "condition_laws CL Has ct tr" and lib: "commonlib_laws L" and visit: "\<And>xs. set (visit xs) = set xs"
    and h: "Hash (Status (inst s)) = Some h" and "aodh_inputs CL (set_prometheus (inst s))"
  shows "wp (Autoscaling_configure CL U L V P A visit mc vars)
    (\<lambda>out s'. out = Return (Result0, None) \<longrightarrow> autoscaling_configured CL L (inst s') \<or>
       map_read (the (Hash (Status (inst s')))) (InputHashName L) \<noteq> map_read h (InputHashName L)) s"
proof -
  let ?Q = "\<lambda>out s'. out = Return (Result0, None) \<longrightarrow> autoscaling_configured CL L (inst s') \<or>
       map_read (the (Hash (Status (inst s')))) (InputHashName L) \<noteq> map_read h (InputHashName L)"
  have deploy: "wp (Autoscaling_deploy CL U L V P A visit hash) ?Q s'" if "aodh_inputs CL (inst s')" for hash s'
    by (rule wp_mono [OF wp_autoscaling_deploy [OF laws visit that]]) simp
  have stored: "map_read (the h') (InputHashName L) \<noteq> map_read h (InputHashName L)"
    if "SetHash L (Some h) (InputHashName L) v = (h', True)" for v h'
    using commonlib_laws.SetHash_stored [OF lib that] commonlib_laws.SetHash_changed [OF lib, of h "InputHashName L" v] that
    by auto
  show ?thesis
    unfolding Autoscaling_configure_def Let_def wp_simps
    by (rule wp_autoscaling_config;
        (auto simp: wp_simps split: option.splits)?;
        (rule aut_hash.wp_createHash_any;
          auto simp: wp_simps wp_store_Hash h stored assms(5) intro!: deploy)?)
qed

lemma wp_autoscaling_memcached:
  assumes laws: "condition_laws CL Has ct tr" and lib: "commonlib_laws L" and visit: "\<And>xs. set (visit xs) = set xs"
    and h: "Hash (Status (inst s)) = Some h"
    and "IsTrue CL (Conditions (Status (inst s))) RabbitMqTransportURLReadyCondition"
      "IsTrue CL (Conditions (Status (inst s))) ServiceConfigReadyCondition"
  shows "wp (Autoscaling_memcached CL U L V P A visit vars)
    (\<lambda>out s'. out = Return (Result0, None) \<longrightarrow> autoscaling_configured CL L (inst s') \<or>
       map_read (the (Hash (Status (inst s')))) (InputHashName L) \<noteq> map_read h (InputHashName L)) s"
  unfolding Autoscaling_memcached_def Autoscaling_heat_def Let_def
  using assms(5,6)
  by (auto simp: wp_simps h aodh_inputs_set_prometheus condition_laws.IsTrue_MarkTrue [OF laws] seconds_def
      intro!: wp_api_any wp_autoscaling_getSecret wp_autoscaling_configure [OF laws lib visit] split: sum.splits)

text \<open>
  C2: When a pass of the Autoscaling controller over an initialised instance returns neither an error nor
  a request to be called again, then either the stored hash of the inputs has changed, or everything is in
  place: queue, Memcached, Heat, configuration, database and its migration, and the exposed services are
  reported ready, the address of Prometheus is the one of the spec or the default, and the endpoints are
  exactly the internal and the public one, whatever the order in which Go visits the map of endpoints.
\<close>

theorem autoscaling_normal_outcome:
  assumes laws: "condition_laws CL Has ct tr" and lib: "commonlib_laws L" and visit: "\<And>xs. set (visit xs) = set xs"
    and h: "Hash (Status i) = Some h"
    and run: "run_state (Autoscaling_reconcileNormal CL U L V P A visit) \<lparr>inst = i, world = w\<rparr> = (Return (Result0, None), s')"
  shows "autoscaling_configured CL L (inst s') \<or>
    map_read (the (Hash (Status (inst s')))) (InputHashName L) \<noteq> map_read h (InputHashName L)"
proof -
  have "wp (Autoscaling_reconcileNormal CL U L V P A visit)
    (\<lambda>out s'. out = Return (Result0, None) \<longrightarrow> autoscaling_configured CL L (inst s') \<or>
       map_read (the (Hash (Status (inst s')))) (InputHashName L) \<noteq> map_read h (InputHashName L)) \<lparr>inst = i, world = w\<rparr>"
    unfolding Autoscaling_reconcileNormal_def wp_simps
    by (rule wp_api_any)
      (auto simp: wp_simps fold_autoscaling_rbac h condition_laws.IsTrue_MarkTrue [OF laws] seconds_def
        intro!: wp_api_any wp_autoscaling_getSecret wp_autoscaling_memcached [OF laws lib visit]
        split: sum.splits)
  from wp_run [OF this run] show ?thesis by simp
qed


text \<open>For witnesses: services that keep their annotations, and a cluster where every call succeeds.\<close>

definition ref_service_pkg :: "(GenericServiceDetails \<times> (string \<rightharpoonup> string)) service_pkg" where
  "ref_service_pkg = \<lparr>AnnotationEndpointKey = ''endpoint'', AnnotationIngressCreateKey = ''ingress'', AnnotationHostnameKey = ''hostname'',
     NewService = (\<lambda>d t ov. Inr (d, Map.empty)), AddAnnotation = (\<lambda>(d, m) a. (d, m ++ a)),
     GetServiceType = (\<lambda>_. ''ClusterIP''), GetServiceHostname = (\<lambda>(d, m). gs_Name d @ ''.svc''),
     GetAPIEndpoint = (\<lambda>(d, m) url protocol path. Inr (case url of None \<Rightarrow> ''http://'' @ gs_Name d @ path | Some u \<Rightarrow> u))\<rparr>"

definition ref_autoscaling_api :: "(ref_cond, GenericServiceDetails \<times> (string \<rightharpoonup> string), string list) autoscaling_api" where
  "ref_autoscaling_api = \<lparr>Get_instance = (\<lambda>_. return (Inr ref_autoscaling)), NewHelper = (\<lambda>_. None),
     GetFinalizer = ''autoscaling'', PatchInstance = (\<lambda>_ _. ref_log ''patch'' None),
     GetDatabaseByName = (\<lambda>name ns. ref_log ''get database'' (Inl ref_NotFound)),
     DB_DeleteFinalizer = (\<lambda>m. ref_log ''release database'' None),
     GetKeystoneEndpointWithName = (\<lambda>name ns. ref_log ''get keystone endpoint'' (Inl ref_NotFound)),
     Update_KeystoneEndpoint = (\<lambda>m. ref_log ''update keystone endpoint'' None),
     CreateOrPatchDBByName = (\<lambda>db name. ref_log (''create database '' @ db_DatabaseName db) (Result0, None)),
     WaitForDBCreated = (\<lambda>db. ref_log ''wait for database'' ((Result0, None), ''openstack-db'')),
     DoJob = (\<lambda>job type preserve t hash. ref_log ''run job'' ((Result0, None), hash \<noteq> ''synced'', ''synced'')),
     Svc_CreateOrPatch = (\<lambda>svc. ref_log (''patch service '' @ gs_Name (fst svc)) ((Result0, None), svc)),
     KeystoneEndpoint_CreateOrPatch = (\<lambda>name ns spec labels t.
       ref_log ''patch keystone endpoint'' ((Result0, None), Some [(ReadyCondition, True)])),
     Get_Memcached = (\<lambda>nn. ref_log ''get memcached''
       (Inr \<lparr>mc_Name = ''memcached'', mc_IsReady = True, mc_ServerList = [], mc_ServerListWithInet = []\<rparr>)),
     Get_Heat = (\<lambda>nn. ref_log ''get heat'' (Inr \<lparr>ht_Name = ''heat'', ht_IsReady = True\<rparr>))\<rparr>"

lemma ref_autoscaling_calls:
  "CreateOrPatchDBByName ref_autoscaling_api db name = ref_log (''create database '' @ db_DatabaseName db) (Result0, None)"
  "WaitForDBCreated ref_autoscaling_api db = ref_log ''wait for database'' ((Result0, None), ''openstack-db'')"
  "DoJob ref_autoscaling_api job type preserve t hash = ref_log ''run job'' ((Result0, None), hash \<noteq> ''synced'', ''synced'')"
  "Svc_CreateOrPatch ref_autoscaling_api svc = ref_log (''patch service '' @ gs_Name (fst svc)) ((Result0, None), svc)"
  "KeystoneEndpoint_CreateOrPatch ref_autoscaling_api name ns spec labels t =
     ref_log ''patch keystone endpoint'' ((Result0, None), Some [(ReadyCondition, True)])"
  "Get_Memcached ref_autoscaling_api nn = ref_log ''get memcached''
     (Inr \<lparr>mc_Name = ''memcached'', mc_IsReady = True, mc_ServerList = [], mc_ServerListWithInet = []\<rparr>)"
  "Get_Heat ref_autoscaling_api nn = ref_log ''get heat'' (Inr \<lparr>ht_Name = ''heat'', ht_IsReady = True\<rparr>)"
  "NewService ref_service_pkg d t ov = Inr (d, Map.empty)"
  "GetAPIEndpoint ref_service_pkg svc url protocol path =
     Inr (case url of None \<Rightarrow> ''http://'' @ gs_Name (fst svc) @ path | Some u \<Rightarrow> u)"
  by (simp_all add: ref_autoscaling_api_def ref_service_pkg_def split_beta)

lemma ref_expose:
  "wp (aodh_expose ref_pkg ref_commonlib ref_service_pkg ref_autoscaling_api rev) (\<lambda>r _. r = (Result0, None)) s"
  by (simp add: aodh_expose_def mirror_condition_def aodh_endpoint_def aodh_svcOverride_def aodhEndpoints_def wp_simps ref_calls
      ref_autoscaling_calls Let_def split: option.splits)

lemma ref_normalAodh:
  "wp (reconcileNormalAodh ref_pkg ref_controllerutil ref_commonlib ref_service_pkg ref_platform ref_autoscaling_api rev h)
     (\<lambda>r _. r = (Result0, None)) s"
  by (simp add: reconcileNormalAodh_def AodhStatefulSet_def wp_simps Let_def ref_expose ref_calls)

lemma ref_initAodh:
  "wp (reconcileInitAodh ref_pkg ref_commonlib ref_platform ref_autoscaling_api labels) (\<lambda>r _. r = Return (Result0, None)) s"
  by (simp add: reconcileInitAodh_def mirror_condition_def aodh_database_def aodh_dbsync_def init_hash_def store_Hash_def wp_simps Let_def
      ref_calls ref_autoscaling_calls split: option.splits)

lemma ref_deploy:
  "wp (Autoscaling_deploy ref_pkg ref_controllerutil ref_commonlib ref_service_pkg ref_platform ref_autoscaling_api rev h)
     (\<lambda>r _. r = Return (Result0, None)) s"
  unfolding Autoscaling_deploy_def Autoscaling_reconcileInit_def wp_simps
  by (rule wp_mono [OF ref_initAodh]) (auto simp: wp_simps intro!: wp_mono [OF ref_normalAodh])


lemma ref_commonlib_hash:
  "ObjectHash ref_commonlib (MergeEnvs ref_commonlib [] vars) = (concat (map (\<lambda>(n, s). case s of SetValue v \<Rightarrow> v) vars), None)"
  "SetHash ref_commonlib (Some m) k v = (if map_read m k = v then (Some m, False) else (Some (m(k \<mapsto> v)), True))"
  by (auto simp: ref_commonlib_def Let_def comp_def split_beta split: Setter.splits intro!: arg_cong [where f = concat])

definition ref_hash :: string where
  "ref_hash = ''hash-osp-secrethash-rabbitmq-transport-urlrenderedrendered''"

lemma ref_autoscaling_pass:
  "wp (Autoscaling_reconcileNormal ref_pkg ref_controllerutil ref_commonlib ref_service_pkg ref_platform ref_autoscaling_api rev)
     (\<lambda>r _. r = Return (Result0, None)) \<lparr>inst = set_Hash (Some [''input'' \<mapsto> ref_hash]) ref_autoscaling, world = []\<rparr>"
  by (simp add: Autoscaling_reconcileNormal_def Autoscaling_transportURLCreateOrUpdate_def
      Autoscaling_mutate_transportURL_def Autoscaling_getSecret_def Autoscaling_memcached_def getAutoscalingMemcached_def
      Autoscaling_heat_def getAutoscalingHeat_def Autoscaling_configure_def Autoscaling_generateServiceConfig_def
      Autoscaling_createHashOfInputHashes_def store_Hash_def wp_simps ref_calls ref_autoscaling_calls ref_commonlib_hash
      ref_InputHashName ref_deploy Let_def ref_autoscaling_def ref_hash_def autoscaling_ServiceName_def)

theorem autoscaling_normal_outcome_witness:
  "\<exists>s'. run_state (Autoscaling_reconcileNormal ref_pkg ref_controllerutil ref_commonlib ref_service_pkg ref_platform
      ref_autoscaling_api rev) \<lparr>inst = set_Hash (Some [''input'' \<mapsto> ref_hash]) ref_autoscaling, world = []\<rparr> = (Return (Result0, None), s') \<and>
     (autoscaling_configured ref_pkg ref_commonlib (inst s') \<or>
      map_read (the (Hash (Status (inst s')))) ''input'' \<noteq> ref_hash)"
proof -
  obtain s' where run: "run_state (Autoscaling_reconcileNormal ref_pkg ref_controllerutil ref_commonlib ref_service_pkg
      ref_platform ref_autoscaling_api rev) \<lparr>inst = set_Hash (Some [''input'' \<mapsto> ref_hash]) ref_autoscaling, world = []\<rparr>
      = (Return (Result0, None), s')"
    using wp_exists [OF ref_autoscaling_pass] by blast
  have "Hash (Status (set_Hash (Some [''input'' \<mapsto> ref_hash]) ref_autoscaling)) = Some [''input'' \<mapsto> ref_hash]" by simp
  from autoscaling_normal_outcome [OF ref.condition_laws_axioms ref_lib.commonlib_laws_axioms _ this run] run
  show ?thesis by (auto simp: ref_InputHashName)
qed


section \<open>No panics\<close>

lemma has_hash_fields [simp]:
  "has_hash (i\<lparr>Spec := sp\<rparr>) = has_hash i" "has_hash (set_prometheus i) = has_hash i" "has_hash (with_hash i)"
  "has_hash (i\<lparr>Status := (Status i)\<lparr>ass_ReadyCount := n\<rparr>\<rparr>) = has_hash i"
  "has_hash (i\<lparr>Status := (Status i)\<lparr>ass_Networks := ns\<rparr>\<rparr>) = has_hash i"
  "has_hash (i\<lparr>Status := (Status i)\<lparr>ass_TransportURLSecret := x\<rparr>\<rparr>) = has_hash i"
  "has_hash (i\<lparr>Status := (Status i)\<lparr>ass_DatabaseHostname := x\<rparr>\<rparr>) = has_hash i"
  "has_hash (i\<lparr>Status := (Status i)\<lparr>ass_APIEndpoints := m\<rparr>\<rparr>) = has_hash i"
  "has_hash (fold (Autoscaling_RbacConditionsSet CL) conds i) = has_hash i"
  by (simp_all add: has_hash_def fold_autoscaling_rbac)

lemma safe_autoscaling_getSecret:
  assumes "GetSecret_law P"
  shows "safe (of_inst has_hash) (Autoscaling_getSecret CL P name vars)"
  unfolding Autoscaling_getSecret_def
  by (intro safe_bind keeps_intros safe_GetSecret [OF assms])
    (auto intro!: safe_intros keeps_intros)

lemma safe_autoscaling_config:
  assumes "GetSecret_law P"
  shows "safe (of_inst has_hash) (Autoscaling_generateServiceConfig L P vars mc)"
  unfolding Autoscaling_generateServiceConfig_def Let_def
  by (intro safe_bind keeps_intros safe_case_sum safe_returns safe_GetSecret [OF assms];
      simp; intro safe_bind keeps_intros safe_case_sum safe_returns safe_GetSecret [OF assms];
      simp; intro safe_intros keeps_intros)


lemma keeps_aodh_endpoint: "keeps (of_inst has_hash) (aodh_endpoint CL L V A t d m)"
  unfolding aodh_endpoint_def aodh_svcOverride_def Let_def by (intro keeps_intros) simp_all

lemma keeps_aodh_endpoints_loop [keeps_intros]: "keeps (of_inst has_hash) (aodh_endpoints_loop CL L V A xs m)"
  by (induction xs arbitrary: m) (auto intro!: keeps_intros keeps_aodh_endpoint)

lemma keeps_reconcileNormalAodh [keeps_intros]:
  "keeps (of_inst has_hash) (reconcileNormalAodh CL U L V P A visit hash)"
  unfolding reconcileNormalAodh_def aodh_expose_def mirror_condition_def Let_def by (intro keeps_intros) simp_all

lemma safe_reconcileInitAodh:
  "safe (of_inst has_hash) (reconcileInitAodh CL L P A labels)"
  unfolding reconcileInitAodh_def mirror_condition_def aodh_database_def aodh_dbsync_def init_hash_def Let_def
  by (intro safe_intros keeps_intros) simp_all

lemma safe_autoscaling_deploy:
  "safe (of_inst has_hash) (Autoscaling_deploy CL U L V P A visit hash)"
  unfolding Autoscaling_deploy_def Autoscaling_reconcileInit_def
  by (intro safe_intros keeps_intros safe_reconcileInitAodh)

lemma safe_autoscaling_normal:
  assumes "commonlib_laws L" "GetSecret_law P"
  shows "safe (of_inst has_hash) (Autoscaling_reconcileNormal CL U L V P A visit)"
  unfolding Autoscaling_reconcileNormal_def Autoscaling_memcached_def Autoscaling_heat_def Autoscaling_configure_def Let_def
  by (intro safe_intros keeps_intros safe_autoscaling_getSecret safe_autoscaling_config safe_autoscaling_deploy
      aut_hash.keeps_has_hash assms) simp_all

text \<open>
  C17: \<open>Reconcile\<close> of Autoscaling never panics, whatever the cluster answers: it follows the pointer to a
  secret only when \<open>GetSecret\<close> has answered one, and writes to the hash map only after it was initialised.
\<close>

theorem autoscaling_never_panics:
  assumes "commonlib_laws L" "GetSecret_law P"
  shows "\<exists>r. fst (run_state (Autoscaling_Reconcile CL U L V P A visit req) w) = Return r"
proof (rule aut.no_panic)
  fix i
  show "safe (\<lambda>_. True) (Autoscaling_work CL U L V P A visit i)"
    unfolding Autoscaling_work_def
    by (rule safe_init_hash)
      (auto intro!: safe_intros keeps_intros safe_autoscaling_normal assms
        simp: Autoscaling_reconcileDelete_def reconcileDeleteAodh_def Let_def)
qed

lemma GetSecret_law_ref: "GetSecret_law ref_platform"
  by (simp add: GetSecret_law_def ref_calls ref_log_def)

theorem autoscaling_never_panics_witness:
  "\<exists>r. fst (run_state (Autoscaling_Reconcile ref_pkg ref_controllerutil ref_commonlib ref_service_pkg ref_platform
      ref_autoscaling_api id \<lparr>nn_Namespace = ''openstack'', nn_Name = ''autoscaling''\<rparr>) []) = Return r"
  by (rule autoscaling_never_panics [OF ref_lib.commonlib_laws_axioms GetSecret_law_ref])

end
