(* ===== verification/Autoscaling_Errors.thy ===== *)
theory Autoscaling_Errors
  imports Autoscaling_Passes
begin

text \<open>
  How the Autoscaling controller reports what goes wrong: the errors it drops, and the condition for the
  inputs, which it sets to False and never to True.
\<close>

section \<open>Dropped errors\<close>



section \<open>The input condition\<close>

text \<open>
  The conditions that \<open>ReconcileRbac\<close> sets are those of the service account, the role and the binding.
\<close>

definition rbac_types :: "cond_Type set" where
  "rbac_types = {ServiceAccountReadyCondition, RoleReadyCondition, RoleBindingReadyCondition}"

definition rbac_law :: "('c, 'w, 'x) platform_scheme \<Rightarrow> ('c \<Rightarrow> cond_Type) \<Rightarrow> bool" where
  "rbac_law P ctype \<longleftrightarrow> (\<forall>ns name rules w conds r w'.
     run_state (ReconcileRbac P ns name rules) w = ((conds, r), w') \<longrightarrow> ctype ` set conds \<subseteq> rbac_types)"

text \<open>The condition for the inputs is there and not True, beside the conditions of the rights.\<close>

definition input_stuck :: "'c condition_pkg \<Rightarrow> ('c conditions \<Rightarrow> cond_Type \<Rightarrow> bool) \<Rightarrow> ('sp, ('c, 'z) StatusBase_scheme) CR \<Rightarrow> bool" where
  "input_stuck CL Has i \<longleftrightarrow> (\<forall>t \<in> insert InputReadyCondition rbac_types. Has (Conditions (Status i)) t) \<and>
     \<not> IsTrue CL (Conditions (Status i)) InputReadyCondition"


lemma input_stuck_inst [simp]:
  "input_stuck CL Has (i\<lparr>Meta := m\<rparr>) = input_stuck CL Has i" "input_stuck CL Has (i\<lparr>Spec := sp\<rparr>) = input_stuck CL Has i"
  "input_stuck CL Has (set_Hash h j) = input_stuck CL Has j" "input_stuck CL Has (with_hash j) = input_stuck CL Has j"
  by (simp_all add: input_stuck_def)

lemma input_stuck_status [simp]:
  "input_stuck CL Has (set_prometheus i) = input_stuck CL Has i"
  "input_stuck CL Has (i\<lparr>Status := (Status i)\<lparr>ass_ReadyCount := n\<rparr>\<rparr>) = input_stuck CL Has i"
  "input_stuck CL Has (i\<lparr>Status := (Status i)\<lparr>ass_Networks := ns\<rparr>\<rparr>) = input_stuck CL Has i"
  "input_stuck CL Has (i\<lparr>Status := (Status i)\<lparr>ass_TransportURLSecret := x\<rparr>\<rparr>) = input_stuck CL Has i"
  "input_stuck CL Has (i\<lparr>Status := (Status i)\<lparr>ass_DatabaseHostname := x\<rparr>\<rparr>) = input_stuck CL Has i"
  "input_stuck CL Has (i\<lparr>Status := (Status i)\<lparr>ass_APIEndpoints := m\<rparr>\<rparr>) = input_stuck CL Has i"
  by (simp_all add: input_stuck_def)

context condition_laws begin

lemma input_stuck_conditions [intro]:
  "input_stuck CL Has i \<Longrightarrow> input_stuck CL Has (cmap (\<lambda>cs. cond_Set CL cs (Some (FalseCondition CL t r sv m xs))) i)"
  "input_stuck CL Has i \<Longrightarrow> t \<noteq> InputReadyCondition \<Longrightarrow> input_stuck CL Has (cmap (\<lambda>cs. MarkTrue CL cs t m) i)"
  "input_stuck CL Has i \<Longrightarrow> ctype c \<noteq> InputReadyCondition \<Longrightarrow> input_stuck CL Has (cmap (\<lambda>cs. cond_Set CL cs (Some c)) i)"
  by (auto simp: input_stuck_def cond_simps)

lemma keeps_stuck_mirror:
  "t \<noteq> InputReadyCondition \<Longrightarrow> keeps (of_inst (input_stuck CL Has)) (mirror_condition CL conds t)"
  by (cases "Mirror CL conds t")
    (auto simp: mirror_condition_def dest: ctype_Mirror intro!: keeps_intros)

lemma input_stuck_rbac:
  assumes "ctype ` set conds \<subseteq> rbac_types" "input_stuck CL Has i"
  shows "input_stuck CL Has (fold (Autoscaling_RbacConditionsSet CL) conds i)"
  using assms
proof (induction conds arbitrary: i)
  case (Cons c conds)
  then have c: "ctype c \<in> rbac_types" and h: "Has (Conditions (Status i)) (ctype c)"
    by (auto simp: input_stuck_def)
  moreover from c have "ctype c \<noteq> InputReadyCondition" by (auto simp: rbac_types_def)
  ultimately have "input_stuck CL Has (Autoscaling_RbacConditionsSet CL c i)"
    using Cons.prems(2)
    by (auto simp: input_stuck_def Autoscaling_RbacConditionsSet_def Set_copy_present [OF h] IsTrue_Set_copy_present [OF h])
  with Cons show ?case by simp
qed simp

lemma keeps_stuck_rbac:
  fixes P :: "('c, 'w, 'x) platform_scheme" and I :: "'i \<Rightarrow> bool"
    and f :: "'c list \<times> reconcile_result \<Rightarrow> (('i, 'w) handler, 'a) state"
  assumes "rbac_law P ctype"
    and "\<And>conds r. ctype ` set conds \<subseteq> rbac_types \<Longrightarrow> keeps (of_inst I) (f (conds, r))"
  shows "keeps (of_inst I) (State_Monad.bind (api (ReconcileRbac P ns name rules)) f)"
  unfolding keeps_def
proof (intro allI impI)
  fix s :: "('i, 'w) handler"
  assume s: "of_inst I s"
  obtain conds r w where run: "run_state (ReconcileRbac P ns name rules) (world s) = ((conds, r), w)"
    by (metis prod.collapse)
  then have "ctype ` set conds \<subseteq> rbac_types" using assms(1) unfolding rbac_law_def by blast
  from assms(2) [OF this] s have "of_inst I (snd (run_state (f (conds, r)) (s\<lparr>world := w\<rparr>)))"
    by (simp add: keeps_def of_inst_def)
  with run show "of_inst I (snd (run_state (State_Monad.bind (api (ReconcileRbac P ns name rules)) f) s))" by simp
qed

end


lemma keeps_stuck_endpoints:
  assumes laws: "condition_laws CL Has ct tr"
  shows "keeps (of_inst (input_stuck CL Has)) (aodh_endpoints_loop CL L V A xs m)"
proof (induction xs arbitrary: m)
  case (Cons x xs)
  have "keeps (of_inst (input_stuck CL Has)) (aodh_endpoint CL L V A t d m)" for t d
    unfolding aodh_endpoint_def aodh_svcOverride_def Let_def
    by (intro keeps_intros) (auto intro: condition_laws.input_stuck_conditions [OF laws])
  with Cons show ?case by (cases x) (auto intro!: keeps_intros)
qed (simp add: keeps_return)

lemma keeps_stuck_deploy:
  assumes laws: "condition_laws CL Has ct tr"
  shows "keeps (of_inst (input_stuck CL Has)) (Autoscaling_deploy CL U L V P A visit hash)"
proof -
  have init: "keeps (of_inst (input_stuck CL Has)) (reconcileInitAodh CL L P A labels)" for labels
    unfolding reconcileInitAodh_def aodh_database_def aodh_dbsync_def init_hash_def store_Hash_def Let_def
    by (intro keeps_intros condition_laws.keeps_stuck_mirror [OF laws])
      (auto intro: condition_laws.input_stuck_conditions [OF laws])
  have normal: "keeps (of_inst (input_stuck CL Has)) (reconcileNormalAodh CL U L V P A visit hash)"
    unfolding reconcileNormalAodh_def aodh_expose_def Let_def
    by (intro keeps_intros condition_laws.keeps_stuck_mirror [OF laws] keeps_stuck_endpoints [OF laws])
      (auto intro: condition_laws.input_stuck_conditions [OF laws])
  show ?thesis
    unfolding Autoscaling_deploy_def Autoscaling_reconcileInit_def by (intro keeps_intros init normal)
qed

lemma keeps_stuck_normal:
  assumes laws: "condition_laws CL Has ct tr" and rbac: "rbac_law P ct"
  shows "keeps (of_inst (input_stuck CL Has)) (Autoscaling_reconcileNormal CL U L V P A visit)"
proof -
  have secret: "keeps (of_inst (input_stuck CL Has)) (Autoscaling_getSecret CL P name vars)" for name vars
    unfolding Autoscaling_getSecret_def deref_def
    by (intro keeps_intros) (auto intro: condition_laws.input_stuck_conditions [OF laws])
  have config: "keeps (of_inst (input_stuck CL Has)) (Autoscaling_generateServiceConfig L P vars mc)" for vars mc
    unfolding Autoscaling_generateServiceConfig_def deref_def Let_def by (intro keeps_intros)
  show ?thesis
    unfolding Autoscaling_reconcileNormal_def Autoscaling_memcached_def Autoscaling_heat_def Autoscaling_configure_def
      store_Hash_def Let_def
    by (rule keeps_bind [OF keeps_get_inst], rule condition_laws.keeps_stuck_rbac [OF laws rbac],
        simp only: prod.case, intro keeps_intros secret config keeps_stuck_deploy [OF laws] aut_hash.keeps_createHash)
      (auto intro: condition_laws.input_stuck_conditions [OF laws] condition_laws.input_stuck_rbac [OF laws])
qed

lemma autoscaling_stuck_pass:
  assumes laws: "condition_laws CL Has ct tr" and rbac: "rbac_law P ct" and stuck: "input_stuck CL Has i"
  shows "input_stuck CL Has (reconciled CL U A (Autoscaling_conditions CL) (Autoscaling_work CL U L V P A visit) i w) \<and>
    \<not> IsTrue CL (Conditions (Status
      (reconciled CL U A (Autoscaling_conditions CL) (Autoscaling_work CL U L V P A visit) i w))) ReadyCondition"
proof -
  let ?body = "reconcile_body CL U A (Autoscaling_conditions CL) (Autoscaling_work CL U L V P A visit i)"
  let ?i' = "reconciled CL U A (Autoscaling_conditions CL) (Autoscaling_work CL U L V P A visit) i w"
  have conds: "Conditions (Status i) \<noteq> None"
    using stuck condition_laws.Has_nil [OF laws] unfolding input_stuck_def by (metis insertI1)
  have work: "keeps (of_inst (input_stuck CL Has)) (Autoscaling_work CL U L V P A visit i)"
    unfolding Autoscaling_work_def init_hash_def Autoscaling_reconcileDelete_def reconcileDeleteAodh_def Let_def
    by (intro keeps_intros keeps_stuck_normal [OF laws rbac]) simp_all
  have "wp ?body (\<lambda>_ s. of_inst (input_stuck CL Has) s) \<lparr>inst = i, world = w\<rparr>"
    using stuck conds
    by (auto simp: reconcile_body_def ensure_finalizer_def wp_simps of_inst_def intro!: keeps_wp [OF work, unfolded of_inst_def])
  then have "input_stuck CL Has (inst (snd (run_state ?body \<lparr>inst = i, world = w\<rparr>)))"
    by (auto simp: wp_def of_inst_def split: prod.splits)
  then have "input_stuck CL Has ?i'"
    by (auto simp: reconciled_def input_stuck_def rbac_types_def condition_laws.Has_update_ready [OF laws]
        condition_laws.IsTrue_update_ready_sub [OF laws])
  moreover from this have "\<not> IsTrue CL (Conditions (Status ?i')) ReadyCondition"
    unfolding aut.reconciled_ready_iff [OF laws] by (auto simp: input_stuck_def)
  ultimately show ?thesis by simp
qed


text \<open>
  What is stored of an Autoscaling in the course of time: the controller patches in what a pass has
  computed, whatever the state of the cluster, and users edit the spec and the metadata.
\<close>

inductive autoscaling_life :: "'c condition_pkg \<Rightarrow> controllerutil \<Rightarrow> commonlib \<Rightarrow> 's service_pkg \<Rightarrow> ('c, 'w) platform
    \<Rightarrow> ('c, 's, 'w) autoscaling_api \<Rightarrow> ((string \<times> endpoint_Data) list \<Rightarrow> (string \<times> endpoint_Data) list)
    \<Rightarrow> 'c Autoscaling \<Rightarrow> 'c Autoscaling \<Rightarrow> bool" for CL U L V P A visit i where
  stored: "autoscaling_life CL U L V P A visit i i"
| pass: "autoscaling_life CL U L V P A visit i j \<Longrightarrow>
    autoscaling_life CL U L V P A visit i (reconciled CL U A (Autoscaling_conditions CL) (Autoscaling_work CL U L V P A visit) j w)"
| edit: "autoscaling_life CL U L V P A visit i j \<Longrightarrow> autoscaling_life CL U L V P A visit i (j\<lparr>Spec := sp, Meta := m\<rparr>)"


text \<open>An instance whose rights are granted.\<close>

definition ref_granted :: "ref_cond Autoscaling" where
  "ref_granted = cmap (\<lambda>_. Some [(ReadyCondition, False), (ServiceAccountReadyCondition, True), (RoleReadyCondition, True),
     (RoleBindingReadyCondition, True)]) ref_autoscaling"


end
