(* ===== verification/Autoscaling_Deletion.thy ===== *)
theory Autoscaling_Deletion
  imports Autoscaling_Controller
begin

text \<open>
  The deletion of an Autoscaling releases the database, the KeystoneService and the KeystoneEndpoint before
  it releases the instance.
\<close>

section \<open>Deletion\<close>

text \<open>
  The API server as the deletion of Autoscaling relies on it: \<open>svc\<close> and \<open>ep\<close> are the stored KeystoneService
  and KeystoneEndpoint, \<open>held\<close> says whether the database still carries the finalizer. Reading changes
  nothing, an update stores its object, and the calls on one object leave the others alone.
\<close>

definition object_store :: "(string \<Rightarrow> string \<Rightarrow> ('w, error + ObjectMeta) state) \<Rightarrow> (ObjectMeta \<Rightarrow> ('w, error option) state)
    \<Rightarrow> ('w \<Rightarrow> ObjectMeta option) \<Rightarrow> bool" where
  "object_store get_object update_object look \<longleftrightarrow>
    (\<forall>name ns w got w'. run_state (get_object name ns) w = (got, w') \<longrightarrow>
       w' = w \<and> (case got of Inr m \<Rightarrow> look w = Some m | Inl e \<Rightarrow> IsNotFound e \<longrightarrow> look w = None)) \<and>
    (\<forall>m w err w'. run_state (update_object m) w = (err, w') \<longrightarrow>
       (case err of None \<Rightarrow> look w' = Some m | Some e \<Rightarrow> IsNotFound e \<longrightarrow> look w' = None))"

definition database_store :: "('c, 's, 'w) autoscaling_api \<Rightarrow> ('w \<Rightarrow> bool) \<Rightarrow> bool" where
  "database_store A held \<longleftrightarrow>
    (\<forall>name ns w e w'. run_state (GetDatabaseByName A name ns) w = (Inl e, w') \<longrightarrow> IsNotFound e \<longrightarrow> \<not> held w') \<and>
    (\<forall>m w w'. run_state (DB_DeleteFinalizer A m) w = (None, w') \<longrightarrow> \<not> held w')"

definition untouched :: "(ObjectMeta \<Rightarrow> ('w, error option) state) \<Rightarrow> ('w \<Rightarrow> 'a) \<Rightarrow> bool" where
  "untouched update_object look \<longleftrightarrow> (\<forall>m w. look (snd (run_state (update_object m) w)) = look w)"

abbreviation released :: "string \<Rightarrow> ObjectMeta option \<Rightarrow> bool" where
  "released f \<equiv> pred_option (\<lambda>m. f \<notin> set (m_Finalizers m))"

lemma release_done:
  assumes fin: "finalizer_laws U" and store: "object_store get_object update_object look"
    and run: "run_state (release U f (get_object name ns) update_object) w = (None, w')"
  shows "released f (look w')"
proof -
  obtain got where got: "run_state (get_object name ns) w = (got, w)"
    and look: "case got of Inr m \<Rightarrow> look w = Some m | Inl e \<Rightarrow> IsNotFound e \<longrightarrow> look w = None"
    using store unfolding object_store_def by (metis prod.collapse)
  note upd = store [unfolded object_store_def, THEN conjunct2, rule_format]
  note laws = finalizer_laws.RemoveFinalizer [OF fin]
  show ?thesis
  proof (cases got)
    case (Inl e)
    with run got look show ?thesis by (auto simp: release_def split: if_splits)
  next
    case (Inr m)
    let ?m = "m\<lparr>m_Finalizers := filter (\<lambda>g. g \<noteq> f) (m_Finalizers m)\<rparr>"
    obtain e w2 where u: "run_state (update_object ?m) w = (e, w2)" by fastforce
    show ?thesis
      using run got look Inr u upd [OF u]
      by (cases e) (auto simp: release_def laws Let_def split: if_splits)
  qed
qed

lemma release_frame:
  assumes store: "object_store get_object update_object look" and "untouched update_object other"
  shows "other (snd (run_state (release U f (get_object name ns) update_object) w)) = other w"
proof -
  obtain got where got: "run_state (get_object name ns) w = (got, w)"
    using store unfolding object_store_def by (metis prod.collapse)
  then show ?thesis
    using assms(2) by (auto simp: release_def untouched_def Let_def split: sum.splits prod.splits) (metis snd_conv)
qed



text \<open>For the witness: the world is the stored KeystoneService, KeystoneEndpoint and finalizer of the database.\<close>

record ref_objects =
  ro_svc :: "ObjectMeta option"
  ro_ep :: "ObjectMeta option"
  ro_held :: bool

definition ref_get :: "(ref_objects \<Rightarrow> ObjectMeta option) \<Rightarrow> (ref_objects, error + ObjectMeta) state" where
  "ref_get look = State (\<lambda>w. (case look w of None \<Rightarrow> Inl ref_NotFound | Some m \<Rightarrow> Inr m, w))"

definition ref_del_platform :: "(ref_cond, ref_objects) platform" where
  "ref_del_platform = \<lparr>
     GetSecret = (\<lambda>name ns. return (None, '''', Some ref_NotFound)),
     EnsureSecrets = (\<lambda>m ts vars. return (vars, None)),
     ReconcileRbac = (\<lambda>ns name rules. return ([], Result0, None)),
     GetKeystoneAPI = (\<lambda>ns. return (Inl ref_NotFound)),
     GetKeystoneServiceWithName = (\<lambda>name ns. ref_get ro_svc),
     Update_KeystoneService = (\<lambda>m. State (\<lambda>w. (None, w\<lparr>ro_svc := Some m\<rparr>))),
     KeystoneService_CreateOrPatch = (\<lambda>spec ns labels t. return ((Result0, None), None)),
     TransportURL_CreateOrUpdate = (\<lambda>t f. return (f t)),
     StatefulSet_CreateOrPatch = (\<lambda>ss t. return ((Result0, None), 1)),
     Service_CreateOrUpdate = (\<lambda>sv f. return (f sv))\<rparr>"

definition ref_del_api :: "(ref_cond, unit, ref_objects) autoscaling_api" where
  "ref_del_api = \<lparr>Get_instance = (\<lambda>_. return (Inr ref_autoscaling)), NewHelper = (\<lambda>_. None),
     GetFinalizer = ''autoscaling'', PatchInstance = (\<lambda>_ _. return None),
     GetDatabaseByName = (\<lambda>name ns. return (Inr (ObjectMeta_named name ns))),
     DB_DeleteFinalizer = (\<lambda>m. State (\<lambda>w. (None, w\<lparr>ro_held := False\<rparr>))),
     GetKeystoneEndpointWithName = (\<lambda>name ns. ref_get ro_ep),
     Update_KeystoneEndpoint = (\<lambda>m. State (\<lambda>w. (None, w\<lparr>ro_ep := Some m\<rparr>))),
     CreateOrPatchDBByName = (\<lambda>db name. return (Result0, None)),
     WaitForDBCreated = (\<lambda>db. return ((Result0, None), '''')),
     DoJob = (\<lambda>job type preserve t hash. return ((Result0, None), False, '''')),
     Svc_CreateOrPatch = (\<lambda>svc. return ((Result0, None), svc)),
     KeystoneEndpoint_CreateOrPatch = (\<lambda>name ns spec labels t. return ((Result0, None), None)),
     Get_Memcached = (\<lambda>nn. return (Inl ref_NotFound)), Get_Heat = (\<lambda>nn. return (Inl ref_NotFound))\<rparr>"

lemma ref_del_stores:
  "object_store (GetKeystoneServiceWithName ref_del_platform) (Update_KeystoneService ref_del_platform) ro_svc"
  "object_store (GetKeystoneEndpointWithName ref_del_api) (Update_KeystoneEndpoint ref_del_api) ro_ep"
  "database_store ref_del_api ro_held"
  "untouched (Update_KeystoneService ref_del_platform) ro_held" "untouched (Update_KeystoneEndpoint ref_del_api) ro_held"
  "untouched (Update_KeystoneEndpoint ref_del_api) ro_svc"
  by (auto simp: object_store_def database_store_def untouched_def ref_del_platform_def ref_del_api_def ref_get_def
      split: option.splits)


end
