(* ===== verification/Autoscaling_Rendering.thy ===== *)
theory Autoscaling_Rendering
  imports Autoscaling_Passes
begin

text \<open>
  The order of rendering and database in a pass of the Autoscaling controller: the configuration is rendered
  before the pass learns the host of the database, so a pass always renders the host of the pass before it.
\<close>

section \<open>A log of the rendered templates\<close>

text \<open>
  \<open>log\<close> is the list of the template lists that \<open>EnsureSecrets\<close> was asked to render so far; the other calls of a
  pass render nothing.
\<close>

definition quiet :: "('w \<Rightarrow> 'l) \<Rightarrow> ('w, 'a) state \<Rightarrow> bool" where
  "quiet log m \<longleftrightarrow> (\<forall>w. log (snd (run_state m w)) = log w)"

definition logs_templates :: "('c, 'w) platform \<Rightarrow> ('c, 's, 'w) autoscaling_api \<Rightarrow> ('w \<Rightarrow> Template list list) \<Rightarrow> bool" where
  "logs_templates P A log \<longleftrightarrow>
    (\<forall>m ts v w. log (snd (run_state (EnsureSecrets P m ts v) w)) = log w @ [ts]) \<and>
    (\<forall>ns name rules. quiet log (ReconcileRbac P ns name rules)) \<and> (\<forall>name ns. quiet log (GetSecret P name ns)) \<and>
    (\<forall>t f. quiet log (TransportURL_CreateOrUpdate P t f)) \<and> (\<forall>ns. quiet log (GetKeystoneAPI P ns)) \<and>
    (\<forall>spec ns labels t. quiet log (KeystoneService_CreateOrPatch P spec ns labels t)) \<and>
    (\<forall>ss t. quiet log (StatefulSet_CreateOrPatch P ss t)) \<and>
    (\<forall>nn. quiet log (Get_Memcached A nn)) \<and> (\<forall>nn. quiet log (Get_Heat A nn)) \<and>
    (\<forall>db name. quiet log (CreateOrPatchDBByName A db name)) \<and> (\<forall>db. quiet log (WaitForDBCreated A db)) \<and>
    (\<forall>job type preserve t hash. quiet log (DoJob A job type preserve t hash)) \<and> (\<forall>svc. quiet log (Svc_CreateOrPatch A svc)) \<and>
    (\<forall>name ns spec labels t. quiet log (KeystoneEndpoint_CreateOrPatch A name ns spec labels t))"

lemma logs_templatesD:
  assumes "logs_templates P A log"
  shows "log (snd (run_state (EnsureSecrets P m ts v) w)) = log w @ [ts]" "quiet log (ReconcileRbac P ns name rules)"
    "quiet log (GetSecret P name ns)" "quiet log (TransportURL_CreateOrUpdate P t' f)" "quiet log (GetKeystoneAPI P ns)"
    "quiet log (KeystoneService_CreateOrPatch P spec ns labels i)" "quiet log (StatefulSet_CreateOrPatch P ss i)"
    "quiet log (Get_Memcached A nn)" "quiet log (Get_Heat A nn)" "quiet log (CreateOrPatchDBByName A db name)"
    "quiet log (WaitForDBCreated A db)" "quiet log (DoJob A job name b i hash)" "quiet log (Svc_CreateOrPatch A svc)"
    "quiet log (KeystoneEndpoint_CreateOrPatch A name ns spec' labels i)"
  using assms unfolding logs_templates_def by (elim conjE, simp)+

lemma keeps_quiet: "quiet log m \<Longrightarrow> keeps (\<lambda>w. R (log w)) m"
  by (simp add: quiet_def keeps_def)

lemmas keeps_log = logs_templatesD(2-) [THEN keeps_quiet]

lemma wp_api_quiet: "quiet log m \<Longrightarrow> (\<And>a w. log w = log (world s) \<Longrightarrow> Q a (s\<lparr>world := w\<rparr>)) \<Longrightarrow> wp (api m) Q s"
  by (auto simp: wp_api wp_def quiet_def split: prod.splits) (metis snd_conv)

section \<open>One pass\<close>

text \<open>Every configuration in the list connects to \<open>host\<close>.\<close>

definition connects :: "string \<Rightarrow> string \<Rightarrow> Template list \<Rightarrow> bool" where
  "connects user host ts \<longleftrightarrow> list_all (\<lambda>t. \<forall>options. tp_ConfigOptions t = Some options \<longrightarrow>
     (\<exists>password. options ''DatabaseConnection'' = Some (VString (''mysql+pymysql://'' @ user @ '':'' @ password @ ''@'' @ host @ ''/'' @
        autoscaling_DatabaseName)))) ts"

definition rendered :: "string \<Rightarrow> string \<Rightarrow> Template list list \<Rightarrow> Template list list \<Rightarrow> bool" where
  "rendered user host before after \<longleftrightarrow> after = before \<or> (\<exists>ts. after = before @ [ts] \<and> connects user host ts)"

lemma keeps_aodh_endpoint_log:
  "logs_templates P A log \<Longrightarrow> keeps (of_world (\<lambda>w. R (log w))) (aodh_endpoint CL L V A t d m)"
  unfolding aodh_endpoint_def aodh_svcOverride_def Let_def
  by (intro keeps_intros keeps_log)

lemma keeps_aodh_endpoints_loop_log:
  "logs_templates P A log \<Longrightarrow> keeps (of_world (\<lambda>w. R (log w))) (aodh_endpoints_loop CL L V A xs m)"
  by (induction xs arbitrary: m) (auto intro!: keeps_intros keeps_aodh_endpoint_log)

lemma keeps_store_Hash_world: "keeps (of_world I) (store_Hash name hash)"
  by (auto simp: keeps_def of_world_def store_Hash_def split: outcome.splits)

lemma keeps_deploy_log:
  assumes "logs_templates P A log"
  shows "keeps (of_world (\<lambda>w. R (log w))) (Autoscaling_deploy CL U L V P A visit hash)"
  unfolding Autoscaling_deploy_def Autoscaling_reconcileInit_def reconcileInitAodh_def aodh_database_def aodh_dbsync_def
    reconcileNormalAodh_def aodh_expose_def mirror_condition_def init_hash_def Let_def
  by (intro keeps_intros keeps_log [OF assms] keeps_aodh_endpoints_loop_log [OF assms] keeps_store_Hash_world)

lemma keeps_hash_log: "keeps (of_world I) (Autoscaling_createHashOfInputHashes L vars)"
  unfolding Autoscaling_createHashOfInputHashes_def Let_def by (intro keeps_intros)

lemma wp_render:
  assumes log: "logs_templates P A log"
  shows "wp (Autoscaling_generateServiceConfig L P vars mc) (\<lambda>_ s'. of_world (\<lambda>w. rendered (ao_DatabaseUser (as_Aodh (Spec (inst s))))
      (ass_DatabaseHostname (Status (inst s))) (log (world s)) (log w)) s') s"
proof -
  have ensure: "wp (api (EnsureSecrets P m ts v)) Q s'"
    if "\<And>a w. log w = log (world s') @ [ts] \<Longrightarrow> Q a (s'\<lparr>world := w\<rparr>)" for m ts v Q and s' :: "('a Autoscaling, 'b) handler"
    using that logs_templatesD(1) [OF log, of m ts v "world s'"] by (auto simp: wp_api wp_def split: prod.splits)
  show ?thesis
    unfolding Autoscaling_generateServiceConfig_def Let_def
    by (auto simp: wp_simps deref_def of_world_def rendered_def connects_def
        intro!: wp_api_quiet [OF logs_templatesD(3) [OF log]] wp_api_quiet [OF logs_templatesD(5) [OF log]] ensure
        split: option.splits sum.splits)
qed


lemma wp_pbind_keeps: "wp m (\<lambda>_. I) s \<Longrightarrow> (\<And>a. keeps I (f a)) \<Longrightarrow> wp (pbind m f) (\<lambda>_. I) s"
  unfolding wp_simps by (erule wp_mono) (simp add: keeps_wp split: outcome.splits)

lemma wp_update_then: "wp (f ()) Q (s\<lparr>inst := g (inst s)\<rparr>) \<Longrightarrow> wp (State_Monad.bind (update_inst g) f) Q s"
  by (simp add: wp_simps)

lemma wp_configure_log:
  assumes log: "logs_templates P A log"
  shows "wp (Autoscaling_configure CL U L V P A visit mc vars) (\<lambda>_ s'. of_world (\<lambda>w. rendered (ao_DatabaseUser (as_Aodh (Spec (inst s))))
      (ass_DatabaseHostname (Status (inst s))) (log (world s)) (log w)) s') s"
proof -
  let ?R = "rendered (ao_DatabaseUser (as_Aodh (Spec (inst s)))) (ass_DatabaseHostname (Status (inst s))) (log (world s))"
  let ?s = "s\<lparr>inst := set_prometheus (inst s)\<rparr>"
  have host: "ass_DatabaseHostname (Status (set_prometheus (inst s))) = ass_DatabaseHostname (Status (inst s))"
    by (simp add: set_prometheus_def)
  have "wp (Autoscaling_generateServiceConfig L P vars mc) (\<lambda>_. of_world (\<lambda>w. ?R (log w))) ?s"
    using wp_render [OF log, of L vars mc ?s] by (simp add: host)
  then show ?thesis
    unfolding Autoscaling_configure_def Let_def
    by (intro wp_update_then wp_pbind_keeps)
      (assumption | intro keeps_intros keeps_hash_log keeps_store_Hash_world keeps_deploy_log [OF log])+
qed

lemma wp_normal_log:
  assumes log: "logs_templates P A log"
  shows "wp (Autoscaling_reconcileNormal CL U L V P A visit) (\<lambda>_ s'. of_world (\<lambda>w. rendered (ao_DatabaseUser (as_Aodh (Spec (inst s))))
      (ass_DatabaseHostname (Status (inst s))) (log (world s)) (log w)) s') s"
proof -
  let ?Q = "\<lambda>_ s'. of_world (\<lambda>w. rendered (ao_DatabaseUser (as_Aodh (Spec (inst s))))
      (ass_DatabaseHostname (Status (inst s))) (log (world s)) (log w)) s'"
  have configure: "wp (Autoscaling_configure CL U L V P A visit mc vars) ?Q s'"
    if "as_Aodh (Spec (inst s')) = as_Aodh (Spec (inst s))" "ass_DatabaseHostname (Status (inst s')) = ass_DatabaseHostname (Status (inst s))"
      "log (world s') = log (world s)" for mc vars s'
    using wp_configure_log [OF log, of CL U L V visit mc vars s'] that by simp
  have fold: "ass_DatabaseHostname (Status (fold (Autoscaling_RbacConditionsSet CL) conds i)) = ass_DatabaseHostname (Status i)" for conds i
    by (induction conds arbitrary: i) (simp_all add: Autoscaling_RbacConditionsSet_def)
  note quiet = logs_templatesD(2-) [OF log]
  show ?thesis
    unfolding Autoscaling_reconcileNormal_def Autoscaling_memcached_def Autoscaling_heat_def Autoscaling_getSecret_def
      getAutoscalingMemcached_def getAutoscalingHeat_def Autoscaling_transportURLCreateOrUpdate_def Let_def
    by (auto simp: wp_simps of_world_def rendered_def deref_def fold fold_autoscaling_rbac
        intro!: configure [unfolded of_world_def rendered_def] wp_api_quiet [OF quiet(1)] wp_api_quiet [OF quiet(2)] wp_api_quiet [OF quiet(3)]
          wp_api_quiet [OF quiet(7)] wp_api_quiet [OF quiet(8)]
        split: sum.splits option.splits)
qed


text \<open>
  C31: A pass of the Autoscaling controller renders its configuration at most once, and the database connection in
  it names the host that the status had before the pass, although the same pass goes on to ask for the database,
  to record its host, to run the database job and to deploy the pods. So what is first deployed for a new
  resource connects to an empty host, and the host reaches the pods only in a later pass.
\<close>

theorem autoscaling_renders_last_host:
  assumes "logs_templates P A log"
    and "run_state (Autoscaling_reconcileNormal CL U L V P A visit) \<lparr>inst = i, world = w\<rparr> = (out, s')"
  shows "rendered (ao_DatabaseUser (as_Aodh (Spec i))) (ass_DatabaseHostname (Status i)) (log w) (log (world s'))"
  using wp_run [OF wp_normal_log [OF assms(1)] assms(2)] by (simp add: of_world_def)

section \<open>Witness\<close>

text \<open>A cluster that logs the templates and where everything succeeds.\<close>

definition ref_render_platform :: "(ref_cond, Template list list) platform" where
  "ref_render_platform = \<lparr>
     GetSecret = (\<lambda>name ns. return (Some \<lparr>se_Name = name, se_Data = Map.empty\<rparr>, ''hash-'' @ name, None)),
     EnsureSecrets = (\<lambda>m ts vars. State (\<lambda>w. ((vars, None), w @ [ts]))),
     ReconcileRbac = (\<lambda>ns name rules. return ([], Result0, None)),
     GetKeystoneAPI = (\<lambda>ns. return (Inr (\<lambda>e. Inr (''http://'' @ e)))),
     GetKeystoneServiceWithName = (\<lambda>name ns. return (Inl ref_NotFound)),
     Update_KeystoneService = (\<lambda>m. return None),
     KeystoneService_CreateOrPatch = (\<lambda>spec ns labels t. return ((Result0, None), Some [(ReadyCondition, True)])),
     TransportURL_CreateOrUpdate = (\<lambda>t f. return (map_sum id (\<lambda>t. t\<lparr>tu_SecretName := ''rabbitmq''\<rparr>) (f t))),
     StatefulSet_CreateOrPatch = (\<lambda>ss t. return ((Result0, None), 1)),
     Service_CreateOrUpdate = (\<lambda>sv f. return (f sv))\<rparr>"

definition ref_render_api :: "(ref_cond, GenericServiceDetails \<times> (string \<rightharpoonup> string), Template list list) autoscaling_api" where
  "ref_render_api = \<lparr>Get_instance = (\<lambda>_. return (Inr ref_autoscaling)), NewHelper = (\<lambda>_. None),
     GetFinalizer = ''autoscaling'', PatchInstance = (\<lambda>_ _. return None),
     GetDatabaseByName = (\<lambda>name ns. return (Inl ref_NotFound)), DB_DeleteFinalizer = (\<lambda>m. return None),
     GetKeystoneEndpointWithName = (\<lambda>name ns. return (Inl ref_NotFound)), Update_KeystoneEndpoint = (\<lambda>m. return None),
     CreateOrPatchDBByName = (\<lambda>db name. return (Result0, None)),
     WaitForDBCreated = (\<lambda>db. return ((Result0, None), ''openstack-db'')),
     DoJob = (\<lambda>job type preserve t hash. return ((Result0, None), hash \<noteq> ''synced'', ''synced'')),
     Svc_CreateOrPatch = (\<lambda>svc. return ((Result0, None), svc)),
     KeystoneEndpoint_CreateOrPatch = (\<lambda>name ns spec labels t. return ((Result0, None), Some [(ReadyCondition, True)])),
     Get_Memcached = (\<lambda>nn. return (Inr \<lparr>mc_Name = ''memcached'', mc_IsReady = True, mc_ServerList = [], mc_ServerListWithInet = []\<rparr>)),
     Get_Heat = (\<lambda>nn. return (Inr \<lparr>ht_Name = ''heat'', ht_IsReady = True\<rparr>))\<rparr>"

lemma ref_render_logs: "logs_templates ref_render_platform ref_render_api id"
  by (simp add: logs_templates_def quiet_def ref_render_platform_def ref_render_api_def)

lemma ref_render_expose:
  "ass_DatabaseHostname (Status (inst s)) = ''openstack-db'' \<Longrightarrow>
   wp (reconcileNormalAodh ref_pkg ref_controllerutil ref_commonlib ref_service_pkg ref_render_platform ref_render_api rev h)
     (\<lambda>r s'. r = (Result0, None) \<and> world s' = world s \<and> ass_DatabaseHostname (Status (inst s')) = ''openstack-db'') s"
  by (simp add: reconcileNormalAodh_def AodhStatefulSet_def aodh_expose_def mirror_condition_def aodh_endpoint_def aodh_svcOverride_def
      aodhEndpoints_def wp_simps wp_api ref_render_platform_def ref_render_api_def ref_calls ref_service_pkg_def Let_def
      split_beta split: option.splits)

lemma ref_render_init:
  "wp (reconcileInitAodh ref_pkg ref_commonlib ref_render_platform ref_render_api labels)
     (\<lambda>r s'. r = Return (Result0, None) \<and> world s' = world s \<and> ass_DatabaseHostname (Status (inst s')) = ''openstack-db'') s"
  by (simp add: reconcileInitAodh_def mirror_condition_def aodh_database_def aodh_dbsync_def init_hash_def store_Hash_def wp_simps Let_def
      wp_api ref_render_platform_def ref_render_api_def ref_calls set_Hash_def split: option.splits)


lemma ref_render_deploy:
  "wp (Autoscaling_deploy ref_pkg ref_controllerutil ref_commonlib ref_service_pkg ref_render_platform ref_render_api rev h)
     (\<lambda>r s'. r = Return (Result0, None) \<and> world s' = world s \<and> ass_DatabaseHostname (Status (inst s')) = ''openstack-db'') s"
  unfolding Autoscaling_deploy_def Autoscaling_reconcileInit_def wp_simps
  by (rule wp_mono [OF ref_render_init]) (auto simp: wp_simps intro!: wp_mono [OF ref_render_expose])

definition ref_render_hash :: string where
  "ref_render_hash = ''hash-osp-secrethash-rabbitmq''"

lemma ref_render_pass:
  "wp (Autoscaling_reconcileNormal ref_pkg ref_controllerutil ref_commonlib ref_service_pkg ref_render_platform ref_render_api rev)
     (\<lambda>r s'. r = Return (Result0, None) \<and> world s' \<noteq> [] \<and> ass_DatabaseHostname (Status (inst s')) = ''openstack-db'')
     \<lparr>inst = set_Hash (Some [''input'' \<mapsto> ref_render_hash]) ref_autoscaling, world = []\<rparr>"
proof -
  have deploy: "wp (Autoscaling_deploy ref_pkg ref_controllerutil ref_commonlib ref_service_pkg ref_render_platform ref_render_api rev h)
     (\<lambda>r s'. r = Return (Result0, None) \<and> world s' \<noteq> [] \<and> ass_DatabaseHostname (Status (inst s')) = ''openstack-db'') s"
    if "world s \<noteq> []" for h s
    by (rule wp_mono [OF ref_render_deploy]) (use that in simp)
  have calls: "GetSecret ref_render_platform name ns = return (Some \<lparr>se_Name = name, se_Data = Map.empty\<rparr>, ''hash-'' @ name, None)"
    "EnsureSecrets ref_render_platform m ts vars = State (\<lambda>w. ((vars, None), w @ [ts]))"
    "ReconcileRbac ref_render_platform ns name rules = return ([], Result0, None)"
    "GetKeystoneAPI ref_render_platform ns = return (Inr (\<lambda>e. Inr (''http://'' @ e)))"
    "TransportURL_CreateOrUpdate ref_render_platform t f = return (map_sum id (\<lambda>t. t\<lparr>tu_SecretName := ''rabbitmq''\<rparr>) (f t))"
    "Get_Memcached ref_render_api nn = return (Inr \<lparr>mc_Name = ''memcached'', mc_IsReady = True, mc_ServerList = [], mc_ServerListWithInet = []\<rparr>)"
    "Get_Heat ref_render_api nn = return (Inr \<lparr>ht_Name = ''heat'', ht_IsReady = True\<rparr>)" for name ns m ts vars rules t f nn
    by (simp_all add: ref_render_platform_def ref_render_api_def)
  show ?thesis
    by (simp add: Autoscaling_reconcileNormal_def Autoscaling_transportURLCreateOrUpdate_def
      Autoscaling_mutate_transportURL_def Autoscaling_getSecret_def Autoscaling_memcached_def getAutoscalingMemcached_def
      Autoscaling_heat_def getAutoscalingHeat_def Autoscaling_configure_def Autoscaling_generateServiceConfig_def
      Autoscaling_createHashOfInputHashes_def store_Hash_def wp_simps wp_api calls ref_calls ref_commonlib_hash
      ref_InputHashName deploy wp_def [of "State _"] Let_def ref_autoscaling_def ref_render_hash_def autoscaling_ServiceName_def)
qed

theorem autoscaling_renders_last_host_witness:
  "\<exists>s' ts. run_state (Autoscaling_reconcileNormal ref_pkg ref_controllerutil ref_commonlib ref_service_pkg ref_render_platform ref_render_api rev)
      \<lparr>inst = set_Hash (Some [''input'' \<mapsto> ref_render_hash]) ref_autoscaling, world = []\<rparr> = (Return (Result0, None), s') \<and>
    ass_DatabaseHostname (Status (inst s')) = ''openstack-db'' \<and> world s' = [ts] \<and> connects ''aodh'' '''' ts"
proof -
  obtain s' where run: "run_state (Autoscaling_reconcileNormal ref_pkg ref_controllerutil ref_commonlib ref_service_pkg ref_render_platform
      ref_render_api rev) \<lparr>inst = set_Hash (Some [''input'' \<mapsto> ref_render_hash]) ref_autoscaling, world = []\<rparr> = (Return (Result0, None), s')"
    and s': "world s' \<noteq> []" "ass_DatabaseHostname (Status (inst s')) = ''openstack-db''"
    using wp_exists [OF ref_render_pass] by blast
  have "ao_DatabaseUser (as_Aodh (Spec (set_Hash (Some [''input'' \<mapsto> ref_render_hash]) ref_autoscaling))) = ''aodh''"
    "ass_DatabaseHostname (Status (set_Hash (Some [''input'' \<mapsto> ref_render_hash]) ref_autoscaling)) = ''''"
    by (simp_all add: ref_autoscaling_def set_Hash_def AutoscalingStatus0_def)
  with autoscaling_renders_last_host [OF ref_render_logs run] run s' show ?thesis
    by (auto simp: rendered_def)
qed

end
