(* ===== verification/Ceilometer_Pkg.thy ===== *)
theory Ceilometer_Pkg
  imports Workloads Consts
begin

text \<open>
  \<^verbatim>\<open>pkg/ceilometer\<close>: the volumes, the StatefulSet and the Service of the Ceilometer controller.
\<close>

section \<open>\<open>volumes.go\<close>\<close>

definition ceilometer_scriptVolume :: string where "ceilometer_scriptVolume = ''ceilometer-scripts''"
definition ceilometer_configVolume :: string where "ceilometer_configVolume = ''ceilometer-config-data''"
definition ceilometer_configMode :: int32 where "ceilometer_configMode = 416"
definition ceilometer_scriptMode :: int32 where "ceilometer_scriptMode = 480"

definition ceilometer_getVolumes :: "string \<Rightarrow> Volume list" where
  "ceilometer_getVolumes name =
    [\<lparr>vo_Name = ''scripts'', vo_Secret = \<lparr>sv_DefaultMode = ceilometer_scriptMode, sv_Items = [],
        sv_SecretName = ceilometer_scriptVolume\<rparr>\<rparr>,
     \<lparr>vo_Name = ''config-data'', vo_Secret = \<lparr>sv_DefaultMode = ceilometer_configMode, sv_Items = [],
        sv_SecretName = ceilometer_configVolume\<rparr>\<rparr>,
     \<lparr>vo_Name = ''sg-core-conf-yaml'', vo_Secret = \<lparr>sv_DefaultMode = ceilometer_configMode,
        sv_Items = [(''sg-core.conf.yaml'', ''sg-core.conf.yaml'')],
        sv_SecretName = ceilometer_configVolume\<rparr>\<rparr>]"

definition ceilometer_getVolumeMounts :: "string \<Rightarrow> VolumeMount list" where
  "ceilometer_getVolumeMounts serviceName =
    [\<lparr>vm_Name = ''scripts'', vm_MountPath = ''/var/lib/openstack/bin'', vm_SubPath = '''', vm_ReadOnly = True\<rparr>,
     \<lparr>vm_Name = ''config-data'', vm_MountPath = ''/var/lib/openstack/config'', vm_SubPath = '''', vm_ReadOnly = True\<rparr>,
     \<lparr>vm_Name = ''config-data'', vm_MountPath = ''/var/lib/kolla/config_files/config.json'',
      vm_SubPath = serviceName @ ''-config.json'', vm_ReadOnly = True\<rparr>]"

definition getSgCoreVolumeMounts :: "VolumeMount list" where
  "getSgCoreVolumeMounts =
    [\<lparr>vm_Name = ''sg-core-conf-yaml'', vm_MountPath = ''/etc/sg-core.conf.yaml'',
      vm_SubPath = ''sg-core.conf.yaml'', vm_ReadOnly = False\<rparr>]"

section \<open>\<open>statefulset.go\<close>\<close>

definition ceilometer_ServiceCommand :: string where
  "ceilometer_ServiceCommand = ''/usr/local/bin/kolla_set_configs && /usr/local/bin/kolla_start''"

definition ceilometer_StatefulSet :: "commonlib \<Rightarrow> 'c Ceilometer \<Rightarrow> string \<Rightarrow> (string, string) gomap
    \<Rightarrow> error + StatefulSet" where
  "ceilometer_StatefulSet L instance' configHash labels =
    (let runAsUser = 0 :: int64;
         httpGet = \<lparr>hg_Path = ''/v3'', hg_Port = ucast CeilometerPrometheusPort\<rparr>;
         livenessProbe = \<lparr>pr_TimeoutSeconds = 5, pr_PeriodSeconds = 3, pr_InitialDelaySeconds = 3,
           pr_HTTPGet = Some httpGet\<rparr>;
         readinessProbe = \<lparr>pr_TimeoutSeconds = 5, pr_PeriodSeconds = 5, pr_InitialDelaySeconds = 5,
           pr_HTTPGet = Some httpGet\<rparr>;
         args = [''-c''] @ [ceilometer_ServiceCommand];
         envVarsCentral = AList.update ''CONFIG_HASH'' (SetValue configHash)
           (AList.update ''KOLLA_CONFIG_STRATEGY'' (SetValue ''COPY_ALWAYS'') []);
         envVarsNotification = AList.update ''CONFIG_HASH'' (SetValue configHash)
           (AList.update ''KOLLA_CONFIG_STRATEGY'' (SetValue ''COPY_ALWAYS'') []);
         replicas = 1 :: int32;
         centralAgentContainer = \<lparr>co_Name = ''ceilometer-central-agent'', co_ImagePullPolicy = ''Always'',
           co_Command = [''/bin/bash''], co_Args = args, co_Image = ce_CentralImage (Spec instance'),
           co_Env = MergeEnvs L [] envVarsCentral, co_RunAsUser = Some runAsUser,
           co_VolumeMounts = ceilometer_getVolumeMounts ''ceilometer-central'',
           co_ReadinessProbe = None, co_LivenessProbe = None\<rparr>;
         notificationAgentContainer = \<lparr>co_Name = ''ceilometer-notification-agent'', co_ImagePullPolicy = ''Always'',
           co_Command = [''/bin/bash''], co_Args = args, co_Image = ce_NotificationImage (Spec instance'),
           co_Env = MergeEnvs L [] envVarsNotification, co_RunAsUser = Some runAsUser,
           co_VolumeMounts = ceilometer_getVolumeMounts ''ceilometer-notification'',
           co_ReadinessProbe = None, co_LivenessProbe = None\<rparr>;
         sgCoreContainer = \<lparr>co_Name = ''sg-core'', co_ImagePullPolicy = ''Always'',
           co_Command = [], co_Args = [], co_Image = ce_SgCoreImage (Spec instance'),
           co_Env = [], co_RunAsUser = Some runAsUser,
           co_VolumeMounts = getSgCoreVolumeMounts,
           co_ReadinessProbe = Some readinessProbe, co_LivenessProbe = Some livenessProbe\<rparr>;
         meta = (ObjectMeta_named ceilometer_ServiceName (m_Namespace (Meta instance')))\<lparr>m_Labels := labels\<rparr>;
         pod = \<lparr>po_Meta = meta, po_RestartPolicy = '''',
           po_ServiceAccountName = Ceilometer_RbacResourceName instance',
           po_Containers = [centralAgentContainer, notificationAgentContainer, sgCoreContainer],
           po_Volumes = []\<rparr>;
         statefulset = \<lparr>ss_Meta = meta, ss_Replicas = replicas,
           ss_Selector = \<lparr>MatchLabels = labels, MatchExpressions = None\<rparr>,
           ss_Template = pod\<lparr>po_Volumes := ceilometer_getVolumes ceilometer_ServiceName\<rparr>\<rparr>
     in case GetNADAnnotation L (m_Namespace (Meta instance')) (ce_NetworkAttachmentDefinitions (Spec instance')) of
          Inl err \<Rightarrow> Inl (Errorf_w (''failed create network annotation from '' @
              sprint_strings (ce_NetworkAttachmentDefinitions (Spec instance')) @ '': '') err)
        | Inr nwAnnotation \<Rightarrow> Inr (statefulset\<lparr>ss_Template := (ss_Template statefulset)
             \<lparr>po_Meta := (po_Meta (ss_Template statefulset))
               \<lparr>m_Annotations := MergeStringMaps L (m_Annotations (po_Meta (ss_Template statefulset))) nwAnnotation\<rparr>\<rparr>\<rparr>))"

section \<open>\<open>service.go\<close>\<close>

definition mutate_ceilometer_Service :: "controllerutil \<Rightarrow> 'c Ceilometer \<Rightarrow> int64 \<Rightarrow> (string, string) gomap
    \<Rightarrow> Service \<Rightarrow> error + Service" where
  "mutate_ceilometer_Service U instance' port labels service =
    (let service1 = service\<lparr>sc_Meta := (sc_Meta service)\<lparr>m_Labels := labels\<rparr>, sc_Selector := labels,
           sc_Ports := [\<lparr>sp_Protocol = ''TCP'', sp_Port = ucast port, sp_TargetPort = intstr_FromInt port\<rparr>]\<rparr>
     in case SetControllerReference U ''Ceilometer'' (Meta instance') (sc_Meta service1) of
          Inl err \<Rightarrow> Inl err
        | Inr m \<Rightarrow> Inr (service1\<lparr>sc_Meta := m\<rparr>))"

definition ceilometer_Service :: "controllerutil \<Rightarrow> ('c, 'w, 'x) platform_scheme \<Rightarrow> 'c Ceilometer \<Rightarrow> int64
    \<Rightarrow> (string, string) gomap \<Rightarrow> ('w, error + Service) state" where
  "ceilometer_Service U P instance' port labels =
     Service_CreateOrUpdate P (Service_named ceilometer_ServiceName (m_Namespace (Meta instance')))
       (mutate_ceilometer_Service U instance' port labels)"

section \<open>Properties\<close>

lemma ceilometer_StatefulSet_env:
  assumes "ceilometer_StatefulSet L i h labels = Inr ss"
  shows "map co_Env (po_Containers (ss_Template ss)) =
    [MergeEnvs L [] [(''KOLLA_CONFIG_STRATEGY'', SetValue ''COPY_ALWAYS''), (''CONFIG_HASH'', SetValue h)],
     MergeEnvs L [] [(''KOLLA_CONFIG_STRATEGY'', SetValue ''COPY_ALWAYS''), (''CONFIG_HASH'', SetValue h)], []]"
  using assms by (auto simp: ceilometer_StatefulSet_def Let_def split: sum.splits)

text \<open>
  The StatefulSet of Ceilometer is consistent: its selector matches the labels of its pods, every
  volume that a container mounts is declared, and the containers run the images of the spec in the
  order central, notification, sg-core under the service account of the instance.
\<close>

theorem ceilometer_statefulset_consistent:
  assumes "ceilometer_StatefulSet L i h labels = Inr ss"
  shows "MatchLabels (ss_Selector ss) = m_Labels (po_Meta (ss_Template ss)) \<and>
    mounts_declared (ss_Template ss) \<and>
    map co_Image (po_Containers (ss_Template ss)) =
      [ce_CentralImage (Spec i), ce_NotificationImage (Spec i), ce_SgCoreImage (Spec i)] \<and>
    po_ServiceAccountName (ss_Template ss) = Ceilometer_RbacResourceName i \<and>
    ObjectKeyFromObject (ss_Meta ss) = \<lparr>nn_Namespace = m_Namespace (Meta i), nn_Name = ''ceilometer''\<rparr>"
  using assms
  by (auto simp: ceilometer_StatefulSet_def Let_def mounts_declared_def ceilometer_getVolumeMounts_def
      getSgCoreVolumeMounts_def ceilometer_getVolumes_def ObjectKeyFromObject_def ObjectMeta_named_def
      ceilometer_ServiceName_def split: sum.splits)

text \<open>
  A new configuration restarts the pods of Ceilometer: for two different configuration hashes the
  pod templates differ, whatever the instance and the labels.
\<close>

theorem ceilometer_hash_changes_pods:
  assumes "commonlib_laws L"
    and "ceilometer_StatefulSet L i h labels = Inr ss" and "ceilometer_StatefulSet L i' h' labels' = Inr ss'"
    and "h \<noteq> h'"
  shows "ss_Template ss \<noteq> ss_Template ss'"
proof
  assume "ss_Template ss = ss_Template ss'"
  with ceilometer_StatefulSet_env [OF assms(2)] ceilometer_StatefulSet_env [OF assms(3)]
  have "MergeEnvs L [] [(''KOLLA_CONFIG_STRATEGY'', SetValue ''COPY_ALWAYS''), (''CONFIG_HASH'', SetValue h)] =
    MergeEnvs L [] [(''KOLLA_CONFIG_STRATEGY'', SetValue ''COPY_ALWAYS''), (''CONFIG_HASH'', SetValue h')]"
    by simp
  from commonlib_laws.MergeEnvs_inj [OF assms(1) _ _ this, of "''CONFIG_HASH''" h h'] assms(4)
  show False by simp
qed

end
