(* ===== verification/Ceilometer_Controller.thy ===== *)
theory Ceilometer_Controller
  imports Input_Hash Ceilometer_Pkg
begin

text \<open>
  \<^verbatim>\<open>controllers/ceilometer_controller.go\<close>: the Ceilometer controller asks for a message queue, collects
  the secrets it needs, renders the configuration of the agents and of the compute nodes, registers the
  service with Keystone and runs the agents as a StatefulSet.
\<close>

section \<open>Inputs\<close>

definition Ceilometer_getSecret :: "'c condition_pkg \<Rightarrow> ('c, 'w) platform \<Rightarrow> string \<Rightarrow> env_vars
    \<Rightarrow> (('c Ceilometer, 'w) handler, (env_vars \<times> reconcile_result) outcome) state" where
  "Ceilometer_getSecret CL P secretName envVars = do {
     instance' \<leftarrow> get_inst;
     (secret, hash, err) \<leftarrow> api (GetSecret P secretName (m_Namespace (Meta instance')));
     case err of
       Some e \<Rightarrow>
         if IsNotFound e then do {
           update_inst (cmap (\<lambda>cs. cond_Set CL cs (Some (FalseCondition CL InputReadyCondition RequestedReason
             SeverityInfo (Lib ''InputReadyWaitingMessage'') []))));
           returns (envVars, requeue_after (seconds 10), Some (Errorf (''secret '' @ secretName @ '' not found'')))
         }
         else do {
           update_inst (cmap (\<lambda>cs. cond_Set CL cs (Some (FalseCondition CL InputReadyCondition ErrorReason
             SeverityWarning (Lib ''InputReadyErrorMessage'') [Error e]))));
           returns (envVars, Result0, Some e)
         }
     | None \<Rightarrow> pbind (deref secret) (\<lambda>s.
         returns (AList.update (''secret-'' @ se_Name s) (SetValue hash) envVars, Result0, None))
   }"

text \<open>The errors of \<open>GetSecret\<close> are dropped by these two methods, the pointers are followed.\<close>

definition Ceilometer_generateServiceConfig :: "commonlib \<Rightarrow> ('c, 'w) platform \<Rightarrow> env_vars
    \<Rightarrow> (('c Ceilometer, 'w) handler, (env_vars \<times> error option) outcome) state" where
  "Ceilometer_generateServiceConfig L P envVars = do {
     instance' \<leftarrow> get_inst;
     let ns = m_Namespace (Meta instance');
     let cmLabels = GetLabels L (Meta instance') (GetGroupLabel L ceilometer_ServiceName) (Some Map.empty);
     let customData = map_overwrite [CustomServiceConfigFileName L \<mapsto> ce_CustomServiceConfig (Spec instance')]
       (ce_DefaultConfigOverwrite (Spec instance'));
     keystone \<leftarrow> api (GetKeystoneAPI P ns);
     case keystone of
       Inl err \<Rightarrow> returns (envVars, Some err)
     | Inr keystoneAPI \<Rightarrow> (case keystoneAPI (endpoint_EndpointInternal L) of
           Inl err \<Rightarrow> returns (envVars, Some err)
         | Inr keystoneInternalURL \<Rightarrow> do {
             (transportURLSecret, _, _) \<leftarrow> api (GetSecret P (ces_TransportURLSecret (Status instance')) ns);
             (ceilometerPasswordSecret, _, _) \<leftarrow> api (GetSecret P (ce_Secret (Spec instance')) ns);
             pbind (deref transportURLSecret) (\<lambda>ts. pbind (deref ceilometerPasswordSecret) (\<lambda>ps. do {
               let templateParameters = [
                 ''KeystoneInternalURL'' \<mapsto> VString keystoneInternalURL,
                 ''TransportURL'' \<mapsto> VString (map_read (se_Data ts) ''transport_url''),
                 ''CeilometerPassword'' \<mapsto> VString (map_read (se_Data ps) ''CeilometerPassword'')];
               let cms = [
                 \<lparr>tp_Name = ceilometer_ServiceName @ ''-scripts'', tp_Namespace = ns, tp_Type = TemplateTypeScripts,
                  tp_InstanceType = ''ceilometercentral'',
                  tp_AdditionalTemplate = Some [''common.sh'' \<mapsto> ''/common/common.sh''],
                  tp_CustomData = None, tp_ConfigOptions = None, tp_Labels = cmLabels\<rparr>,
                 \<lparr>tp_Name = ceilometer_ServiceName @ ''-config-data'', tp_Namespace = ns, tp_Type = TemplateTypeConfig,
                  tp_InstanceType = ''ceilometercentral'', tp_AdditionalTemplate = None,
                  tp_CustomData = Some customData, tp_ConfigOptions = Some templateParameters, tp_Labels = cmLabels\<rparr>];
               r \<leftarrow> api (EnsureSecrets P (Meta instance') cms envVars);
               returns r
             }))
           })
   }"

definition Ceilometer_generateComputeServiceConfig :: "commonlib \<Rightarrow> ('c, 'w) platform \<Rightarrow> env_vars
    \<Rightarrow> (('c Ceilometer, 'w) handler, (env_vars \<times> error option) outcome) state" where
  "Ceilometer_generateComputeServiceConfig L P envVars = do {
     instance' \<leftarrow> get_inst;
     let ns = m_Namespace (Meta instance');
     let cmLabels = GetLabels L (Meta instance') (GetGroupLabel L ceilometer_ComputeServiceName) (Some Map.empty);
     let customData = map_overwrite [CustomServiceConfigFileName L \<mapsto> ce_CustomServiceConfig (Spec instance')]
       (ce_DefaultConfigOverwrite (Spec instance'));
     keystone \<leftarrow> api (GetKeystoneAPI P ns);
     case keystone of
       Inl err \<Rightarrow> returns (envVars, Some err)
     | Inr keystoneAPI \<Rightarrow> (case keystoneAPI (endpoint_EndpointInternal L) of
           Inl err \<Rightarrow> returns (envVars, Some err)
         | Inr keystoneInternalURL \<Rightarrow> do {
             (transportURLSecret, _, _) \<leftarrow> api (GetSecret P (ces_TransportURLSecret (Status instance')) ns);
             (ceilometerPasswordSecret, _, _) \<leftarrow> api (GetSecret P (ce_Secret (Spec instance')) ns);
             pbind (deref transportURLSecret) (\<lambda>ts. pbind (deref ceilometerPasswordSecret) (\<lambda>ps. do {
               let templateParameters = [
                 ''KeystoneInternalURL'' \<mapsto> VString keystoneInternalURL,
                 ''TransportURL'' \<mapsto> VString (map_read (se_Data ts) ''transport_url''),
                 ''CeilometerPassword'' \<mapsto> VString (map_read (se_Data ps) ''CeilometerPassword''),
                 ''ceilometer_compute_image'' \<mapsto> VString (ce_ComputeImage (Spec instance')),
                 ''ceilometer_ipmi_image'' \<mapsto> VString (ce_IpmiImage (Spec instance')),
                 ''telemetry_node_exporter_image'' \<mapsto> VString (ce_NodeExporterImage (Spec instance'))];
               let cms = [
                 \<lparr>tp_Name = ceilometer_ComputeServiceName @ ''-scripts'', tp_Namespace = ns, tp_Type = TemplateTypeScripts,
                  tp_InstanceType = ''ceilometercompute'',
                  tp_AdditionalTemplate = Some [''common.sh'' \<mapsto> ''/common/common.sh''],
                  tp_CustomData = None, tp_ConfigOptions = None, tp_Labels = cmLabels\<rparr>,
                 \<lparr>tp_Name = ceilometer_ComputeServiceName @ ''-config-data'', tp_Namespace = ns, tp_Type = TemplateTypeConfig,
                  tp_InstanceType = ''ceilometercompute'', tp_AdditionalTemplate = None,
                  tp_CustomData = Some customData, tp_ConfigOptions = Some templateParameters, tp_Labels = cmLabels\<rparr>];
               r \<leftarrow> api (EnsureSecrets P (Meta instance') cms envVars);
               returns r
             }))
           })
   }"

definition Ceilometer_createHashOfInputHashes :: "commonlib \<Rightarrow> env_vars
    \<Rightarrow> (('c Ceilometer, 'w) handler, string \<times> bool \<times> error option) state" where
  "Ceilometer_createHashOfInputHashes L envVars = do {
     instance' \<leftarrow> get_inst;
     let (hash, err) = ObjectHash L (MergeEnvs L [] envVars);
     if err \<noteq> None then return (hash, False, err)
     else do {
       let (hashMap, changed) = SetHash L (Hash (Status instance')) (InputHashName L) hash;
       (if changed then update_inst (set_Hash hashMap) else return ());
       return (hash, changed, None)
     }
   }"

interpretation cei_hash: input_hasher "Ceilometer_createHashOfInputHashes L" L for L
  by unfold_locales (rule ext, unfold Ceilometer_createHashOfInputHashes_def hash_of_inputs_def, rule refl)

definition Ceilometer_mutate_transportURL :: "controllerutil \<Rightarrow> 'c Ceilometer \<Rightarrow> TransportURL \<Rightarrow> error + TransportURL" where
  "Ceilometer_mutate_transportURL U instance' t =
    (let t1 = t\<lparr>tu_RabbitmqClusterName := ce_RabbitMqClusterName (Spec instance')\<rparr>
     in case SetControllerReference U ''Ceilometer'' (Meta instance') (tu_Meta t1) of
          Inl err \<Rightarrow> Inl err
        | Inr m \<Rightarrow> Inr (t1\<lparr>tu_Meta := m\<rparr>))"

definition Ceilometer_transportURLCreateOrUpdate :: "controllerutil \<Rightarrow> ('c, 'w) platform \<Rightarrow> 'c Ceilometer
    \<Rightarrow> ('w, error + TransportURL) state" where
  "Ceilometer_transportURLCreateOrUpdate U P instance' =
     TransportURL_CreateOrUpdate P
       \<lparr>tu_Meta = ObjectMeta_named (ceilometer_ServiceName @ ''-transport'') (m_Namespace (Meta instance')),
        tu_RabbitmqClusterName = '''', tu_SecretName = ''''\<rparr>
       (Ceilometer_mutate_transportURL U instance')"

section \<open>Reconcile\<close>

definition Ceilometer_reconcileDelete :: "controllerutil \<Rightarrow> ('c, 'w) platform \<Rightarrow> ('c Ceilometer, 'w) crapi
    \<Rightarrow> (('c Ceilometer, 'w) handler, reconcile_result) state" where
  "Ceilometer_reconcileDelete U P A = do {
     instance' \<leftarrow> get_inst;
     got \<leftarrow> api (GetKeystoneServiceWithName P ceilometer_ServiceName (m_Namespace (Meta instance')));
     err \<leftarrow> (case got of
       Inl e \<Rightarrow> return (if IsNotFound e then None else Some e)
     | Inr keystoneService \<Rightarrow>
         (let (m, removed) = RemoveFinalizer U keystoneService (GetFinalizer A)
          in if removed then do {
               e \<leftarrow> api (Update_KeystoneService P m);
               return (case e of None \<Rightarrow> None | Some e \<Rightarrow> if IsNotFound e then None else Some e)
             }
             else return None));
     if err \<noteq> None then return (Result0, err)
     else do {
       remove_finalizer U A;
       return (Result0, None)
     }
   }"

definition Ceilometer_reconcileInit :: "'c condition_pkg \<Rightarrow> ('c, 'w) platform \<Rightarrow> (string, string) gomap
    \<Rightarrow> (('c Ceilometer, 'w) handler, reconcile_result) state" where
  "Ceilometer_reconcileInit CL P serviceLabels = do {
     instance' \<leftarrow> get_inst;
     (_, _, err) \<leftarrow> api (GetSecret P (ce_Secret (Spec instance')) (m_Namespace (Meta instance')));
     case err of
       Some e \<Rightarrow>
         if IsNotFound e
         then return (requeue_after (seconds 10), Some (Errorf (''OpenStack secret '' @ ce_Secret (Spec instance') @ '' not found'')))
         else return (Result0, Some e)
     | None \<Rightarrow> do {
         let ksSvcSpec = \<lparr>ks_ServiceType = ceilometer_ServiceType, ks_ServiceName = ceilometer_ServiceName,
           ks_ServiceDescription = ''Ceilometer Service'', ks_Enabled = True,
           ks_ServiceUser = ce_ServiceUser (Spec instance'), ks_Secret = ce_Secret (Spec instance'),
           ks_PasswordSelector = pw_Service (ce_PasswordSelectors (Spec instance'))\<rparr>;
         ((ctrlResult, err), conds) \<leftarrow> api (KeystoneService_CreateOrPatch P ksSvcSpec (m_Namespace (Meta instance')) serviceLabels 10);
         if err \<noteq> None then return (ctrlResult, err)
         else do {
           mirror_condition CL conds KeystoneServiceReadyCondition;
           if ctrlResult \<noteq> Result0 then return (ctrlResult, None)
           else do {
             _ \<leftarrow> init_hash;
             return (Result0, None)
           }
         }
       }
   }"

text \<open>\<open>reconcileNormal\<close> from the service init on.\<close>

definition Ceilometer_deploy :: "'c condition_pkg \<Rightarrow> controllerutil \<Rightarrow> commonlib \<Rightarrow> ('c, 'w) platform \<Rightarrow> string
    \<Rightarrow> (('c Ceilometer, 'w) handler, reconcile_result outcome) state" where
  "Ceilometer_deploy CL U L P inputHash = do {
     let serviceLabels = Some [AppSelector L \<mapsto> ceilometer_ServiceName];
     (ctrlResult, err) \<leftarrow> Ceilometer_reconcileInit CL P serviceLabels;
     if err \<noteq> None then returns (ctrlResult, err)
     else if ctrlResult \<noteq> Result0 then returns (ctrlResult, None)
     else do {
       instance' \<leftarrow> get_inst;
       case ceilometer_StatefulSet L instance' inputHash serviceLabels of
         Inl e \<Rightarrow> returns (Result0, Some e)
       | Inr sfsetDef \<Rightarrow> do {
           ((ctrlResult, err), readyReplicas) \<leftarrow> api (StatefulSet_CreateOrPatch P sfsetDef (seconds 5));
           case err of
             Some e \<Rightarrow> do {
               update_inst (cmap (\<lambda>cs. cond_Set CL cs (Some (FalseCondition CL DeploymentReadyCondition ErrorReason
                 SeverityWarning (Lib ''DeploymentReadyErrorMessage'') [Error e]))));
               returns (ctrlResult, Some e)
             }
           | None \<Rightarrow>
             if ctrlResult \<noteq> Result0 then do {
               update_inst (cmap (\<lambda>cs. cond_Set CL cs (Some (FalseCondition CL DeploymentReadyCondition RequestedReason
                 SeverityInfo (Lib ''DeploymentReadyRunningMessage'') []))));
               returns (ctrlResult, None)
             }
             else (case SetControllerReference U ''Ceilometer'' (Meta instance') (ss_Meta sfsetDef) of
               Inl e \<Rightarrow> returns (Result0, Some e)
             | Inr _ \<Rightarrow> do {
                 update_inst (\<lambda>i. i\<lparr>Status := (Status i)\<lparr>ces_ReadyCount := readyReplicas\<rparr>\<rparr>);
                 (if 0 <s readyReplicas
                  then update_inst (cmap (\<lambda>cs. MarkTrue CL cs DeploymentReadyCondition (Lib ''DeploymentReadyMessage'')))
                  else return ());
                 update_inst (\<lambda>i. i\<lparr>Status := (Status i)\<lparr>ces_Networks := ce_NetworkAttachmentDefinitions (Spec i)\<rparr>\<rparr>);
                 instance' \<leftarrow> get_inst;
                 r \<leftarrow> api (ceilometer_Service U P instance' CeilometerPrometheusPort serviceLabels);
                 case r of Inl e \<Rightarrow> returns (Result0, Some e) | Inr _ \<Rightarrow> returns (Result0, None)
               })
         }
     }
   }"

text \<open>\<open>reconcileNormal\<close> from the generated configuration to the stored hash.\<close>

definition Ceilometer_configure :: "'c condition_pkg \<Rightarrow> controllerutil \<Rightarrow> commonlib \<Rightarrow> ('c, 'w) platform \<Rightarrow> env_vars
    \<Rightarrow> (('c Ceilometer, 'w) handler, reconcile_result outcome) state" where
  "Ceilometer_configure CL U L P configMapVars =
    (let fail = (\<lambda>e. do {
           update_inst (cmap (\<lambda>cs. cond_Set CL cs (Some (FalseCondition CL ServiceConfigReadyCondition ErrorReason
             SeverityWarning (Lib ''ServiceConfigReadyErrorMessage'') [Error e]))));
           returns (Result0, Some e)
         })
     in pbind (Ceilometer_generateServiceConfig L P configMapVars) (\<lambda>(configMapVars, err).
       case err of
         Some e \<Rightarrow> fail e
       | None \<Rightarrow> pbind (Ceilometer_generateComputeServiceConfig L P configMapVars) (\<lambda>(configMapVars, err).
           case err of
             Some e \<Rightarrow> fail e
           | None \<Rightarrow> do {
               (inputHash, hashChanged, err) \<leftarrow> Ceilometer_createHashOfInputHashes L configMapVars;
               case err of
                 Some e \<Rightarrow> fail e
               | None \<Rightarrow>
                 if hashChanged then returns (Result0, None)
                 else pbind (store_Hash (InputHashName L) inputHash) (\<lambda>_. do {
                   update_inst (cmap (\<lambda>cs. MarkTrue CL cs ServiceConfigReadyCondition (Lib ''ServiceConfigReadyMessage'')));
                   Ceilometer_deploy CL U L P inputHash
                 })
             })))"

definition Ceilometer_reconcileNormal :: "'c condition_pkg \<Rightarrow> controllerutil \<Rightarrow> commonlib \<Rightarrow> ('c, 'w) platform
    \<Rightarrow> (('c Ceilometer, 'w) handler, reconcile_result outcome) state" where
  "Ceilometer_reconcileNormal CL U L P = do {
     instance' \<leftarrow> get_inst;
     (conds, rbacResult, err) \<leftarrow> api (ReconcileRbac P (Ceilometer_RbacNamespace instance')
       (Ceilometer_RbacResourceName instance') rbacRules);
     update_inst (fold (Ceilometer_RbacConditionsSet CL) conds);
     if err \<noteq> None then returns (rbacResult, err)
     else if rbacResult \<noteq> Result0 then returns (rbacResult, None)
     else do {
       instance' \<leftarrow> get_inst;
       t \<leftarrow> api (Ceilometer_transportURLCreateOrUpdate U P instance');
       case t of
         Inl e \<Rightarrow> do {
           update_inst (cmap (\<lambda>cs. cond_Set CL cs (Some (FalseCondition CL RabbitMqTransportURLReadyCondition ErrorReason
             SeverityWarning (Lib ''RabbitMqTransportURLReadyErrorMessage'') [Error e]))));
           returns (Result0, Some e)
         }
       | Inr transportURL \<Rightarrow> do {
           update_inst (\<lambda>i. i\<lparr>Status := (Status i)\<lparr>ces_TransportURLSecret := tu_SecretName transportURL\<rparr>\<rparr>);
           if tu_SecretName transportURL = '''' then do {
             update_inst (cmap (\<lambda>cs. cond_Set CL cs (Some (FalseCondition CL RabbitMqTransportURLReadyCondition RequestedReason
               SeverityInfo (Lib ''RabbitMqTransportURLReadyRunningMessage'') []))));
             returns (requeue_after (seconds 10), None)
           }
           else do {
             update_inst (cmap (\<lambda>cs. MarkTrue CL cs RabbitMqTransportURLReadyCondition (Lib ''RabbitMqTransportURLReadyMessage'')));
             pbind (Ceilometer_getSecret CL P (ce_Secret (Spec instance')) []) (\<lambda>(configMapVars, ctrlResult, err).
               if err \<noteq> None then returns (ctrlResult, err)
               else pbind (Ceilometer_getSecret CL P (tu_SecretName transportURL) configMapVars) (\<lambda>(configMapVars, ctrlResult, err).
                 if err \<noteq> None then returns (ctrlResult, err)
                 else do {
                   update_inst (cmap (\<lambda>cs. MarkTrue CL cs InputReadyCondition (Lib ''InputReadyMessage'')));
                   Ceilometer_configure CL U L P configMapVars
                 }))
           }
         }
     }
   }"

definition Ceilometer_conditions :: "'c condition_pkg \<Rightarrow> 'c list" where
  "Ceilometer_conditions CL =
    [UnknownCondition CL InputReadyCondition InitReason (Lib ''InputReadyInitMessage''),
     UnknownCondition CL ServiceConfigReadyCondition InitReason (Lib ''ServiceConfigReadyInitMessage''),
     UnknownCondition CL DeploymentReadyCondition InitReason (Lib ''DeploymentReadyInitMessage''),
     UnknownCondition CL ServiceAccountReadyCondition InitReason (Lib ''ServiceAccountReadyInitMessage''),
     UnknownCondition CL RoleReadyCondition InitReason (Lib ''RoleReadyInitMessage''),
     UnknownCondition CL RoleBindingReadyCondition InitReason (Lib ''RoleBindingReadyInitMessage''),
     UnknownCondition CL KeystoneServiceReadyCondition InitReason (Text '''')]"

definition Ceilometer_work :: "'c condition_pkg \<Rightarrow> controllerutil \<Rightarrow> commonlib \<Rightarrow> ('c, 'w) platform
    \<Rightarrow> ('c Ceilometer, 'w) crapi \<Rightarrow> 'c Ceilometer \<Rightarrow> (('c Ceilometer, 'w) handler, reconcile_result outcome) state" where
  "Ceilometer_work CL U L P A before = do {
     _ \<leftarrow> init_hash;
     instance' \<leftarrow> get_inst;
     if m_DeletionTimestamp (Meta instance') \<noteq> None
     then do { r \<leftarrow> Ceilometer_reconcileDelete U P A; returns r }
     else Ceilometer_reconcileNormal CL U L P
   }"

definition Ceilometer_Reconcile :: "'c condition_pkg \<Rightarrow> controllerutil \<Rightarrow> commonlib \<Rightarrow> ('c, 'w) platform
    \<Rightarrow> ('c Ceilometer, 'w) crapi \<Rightarrow> NamespacedName \<Rightarrow> ('w, reconcile_result outcome) state" where
  "Ceilometer_Reconcile CL U L P A req = do {
     got \<leftarrow> Get_instance A req;
     case got of
       Inl err \<Rightarrow> if IsNotFound err then returns (Result0, None) else returns (Result0, Some err)
     | Inr instance' \<Rightarrow> (case NewHelper A instance' of
           Some err \<Rightarrow> returns (Result0, Some err)
         | None \<Rightarrow> with_inst instance' (do {
             out \<leftarrow> (do {
               added \<leftarrow> ensure_finalizer U A;
               if added then returns (Result0, None)
               else do {
                 i \<leftarrow> get_inst;
                 if Conditions (Status i) = None
                 then do { _ \<leftarrow> init_conditions CL (Ceilometer_conditions CL); returns (Result0, None) }
                 else Ceilometer_work CL U L P A instance'
               }
             });
             deferred CL A True instance' out
           }))
   }"

interpretation cei: reconciler "Ceilometer_Reconcile CL U L P A" CL U A "Ceilometer_conditions CL"
    "Ceilometer_work CL U L P A" True for CL U L P A
  by unfold_locales (unfold Ceilometer_Reconcile_def reconcile_frame_def reconcile_body_def, rule refl)

section \<open>Properties\<close>

lemma fold_ceilometer_rbac:
  "Spec (fold (Ceilometer_RbacConditionsSet CL) conds i) = Spec i"
  "Meta (fold (Ceilometer_RbacConditionsSet CL) conds i) = Meta i"
  "Hash (Status (fold (Ceilometer_RbacConditionsSet CL) conds i)) = Hash (Status i)"
  by (induction conds arbitrary: i) (simp_all add: Ceilometer_RbacConditionsSet_def)

text \<open>What the steps that collect and render the inputs do to the instance, whatever the cluster answers.\<close>

lemma wp_ceilometer_getSecret:
  assumes "\<And>vars' w. Q (Return (vars', Result0, None)) (s\<lparr>world := w\<rparr>)"
    and "\<And>e r f w. Q (Return (vars, r, Some e)) (s\<lparr>world := w, inst := cmap f (inst s)\<rparr>)"
    and "\<And>m w. Q (Panic m) (s\<lparr>world := w\<rparr>)"
  shows "wp (Ceilometer_getSecret CL P name vars) Q s"
  unfolding Ceilometer_getSecret_def
  by (auto simp: wp_simps deref_def assms intro!: wp_api_any split: option.splits)

lemma wp_ceilometer_config:
  assumes "\<And>r w. Q (Return r) (s\<lparr>world := w\<rparr>)" and "\<And>m w. Q (Panic m) (s\<lparr>world := w\<rparr>)"
  shows "wp (Ceilometer_generateServiceConfig L P vars) Q s"
    and "wp (Ceilometer_generateComputeServiceConfig L P vars) Q s"
  unfolding Ceilometer_generateServiceConfig_def Ceilometer_generateComputeServiceConfig_def Let_def
  by (auto simp: wp_simps deref_def assms intro!: wp_api_any split: option.splits sum.splits)

text \<open>Everything that a finished pass has achieved.\<close>

definition ceilometer_configured :: "'c condition_pkg \<Rightarrow> 'c Ceilometer \<Rightarrow> bool" where
  "ceilometer_configured CL i \<longleftrightarrow>
     IsTrue CL (Conditions (Status i)) RabbitMqTransportURLReadyCondition \<and>
     IsTrue CL (Conditions (Status i)) InputReadyCondition \<and>
     IsTrue CL (Conditions (Status i)) ServiceConfigReadyCondition \<and>
     ces_Networks (Status i) = ce_NetworkAttachmentDefinitions (Spec i) \<and>
     (0 <s ces_ReadyCount (Status i) \<longrightarrow> IsTrue CL (Conditions (Status i)) DeploymentReadyCondition)"

lemma wp_ceilometer_deploy:
  assumes laws: "condition_laws CL Has ct tr"
    and "IsTrue CL (Conditions (Status (inst s))) RabbitMqTransportURLReadyCondition"
      "IsTrue CL (Conditions (Status (inst s))) InputReadyCondition"
      "IsTrue CL (Conditions (Status (inst s))) ServiceConfigReadyCondition"
  shows "wp (Ceilometer_deploy CL U L P inputHash)
    (\<lambda>out s'. out = Return (Result0, None) \<longrightarrow> ceilometer_configured CL (inst s')) s"
  unfolding Ceilometer_deploy_def Ceilometer_reconcileInit_def mirror_condition_def Let_def ceilometer_configured_def
  using assms(2-4) condition_laws.ctype_Mirror [OF laws]
  by (auto simp: wp_simps condition_laws.IsTrue_MarkTrue [OF laws] condition_laws.IsTrue_Set [OF laws]
      init_hash_def intro!: wp_api_any split: option.splits sum.splits)

lemma wp_ceilometer_configure:
  assumes laws: "condition_laws CL Has ct tr" and lib: "commonlib_laws L"
    and h: "Hash (Status (inst s)) = Some h"
    and "IsTrue CL (Conditions (Status (inst s))) RabbitMqTransportURLReadyCondition"
      "IsTrue CL (Conditions (Status (inst s))) InputReadyCondition"
  shows "wp (Ceilometer_configure CL U L P vars)
    (\<lambda>out s'. out = Return (Result0, None) \<longrightarrow> ceilometer_configured CL (inst s') \<or>
       map_read (the (Hash (Status (inst s')))) (InputHashName L) \<noteq> map_read h (InputHashName L)) s"
proof -
  let ?Q = "\<lambda>out s'. out = Return (Result0, None) \<longrightarrow> ceilometer_configured CL (inst s') \<or>
       map_read (the (Hash (Status (inst s')))) (InputHashName L) \<noteq> map_read h (InputHashName L)"
  have deploy: "wp (Ceilometer_deploy CL U L P hash) ?Q s'"
    if "IsTrue CL (Conditions (Status (inst s'))) RabbitMqTransportURLReadyCondition"
      "IsTrue CL (Conditions (Status (inst s'))) InputReadyCondition"
      "IsTrue CL (Conditions (Status (inst s'))) ServiceConfigReadyCondition" for hash s'
    by (rule wp_mono [OF wp_ceilometer_deploy [OF laws that]]) simp
  have stored: "map_read (the h') (InputHashName L) \<noteq> map_read h (InputHashName L)"
    if "SetHash L (Some h) (InputHashName L) v = (h', True)" for v h'
    using commonlib_laws.SetHash_stored [OF lib that] commonlib_laws.SetHash_changed [OF lib, of h "InputHashName L" v] that
    by auto
  show ?thesis
    unfolding Ceilometer_configure_def Let_def wp_simps
    by (rule wp_ceilometer_config(1);
        (auto simp: wp_simps split: option.splits)?;
        (rule wp_ceilometer_config(2);
          (auto simp: wp_simps split: option.splits)?;
          (rule cei_hash.wp_createHash_any;
            auto simp: wp_simps wp_store_Hash h stored condition_laws.IsTrue_MarkTrue [OF laws] assms(4,5)
              intro!: deploy)?)?)
qed

text \<open>
  C3: When a pass of the Ceilometer controller over an initialised instance returns neither an error nor
  a request to be called again, then either the stored hash of the inputs has changed (and the next pass
  goes on), or the message queue, the inputs and the configuration are reported ready, the networks are
  those of the spec, and the deployment is reported ready if a replica is. This holds for every answer
  of the cluster.
\<close>

theorem ceilometer_normal_outcome:
  assumes laws: "condition_laws CL Has ct tr" and lib: "commonlib_laws L"
    and h: "Hash (Status i) = Some h"
    and run: "run_state (Ceilometer_reconcileNormal CL U L P) \<lparr>inst = i, world = w\<rparr> = (Return (Result0, None), s')"
  shows "ceilometer_configured CL (inst s') \<or>
    map_read (the (Hash (Status (inst s')))) (InputHashName L) \<noteq> map_read h (InputHashName L)"
proof -
  have "wp (Ceilometer_reconcileNormal CL U L P)
    (\<lambda>out s'. out = Return (Result0, None) \<longrightarrow> ceilometer_configured CL (inst s') \<or>
       map_read (the (Hash (Status (inst s')))) (InputHashName L) \<noteq> map_read h (InputHashName L)) \<lparr>inst = i, world = w\<rparr>"
    unfolding Ceilometer_reconcileNormal_def wp_simps
    by (rule wp_api_any)
      (auto simp: wp_simps fold_ceilometer_rbac h condition_laws.IsTrue_MarkTrue [OF laws] seconds_def
        intro!: wp_api_any wp_ceilometer_getSecret wp_ceilometer_configure [OF laws lib]
        split: sum.splits)
  from wp_run [OF this run] show ?thesis by simp
qed

text \<open>A Ceilometer resource for witnesses.\<close>

definition ref_ceilometer :: "ref_cond Ceilometer" where
  "ref_ceilometer = \<lparr>Meta = (ObjectMeta_named ''ceilometer'' ''openstack'')\<lparr>m_Finalizers := [''ceilometer'']\<rparr>,
     Spec = CeilometerSpec0\<lparr>ce_Secret := ''osp-secret'',
       ce_PasswordSelectors := \<lparr>pw_Service = ''MyPassword'', pw_AodhService = '''', pw_Database = ''''\<rparr>\<rparr>,
     Status = CeilometerStatus0\<lparr>Conditions := Some [(ReadyCondition, False)], Hash := Some Map.empty\<rparr>\<rparr>"

lemma ref_ceilometer_pass:
  "fst (run_state (Ceilometer_reconcileNormal ref_pkg ref_controllerutil ref_commonlib ref_platform)
     \<lparr>inst = ref_ceilometer, world = []\<rparr>) = Return (Result0, None)"
  by (simp add: Ceilometer_reconcileNormal_def Ceilometer_transportURLCreateOrUpdate_def Ceilometer_mutate_transportURL_def
      Ceilometer_getSecret_def Ceilometer_configure_def Ceilometer_generateServiceConfig_def
      Ceilometer_generateComputeServiceConfig_def Ceilometer_createHashOfInputHashes_def ref_platform_def ref_log_def
      ref_commonlib_def ref_controllerutil_def ref_ceilometer_def CeilometerStatus0_def map_read_def Let_def)

theorem ceilometer_normal_outcome_witness:
  "\<exists>s'. run_state (Ceilometer_reconcileNormal ref_pkg ref_controllerutil ref_commonlib ref_platform)
      \<lparr>inst = ref_ceilometer, world = []\<rparr> = (Return (Result0, None), s') \<and>
     (ceilometer_configured ref_pkg (inst s') \<or>
      map_read (the (Hash (Status (inst s')))) ''input'' \<noteq> map_read Map.empty ''input'')"
proof -
  obtain s' where run: "run_state (Ceilometer_reconcileNormal ref_pkg ref_controllerutil ref_commonlib ref_platform)
      \<lparr>inst = ref_ceilometer, world = []\<rparr> = (Return (Result0, None), s')"
    using ref_ceilometer_pass by (metis prod.collapse)
  have "Hash (Status ref_ceilometer) = Some Map.empty" by (simp add: ref_ceilometer_def CeilometerStatus0_def)
  from ceilometer_normal_outcome [OF ref.condition_laws_axioms ref_lib.commonlib_laws_axioms this run] run
  show ?thesis by (auto simp: ref_InputHashName)
qed

text \<open>
  C38: \<open>DeploymentReady\<close> is not taken back: when the StatefulSet is applied and answers that no replica is
  ready, the controller records a ready count of 0 but leaves the condition of an earlier pass as it was.
\<close>

theorem ceilometer_deployment_ready_sticks:
  assumes "condition_laws CL Has ct tr"
    and "\<And>ss t. steady (StatefulSet_CreateOrPatch P ss t) ((Result0, None), 0)"
    and "run_state (Ceilometer_deploy CL U L P inputHash) \<lparr>inst = i, world = w\<rparr> = (Return (Result0, None), s')"
  shows "ces_ReadyCount (Status (inst s')) = 0 \<and>
    (IsTrue CL (Conditions (Status (inst s'))) DeploymentReadyCondition \<longleftrightarrow>
     IsTrue CL (Conditions (Status i)) DeploymentReadyCondition)"
proof -
  have "wp (Ceilometer_deploy CL U L P inputHash) (\<lambda>out s'. out = Return (Result0, None) \<longrightarrow>
      ces_ReadyCount (Status (inst s')) = 0 \<and>
      (IsTrue CL (Conditions (Status (inst s'))) DeploymentReadyCondition \<longleftrightarrow>
       IsTrue CL (Conditions (Status i)) DeploymentReadyCondition)) \<lparr>inst = i, world = w\<rparr>"
    unfolding Ceilometer_deploy_def Ceilometer_reconcileInit_def mirror_condition_def Let_def
    using condition_laws.ctype_Mirror [OF assms(1)]
    by (auto simp: wp_simps condition_laws.IsTrue_MarkTrue [OF assms(1)] condition_laws.IsTrue_Set [OF assms(1)]
        wp_steady_eq [OF assms(2)] init_hash_def intro!: wp_api_any split: option.splits sum.splits)
  from wp_run [OF this assms(3)] show ?thesis by simp
qed

theorem ceilometer_deployment_ready_sticks_witness:
  "let P = ref_platform\<lparr>StatefulSet_CreateOrPatch := \<lambda>ss t. ref_log ''patch statefulset'' ((Result0, None), 0)\<rparr>;
       i = cmap (\<lambda>_. Some [(DeploymentReadyCondition, True)]) ref_ceilometer
   in \<exists>s'. run_state (Ceilometer_deploy ref_pkg ref_controllerutil ref_commonlib P ''h'') \<lparr>inst = i, world = []\<rparr>
        = (Return (Result0, None), s') \<and>
      ces_ReadyCount (Status (inst s')) = 0 \<and> IsTrue ref_pkg (Conditions (Status (inst s'))) DeploymentReadyCondition"
proof -
  let ?P = "ref_platform\<lparr>StatefulSet_CreateOrPatch := \<lambda>ss t. ref_log ''patch statefulset'' ((Result0, None), 0)\<rparr>"
  let ?i = "cmap (\<lambda>_. Some [(DeploymentReadyCondition, True)]) ref_ceilometer"
  have st: "steady (StatefulSet_CreateOrPatch ?P ss t) ((Result0, None), 0)" for ss t by simp
  have "fst (run_state (Ceilometer_deploy ref_pkg ref_controllerutil ref_commonlib ?P ''h'') \<lparr>inst = ?i, world = []\<rparr>)
      = Return (Result0, None)"
    by (simp add: Ceilometer_deploy_def Ceilometer_reconcileInit_def mirror_condition_def ceilometer_StatefulSet_def ceilometer_Service_def
        mutate_ceilometer_Service_def ref_platform_def ref_log_def ref_commonlib_def ref_controllerutil_def
        Let_def ref_pkg_def)
  then obtain s' where run: "run_state (Ceilometer_deploy ref_pkg ref_controllerutil ref_commonlib ?P ''h'')
      \<lparr>inst = ?i, world = []\<rparr> = (Return (Result0, None), s')"
    by (metis prod.collapse)
  from ceilometer_deployment_ready_sticks [OF ref.condition_laws_axioms st run] run show ?thesis
    by (simp add: Let_def ref_pkg_def ref_IsTrue_def)
qed

text \<open>
  C37: \<open>generateServiceConfig\<close> and \<open>generateComputeServiceConfig\<close> drop the error of \<open>GetSecret\<close>: with a
  Keystone endpoint at hand, an error on the secret of the message queue makes them follow a nil pointer.
\<close>

theorem ceilometer_config_panics:
  assumes "GetSecret_law P"
    and "\<And>ns. steady (GetKeystoneAPI P ns) (Inr api_of)" and "api_of (endpoint_EndpointInternal L) = Inr url"
    and "\<And>ns w. fst (run_state (GetSecret P (ces_TransportURLSecret (Status (inst s))) ns) w) = (sec, hash, Some e)"
  shows "fst (run_state (Ceilometer_generateServiceConfig L P vars) s) =
      Panic ''invalid memory address or nil pointer dereference'' \<and>
    fst (run_state (Ceilometer_generateComputeServiceConfig L P vars) s) =
      Panic ''invalid memory address or nil pointer dereference''"
proof -
  have nil: "sec = None"
    using assms(1) assms(4) unfolding GetSecret_law_def by (metis option.distinct(1) prod.collapse)
  have get: "steady (GetSecret P (ces_TransportURLSecret (Status (inst s))) ns) (None, hash, Some e)" for ns
    using assms(4) nil by (simp add: steady_def)
  have "wp (Ceilometer_generateServiceConfig L P vars)
      (\<lambda>out _. out = Panic ''invalid memory address or nil pointer dereference'') s"
    and "wp (Ceilometer_generateComputeServiceConfig L P vars)
      (\<lambda>out _. out = Panic ''invalid memory address or nil pointer dereference'') s"
    unfolding Ceilometer_generateServiceConfig_def Ceilometer_generateComputeServiceConfig_def Let_def
    using assms(3)
    by (auto simp: wp_simps wp_steady_eq [OF assms(2)] wp_steady_eq [OF get] deref_def intro!: wp_api_any)
  then show ?thesis by (auto simp: wp_def split: prod.splits)
qed

theorem ceilometer_config_panics_witness:
  "fst (run_state (Ceilometer_generateServiceConfig ref_commonlib
      (ref_platform\<lparr>GetSecret := \<lambda>name ns. ref_log ''get secret'' (None, '''', Some ref_NotFound)\<rparr>) [])
      \<lparr>inst = ref_ceilometer, world = []\<rparr>) = Panic ''invalid memory address or nil pointer dereference''"
proof -
  let ?P = "ref_platform\<lparr>GetSecret := \<lambda>name ns. ref_log ''get secret'' (None, '''', Some ref_NotFound)\<rparr>"
  have "GetSecret_law ?P" by (simp add: GetSecret_law_def ref_log_def)
  moreover have "steady (GetKeystoneAPI ?P ns) (Inr (\<lambda>e. Inr (''http://'' @ e)))" for ns
    by (simp add: ref_platform_def)
  moreover have "fst (run_state (GetSecret ?P (ces_TransportURLSecret (Status (inst \<lparr>inst = ref_ceilometer, world = []\<rparr>))) ns) w)
      = (None, '''', Some ref_NotFound)" for ns w
    by (simp add: ref_log_def)
  ultimately show ?thesis
    using ceilometer_config_panics [of ?P _ ref_commonlib _ "\<lparr>inst = ref_ceilometer, world = []\<rparr>"] by blast
qed

text \<open>
  The rendered configuration of Ceilometer does not depend on \<open>passwordSelectors\<close>: it takes the
  password from the fixed key \<open>CeilometerPassword\<close> of the secret, although the user is registered with
  Keystone under the key that \<open>passwordSelectors.service\<close> names.
\<close>

theorem ceilometer_config_ignores_password_selector:
  "map_prod id world (run_state (Ceilometer_generateServiceConfig L P vars)
      \<lparr>inst = i\<lparr>Spec := (Spec i)\<lparr>ce_PasswordSelectors := p\<rparr>\<rparr>, world = w\<rparr>) =
    map_prod id world (run_state (Ceilometer_generateServiceConfig L P vars) \<lparr>inst = i, world = w\<rparr>) \<and>
   map_prod id world (run_state (Ceilometer_generateComputeServiceConfig L P vars)
      \<lparr>inst = i\<lparr>Spec := (Spec i)\<lparr>ce_PasswordSelectors := p\<rparr>\<rparr>, world = w\<rparr>) =
    map_prod id world (run_state (Ceilometer_generateComputeServiceConfig L P vars) \<lparr>inst = i, world = w\<rparr>)"
  by (auto simp: Ceilometer_generateServiceConfig_def Ceilometer_generateComputeServiceConfig_def Let_def deref_def
      split: prod.splits sum.splits option.splits)

section \<open>Deletion\<close>


text \<open>A platform for witnesses whose world is the stored KeystoneService.\<close>

definition ref_ks_platform :: "(ref_cond, ObjectMeta option) platform" where
  "ref_ks_platform = \<lparr>
     GetSecret = (\<lambda>name ns. return (None, '''', Some ref_NotFound)),
     EnsureSecrets = (\<lambda>m ts vars. return (vars, None)),
     ReconcileRbac = (\<lambda>ns name rules. return ([], Result0, None)),
     GetKeystoneAPI = (\<lambda>ns. return (Inl ref_NotFound)),
     GetKeystoneServiceWithName = (\<lambda>name ns. State (\<lambda>w. (case w of None \<Rightarrow> Inl ref_NotFound | Some m \<Rightarrow> Inr m, w))),
     Update_KeystoneService = (\<lambda>m. State (\<lambda>w. (None, Some m))),
     KeystoneService_CreateOrPatch = (\<lambda>spec ns labels t. return ((Result0, None), None)),
     TransportURL_CreateOrUpdate = (\<lambda>t f. return (f t)),
     StatefulSet_CreateOrPatch = (\<lambda>ss t. return ((Result0, None), 1)),
     Service_CreateOrUpdate = (\<lambda>sv f. return (f sv))\<rparr>"

lemma keystone_store_ref: "keystone_store ref_ks_platform id"
  by (auto simp: keystone_store_def ref_ks_platform_def split: option.splits)

definition ref_ceilometer_api :: "(ref_cond Ceilometer, ObjectMeta option) crapi" where
  "ref_ceilometer_api = \<lparr>Get_instance = (\<lambda>_. return (Inr ref_ceilometer)), NewHelper = (\<lambda>_. None),
     GetFinalizer = ''ceilometer'', PatchInstance = (\<lambda>_ _. return None)\<rparr>"


end
