(* ===== verification/Convergence.thy ===== *)
theory Convergence
  imports Input_Hash
begin

text \<open>
  Liveness of the controllers, what they share. A controller is asked to reconcile again whenever its
  resource changes; \<open>runs_to\<close> says what a number of runs achieves, whatever else happens between them. The
  runs over a new resource are a lemma of \<open>reconciler\<close>; the locale \<open>hash_reconciler\<close> adds the controllers that
  stop at a changed hash of their inputs and go on when it is stored.
\<close>

section \<open>Runs in a row\<close>

text \<open>
  The API server as a controller relies on it: \<open>stored\<close> is the resource under the key of the request; \<open>Get\<close>
  reads it and a patch stores the instance it is given.
\<close>

definition stores_instance :: "('i, 'w, 'x) crapi_scheme \<Rightarrow> NamespacedName \<Rightarrow> ('w \<Rightarrow> 'i option) \<Rightarrow> bool" where
  "stores_instance A req stored \<longleftrightarrow> (\<forall>i. NewHelper A i = None) \<and>
     (\<forall>w i. stored w = Some i \<longrightarrow> run_state (Get_instance A req) w = (Inr i, w)) \<and>
     (\<forall>before i w. \<exists>w'. run_state (PatchInstance A before i) w = (None, w') \<and> stored w' = Some i)"

text \<open>
  \<open>runs_to n m stored Q v\<close>: \<open>n\<close> runs of \<open>m\<close> from \<open>v\<close> each end without an error and without a request to be
  called again, and then \<open>Q\<close> holds of what is stored. Between two runs everything but the stored resource may
  change.
\<close>

fun runs_to :: "nat \<Rightarrow> ('w, reconcile_result outcome) state \<Rightarrow> ('w \<Rightarrow> 'i option) \<Rightarrow> ('i \<Rightarrow> bool) \<Rightarrow> 'w \<Rightarrow> bool" where
  "runs_to 0 m stored Q v \<longleftrightarrow> (\<exists>i. stored v = Some i \<and> Q i)"
| "runs_to (Suc n) m stored Q v \<longleftrightarrow> (\<exists>w. run_state m v = (Return (Result0, None), w) \<and>
     (\<forall>v'. stored v' = stored w \<longrightarrow> runs_to n m stored Q v'))"

lemma runs_to_mono:
  "runs_to n m stored Q v \<Longrightarrow> (\<And>i. Q i \<Longrightarrow> R i) \<Longrightarrow> runs_to n m stored R v"
  by (induction n arbitrary: v) (simp, blast, simp, blast)

lemma runs_to_step:
  assumes "run_state m v = (Return (Result0, None), w)" and "stored w = Some i"
    and "\<And>v'. stored v' = Some i \<Longrightarrow> runs_to n m stored Q v'"
  shows "runs_to (Suc n) m stored Q v"
  using assms by simp

text \<open>What is stored for a new resource: the finalizer, and Ready as its only condition.\<close>

definition settled :: "controllerutil \<Rightarrow> ('i, 'w, 'x) crapi_scheme \<Rightarrow> ('sp, ('c, 'z) StatusBase_scheme) CR \<Rightarrow> bool" where
  "settled U A i \<longleftrightarrow> m_DeletionTimestamp (Meta i) = None \<and>
     AddFinalizer U (Meta i) (GetFinalizer A) = (Meta i, False) \<and> Conditions (Status i) \<noteq> None"

lemma settled_cong: "Meta j = Meta i \<Longrightarrow> Conditions (Status j) \<noteq> None \<Longrightarrow> settled U A i \<Longrightarrow> settled U A j"
  by (simp add: settled_def)

lemma settled_meta_ready: "settled U A i \<Longrightarrow> meta_ready U A i"
  by (simp add: settled_def meta_ready_def)

lemma run_patch_stored:
  assumes "stores_instance A req stored"
  shows "\<exists>w'. run_state (patch_and_report A named before after out) w = (out, w') \<and> stored w' = Some after"
proof -
  obtain w' where "run_state (PatchInstance A before after) w = (None, w')" "stored w' = Some after"
    using assms unfolding stores_instance_def by blast
  then show ?thesis by (simp add: patch_and_report_def)
qed

context reconciler begin

lemma stored_fresh:
  assumes laws: "condition_laws CL Has ct tr" and fin: "finalizer_laws U"
    and A: "stores_instance A req stored" "stored v = Some i"
    and new: "m_DeletionTimestamp (Meta i) = None" "GetFinalizer A \<notin> set (m_Finalizers (Meta i))" "Conditions (Status i) = None"
  obtains w i1 where "run_state (Reconcile req) v = (Return (Result0, None), w)" "stored w = Some i1"
    "settled U A i1" "Spec i1 = Spec i" "\<forall>t. Has (Conditions (Status i1)) t \<longleftrightarrow> t = ReadyCondition"
proof -
  let ?i = "cmap (update_ready CL) (i\<lparr>Meta := fst (AddFinalizer U (Meta i) (GetFinalizer A))\<rparr>)"
  have get: "run_state (Get_instance A req) v = (Inr i, v)" "NewHelper A i = None"
    using A by (simp_all add: stores_instance_def)
  obtain w where "run_state (Reconcile req) v = (Return (Result0, None), w)" "stored w = Some ?i"
    using fresh(1) [OF laws fin get new] run_patch_stored [OF A(1)] by metis
  moreover have "settled U A ?i"
    using new finalizer_laws.AddFinalizer [OF fin] condition_laws.update_ready_not_nil [OF laws]
    by (simp add: settled_def del: not_None_eq)
  moreover have "Has (Conditions (Status ?i)) t \<longleftrightarrow> t = ReadyCondition" for t
    using fresh(3) [OF laws fin get new] .
  ultimately show thesis by (intro that [of w ?i]) simp_all
qed

lemma stored_pass:
  assumes A: "stores_instance A req stored" "stored v = Some j" and j: "settled U A j"
    and run: "run_state (work j) \<lparr>inst = j, world = v\<rparr> = (out, s)"
  obtains w where "run_state (Reconcile req) v = (out, w)" "stored w = Some (cmap (update_ready CL) (inst s))"
proof -
  have get: "run_state (Get_instance A req) v = (Inr j, v)" "NewHelper A j = None"
    using A by (simp_all add: stores_instance_def)
  have "Conditions (Status j) \<noteq> None" using j by (simp add: settled_def)
  then have body: "run_state (reconcile_body CL U A cl (work j)) \<lparr>inst = j, world = v\<rparr> = (out, s)"
    using body_work [OF settled_meta_ready [OF j]] run by simp
  obtain w where "run_state (Reconcile req) v = (out, w)" "stored w = Some (cmap (update_ready CL) (inst s))"
    using exit [OF get body] run_patch_stored [OF A(1)] body by (metis reconciled_def snd_conv)
  then show thesis by (rule that)
qed

end

section \<open>The conditions\<close>

text \<open>The types that \<open>ReconcileRbac\<close> sets, each through a copy of the instance.\<close>

definition rbac_types :: "cond_Type list" where
  "rbac_types = [ServiceAccountReadyCondition, RoleReadyCondition, RoleBindingReadyCondition]"

definition rbac_granted :: "('c \<Rightarrow> cond_Type) \<Rightarrow> ('c \<Rightarrow> bool) \<Rightarrow> 'c list \<Rightarrow> bool" where
  "rbac_granted ct tr conds \<longleftrightarrow> ct ` set conds = set rbac_types \<and> (\<forall>c \<in> set conds. tr c)"

text \<open>
  A resource has no condition but Ready, those of the access rules and those of the list \<open>types\<close>. This holds
  of a new resource, of one that \<open>Reconcile\<close> has initialised, and of one whose first \<open>Reconcile\<close> has stored
  nothing but Ready.
\<close>

definition tracked :: "('c conditions \<Rightarrow> cond_Type \<Rightarrow> bool) \<Rightarrow> cond_Type list \<Rightarrow> 'c conditions \<Rightarrow> bool" where
  "tracked Has types cs \<longleftrightarrow> (\<forall>t. Has cs t \<longrightarrow> t = ReadyCondition \<or> t \<in> set rbac_types \<or> t \<in> set types)"

text \<open>The conditions of the access rules may be missing, but none of them is bad.\<close>

definition rbac_ok :: "'c condition_pkg \<Rightarrow> ('c conditions \<Rightarrow> cond_Type \<Rightarrow> bool) \<Rightarrow> 'c conditions \<Rightarrow> bool" where
  "rbac_ok CL Has cs \<longleftrightarrow> (\<forall>t \<in> set rbac_types. Has cs t \<longrightarrow> IsTrue CL cs t)"

definition all_true :: "'c condition_pkg \<Rightarrow> ('c conditions \<Rightarrow> cond_Type \<Rightarrow> bool) \<Rightarrow> cond_Type list \<Rightarrow> 'c conditions \<Rightarrow> bool" where
  "all_true CL Has types cs \<longleftrightarrow> rbac_ok CL Has cs \<and> (\<forall>t \<in> set types. IsTrue CL cs t)"

lemmas tracking_defs = tracked_def rbac_ok_def all_true_def

lemma fold_rbac_conditions:
  fixes i :: "('sp, ('c, 'z) StatusBase_scheme) CR"
  assumes laws: "condition_laws CL Has ct tr" and S: "\<And>c. S c = cmap (\<lambda>cs. Set_through_copy CL cs (Some c))"
    and "\<forall>c \<in> set conds. tr c" and "Has (Conditions (Status (fold S conds i))) t"
  shows "(t \<in> ct ` set conds \<or> Has (Conditions (Status i)) t) \<and>
    (t \<in> ct ` set conds \<or> IsTrue CL (Conditions (Status i)) t \<longrightarrow> IsTrue CL (Conditions (Status (fold S conds i))) t)"
  using assms(3,4)
proof (induction conds rule: rev_induct)
  case (snoc c conds)
  let ?cs = "Conditions (Status (fold S conds i))"
  have set: "Conditions (Status (S c j)) = Set_through_copy CL (Conditions (Status j)) (Some c)" for j by (simp add: S)
  have has: "Has (Set_through_copy CL ?cs (Some c)) t" using snoc.prems(2) by (simp add: set)
  note old = condition_laws.Has_Set_copy [OF laws has] and val = condition_laws.IsTrue_Set_copy [OF laws has]
  show ?case
  proof (cases "t = ct c")
    case True
    with snoc.prems val show ?thesis by (simp add: set)
  next
    case False
    with old snoc.IH snoc.prems(1) val show ?thesis by (auto simp: set)
  qed
qed simp

lemma fold_rbac_ok:
  fixes i :: "('sp, ('c, 'z) StatusBase_scheme) CR"
  assumes "condition_laws CL Has ct tr" and "\<And>c. S c = cmap (\<lambda>cs. Set_through_copy CL cs (Some c))"
    and "rbac_granted ct tr conds" and "tracked Has types (Conditions (Status i))"
  shows "tracked Has types (Conditions (Status (fold S conds i)))" and "rbac_ok CL Has (Conditions (Status (fold S conds i)))"
  using fold_rbac_conditions [OF assms(1,2), of conds i] assms(3,4)
  unfolding tracking_defs rbac_granted_def by blast+

context condition_laws begin

lemma tracked_update_ready: "tracked Has types cs \<Longrightarrow> tracked Has types (update_ready CL cs)"
  by (auto simp: tracked_def Has_update_ready)

lemma tracked_MarkTrue: "t \<in> set types \<Longrightarrow> tracked Has types cs \<Longrightarrow> tracked Has types (MarkTrue CL cs t msg)"
  by (auto simp: tracked_def cond_simps)

lemma tracked_Set: "ctype c \<in> set types \<Longrightarrow> tracked Has types cs \<Longrightarrow> tracked Has types (cond_Set CL cs (Some c))"
  by (auto simp: tracked_def cond_simps)

lemma rbac_ok_MarkTrue: "rbac_ok CL Has cs \<Longrightarrow> rbac_ok CL Has (MarkTrue CL cs t msg)"
  by (auto simp: rbac_ok_def cond_simps)

lemma rbac_ok_Set: "ctrue c \<Longrightarrow> rbac_ok CL Has cs \<Longrightarrow> rbac_ok CL Has (cond_Set CL cs (Some c))"
  by (auto simp: rbac_ok_def cond_simps)

lemma all_true_ready: "tracked Has types cs \<Longrightarrow> all_true CL Has types cs \<Longrightarrow> IsTrue CL (update_ready CL cs) ReadyCondition"
  unfolding update_ready_iff AllSub_iff tracking_defs by blast

lemma all_true_update_ready:
  "ReadyCondition \<notin> set types \<Longrightarrow> all_true CL Has types cs \<Longrightarrow> \<forall>t \<in> set types. IsTrue CL (update_ready CL cs) t"
  using IsTrue_update_ready_sub by (metis all_true_def)

end

section \<open>Controllers with a hash of their inputs\<close>

text \<open>
  What a pass over \<open>i\<close> does on a cluster with steady answers: it ends well, stores the hash of the inputs, and
  when that was stored already, it has achieved \<open>done\<close>.
\<close>

definition pass_after :: "('c conditions \<Rightarrow> cond_Type \<Rightarrow> bool) \<Rightarrow> cond_Type list \<Rightarrow> commonlib
    \<Rightarrow> (('sp, ('c, 'z) HashStatus_scheme) CR \<Rightarrow> bool) \<Rightarrow> string \<Rightarrow> ('sp, ('c, 'z) HashStatus_scheme) CR
    \<Rightarrow> reconcile_result outcome \<Rightarrow> ('sp, ('c, 'z) HashStatus_scheme) CR \<Rightarrow> bool" where
  "pass_after Has types L goal hash i out i' \<longleftrightarrow> out = Return (Result0, None) \<and>
     Meta i' = Meta i \<and> Spec i' = Spec i \<and> tracked Has types (Conditions (Status i')) \<and>
     has_hash i' \<and> map_read (the (Hash (Status i'))) (InputHashName L) = hash \<and>
     (map_read (the (Hash (Status i))) (InputHashName L) = hash \<longrightarrow> goal i')"

lemma pass_after_cong:
  "Meta i = Meta j \<Longrightarrow> Spec i = Spec j \<Longrightarrow> Hash (Status i) = Hash (Status j) \<Longrightarrow>
     pass_after Has types L goal hash i out i' = pass_after Has types L goal hash j out i'"
  by (simp add: pass_after_def)

text \<open>Every resource with the metadata \<open>m\<close> and the spec \<open>sp\<close> is passed over that way, with one hash.\<close>

definition passes :: "((('sp, ('c, 'z) HashStatus_scheme) CR, 'w) handler, reconcile_result outcome) state
    \<Rightarrow> ('c conditions \<Rightarrow> cond_Type \<Rightarrow> bool) \<Rightarrow> cond_Type list \<Rightarrow> commonlib
    \<Rightarrow> (('sp, ('c, 'z) HashStatus_scheme) CR \<Rightarrow> bool) \<Rightarrow> string \<Rightarrow> ObjectMeta \<Rightarrow> 'sp \<Rightarrow> bool" where
  "passes normal Has types L goal hash m sp \<longleftrightarrow> (\<forall>s. Meta (inst s) = m \<longrightarrow> Spec (inst s) = sp \<longrightarrow> has_hash (inst s) \<longrightarrow>
     tracked Has types (Conditions (Status (inst s))) \<longrightarrow>
     wp normal (\<lambda>out s'. pass_after Has types L goal hash (inst s) out (inst s')) s)"

text \<open>
  The step that the three controllers share: compute the hash, stop when it has changed, else store it again
  and go on.
\<close>

context input_hasher begin

lemma wp_hash_step:
  fixes goal :: "('sp, ('c, 'z) HashStatus_scheme) CR \<Rightarrow> bool"
  assumes lib: "commonlib_laws L" and oh: "ObjectHash L (MergeEnvs L [] vars) = (hash, None)"
    and i: "has_hash (inst s)" "tracked Has types (Conditions (Status (inst s)))"
    and rest: "\<And>h. map_read h (InputHashName L) = hash \<Longrightarrow>
      wp (go hash) (\<lambda>out s'. pass_after Has types L goal hash (inst s) out (inst s')) (s\<lparr>inst := set_Hash (Some h) (inst s)\<rparr>)"
  shows "wp (do {
      (hash, changed, err) \<leftarrow> createHash vars;
      case err of
        Some e \<Rightarrow> fail e
      | None \<Rightarrow> if changed then returns (Result0, None) else pbind (store_Hash (InputHashName L) hash) (\<lambda>_. go hash)
    }) (\<lambda>out s'. pass_after Has types L goal hash (inst s) out (inst s')) s"
proof -
  obtain h where h: "Hash (Status (inst s)) = Some h" using i(1) by (auto simp: has_hash_def)
  obtain h' ch where sh: "SetHash L (Some h) (InputHashName L) hash = (h', ch)" by fastforce
  note stored = commonlib_laws.SetHash_stored [OF lib sh]
    commonlib_laws.SetHash_changed [OF lib, of h "InputHashName L" hash, unfolded sh snd_conv]
  show ?thesis
  proof (cases ch)
    case True
    with h stored i(2) show ?thesis
      by (auto simp: wp_simps wp_createHash [OF oh] sh pass_after_def has_hash_def)
  next
    case False
    with h rest show ?thesis by (simp add: wp_simps wp_createHash [OF oh] sh wp_store_Hash)
  qed
qed

end

locale hash_reconciler = reconciler Reconcile CL U A cl work named
  for Reconcile :: "NamespacedName \<Rightarrow> ('w, reconcile_result outcome) state"
    and CL :: "'c condition_pkg" and U :: controllerutil
    and A :: "(('sp, ('c, 'z) HashStatus_scheme) CR, 'w, 'x) crapi_scheme" and cl :: "'c list"
    and work :: "('sp, ('c, 'z) HashStatus_scheme) CR
      \<Rightarrow> ((('sp, ('c, 'z) HashStatus_scheme) CR, 'w) handler, reconcile_result outcome) state"
    and named :: bool +
  fixes del :: "((('sp, ('c, 'z) HashStatus_scheme) CR, 'w) handler, reconcile_result) state"
    and normal :: "((('sp, ('c, 'z) HashStatus_scheme) CR, 'w) handler, reconcile_result outcome) state"
  assumes work: "work before = do {
    _ \<leftarrow> init_hash;
    instance' \<leftarrow> get_inst;
    if m_DeletionTimestamp (Meta instance') \<noteq> None then do { r \<leftarrow> del; returns r } else normal
  }"
begin

lemma stored_normal:
  assumes A: "stores_instance A req stored" "stored v = Some j" and j: "settled U A j"
    and tr: "tracked Has types (Conditions (Status j))"
    and pass: "passes normal Has types L goal hash (Meta j) (Spec j)"
  obtains w k where "run_state (Reconcile req) v = (Return (Result0, None), w)" "stored w = Some (cmap (update_ready CL) k)"
    "pass_after Has types L goal hash (with_hash j) (Return (Result0, None)) k"
proof -
  have "has_hash (with_hash j)" by (simp add: has_hash_def)
  then obtain out s where run: "run_state normal \<lparr>inst = with_hash j, world = v\<rparr> = (out, s)"
    and after: "pass_after Has types L goal hash (with_hash j) out (inst s)"
    using wp_exists [OF pass [unfolded passes_def, rule_format, of "\<lparr>inst = with_hash j, world = v\<rparr>", unfolded handler.select_convs]] tr
    by auto
  have "out = Return (Result0, None)" using after by (simp add: pass_after_def)
  moreover from run j have "run_state (work j) \<lparr>inst = j, world = v\<rparr> = (out, s)" by (simp add: work settled_def)
  ultimately show thesis using stored_pass [OF A j] after that by metis
qed

text \<open>
  Three runs over a new resource: the first adds the finalizer, the second stores the hash of the inputs, the
  third finds it and goes on to the end.
\<close>

lemma becomes_ready:
  assumes laws: "condition_laws CL Has ct tr" and fin: "finalizer_laws U"
    and A: "stores_instance A req stored" "stored v = Some i"
    and new: "m_DeletionTimestamp (Meta i) = None" "GetFinalizer A \<notin> set (m_Finalizers (Meta i))" "Conditions (Status i) = None"
    and pass: "\<And>m sp. \<exists>hash. passes normal Has types L goal hash m sp"
    and goal: "\<And>k. goal k \<Longrightarrow> all_true CL Has types (Conditions (Status k))"
  shows "runs_to 3 (Reconcile req) stored (\<lambda>i3. \<exists>k. i3 = cmap (update_ready CL) k \<and> goal k \<and> Spec k = Spec i \<and>
    IsTrue CL (Conditions (Status i3)) ReadyCondition) v"
proof -
  obtain w1 i1 where r1: "run_state (Reconcile req) v = (Return (Result0, None), w1)" "stored w1 = Some i1"
    and i1: "settled U A i1" "Spec i1 = Spec i" "\<forall>t. Has (Conditions (Status i1)) t \<longleftrightarrow> t = ReadyCondition"
    by (rule stored_fresh [OF laws fin A new])
  have tr1: "tracked Has types (Conditions (Status i1))" by (simp add: tracked_def i1(3))
  obtain hash where hash: "passes normal Has types L goal hash (Meta i1) (Spec i1)" using pass by blast
  have third: "runs_to 1 (Reconcile req) stored (\<lambda>i3. \<exists>k. i3 = cmap (update_ready CL) k \<and> goal k \<and> Spec k = Spec i \<and>
      IsTrue CL (Conditions (Status i3)) ReadyCondition) v2"
    if j: "pass_after Has types L goal hash (with_hash i1) (Return (Result0, None)) j"
      and v2: "stored v2 = Some (cmap (update_ready CL) j)" for j v2
  proof -
    let ?j = "cmap (update_ready CL) j"
    have eq: "Meta ?j = Meta i1" "Spec ?j = Spec i1" "tracked Has types (Conditions (Status j))" "has_hash j"
      using j by (simp_all add: pass_after_def)
    have j': "settled U A ?j" "tracked Has types (Conditions (Status ?j))"
      using settled_cong [OF eq(1) _ i1(1)] condition_laws.update_ready_not_nil [OF laws]
        condition_laws.tracked_update_ready [OF laws eq(3)] by (simp_all del: not_None_eq)
    obtain w k where "run_state (Reconcile req) v2 = (Return (Result0, None), w)" "stored w = Some (cmap (update_ready CL) k)"
      and k: "pass_after Has types L goal hash (with_hash ?j) (Return (Result0, None)) k"
      by (rule stored_normal [OF A(1) v2 j' hash [folded eq(1,2)]])
    moreover have "goal k" "Spec k = Spec i" "tracked Has types (Conditions (Status k))"
      using j k eq(4) i1(2) by (auto simp: pass_after_def has_hash_def)
    ultimately show ?thesis
      using condition_laws.all_true_ready [OF laws _ goal] by auto
  qed
  have second: "runs_to 2 (Reconcile req) stored (\<lambda>i3. \<exists>k. i3 = cmap (update_ready CL) k \<and> goal k \<and> Spec k = Spec i \<and>
      IsTrue CL (Conditions (Status i3)) ReadyCondition) v1" if v1: "stored v1 = Some i1" for v1
  proof -
    obtain w j where "run_state (Reconcile req) v1 = (Return (Result0, None), w)" "stored w = Some (cmap (update_ready CL) j)"
      and "pass_after Has types L goal hash (with_hash i1) (Return (Result0, None)) j"
      by (rule stored_normal [OF A(1) v1 i1(1) tr1 hash])
    then show ?thesis using third runs_to_step [of "Reconcile req" v1 w stored _ 1] by (simp add: numeral_2_eq_2)
  qed
  show ?thesis using runs_to_step [where stored = stored, OF r1 second] by (simp add: numeral_3_eq_3 numeral_2_eq_2)
qed

end

end
