(* ===== verification/Ceilometer_Convergence.thy ===== *)
theory Ceilometer_Convergence
  imports Ceilometer_Controller Convergence
begin

text \<open>
  Liveness of the Ceilometer controller. On a steady cluster, which answers a call with the same arguments
  the same way each time, the first \<open>Reconcile\<close> of a new resource adds the finalizer, the second stores the
  hash of the inputs, and the third finds it unchanged, goes on to the end and reports the resource Ready.
\<close>

section \<open>A steady cluster\<close>

text \<open>
  Every call succeeds: \<open>conds\<close> are the conditions that \<open>ReconcileRbac\<close> sets, \<open>sec\<close> the name of the secret of
  the message queue, \<open>S name\<close> the secret with this name and its hash, \<open>E\<close> the variables that \<open>EnsureSecrets\<close>
  computes, \<open>kconds\<close> the conditions of the KeystoneService and \<open>n\<close> the number of ready replicas.
\<close>

definition ceilometer_steady :: "controllerutil \<Rightarrow> commonlib \<Rightarrow> ('c, 'w) platform \<Rightarrow> 'c list \<Rightarrow> string
    \<Rightarrow> (string \<Rightarrow> Secret \<times> string) \<Rightarrow> (ObjectMeta \<Rightarrow> Template list \<Rightarrow> env_vars \<Rightarrow> env_vars) \<Rightarrow> 'c conditions \<Rightarrow> int32 \<Rightarrow> bool" where
  "ceilometer_steady U L P conds sec S E kconds n \<longleftrightarrow>
    (\<forall>ns name. steady (ReconcileRbac P ns name rbacRules) (conds, Result0, None)) \<and>
    (\<forall>t f. (\<forall>t'. \<exists>t''. f t' = Inr t'') \<longrightarrow> (\<exists>tu. steady (TransportURL_CreateOrUpdate P t f) (Inr tu) \<and> tu_SecretName tu = sec)) \<and> sec \<noteq> '''' \<and>
    (\<forall>name ns. steady (GetSecret P name ns) (Some (fst (S name)), snd (S name), None)) \<and>
    (\<exists>get url. (\<forall>ns. steady (GetKeystoneAPI P ns) (Inr get)) \<and> get (endpoint_EndpointInternal L) = Inr url) \<and>
    (\<forall>m ts v. steady (EnsureSecrets P m ts v) (E m ts v, None)) \<and>
    (\<forall>spec ns labels t. steady (KeystoneService_CreateOrPatch P spec ns labels t) ((Result0, None), kconds)) \<and>
    (\<forall>ss t. steady (StatefulSet_CreateOrPatch P ss t) ((Result0, None), n)) \<and>
    (\<forall>sv f. (\<forall>sv'. \<exists>sv''. f sv' = Inr sv'') \<longrightarrow> (\<exists>sv'. steady (Service_CreateOrUpdate P sv f) (Inr sv'))) \<and>
    (\<forall>ns nads. \<exists>a. GetNADAnnotation L ns nads = Inr a) \<and>
    (\<forall>kind owner m. \<exists>m'. SetControllerReference U kind owner m = Inr m') \<and>
    (\<forall>v. \<exists>h. ObjectHash L v = (h, None))"

lemma ceilometer_steadyD:
  assumes "ceilometer_steady U L P conds sec S E kconds n"
  shows "steady (ReconcileRbac P ns name rbacRules) (conds, Result0, None)" and "sec \<noteq> ''''"
    and "steady (GetSecret P name ns) (Some (fst (S name)), snd (S name), None)"
    and "steady (EnsureSecrets P m ts v) (E m ts v, None)"
    and "steady (KeystoneService_CreateOrPatch P spec ns labels t) ((Result0, None), kconds)"
    and "steady (StatefulSet_CreateOrPatch P ss t) ((Result0, None), n)"
  using assms unfolding ceilometer_steady_def by (elim conjE, simp)+

lemma ceilometer_steady_keystone:
  assumes "ceilometer_steady U L P conds sec S E kconds n"
  shows "\<exists>get url. (\<forall>ns. steady (GetKeystoneAPI P ns) (Inr get)) \<and> get (endpoint_EndpointInternal L) = Inr url"
  using assms unfolding ceilometer_steady_def by (elim conjE)

lemma ceilometer_steady_values:
  assumes "ceilometer_steady U L P conds sec S E kconds n"
  shows "\<exists>m'. SetControllerReference U kind owner m = Inr m'" and "\<exists>h. ObjectHash L v = (h, None)"
    and "\<exists>ss. ceilometer_StatefulSet L i hash labels = Inr ss"
    and "\<exists>tu. steady (Ceilometer_transportURLCreateOrUpdate U P i) (Inr tu) \<and> tu_SecretName tu = sec"
    and "\<exists>sv. steady (ceilometer_Service U P i port labels) (Inr sv)"
proof -
  have ref: "\<forall>kind owner m. \<exists>m'. SetControllerReference U kind owner m = Inr m'"
    and hash: "\<forall>v. \<exists>h. ObjectHash L v = (h, None)" and nad: "\<forall>ns nads. \<exists>a. GetNADAnnotation L ns nads = Inr a"
    and tu: "\<forall>t f. (\<forall>t'. \<exists>t''. f t' = Inr t'') \<longrightarrow> (\<exists>tu. steady (TransportURL_CreateOrUpdate P t f) (Inr tu) \<and> tu_SecretName tu = sec)"
    and sv: "\<forall>sv f. (\<forall>sv'. \<exists>sv''. f sv' = Inr sv'') \<longrightarrow> (\<exists>sv'. steady (Service_CreateOrUpdate P sv f) (Inr sv'))"
    using assms unfolding ceilometer_steady_def by simp_all
  show "\<exists>m'. SetControllerReference U kind owner m = Inr m'" "\<exists>h. ObjectHash L v = (h, None)"
    using ref hash by simp_all
  show "\<exists>ss. ceilometer_StatefulSet L i hash labels = Inr ss"
    using nad [rule_format, of "m_Namespace (Meta i)" "ce_NetworkAttachmentDefinitions (Spec i)"]
    by (auto simp: ceilometer_StatefulSet_def Let_def)
  have "\<exists>t''. Ceilometer_mutate_transportURL U i t' = Inr t''" for t'
    using ref [rule_format, of "''Ceilometer''" "Meta i" "tu_Meta t'"]
    by (auto simp: Ceilometer_mutate_transportURL_def)
  with tu show "\<exists>tu. steady (Ceilometer_transportURLCreateOrUpdate U P i) (Inr tu) \<and> tu_SecretName tu = sec"
    by (simp add: Ceilometer_transportURLCreateOrUpdate_def)
  have "\<exists>sv''. mutate_ceilometer_Service U i port labels sv' = Inr sv''" for sv'
    using ref [rule_format, of "''Ceilometer''" "Meta i" "(sc_Meta sv')\<lparr>m_Labels := labels\<rparr>"]
    by (auto simp: mutate_ceilometer_Service_def)
  with sv show "\<exists>sv. steady (ceilometer_Service U P i port labels) (Inr sv)"
    by (simp add: ceilometer_Service_def)
qed

text \<open>
  The rendered configuration is a function of the metadata, the spec and the name of the secret of the queue,
  so that two passes over the same resource hash the same inputs.
\<close>

lemma ceilometer_config_function:
  fixes P :: "('c, 'w) platform"
  assumes st: "ceilometer_steady U L P conds sec S E kconds n"
  shows "\<exists>F. \<forall>vars s. Meta (inst s) = m \<longrightarrow> Spec (inst s) = sp \<longrightarrow> ces_TransportURLSecret (Status (inst s)) = sec \<longrightarrow>
      (\<exists>w. run_state (Ceilometer_generateServiceConfig L P vars) s = (Return (F vars, None), s\<lparr>world := w\<rparr>))"
    and "\<exists>F. \<forall>vars s. Meta (inst s) = m \<longrightarrow> Spec (inst s) = sp \<longrightarrow> ces_TransportURLSecret (Status (inst s)) = sec \<longrightarrow>
      (\<exists>w. run_state (Ceilometer_generateComputeServiceConfig L P vars) s = (Return (F vars, None), s\<lparr>world := w\<rparr>))"
proof -
  obtain get url where api: "\<And>ns. steady (GetKeystoneAPI P ns) (Inr get)" "get (endpoint_EndpointInternal L) = Inr url"
    using ceilometer_steady_keystone [OF st] by blast
  note run = run_api_steady [OF api(1)] run_api_steady [OF ceilometer_steadyD(3) [OF st]]
    run_api_steady [OF ceilometer_steadyD(4) [OF st]] api(2)
  let ?s0 = "\<lparr>inst = \<lparr>Meta = m, Spec = sp, Status = CeilometerStatus0\<lparr>ces_TransportURLSecret := sec\<rparr>\<rparr> :: 'c Ceilometer,
    world = undefined\<rparr>"
  let ?F = "\<lambda>g vars. case fst (run_state (g vars) ?s0) of Return r \<Rightarrow> fst r | Panic _ \<Rightarrow> []"
  show "\<exists>F. \<forall>vars s. Meta (inst s) = m \<longrightarrow> Spec (inst s) = sp \<longrightarrow> ces_TransportURLSecret (Status (inst s)) = sec \<longrightarrow>
      (\<exists>w. run_state (Ceilometer_generateServiceConfig L P vars) s = (Return (F vars, None), s\<lparr>world := w\<rparr>))"
    by (rule exI [of _ "?F (Ceilometer_generateServiceConfig L P)"])
      (auto simp: Ceilometer_generateServiceConfig_def Let_def run simp del: run_api)
  show "\<exists>F. \<forall>vars s. Meta (inst s) = m \<longrightarrow> Spec (inst s) = sp \<longrightarrow> ces_TransportURLSecret (Status (inst s)) = sec \<longrightarrow>
      (\<exists>w. run_state (Ceilometer_generateComputeServiceConfig L P vars) s = (Return (F vars, None), s\<lparr>world := w\<rparr>))"
    by (rule exI [of _ "?F (Ceilometer_generateComputeServiceConfig L P)"])
      (auto simp: Ceilometer_generateComputeServiceConfig_def Let_def run simp del: run_api)
qed

section \<open>One pass\<close>

interpretation cei_runs: hash_reconciler "Ceilometer_Reconcile CL U L P A" CL U A "Ceilometer_conditions CL"
    "Ceilometer_work CL U L P A" True "Ceilometer_reconcileDelete U P A" "Ceilometer_reconcileNormal CL U L P" for CL U L P A
  by unfold_locales (rule Ceilometer_work_def)

text \<open>The conditions that the controller itself sets.\<close>

definition ceilometer_types :: "cond_Type list" where
  "ceilometer_types = [RabbitMqTransportURLReadyCondition, InputReadyCondition, ServiceConfigReadyCondition,
     KeystoneServiceReadyCondition, DeploymentReadyCondition]"

definition ceilometer_done :: "'c condition_pkg \<Rightarrow> ('c conditions \<Rightarrow> cond_Type \<Rightarrow> bool) \<Rightarrow> int32 \<Rightarrow> 'c Ceilometer \<Rightarrow> bool" where
  "ceilometer_done CL Has n i \<longleftrightarrow> all_true CL Has ceilometer_types (Conditions (Status i)) \<and>
     ces_ReadyCount (Status i) = n \<and> ces_Networks (Status i) = ce_NetworkAttachmentDefinitions (Spec i)"

lemma cmap_ces_ReadyCount [simp]: "ces_ReadyCount (Status (cmap f i)) = ces_ReadyCount (Status i)"
  by (simp add: cmap_def)

lemma cmap_ces_Networks [simp]: "ces_Networks (Status (cmap f i)) = ces_Networks (Status i)"
  by (simp add: cmap_def)

lemma wp_ceilometer_deploy_steady:
  fixes P :: "('c, 'w) platform"
  assumes laws: "condition_laws CL Has ct tr" and st: "ceilometer_steady U L P conds sec S E kconds n"
    and n: "0 <s n" and ks: "Mirror CL kconds KeystoneServiceReadyCondition = Some c" "tr c"
    and rbac: "rbac_ok CL Has (Conditions (Status (inst s)))"
    and true: "\<And>t. t \<in> {RabbitMqTransportURLReadyCondition, InputReadyCondition, ServiceConfigReadyCondition}
      \<Longrightarrow> IsTrue CL (Conditions (Status (inst s))) t"
    and tracked: "tracked Has ceilometer_types (Conditions (Status (inst s)))" and h: "Hash (Status (inst s)) = Some h"
  shows "wp (Ceilometer_deploy CL U L P inputHash) (\<lambda>out s'. out = Return (Result0, None) \<and>
      Meta (inst s') = Meta (inst s) \<and> Spec (inst s') = Spec (inst s) \<and> Hash (Status (inst s')) = Some h \<and>
      tracked Has ceilometer_types (Conditions (Status (inst s'))) \<and> ceilometer_done CL Has n (inst s')) s"
proof -
  have c: "ct c = KeystoneServiceReadyCondition" by (rule condition_laws.ctype_Mirror [OF laws ks(1)])
  have svc: "wp (api (ceilometer_Service U P i port labels)) Q s'"
    if "\<And>sv w. Q (Inr sv) (s'\<lparr>world := w\<rparr>)" for i :: "'c Ceilometer" and port labels Q and s' :: "('c Ceilometer, 'w) handler"
    by (metis wp_steady ceilometer_steady_values(5) [OF st] that)
  note steady = ceilometer_steadyD(3,5,6) [OF st]
  obtain ss where "\<And>i :: 'c Ceilometer. \<And>h labels. ceilometer_StatefulSet L i h labels = Inr (ss i h labels)"
    using ceilometer_steady_values(3) [OF st] by metis
  moreover obtain mm where "\<And>k o' m. SetControllerReference U k o' m = Inr (mm k o' m)"
    using ceilometer_steady_values(1) [OF st] by metis
  ultimately show ?thesis
    unfolding Ceilometer_deploy_def Ceilometer_reconcileInit_def mirror_condition_def Let_def
    using n ks c rbac true tracked h
    by (auto simp: wp_simps init_hash_def wp_steady_eq [OF steady(1)] wp_steady_eq [OF steady(2)] wp_steady_eq [OF steady(3)]
      condition_laws.cond_simps [OF laws] ceilometer_done_def tracking_defs ceilometer_types_def
      intro!: svc)
qed

lemma ceilometer_configure_steady:
  fixes P :: "('c, 'w) platform"
  assumes laws: "condition_laws CL Has ct tr" and lib: "commonlib_laws L"
    and st: "ceilometer_steady U L P conds sec S E kconds n"
    and n: "0 <s n" and ks: "Mirror CL kconds KeystoneServiceReadyCondition = Some c" "tr c"
  shows "\<exists>H. \<forall>vars s h. Meta (inst s) = m \<longrightarrow> Spec (inst s) = sp \<longrightarrow> ces_TransportURLSecret (Status (inst s)) = sec \<longrightarrow>
    Hash (Status (inst s)) = Some h \<longrightarrow> tracked Has ceilometer_types (Conditions (Status (inst s))) \<longrightarrow>
    rbac_ok CL Has (Conditions (Status (inst s))) \<longrightarrow>
    (\<forall>t \<in> {RabbitMqTransportURLReadyCondition, InputReadyCondition}. IsTrue CL (Conditions (Status (inst s))) t) \<longrightarrow>
    wp (Ceilometer_configure CL U L P vars) (\<lambda>out s'. pass_after Has ceilometer_types L (ceilometer_done CL Has n) (H vars) (inst s) out (inst s')) s"
proof -
  obtain F where F: "\<And>vars s. Meta (inst s) = m \<Longrightarrow> Spec (inst s) = sp \<Longrightarrow> ces_TransportURLSecret (Status (inst s)) = sec \<Longrightarrow>
      \<exists>w. run_state (Ceilometer_generateServiceConfig L P vars) s = (Return (F vars, None), s\<lparr>world := w\<rparr>)"
    using ceilometer_config_function(1) [OF st, of m sp] by blast
  obtain G where G: "\<And>vars s. Meta (inst s) = m \<Longrightarrow> Spec (inst s) = sp \<Longrightarrow> ces_TransportURLSecret (Status (inst s)) = sec \<Longrightarrow>
      \<exists>w. run_state (Ceilometer_generateComputeServiceConfig L P vars) s = (Return (G vars, None), s\<lparr>world := w\<rparr>)"
    using ceilometer_config_function(2) [OF st, of m sp] by blast
  let ?H = "\<lambda>vars. fst (ObjectHash L (MergeEnvs L [] (G (F vars))))"
  show ?thesis
  proof (rule exI [of _ ?H], intro allI impI)
    fix vars h and s :: "('c Ceilometer, 'w) handler"
    assume m: "Meta (inst s) = m" "Spec (inst s) = sp" "ces_TransportURLSecret (Status (inst s)) = sec"
      and h: "Hash (Status (inst s)) = Some h" and tracked: "tracked Has ceilometer_types (Conditions (Status (inst s)))"
      and rbac: "rbac_ok CL Has (Conditions (Status (inst s)))"
      and true: "\<forall>t \<in> {RabbitMqTransportURLReadyCondition, InputReadyCondition}. IsTrue CL (Conditions (Status (inst s))) t"
    have oh: "ObjectHash L (MergeEnvs L [] (G (F vars))) = (?H vars, None)"
      using ceilometer_steady_values(2) [OF st] by (metis fst_conv)
    obtain h' ch where sh: "SetHash L (Some h) (InputHashName L) (?H vars) = (h', ch)" by fastforce
    note stored = commonlib_laws.SetHash_stored [OF lib sh]
      commonlib_laws.SetHash_changed [OF lib, of h "InputHashName L" "?H vars", unfolded sh snd_conv]
    obtain w1 where r1: "run_state (Ceilometer_generateServiceConfig L P vars) s = (Return (F vars, None), s\<lparr>world := w1\<rparr>)"
      using F [OF m] by blast
    obtain w2 where r2: "run_state (Ceilometer_generateComputeServiceConfig L P (F vars)) (s\<lparr>world := w1\<rparr>) =
        (Return (G (F vars), None), s\<lparr>world := w2\<rparr>)"
      using G [of "s\<lparr>world := w1\<rparr>" "F vars"] m by auto
    have deploy: "wp (Ceilometer_deploy CL U L P hash) (\<lambda>out s'. pass_after Has ceilometer_types L (ceilometer_done CL Has n) (?H vars) (inst s) out (inst s'))
        (s\<lparr>world := w, inst := cmap (\<lambda>cs. MarkTrue CL cs ServiceConfigReadyCondition msg)
          (set_Hash (Some (h(InputHashName L \<mapsto> ?H vars))) (inst s))\<rparr>)" for hash msg w
      by (rule wp_mono [OF wp_ceilometer_deploy_steady [OF laws st n ks]])
        (use true rbac tracked in \<open>auto simp: condition_laws.cond_simps [OF laws] tracking_defs ceilometer_types_def
          pass_after_def has_hash_def map_read_def\<close>)
    show "wp (Ceilometer_configure CL U L P vars)
        (\<lambda>out s'. pass_after Has ceilometer_types L (ceilometer_done CL Has n) (?H vars) (inst s) out (inst s')) s"
    proof (cases ch)
      case True
      with h tracked stored show ?thesis
        by (auto simp: Ceilometer_configure_def Let_def wp_simps wp_of_run [OF r1] wp_of_run [OF r2]
            cei_hash.wp_createHash [OF oh] sh pass_after_def has_hash_def)
    next
      case False
      with h deploy show ?thesis
        by (simp add: Ceilometer_configure_def Let_def wp_simps wp_of_run [OF r1] wp_of_run [OF r2]
            cei_hash.wp_createHash [OF oh] sh wp_store_Hash)
    qed
  qed
qed

lemma cmap_ces_TransportURLSecret [simp]:
  "ces_TransportURLSecret (Status (cmap f i)) = ces_TransportURLSecret (Status i)"
  by (simp add: cmap_def)

lemma ceilometer_pass:
  fixes P :: "('c, 'w) platform"
  assumes laws: "condition_laws CL Has ct tr" and lib: "commonlib_laws L"
    and st: "ceilometer_steady U L P conds sec S E kconds n" and granted: "rbac_granted ct tr conds"
    and n: "0 <s n" and ks: "Mirror CL kconds KeystoneServiceReadyCondition = Some c" "tr c"
  shows "\<exists>hash. passes (Ceilometer_reconcileNormal CL U L P) Has ceilometer_types L (ceilometer_done CL Has n) hash m sp"
proof -
  obtain H where H: "\<forall>vars s h. Meta (inst s) = m \<longrightarrow> Spec (inst s) = sp \<longrightarrow> ces_TransportURLSecret (Status (inst s)) = sec \<longrightarrow>
    Hash (Status (inst s)) = Some h \<longrightarrow> tracked Has ceilometer_types (Conditions (Status (inst s))) \<longrightarrow>
    rbac_ok CL Has (Conditions (Status (inst s))) \<longrightarrow>
    (\<forall>t \<in> {RabbitMqTransportURLReadyCondition, InputReadyCondition}. IsTrue CL (Conditions (Status (inst s))) t) \<longrightarrow>
    wp (Ceilometer_configure CL U L P vars) (\<lambda>out s'. pass_after Has ceilometer_types L (ceilometer_done CL Has n) (H vars) (inst s) out (inst s')) s"
    using ceilometer_configure_steady [OF laws lib st n ks, of m sp] by blast
  let ?v = "\<lambda>name. AList.update (''secret-'' @ se_Name (fst (S name))) (SetValue (snd (S name)))"
  let ?vars = "?v sec (?v (ce_Secret sp) [])"
  show ?thesis
    unfolding passes_def
  proof (rule exI [of _ "H ?vars"], intro allI impI)
    fix s :: "('c Ceilometer, 'w) handler"
    assume m: "Meta (inst s) = m" "Spec (inst s) = sp" and "has_hash (inst s)"
      and tracked: "tracked Has ceilometer_types (Conditions (Status (inst s)))"
    then obtain h where h: "Hash (Status (inst s)) = Some h" by (auto simp: has_hash_def)
    let ?i = "fold (Ceilometer_RbacConditionsSet CL) conds (inst s)"
    note rbac = fold_rbac_ok [OF laws Ceilometer_RbacConditionsSet_def granted tracked]
    have secret: "wp (Ceilometer_getSecret CL P name vars) Q s' =
        Q (Return (?v name vars, Result0, None)) (s'\<lparr>world := snd (run_state (GetSecret P name (m_Namespace (Meta (inst s')))) (world s'))\<rparr>)"
      for name vars Q and s' :: "('c Ceilometer, 'w) handler"
      by (simp add: Ceilometer_getSecret_def wp_simps wp_steady_eq [OF ceilometer_steadyD(3) [OF st]])
    have configure: "wp (Ceilometer_configure CL U L P ?vars) (\<lambda>out s'. pass_after Has ceilometer_types L (ceilometer_done CL Has n) (H ?vars) (inst s) out (inst s')) s'"
      if "Meta (inst s') = m" "Spec (inst s') = sp" "ces_TransportURLSecret (Status (inst s')) = sec" "Hash (Status (inst s')) = Some h"
        "tracked Has ceilometer_types (Conditions (Status (inst s')))" "rbac_ok CL Has (Conditions (Status (inst s')))"
        "\<forall>t \<in> {RabbitMqTransportURLReadyCondition, InputReadyCondition}. IsTrue CL (Conditions (Status (inst s'))) t" for s'
      by (rule wp_mono [OF H [rule_format, OF that(1-6)]])
        (use that(7) m h that in \<open>auto cong: pass_after_cong simp: pass_after_def\<close>)
    obtain tu where tu: "steady (Ceilometer_transportURLCreateOrUpdate U P j) (Inr (tu j))" "tu_SecretName (tu j) = sec"
      for j :: "'c Ceilometer"
      using ceilometer_steady_values(4) [OF st] by metis
    show "wp (Ceilometer_reconcileNormal CL U L P) (\<lambda>out s'. pass_after Has ceilometer_types L (ceilometer_done CL Has n) (H ?vars) (inst s) out (inst s')) s"
      unfolding Ceilometer_reconcileNormal_def
      using ceilometer_steadyD(2) [OF st] m h tracked
      by (simp add: wp_simps wp_steady_eq [OF ceilometer_steadyD(1) [OF st]] wp_steady_eq [OF tu(1)] tu(2) secret fold_ceilometer_rbac
          del: AList.update.simps append.simps append_Cons)
        (rule configure; use rbac in \<open>auto simp: fold_ceilometer_rbac condition_laws.cond_simps [OF laws] tracking_defs
          ceilometer_types_def\<close>)
  qed
qed

section \<open>From a new resource to Ready\<close>

text \<open>
  C10: On a steady cluster that grants the access rules, has the secrets, registers the service and reports a
  ready replica, three runs of \<open>Reconcile\<close> bring a new Ceilometer to Ready, whatever else happens in the
  cluster between them: all three return neither an error nor a request to be called again, and the resource
  that the third one stores is reported Ready, every condition of the controller is True in it, and it holds
  the replica count and the networks of the cluster.
\<close>

theorem ceilometer_becomes_ready:
  assumes laws: "condition_laws CL Has ct tr" and lib: "commonlib_laws L" and fin: "finalizer_laws U"
    and st: "ceilometer_steady U L P conds sec S E kconds n" and granted: "rbac_granted ct tr conds"
    and n: "0 <s n" and ks: "Mirror CL kconds KeystoneServiceReadyCondition = Some c" "tr c"
    and A: "stores_instance A req stored" "stored v = Some i"
    and new: "m_DeletionTimestamp (Meta i) = None" "GetFinalizer A \<notin> set (m_Finalizers (Meta i))" "Conditions (Status i) = None"
  shows "runs_to 3 (Ceilometer_Reconcile CL U L P A req) stored (\<lambda>i3. Ceilometer_IsReady CL i3 \<and>
    (\<forall>t \<in> set ceilometer_types. IsTrue CL (Conditions (Status i3)) t) \<and>
    ces_ReadyCount (Status i3) = n \<and> ces_Networks (Status i3) = ce_NetworkAttachmentDefinitions (Spec i)) v"
proof (rule runs_to_mono [OF cei_runs.becomes_ready [OF laws fin A new ceilometer_pass [OF laws lib st granted n ks]]], goal_cases)
  case (2 i3)
  then obtain k where "i3 = cmap (update_ready CL) k" "ceilometer_done CL Has n k" "Spec k = Spec i"
    "IsTrue CL (Conditions (Status i3)) ReadyCondition" by blast
  then show ?case
    using condition_laws.all_true_update_ready [OF laws, of ceilometer_types]
    by (simp add: ceilometer_done_def Ceilometer_IsReady_def ceilometer_types_def)
qed (simp add: ceilometer_done_def)

text \<open>A cluster for the witness: every call succeeds, and the world is the stored Ceilometer.\<close>

definition ref_rbac_conds :: "ref_cond list" where
  "ref_rbac_conds = map (\<lambda>t. (t, True)) rbac_types"

definition ref_steady_platform :: "(ref_cond, ref_cond Ceilometer option) platform" where
  "ref_steady_platform = \<lparr>
     GetSecret = (\<lambda>name ns. return (Some \<lparr>se_Name = name, se_Data = Map.empty\<rparr>, ''hash-'' @ name, None)),
     EnsureSecrets = (\<lambda>m ts vars. return (vars, None)),
     ReconcileRbac = (\<lambda>ns name rules. return (ref_rbac_conds, Result0, None)),
     GetKeystoneAPI = (\<lambda>ns. return (Inr (\<lambda>e. Inr (''http://'' @ e)))),
     GetKeystoneServiceWithName = (\<lambda>name ns. return (Inl ref_NotFound)),
     Update_KeystoneService = (\<lambda>m. return None),
     KeystoneService_CreateOrPatch = (\<lambda>spec ns labels t. return ((Result0, None), Some [(ReadyCondition, True)])),
     TransportURL_CreateOrUpdate = (\<lambda>t f. return (map_sum id (\<lambda>t. t\<lparr>tu_SecretName := ''rabbitmq''\<rparr>) (f t))),
     StatefulSet_CreateOrPatch = (\<lambda>ss t. return ((Result0, None), 1)),
     Service_CreateOrUpdate = (\<lambda>sv f. return (f sv))\<rparr>"

definition ref_ceilometer_store :: "(ref_cond Ceilometer, ref_cond Ceilometer option) crapi" where
  "ref_ceilometer_store = \<lparr>
     Get_instance = (\<lambda>_. State (\<lambda>w. (case w of None \<Rightarrow> Inl ref_NotFound | Some i \<Rightarrow> Inr i, w))),
     NewHelper = (\<lambda>_. None), GetFinalizer = ''ceilometer'', PatchInstance = (\<lambda>_ i. State (\<lambda>_. (None, Some i)))\<rparr>"

definition ref_ceilometer_new :: "ref_cond Ceilometer" where
  "ref_ceilometer_new = ref_ceilometer\<lparr>Meta := ObjectMeta_named ''ceilometer'' ''openstack'', Status := CeilometerStatus0\<rparr>"

lemma ref_ceilometer_steady:
  "ceilometer_steady ref_controllerutil ref_commonlib ref_steady_platform ref_rbac_conds ''rabbitmq''
     (\<lambda>name. (\<lparr>se_Name = name, se_Data = Map.empty\<rparr>, ''hash-'' @ name))
     (\<lambda>m ts vars. vars) (Some [(ReadyCondition, True)]) 1"
  by (auto simp: ceilometer_steady_def ref_steady_platform_def ref_commonlib_def ref_controllerutil_def)
    (rule map_sum_total, simp_all)

theorem ceilometer_becomes_ready_witness:
  "runs_to 3 (Ceilometer_Reconcile ref_pkg ref_controllerutil ref_commonlib ref_steady_platform ref_ceilometer_store
      \<lparr>nn_Namespace = ''openstack'', nn_Name = ''ceilometer''\<rparr>) id
    (\<lambda>i3. Ceilometer_IsReady ref_pkg i3 \<and> ces_ReadyCount (Status i3) = 1) (Some ref_ceilometer_new)"
proof -
  have granted: "rbac_granted fst snd ref_rbac_conds"
    by (force simp: rbac_granted_def ref_rbac_conds_def)
  have ks: "Mirror ref_pkg (Some [(ReadyCondition, True)]) KeystoneServiceReadyCondition = Some (KeystoneServiceReadyCondition, True)"
    "snd (KeystoneServiceReadyCondition, True)"
    by (simp_all add: ref_pkg_def ref_IsTrue_def)
  have n: "0 <s (1 :: int32)" by (simp add: word_sless_alt)
  have A: "stores_instance ref_ceilometer_store req id" for req
    by (simp add: stores_instance_def ref_ceilometer_store_def)
  have new: "m_DeletionTimestamp (Meta ref_ceilometer_new) = None"
    "GetFinalizer ref_ceilometer_store \<notin> set (m_Finalizers (Meta ref_ceilometer_new))" "Conditions (Status ref_ceilometer_new) = None"
    by (simp_all add: ref_ceilometer_new_def ObjectMeta_named_def CeilometerStatus0_def)
  show ?thesis
    by (rule runs_to_mono [OF ceilometer_becomes_ready [OF ref.condition_laws_axioms ref_lib.commonlib_laws_axioms
          ref_util.finalizer_laws_axioms ref_ceilometer_steady granted n ks A _ new]]) simp_all
qed

end
