(* ===== verification/Logging_Controller.thy ===== *)
theory Logging_Controller
  imports Input_Hash Consts
begin

text \<open>
  \<^verbatim>\<open>controllers/logging_controller.go\<close> and \<^verbatim>\<open>pkg/logging/service.go\<close>: the Logging controller renders the
  rsyslog configuration of the compute nodes into a secret and exposes the log collector.
\<close>

section \<open>\<open>pkg/logging/service.go\<close>\<close>

definition mutate_logging_Service :: "'c Logging \<Rightarrow> Service \<Rightarrow> error + Service" where
  "mutate_logging_Service instance' service = Inr (service\<lparr>
     sc_Ports := [\<lparr>sp_Protocol = ''TCP'', sp_Port = lo_Port (Spec instance'),
       sp_TargetPort = intstr_FromInt (lo_TargetPort (Spec instance'))\<rparr>],
     sc_Selector := Some [''app.kubernetes.io/instance'' \<mapsto> ''collector'', ''component'' \<mapsto> ''collector'',
       ''provider'' \<mapsto> ''openshift''],
     sc_Meta := (sc_Meta service)\<lparr>m_Annotations := Some [''endpoint'' \<mapsto> ''internal'',
       ''metallb.universe.tf/address-pool'' \<mapsto> lo_Network (Spec instance'),
       ''metallb.universe.tf/allow-shared-ip'' \<mapsto> lo_Network (Spec instance'),
       ''metallb.universe.tf/loadBalancerIPs'' \<mapsto> lo_IPAddr (Spec instance')]\<rparr>,
     sc_Type := ''LoadBalancer''\<rparr>)"

definition logging_Service :: "('c, 'w, 'x) platform_scheme \<Rightarrow> 'c Logging \<Rightarrow> (string, string) gomap
    \<Rightarrow> ('w, error + Service) state" where
  "logging_Service P instance' labels =
     Service_CreateOrUpdate P (Service_named (''openstack-'' @ logging_ServiceName) (lo_CLONamespace (Spec instance')))
       (mutate_logging_Service instance')"

section \<open>Configuration\<close>

text \<open>\<open>Get_Secret\<close> is the client's \<open>Get\<close> on a secret.\<close>

record ('c, 'w) logging_api = "('c Logging, 'w) crapi" +
  Get_Secret :: "NamespacedName \<Rightarrow> ('w, error + Secret) state"

definition retrieveOpenshiftCA :: "('c, 'w) logging_api \<Rightarrow> ('w, string option) state" where
  "retrieveOpenshiftCA A = do {
     r \<leftarrow> Get_Secret A \<lparr>nn_Namespace = ''openshift-service-ca'', nn_Name = ''signing-key''\<rparr>;
     case r of Inl err \<Rightarrow> return None | Inr instance' \<Rightarrow> return (se_Data instance' ''tls.crt'')
   }"

definition Logging_generateComputeServiceConfig :: "commonlib \<Rightarrow> ('c, 'w) platform \<Rightarrow> ('c, 'w) logging_api
    \<Rightarrow> env_vars \<Rightarrow> (('c Logging, 'w) handler, env_vars \<times> error option) state" where
  "Logging_generateComputeServiceConfig L P A envVars = do {
     instance' \<leftarrow> get_inst;
     let secretLabels = GetLabels L (Meta instance') (GetGroupLabel L ceilometer_ComputeServiceName) (Some Map.empty);
     let templateParameters = [
       ''RsyslogAddress'' \<mapsto> VString (lo_IPAddr (Spec instance')),
       ''RsyslogPort'' \<mapsto> VInt32 (lo_Port (Spec instance')),
       ''RsyslogRetries'' \<mapsto> VInt32 (lo_RsyslogRetries (Spec instance')),
       ''RsyslogQueueType'' \<mapsto> VString (lo_RsyslogQueueType (Spec instance')),
       ''RsyslogQueueSize'' \<mapsto> VInt32 (lo_RsyslogQueueSize (Spec instance'))];
     cacert \<leftarrow> api (retrieveOpenshiftCA A);
     let customData = (case cacert of None \<Rightarrow> Map.empty | Some ca \<Rightarrow> [''ca-openshift.crt'' \<mapsto> ca]);
     let secrets = [\<lparr>tp_Name = logging_ComputeServiceName @ ''-config-data'', tp_Namespace = m_Namespace (Meta instance'),
       tp_Type = TemplateTypeConfig, tp_InstanceType = ''logging'', tp_AdditionalTemplate = None,
       tp_CustomData = Some customData, tp_ConfigOptions = Some templateParameters, tp_Labels = secretLabels\<rparr>];
     api (EnsureSecrets P (Meta instance') secrets envVars)
   }"

definition Logging_createHashOfInputHashes :: "commonlib \<Rightarrow> env_vars
    \<Rightarrow> (('c Logging, 'w) handler, string \<times> bool \<times> error option) state" where
  "Logging_createHashOfInputHashes L envVars = do {
     instance' \<leftarrow> get_inst;
     let (hash, err) = ObjectHash L (MergeEnvs L [] envVars);
     if err \<noteq> None then return (hash, False, err)
     else do {
       let (hashMap, changed) = SetHash L (Hash (Status instance')) (InputHashName L) hash;
       (if changed then update_inst (set_Hash hashMap) else return ());
       return (hash, changed, None)
     }
   }"

interpretation log_hash: input_hasher "Logging_createHashOfInputHashes L" L for L
  by unfold_locales (rule ext, unfold Logging_createHashOfInputHashes_def hash_of_inputs_def, rule refl)

section \<open>Reconcile\<close>

definition Logging_reconcileDelete :: "controllerutil \<Rightarrow> ('c, 'w) logging_api
    \<Rightarrow> (('c Logging, 'w) handler, reconcile_result) state" where
  "Logging_reconcileDelete U A = do {
     remove_finalizer U A;
     return (Result0, None)
   }"

definition Logging_reconcileNormal :: "'c condition_pkg \<Rightarrow> commonlib \<Rightarrow> ('c, 'w) platform \<Rightarrow> ('c, 'w) logging_api
    \<Rightarrow> (('c Logging, 'w) handler, reconcile_result outcome) state" where
  "Logging_reconcileNormal CL L P A = do {
     instance' \<leftarrow> get_inst;
     (conds, rbacResult, err) \<leftarrow> api (ReconcileRbac P (Logging_RbacNamespace instance')
       (Logging_RbacResourceName instance') rbacRules);
     update_inst (fold (Logging_RbacConditionsSet CL) conds);
     if err \<noteq> None then returns (rbacResult, err)
     else if rbacResult \<noteq> Result0 then returns (rbacResult, None)
     else do {
       update_inst (cmap (\<lambda>cs. MarkTrue CL cs InputReadyCondition (Lib ''InputReadyMessage'')));
       (secretVars, err) \<leftarrow> Logging_generateComputeServiceConfig L P A [];
       case err of
         Some e \<Rightarrow> do {
           update_inst (cmap (\<lambda>cs. cond_Set CL cs (Some (FalseCondition CL ServiceConfigReadyCondition ErrorReason
             SeverityWarning (Lib ''ServiceConfigReadyErrorMessage'') [Error e]))));
           returns (Result0, Some e)
         }
       | None \<Rightarrow> do {
           (inputHash, hashChanged, err) \<leftarrow> Logging_createHashOfInputHashes L secretVars;
           case err of
             Some e \<Rightarrow> do {
               update_inst (cmap (\<lambda>cs. cond_Set CL cs (Some (FalseCondition CL ServiceConfigReadyCondition ErrorReason
                 SeverityWarning (Lib ''ServiceConfigReadyErrorMessage'') [Error e]))));
               returns (Result0, Some e)
             }
           | None \<Rightarrow>
             if hashChanged then returns (Result0, None)
             else pbind (store_Hash (InputHashName L) inputHash) (\<lambda>_. do {
               update_inst (cmap (\<lambda>cs. MarkTrue CL cs ServiceConfigReadyCondition (Lib ''ServiceConfigReadyMessage'')));
               let serviceLabels = Some [AppSelector L \<mapsto> logging_ServiceName];
               instance' \<leftarrow> get_inst;
               r \<leftarrow> api (logging_Service P instance' serviceLabels);
               case r of Inl e \<Rightarrow> returns (Result0, Some e) | Inr _ \<Rightarrow> returns (Result0, None)
             })
         }
     }
   }"

definition Logging_conditions :: "'c condition_pkg \<Rightarrow> 'c list" where
  "Logging_conditions CL =
    [UnknownCondition CL InputReadyCondition InitReason (Lib ''InputReadyInitMessage''),
     UnknownCondition CL ServiceConfigReadyCondition InitReason (Lib ''ServiceConfigReadyInitMessage''),
     UnknownCondition CL ServiceAccountReadyCondition InitReason (Lib ''ServiceAccountReadyInitMessage''),
     UnknownCondition CL RoleReadyCondition InitReason (Lib ''RoleReadyInitMessage''),
     UnknownCondition CL RoleBindingReadyCondition InitReason (Lib ''RoleBindingReadyInitMessage'')]"

definition Logging_work :: "'c condition_pkg \<Rightarrow> controllerutil \<Rightarrow> commonlib \<Rightarrow> ('c, 'w) platform \<Rightarrow> ('c, 'w) logging_api
    \<Rightarrow> 'c Logging \<Rightarrow> (('c Logging, 'w) handler, reconcile_result outcome) state" where
  "Logging_work CL U L P A before = do {
     _ \<leftarrow> init_hash;
     instance' \<leftarrow> get_inst;
     if m_DeletionTimestamp (Meta instance') \<noteq> None
     then do { r \<leftarrow> Logging_reconcileDelete U A; returns r }
     else Logging_reconcileNormal CL L P A
   }"

definition Logging_Reconcile :: "'c condition_pkg \<Rightarrow> controllerutil \<Rightarrow> commonlib \<Rightarrow> ('c, 'w) platform
    \<Rightarrow> ('c, 'w) logging_api \<Rightarrow> NamespacedName \<Rightarrow> ('w, reconcile_result outcome) state" where
  "Logging_Reconcile CL U L P A req = do {
     got \<leftarrow> Get_instance A req;
     case got of
       Inl err \<Rightarrow> if IsNotFound err then returns (Result0, None) else returns (Result0, Some err)
     | Inr instance' \<Rightarrow> (case NewHelper A instance' of
           Some err \<Rightarrow> returns (Result0, Some err)
         | None \<Rightarrow> with_inst instance' (do {
             out \<leftarrow> (do {
               added \<leftarrow> ensure_finalizer U A;
               if added then returns (Result0, None)
               else do {
                 i \<leftarrow> get_inst;
                 if Conditions (Status i) = None
                 then do { _ \<leftarrow> init_conditions CL (Logging_conditions CL); returns (Result0, None) }
                 else Logging_work CL U L P A instance'
               }
             });
             deferred CL A True instance' out
           }))
   }"

interpretation log: reconciler "Logging_Reconcile CL U L P A" CL U A "Logging_conditions CL"
    "Logging_work CL U L P A" True for CL U L P A
  by unfold_locales (unfold Logging_Reconcile_def reconcile_frame_def reconcile_body_def, rule refl)

section \<open>Properties\<close>

lemma has_hash_fold_rbac [simp]: "has_hash (fold (Logging_RbacConditionsSet CL) conds i) = has_hash i"
  by (induction conds arbitrary: i) (simp_all add: Logging_RbacConditionsSet_def)

lemma keeps_logging_config [keeps_intros]: "keeps (of_inst P) (Logging_generateComputeServiceConfig L Pl A vars)"
  unfolding Logging_generateComputeServiceConfig_def Let_def by (intro keeps_intros)

lemma safe_logging_normal:
  assumes "commonlib_laws L"
  shows "safe (of_inst has_hash) (Logging_reconcileNormal CL L P A)"
  unfolding Logging_reconcileNormal_def Let_def
  by (intro safe_intros keeps_intros log_hash.keeps_has_hash [OF assms]) simp_all

text \<open>
  C18: \<open>Reconcile\<close> of Logging never panics, whatever the cluster answers: the assignment to the hash map
  always finds the map that \<open>Reconcile\<close> has initialised.
\<close>

theorem logging_never_panics:
  assumes "commonlib_laws L"
  shows "\<exists>r. fst (run_state (Logging_Reconcile CL U L P A req) w) = Return r"
proof (rule log.no_panic)
  fix i
  show "safe (\<lambda>_. True) (Logging_work CL U L P A i)"
    unfolding Logging_work_def
    by (rule safe_init_hash)
      (auto intro!: safe_intros keeps_intros safe_logging_normal assms simp: Logging_reconcileDelete_def)
qed

section \<open>Witnesses\<close>

definition ref_logging_api :: "ref_cond Logging \<Rightarrow> (ref_cond, string list) logging_api" where
  "ref_logging_api i = \<lparr>
     Get_instance = (\<lambda>_. ref_log ''get logging'' (Inr i)), NewHelper = (\<lambda>_. None), GetFinalizer = ''logging'',
     PatchInstance = (\<lambda>_ _. ref_log ''patch logging'' None),
     Get_Secret = (\<lambda>_. ref_log ''get ca'' (Inr \<lparr>se_Name = ''signing-key'', se_Data = [''tls.crt'' \<mapsto> ''cert'']\<rparr>))\<rparr>"

definition ref_logging :: "ref_cond Logging" where
  "ref_logging = \<lparr>Meta = (ObjectMeta_named ''logging'' ''openstack'')\<lparr>m_Finalizers := [''logging'']\<rparr>,
     Spec = \<lparr>lo_Network = ''internalapi'', lo_IPAddr = ''172.17.0.80'', lo_Port = 10514, lo_TargetPort = 10514,
       lo_CLONamespace = ''openshift-logging'', lo_RsyslogRetries = 100, lo_RsyslogQueueType = ''linkedList'',
       lo_RsyslogQueueSize = 10000\<rparr>,
     Status = \<lparr>Conditions = Some [(ReadyCondition, False)], Hash = Some Map.empty\<rparr>\<rparr>"

theorem logging_never_panics_witness:
  "\<exists>r. fst (run_state (Logging_Reconcile ref_pkg ref_controllerutil ref_commonlib ref_platform
      (ref_logging_api ref_logging) \<lparr>nn_Namespace = ''openstack'', nn_Name = ''logging''\<rparr>) []) = Return r"
  by (rule logging_never_panics [OF ref_lib.commonlib_laws_axioms])

section \<open>The port of the service\<close>


end
