(* ===== verification/Logging_Convergence.thy ===== *)
theory Logging_Convergence
  imports Logging_Controller Convergence
begin

text \<open>
  Liveness of the Logging controller: on a steady cluster three runs of \<open>Reconcile\<close> bring a new resource to
  Ready.
\<close>

interpretation log_runs: hash_reconciler "Logging_Reconcile CL U L P A" CL U A "Logging_conditions CL"
    "Logging_work CL U L P A" True "Logging_reconcileDelete U A" "Logging_reconcileNormal CL L P A" for CL U L P A
  by unfold_locales (rule Logging_work_def)

text \<open>
  A cluster whose answers let a pass through: \<open>conds\<close> are the conditions that \<open>ReconcileRbac\<close> sets, \<open>ca\<close> is the
  certificate of the cluster (if there is one) and \<open>E\<close> are the variables that \<open>EnsureSecrets\<close> computes.
\<close>

definition logging_steady :: "commonlib \<Rightarrow> ('c, 'w) platform \<Rightarrow> ('c, 'w) logging_api \<Rightarrow> 'c list \<Rightarrow> string option
    \<Rightarrow> (ObjectMeta \<Rightarrow> Template list \<Rightarrow> env_vars) \<Rightarrow> bool" where
  "logging_steady L P A conds ca E \<longleftrightarrow>
    (\<forall>ns name. steady (ReconcileRbac P ns name rbacRules) (conds, Result0, None)) \<and>
    steady (retrieveOpenshiftCA A) ca \<and>
    (\<forall>m ts. steady (EnsureSecrets P m ts []) (E m ts, None)) \<and>
    (\<forall>v. \<exists>h. ObjectHash L v = (h, None)) \<and>
    (\<forall>sv f. (\<forall>sv'. \<exists>sv''. f sv' = Inr sv'') \<longrightarrow> (\<exists>sv'. steady (Service_CreateOrUpdate P sv f) (Inr sv')))"

definition logging_types :: "cond_Type list" where
  "logging_types = [InputReadyCondition, ServiceConfigReadyCondition]"

lemma fold_logging_rbac [simp]:
  "Spec (fold (Logging_RbacConditionsSet CL) conds i) = Spec i"
  "Meta (fold (Logging_RbacConditionsSet CL) conds i) = Meta i"
  "Hash (Status (fold (Logging_RbacConditionsSet CL) conds i)) = Hash (Status i)"
  by (induction conds arbitrary: i) (simp_all add: Logging_RbacConditionsSet_def)

text \<open>The rendered configuration is a function of metadata and spec.\<close>

lemma logging_config_function:
  assumes "logging_steady L P A conds ca E"
  shows "\<exists>vars. \<forall>s. Meta (inst s) = m \<longrightarrow> Spec (inst s) = sp \<longrightarrow>
    (\<exists>w. run_state (Logging_generateComputeServiceConfig L P A []) s = ((vars, None), s\<lparr>world := w\<rparr>))"
proof -
  have run: "steady (retrieveOpenshiftCA A) ca" "\<And>m ts. steady (EnsureSecrets P m ts []) (E m ts, None)"
    using assms by (simp_all add: logging_steady_def)
  let ?s0 = "\<lparr>inst = \<lparr>Meta = m, Spec = sp, Status = undefined\<rparr>, world = undefined\<rparr>"
  show ?thesis
    by (rule exI [of _ "fst (fst (run_state (Logging_generateComputeServiceConfig L P A []) ?s0))"])
      (auto simp: Logging_generateComputeServiceConfig_def Let_def run_api_steady [OF run(1)] run_api_steady [OF run(2)]
        simp del: run_api)
qed

lemma wp_logging_Service:
  assumes "logging_steady L P A conds ca E" and "\<And>sv w. Q (Inr sv) (s\<lparr>world := w\<rparr>)"
  shows "wp (api (logging_Service P i labels)) Q s"
proof -
  have "\<exists>sv. steady (logging_Service P i labels) (Inr sv)"
    using assms(1) by (simp add: logging_steady_def logging_Service_def mutate_logging_Service_def)
  then show ?thesis using wp_steady assms(2) by metis
qed

lemma logging_pass:
  fixes P :: "('c, 'w) platform"
  assumes laws: "condition_laws CL Has ct tr" and lib: "commonlib_laws L"
    and st: "logging_steady L P A conds ca E" and granted: "rbac_granted ct tr conds"
  shows "\<exists>hash. passes (Logging_reconcileNormal CL L P A) Has logging_types L
    (\<lambda>i. all_true CL Has logging_types (Conditions (Status i))) hash m sp"
proof -
  obtain vars where vars: "\<forall>s. Meta (inst s) = m \<longrightarrow> Spec (inst s) = sp \<longrightarrow>
      (\<exists>w. run_state (Logging_generateComputeServiceConfig L P A []) s = ((vars, None), s\<lparr>world := w\<rparr>))"
    using logging_config_function [OF st, of m sp] by blast
  obtain hash where oh: "ObjectHash L (MergeEnvs L [] vars) = (hash, None)"
    using st unfolding logging_steady_def by metis
  have rbac: "steady (ReconcileRbac P ns name rbacRules) (conds, Result0, None)" for ns name
    using st by (simp add: logging_steady_def)
  show ?thesis
    unfolding passes_def
  proof (rule exI [of _ hash], intro allI impI)
    fix s :: "('c Logging, 'w) handler"
    assume i: "Meta (inst s) = m" "Spec (inst s) = sp" "has_hash (inst s)" "tracked Has logging_types (Conditions (Status (inst s)))"
    note ok = fold_rbac_ok [OF laws Logging_RbacConditionsSet_def granted i(4)]
    let ?j = "cmap (\<lambda>cs. MarkTrue CL cs InputReadyCondition (Lib ''InputReadyMessage'')) (fold (Logging_RbacConditionsSet CL) conds (inst s))"
    have j: "tracked Has logging_types (Conditions (Status ?j))" "rbac_ok CL Has (Conditions (Status ?j))"
      "IsTrue CL (Conditions (Status ?j)) InputReadyCondition" "has_hash ?j"
      using ok i(3) condition_laws.tracked_MarkTrue [OF laws] condition_laws.rbac_ok_MarkTrue [OF laws]
      by (simp_all add: logging_types_def condition_laws.cond_simps [OF laws] has_hash_def)
    have go: "wp (do {
        update_inst (cmap (\<lambda>cs. MarkTrue CL cs ServiceConfigReadyCondition (Lib ''ServiceConfigReadyMessage'')));
        instance' \<leftarrow> get_inst;
        r \<leftarrow> api (logging_Service P instance' (Some [AppSelector L \<mapsto> logging_ServiceName]));
        case r of Inl e \<Rightarrow> returns (Result0, Some e) | Inr _ \<Rightarrow> returns (Result0, None)
      }) (\<lambda>out s'. pass_after Has logging_types L (\<lambda>i. all_true CL Has logging_types (Conditions (Status i))) hash ?j out (inst s'))
      (s\<lparr>world := w, inst := set_Hash (Some h) ?j\<rparr>)" if "map_read h (InputHashName L) = hash" for h w
      using that j
      by (auto simp: wp_simps pass_after_def has_hash_def all_true_def condition_laws.cond_simps [OF laws] logging_types_def
          intro!: wp_logging_Service [OF st] condition_laws.tracked_MarkTrue [OF laws] condition_laws.rbac_ok_MarkTrue [OF laws])
    show "wp (Logging_reconcileNormal CL L P A) (\<lambda>out s'. pass_after Has logging_types L
        (\<lambda>i. all_true CL Has logging_types (Conditions (Status i))) hash (inst s) out (inst s')) s"
    proof -
      let ?w = "snd (run_state (ReconcileRbac P (Logging_RbacNamespace (inst s)) (Logging_RbacResourceName (inst s)) rbacRules) (world s))"
      obtain w where conf: "run_state (Logging_generateComputeServiceConfig L P A []) (s\<lparr>world := ?w, inst := ?j\<rparr>) =
          ((vars, None), s\<lparr>inst := ?j, world := w\<rparr>)"
        using vars [rule_format, of "s\<lparr>world := ?w, inst := ?j\<rparr>"] i by auto
      have cong: "pass_after Has logging_types L goal hash (inst s) = pass_after Has logging_types L goal hash ?j" for goal
        by (intro ext pass_after_cong) simp_all
      show ?thesis
        using input_hasher.wp_hash_step [OF log_hash.input_hasher_axioms lib oh, of "s\<lparr>inst := ?j, world := w\<rparr>" Has logging_types, simplified] go j
        unfolding cong
        by (simp add: Logging_reconcileNormal_def wp_simps wp_steady_eq [OF rbac] wp_of_run [OF conf])
    qed
  qed
qed

text \<open>
  C12: On a steady cluster that grants the access rules, renders the secrets and accepts the service, three runs
  of \<open>Reconcile\<close> bring a new Logging to Ready, whatever else happens in the cluster between them: none of them
  returns an error or a request to be called again, and in the resource that the third one stores Ready and
  the conditions of the controller are True.
\<close>

theorem logging_becomes_ready:
  assumes laws: "condition_laws CL Has ct tr" and lib: "commonlib_laws L" and fin: "finalizer_laws U"
    and st: "logging_steady L P A conds ca E" and granted: "rbac_granted ct tr conds"
    and A: "stores_instance A req stored" "stored v = Some i"
    and new: "m_DeletionTimestamp (Meta i) = None" "GetFinalizer A \<notin> set (m_Finalizers (Meta i))" "Conditions (Status i) = None"
  shows "runs_to 3 (Logging_Reconcile CL U L P A req) stored (\<lambda>i3. IsTrue CL (Conditions (Status i3)) ReadyCondition \<and>
    IsTrue CL (Conditions (Status i3)) InputReadyCondition \<and> IsTrue CL (Conditions (Status i3)) ServiceConfigReadyCondition) v"
proof (rule runs_to_mono [OF log_runs.becomes_ready [OF laws fin A new logging_pass [OF laws lib st granted]]], goal_cases)
  case (2 i3)
  then show ?case
    using condition_laws.all_true_update_ready [OF laws, of logging_types]
    by (auto simp: logging_types_def)
qed simp

section \<open>Witness\<close>

text \<open>A cluster whose world is the stored Logging.\<close>

definition ref_steady_logging :: "(ref_cond, ref_cond Logging option) platform" where
  "ref_steady_logging = \<lparr>
     GetSecret = (\<lambda>name ns. return (None, '''', Some ref_NotFound)),
     EnsureSecrets = (\<lambda>m ts vars. return ([(''config'', SetValue ''h'')], None)),
     ReconcileRbac = (\<lambda>ns name rules. return (map (\<lambda>t. (t, True)) rbac_types, Result0, None)),
     GetKeystoneAPI = (\<lambda>ns. return (Inl ref_NotFound)),
     GetKeystoneServiceWithName = (\<lambda>name ns. return (Inl ref_NotFound)),
     Update_KeystoneService = (\<lambda>m. return None),
     KeystoneService_CreateOrPatch = (\<lambda>spec ns labels t. return ((Result0, None), None)),
     TransportURL_CreateOrUpdate = (\<lambda>t f. return (f t)),
     StatefulSet_CreateOrPatch = (\<lambda>ss t. return ((Result0, None), 1)),
     Service_CreateOrUpdate = (\<lambda>sv f. return (f sv))\<rparr>"

definition ref_logging_store :: "(ref_cond, ref_cond Logging option) logging_api" where
  "ref_logging_store = \<lparr>
     Get_instance = (\<lambda>_. State (\<lambda>w. (case w of None \<Rightarrow> Inl ref_NotFound | Some i \<Rightarrow> Inr i, w))),
     NewHelper = (\<lambda>_. None), GetFinalizer = ''logging'', PatchInstance = (\<lambda>_ i. State (\<lambda>_. (None, Some i))),
     Get_Secret = (\<lambda>_. return (Inr \<lparr>se_Name = ''signing-key'', se_Data = [''tls.crt'' \<mapsto> ''cert'']\<rparr>))\<rparr>"

definition ref_logging_new :: "ref_cond Logging" where
  "ref_logging_new = ref_logging\<lparr>Meta := ObjectMeta_named ''logging'' ''openstack'', Status := \<lparr>Conditions = None, Hash = None\<rparr>\<rparr>"

theorem logging_becomes_ready_witness:
  "runs_to 3 (Logging_Reconcile ref_pkg ref_controllerutil ref_commonlib ref_steady_logging ref_logging_store
      \<lparr>nn_Namespace = ''openstack'', nn_Name = ''logging''\<rparr>) id
    (\<lambda>i3. IsTrue ref_pkg (Conditions (Status i3)) ReadyCondition) (Some ref_logging_new)"
proof -
  have st: "logging_steady ref_commonlib ref_steady_logging ref_logging_store (map (\<lambda>t. (t, True)) rbac_types) (Some ''cert'')
      (\<lambda>m ts. [(''config'', SetValue ''h'')])"
    by (auto simp: logging_steady_def ref_steady_logging_def ref_logging_store_def ref_commonlib_def retrieveOpenshiftCA_def)
  have granted: "rbac_granted fst snd (map (\<lambda>t. (t, True)) rbac_types)" by (force simp: rbac_granted_def)
  have A: "stores_instance ref_logging_store req id" for req
    by (simp add: stores_instance_def ref_logging_store_def)
  have new: "m_DeletionTimestamp (Meta ref_logging_new) = None"
    "GetFinalizer ref_logging_store \<notin> set (m_Finalizers (Meta ref_logging_new))" "Conditions (Status ref_logging_new) = None"
    by (simp_all add: ref_logging_new_def ObjectMeta_named_def)
  show ?thesis
    by (rule runs_to_mono [OF logging_becomes_ready [OF ref.condition_laws_axioms ref_lib.commonlib_laws_axioms
          ref_util.finalizer_laws_axioms st granted A _ new]]) simp_all
qed

end
