(* ===== verification/Metricstorage_Pkg.thy ===== *)
theory Metricstorage_Pkg
  imports Workloads Consts
begin

text \<open>
  \<^verbatim>\<open>pkg/metricstorage\<close>: the monitoring stack with its storage, the scrape configuration and the service
  monitor of a MetricStorage.
\<close>

section \<open>\<open>monitoring_stack.go\<close>\<close>

text \<open>\<open>getPVCSpec\<close> is called with a \<open>monitoringStack\<close> that is set, which it gets as its argument.\<close>

definition getPVCSpec :: "commonlib \<Rightarrow> MonitoringStack \<Rightarrow> error + PersistentVolumeClaimSpec option" where
  "getPVCSpec L ms =
    (if st_Strategy (ms_Storage ms) = ''persistent''
     then (let persistentSpec = st_Persistent (ms_Storage ms);
               pvc = \<lparr>pvc_Selector = None, pvc_StorageClassName = None, pvc_Requests = []\<rparr>;
               pvc1 = (if ps_PvcStorageSelector persistentSpec \<noteq> LabelSelector0
                 then pvc\<lparr>pvc_Selector := Some (ps_PvcStorageSelector persistentSpec)\<rparr> else pvc);
               pvc2 = (if ps_PvcStorageClass persistentSpec \<noteq> ''''
                 then pvc1\<lparr>pvc_StorageClassName := Some (ps_PvcStorageClass persistentSpec)\<rparr> else pvc1);
               quantity = (if ps_PvcStorageRequest persistentSpec = ''''
                 then ParseQuantity L DefaultPvcStorageRequest
                 else ParseQuantity L (ps_PvcStorageRequest persistentSpec))
           in case quantity of
                Inl err \<Rightarrow> Inl err
              | Inr q \<Rightarrow> Inr (Some (pvc2\<lparr>pvc_Requests := [(''storage'', q)]\<rparr>)))
     else Inr None)"

type_synonym MonitoringStackCR = "(MonitoringStackSpec, unit) CR"

definition metricstorage_MonitoringStack :: "commonlib \<Rightarrow> 'c MetricStorage \<Rightarrow> (string, string) gomap
    \<Rightarrow> error + MonitoringStackCR" where
  "metricstorage_MonitoringStack L instance' labels =
    (case mt_MonitoringStack (Spec instance') of
       None \<Rightarrow> Inl (Errorf ''monitoringStack is set to nil'')
     | Some ms \<Rightarrow> (case getPVCSpec L ms of
           Inl err \<Rightarrow> Inl err
         | Inr pvc \<Rightarrow> Inr \<lparr>
             Meta = (ObjectMeta_named (m_Name (Meta instance')) (m_Namespace (Meta instance')))\<lparr>m_Labels := labels\<rparr>,
             Spec = MonitoringStackSpec0\<lparr>mss_AlertmanagerDisabled := \<not> ms_AlertingEnabled ms,
               mss_PrometheusConfig := Some \<lparr>pc_Replicas = Some metricstorage_PrometheusReplicas,
                 pc_PersistentVolumeClaim = pvc\<rparr>,
               mss_Retention := st_Retention (ms_Storage ms),
               mss_ResourceSelector := Some \<lparr>MatchLabels = labels, MatchExpressions = None\<rparr>\<rparr>,
             Status = ()\<rparr>))"

section \<open>\<open>scrape_config.go\<close>\<close>

text \<open>
  The scrape configuration is an unstructured object; its content is the interval and one static
  configuration with the targets.
\<close>

record ScrapeConfigObj =
  sg_GVK :: "string \<times> string \<times> string"
  sg_Meta :: ObjectMeta
  sg_ScrapeInterval :: string
  sg_StaticConfigs :: "string list list"

definition ScrapeConfig :: "'c MetricStorage \<Rightarrow> (string, string) gomap \<Rightarrow> string list \<Rightarrow> ScrapeConfigObj" where
  "ScrapeConfig instance' labels targets =
    (let scrapeInterval = (case mt_MonitoringStack (Spec instance') of
           Some ms \<Rightarrow> if ms_ScrapeInterval ms \<noteq> '''' then ms_ScrapeInterval ms else DefaultScrapeInterval
         | None \<Rightarrow> DefaultScrapeInterval)
     in \<lparr>sg_GVK = (''monitoring.rhobs'', ''v1alpha1'', ''ScrapeConfig''),
         sg_Meta = (ObjectMeta_named (m_Name (Meta instance')) (m_Namespace (Meta instance')))
           \<lparr>m_Kind := ''ScrapeConfig'', m_Labels := labels\<rparr>,
         sg_ScrapeInterval = scrapeInterval, sg_StaticConfigs = [targets]\<rparr>)"

section \<open>\<open>service_monitor.go\<close>\<close>

record RelabelConfig =
  rl_Action :: string
  rl_Regex :: string
  rl_SourceLabels :: "string list"

record MonitorEndpoint =
  me_Interval :: string
  me_MetricRelabelConfigs :: "RelabelConfig list"

record ServiceMonitorObj =
  sm_Meta :: ObjectMeta
  sm_Endpoints :: "MonitorEndpoint list"
  sm_Selector :: LabelSelector

definition ServiceMonitor :: "'c MetricStorage \<Rightarrow> (string, string) gomap \<Rightarrow> (string, string) gomap
    \<Rightarrow> ServiceMonitorObj" where
  "ServiceMonitor instance' labels selector =
    (let scrapeInterval = (case mt_MonitoringStack (Spec instance') of
           Some ms \<Rightarrow> if ms_ScrapeInterval ms \<noteq> '''' then ms_ScrapeInterval ms else DefaultScrapeInterval
         | None \<Rightarrow> DefaultScrapeInterval)
     in \<lparr>sm_Meta = (ObjectMeta_named (m_Name (Meta instance')) (m_Namespace (Meta instance')))\<lparr>m_Labels := labels\<rparr>,
         sm_Endpoints = [\<lparr>me_Interval = scrapeInterval, me_MetricRelabelConfigs =
           [\<lparr>rl_Action = ''labeldrop'', rl_Regex = ''pod'', rl_SourceLabels = []\<rparr>,
            \<lparr>rl_Action = ''labeldrop'', rl_Regex = ''namespace'', rl_SourceLabels = []\<rparr>,
            \<lparr>rl_Action = ''labeldrop'', rl_Regex = ''instance'', rl_SourceLabels = []\<rparr>,
            \<lparr>rl_Action = ''labeldrop'', rl_Regex = ''job'', rl_SourceLabels = []\<rparr>,
            \<lparr>rl_Action = ''labeldrop'', rl_Regex = ''publisher'', rl_SourceLabels = []\<rparr>]\<rparr>],
         sm_Selector = \<lparr>MatchLabels = selector, MatchExpressions = None\<rparr>\<rparr>)"

section \<open>Properties\<close>

text \<open>The storage request that applies.\<close>

definition storage_request :: "MonitoringStack \<Rightarrow> string" where
  "storage_request ms = (let r = ps_PvcStorageRequest (st_Persistent (ms_Storage ms))
     in if r = '''' then ''20G'' else r)"

lemma getPVCSpec_result:
  "case getPVCSpec L ms of
     Inl err \<Rightarrow> st_Strategy (ms_Storage ms) = ''persistent'' \<and> ParseQuantity L (storage_request ms) = Inl err
   | Inr None \<Rightarrow> st_Strategy (ms_Storage ms) \<noteq> ''persistent''
   | Inr (Some pvc) \<Rightarrow> st_Strategy (ms_Storage ms) = ''persistent'' \<and>
       (\<exists>q. ParseQuantity L (storage_request ms) = Inr q \<and> pvc_Requests pvc = [(''storage'', q)])"
  by (auto simp: getPVCSpec_def storage_request_def Let_def DefaultPvcStorageRequest_def split: sum.splits)

text \<open>
  Building the monitoring stack fails exactly when \<open>monitoringStack\<close> is not set, or the storage is
  persistent and its request (or the default 20G when it is empty) is no quantity. Otherwise a claim is
  made exactly for persistent storage, it requests that quantity, and Alertmanager is disabled exactly
  when alerting is not enabled.
\<close>

theorem monitoring_stack_built:
  "case metricstorage_MonitoringStack L i labels of
     Inl err \<Rightarrow> (case mt_MonitoringStack (Spec i) of
         None \<Rightarrow> Error err = ''monitoringStack is set to nil''
       | Some ms \<Rightarrow> st_Strategy (ms_Storage ms) = ''persistent'' \<and> ParseQuantity L (storage_request ms) = Inl err)
   | Inr stack \<Rightarrow> (case (mt_MonitoringStack (Spec i), mss_PrometheusConfig (Spec stack)) of
         (Some ms, Some pc) \<Rightarrow>
           mss_AlertmanagerDisabled (Spec stack) = (\<not> ms_AlertingEnabled ms) \<and>
           mss_Retention (Spec stack) = st_Retention (ms_Storage ms) \<and>
           (case pc_PersistentVolumeClaim pc of
              None \<Rightarrow> st_Strategy (ms_Storage ms) \<noteq> ''persistent''
            | Some pvc \<Rightarrow> st_Strategy (ms_Storage ms) = ''persistent'' \<and>
                (\<exists>q. ParseQuantity L (storage_request ms) = Inr q \<and> pvc_Requests pvc = [(''storage'', q)]))
       | _ \<Rightarrow> False)"
proof (cases "mt_MonitoringStack (Spec i)")
  case None
  then show ?thesis by (simp add: metricstorage_MonitoringStack_def Errorf_def)
next
  case (Some ms)
  then show ?thesis
    using getPVCSpec_result [where L = L and ms = ms]
    by (cases "getPVCSpec L ms") (simp_all add: metricstorage_MonitoringStack_def split: option.splits)
qed

text \<open>
  The monitor of the Ceilometer metrics and the scrape configuration of the compute nodes use the
  same interval, which is never empty, and both stand under the key of the instance.
\<close>

theorem monitors_agree:
  "me_Interval (hd (sm_Endpoints (ServiceMonitor i labels selector))) = sg_ScrapeInterval (ScrapeConfig i labels' targets) \<and>
   sg_ScrapeInterval (ScrapeConfig i labels' targets) \<noteq> '''' \<and>
   ObjectKeyFromObject (sm_Meta (ServiceMonitor i labels selector)) = ObjectKeyFromObject (Meta i) \<and>
   ObjectKeyFromObject (sg_Meta (ScrapeConfig i labels' targets)) = ObjectKeyFromObject (Meta i)"
  by (auto simp: ServiceMonitor_def ScrapeConfig_def Let_def DefaultScrapeInterval_def ObjectKeyFromObject_def
      ObjectMeta_named_def split: option.splits)

end
