(* ===== verification/Net_Names.thy ===== *)
theory Net_Names
  imports Prelude
begin

text \<open>
  Names and addresses: the part of Go's \<open>regexp\<close> that \<open>isValidDomain\<close> uses, as a matcher by derivatives
  with its language, and whether \<open>net.ParseIP\<close> accepts a text. Strings are byte sequences, so that the
  two characters beyond ASCII that the case-insensitive class matches appear as their UTF-8 bytes.
\<close>

section \<open>Regular expressions\<close>

datatype rexp = Zero | One | Cls "char \<Rightarrow> bool" | Seq rexp rexp | Alt rexp rexp | Star rexp

text \<open>The language of an expression.\<close>

inductive in_lang :: "rexp \<Rightarrow> string \<Rightarrow> bool" where
  One: "in_lang One []"
| Cls: "p c \<Longrightarrow> in_lang (Cls p) [c]"
| Seq: "in_lang r s \<Longrightarrow> in_lang q t \<Longrightarrow> in_lang (Seq r q) (s @ t)"
| AltL: "in_lang r s \<Longrightarrow> in_lang (Alt r q) s"
| AltR: "in_lang q s \<Longrightarrow> in_lang (Alt r q) s"
| StarNil: "in_lang (Star r) []"
| StarCons: "in_lang r s \<Longrightarrow> in_lang (Star r) t \<Longrightarrow> in_lang (Star r) (s @ t)"

inductive_simps in_lang_simps [simp]:
  "in_lang Zero s" "in_lang One s" "in_lang (Cls p) s" "in_lang (Alt r q) s"
inductive_simps in_lang_Seq: "in_lang (Seq r q) s"

fun nullable :: "rexp \<Rightarrow> bool" where
  "nullable Zero = False"
| "nullable One = True"
| "nullable (Cls p) = False"
| "nullable (Seq r q) = (nullable r \<and> nullable q)"
| "nullable (Alt r q) = (nullable r \<or> nullable q)"
| "nullable (Star r) = True"

fun deriv :: "char \<Rightarrow> rexp \<Rightarrow> rexp" where
  "deriv c Zero = Zero"
| "deriv c One = Zero"
| "deriv c (Cls p) = (if p c then One else Zero)"
| "deriv c (Seq r q) = (if nullable r then Alt (Seq (deriv c r) q) (deriv c q) else Seq (deriv c r) q)"
| "deriv c (Alt r q) = Alt (deriv c r) (deriv c q)"
| "deriv c (Star r) = Seq (deriv c r) (Star r)"

text \<open>\<open>MatchString\<close> of an expression anchored at both ends.\<close>

fun matches :: "rexp \<Rightarrow> string \<Rightarrow> bool" where
  "matches r [] = nullable r"
| "matches r (c # s) = matches (deriv c r) s"

lemma nullable_iff: "nullable r \<longleftrightarrow> in_lang r []"
  by (induction r) (auto simp: in_lang_Seq intro: in_lang.StarNil)

lemma Star_Cons:
  "in_lang (Star r) (c # s) \<longleftrightarrow> (\<exists>u v. s = u @ v \<and> in_lang r (c # u) \<and> in_lang (Star r) v)"
proof
  have "in_lang q w \<Longrightarrow> q = Star r \<Longrightarrow> w = c # s \<Longrightarrow>
      \<exists>u v. s = u @ v \<and> in_lang r (c # u) \<and> in_lang (Star r) v" for q w
    by (induction arbitrary: rule: in_lang.induct) (auto simp: append_eq_Cons_conv)
  then show "in_lang (Star r) (c # s) \<Longrightarrow> \<exists>u v. s = u @ v \<and> in_lang r (c # u) \<and> in_lang (Star r) v"
    by blast
  show "\<exists>u v. s = u @ v \<and> in_lang r (c # u) \<and> in_lang (Star r) v \<Longrightarrow> in_lang (Star r) (c # s)"
    using in_lang.StarCons by fastforce
qed

lemma deriv_iff: "in_lang (deriv c r) s \<longleftrightarrow> in_lang r (c # s)"
proof (induction r arbitrary: s)
  case (Seq r q)
  have "in_lang (Seq r q) (c # s) \<longleftrightarrow>
      (\<exists>u v. s = u @ v \<and> in_lang r (c # u) \<and> in_lang q v) \<or> (in_lang r [] \<and> in_lang q (c # s))"
    by (auto simp: in_lang_Seq Cons_eq_append_conv)
  then show ?case using Seq by (auto simp: in_lang_Seq nullable_iff)
next
  case (Star r)
  then show ?case by (simp add: in_lang_Seq Star_Cons)
qed auto

text \<open>The matcher decides the language.\<close>

lemma matches_iff: "matches r s \<longleftrightarrow> in_lang r s"
  by (induction s arbitrary: r) (simp_all add: nullable_iff deriv_iff)

section \<open>\<open>isValidDomain\<close>\<close>

text \<open>
  \<open>(?i)[a-z0-9-]\<close>: the class with the letters of both cases and the two characters that fold to a
  letter of it, U+017F (long s) and U+212A (Kelvin sign).
\<close>

definition name_char :: "char \<Rightarrow> bool" where
  "name_char c \<longleftrightarrow> (let n = of_char c :: nat
     in 97 \<le> n \<and> n \<le> 122 \<or> 65 \<le> n \<and> n \<le> 90 \<or> 48 \<le> n \<and> n \<le> 57 \<or> n = 45)"

definition name_class :: rexp where
  "name_class = Alt (Cls name_char)
     (Alt (Seq (Cls ((=) (CHR 0xC5))) (Cls ((=) (CHR 0xBF))))
       (Seq (Cls ((=) (CHR 0xE2))) (Seq (Cls ((=) (CHR 0x84))) (Cls ((=) (CHR 0xAA))))))"

definition plus_rexp :: "rexp \<Rightarrow> rexp" where
  "plus_rexp r = Seq r (Star r)"

definition dot_rexp :: rexp where
  "dot_rexp = Cls ((=) (CHR ''.''))"

definition domainRegexp :: rexp where
  "domainRegexp = Seq (plus_rexp name_class)
     (Seq (plus_rexp (Seq dot_rexp (plus_rexp name_class))) (Alt dot_rexp One))"

definition isValidDomain :: "string \<Rightarrow> bool" where
  "isValidDomain domain = matches domainRegexp domain"

text \<open>What a domain name is: at least two labels, separated by dots, with an optional dot at the end.\<close>

definition domain_label :: "string \<Rightarrow> bool" where
  "domain_label l \<longleftrightarrow> (\<exists>us. us \<noteq> [] \<and> l = concat us \<and>
     list_all (\<lambda>u. (\<exists>c. u = [c] \<and> name_char c) \<or> u = [CHR 0xC5, CHR 0xBF] \<or> u = [CHR 0xE2, CHR 0x84, CHR 0xAA]) us)"

lemma in_lang_name_class:
  "in_lang name_class = (\<lambda>u.
     (\<exists>c. u = [c] \<and> name_char c) \<or> u = [CHR 0xC5, CHR 0xBF] \<or> u = [CHR 0xE2, CHR 0x84, CHR 0xAA])"
  by (rule ext) (auto simp: name_class_def in_lang_Seq)

lemma in_lang_Star: "in_lang (Star r) s \<longleftrightarrow> (\<exists>us. s = concat us \<and> list_all (in_lang r) us)"
proof
  have "in_lang q s \<Longrightarrow> q = Star r \<Longrightarrow> \<exists>us. s = concat us \<and> list_all (in_lang r) us" for q
  proof (induction rule: in_lang.induct)
    case (StarNil r')
    have "[] = concat [] \<and> list_all (in_lang r) []" by simp
    then show ?case by blast
  next
    case (StarCons r' u v)
    then obtain us where "v = concat us" "list_all (in_lang r) us" by blast
    with StarCons have "u @ v = concat (u # us) \<and> list_all (in_lang r) (u # us)" by simp
    then show ?case by blast
  qed simp_all
  then show "in_lang (Star r) s \<Longrightarrow> \<exists>us. s = concat us \<and> list_all (in_lang r) us" by blast
  have "list_all (in_lang r) us \<Longrightarrow> in_lang (Star r) (concat us)" for us
    by (induction us) (auto intro: in_lang.StarNil in_lang.StarCons)
  then show "\<exists>us. s = concat us \<and> list_all (in_lang r) us \<Longrightarrow> in_lang (Star r) s" by blast
qed

lemma in_lang_plus: "in_lang (plus_rexp r) s \<longleftrightarrow> (\<exists>us. us \<noteq> [] \<and> s = concat us \<and> list_all (in_lang r) us)"
proof
  assume "in_lang (plus_rexp r) s"
  then obtain u us where "s = u @ concat us" "in_lang r u" "list_all (in_lang r) us"
    by (auto simp: plus_rexp_def in_lang_Seq in_lang_Star)
  then have "u # us \<noteq> [] \<and> s = concat (u # us) \<and> list_all (in_lang r) (u # us)" by simp
  then show "\<exists>us. us \<noteq> [] \<and> s = concat us \<and> list_all (in_lang r) us" by blast
next
  assume "\<exists>us. us \<noteq> [] \<and> s = concat us \<and> list_all (in_lang r) us"
  then obtain us where us: "us \<noteq> []" "s = concat us" "list_all (in_lang r) us" by blast
  then obtain u us' where "us = u # us'" by (cases us) auto
  with us have "s = u @ concat us'" "in_lang r u" "list_all (in_lang r) us'" by simp_all
  then show "in_lang (plus_rexp r) s" by (auto simp: plus_rexp_def in_lang_Seq in_lang_Star)
qed

lemma in_lang_label: "in_lang (plus_rexp name_class) l \<longleftrightarrow> domain_label l"
  by (simp add: in_lang_plus domain_label_def in_lang_name_class)

lemma strings_Join_Cons: "strings_Join (l # ls) sep = l @ concat (map (\<lambda>l. sep @ l) ls)"
  by (induction ls arbitrary: l) simp_all

lemma in_lang_tail:
  "in_lang (plus_rexp (Seq dot_rexp (plus_rexp name_class))) s \<longleftrightarrow>
     (\<exists>ls. ls \<noteq> [] \<and> list_all domain_label ls \<and> s = concat (map (\<lambda>l. ''.'' @ l) ls))"
proof -
  have part: "in_lang (Seq dot_rexp (plus_rexp name_class)) u \<longleftrightarrow> (\<exists>l. u = ''.'' @ l \<and> domain_label l)" for u
    by (auto simp: in_lang_Seq dot_rexp_def in_lang_label)
  have "list_all (\<lambda>u. \<exists>l. u = ''.'' @ l \<and> domain_label l) us \<longleftrightarrow>
      (\<exists>ls. us = map (\<lambda>l. ''.'' @ l) ls \<and> list_all domain_label ls)" for us
    by (induction us) (auto simp: Cons_eq_map_conv)
  then show ?thesis unfolding in_lang_plus part by auto
qed

text \<open>
  C36: \<open>isValidDomain\<close> accepts exactly the texts that consist of at least two labels separated by dots,
  with an optional dot at the end, where a label is a non-empty sequence of letters, digits and hyphens
  (and the two characters that fold to a letter).
\<close>

theorem isValidDomain_iff:
  "isValidDomain s \<longleftrightarrow> (\<exists>labels trail. length labels \<ge> 2 \<and> list_all domain_label labels \<and>
     trail \<in> {'''', ''.''} \<and> s = strings_Join labels ''.'' @ trail)"
proof -
  have trail: "in_lang (Alt dot_rexp One) t \<longleftrightarrow> t \<in> {'''', ''.''}" for t
    by (auto simp: dot_rexp_def)
  have "isValidDomain s \<longleftrightarrow> (\<exists>l ls trail. domain_label l \<and> ls \<noteq> [] \<and> list_all domain_label ls \<and>
      trail \<in> {'''', ''.''} \<and> s = l @ concat (map (\<lambda>l. ''.'' @ l) ls) @ trail)"
    unfolding isValidDomain_def matches_iff domainRegexp_def in_lang_Seq in_lang_label in_lang_tail trail by blast
  also have "\<dots> \<longleftrightarrow> (\<exists>l ls trail. length (l # ls) \<ge> 2 \<and> list_all domain_label (l # ls) \<and>
      trail \<in> {'''', ''.''} \<and> s = strings_Join (l # ls) ''.'' @ trail)"
    by (auto simp: strings_Join_Cons Suc_le_eq)
  also have "\<dots> \<longleftrightarrow> (\<exists>labels trail. length labels \<ge> 2 \<and> list_all domain_label labels \<and>
      trail \<in> {'''', ''.''} \<and> s = strings_Join labels ''.'' @ trail)"
    by (metis (no_types, lifting) length_0_conv list.exhaust not_numeral_le_zero)
  finally show ?thesis .
qed

section \<open>\<open>net.ParseIP\<close>\<close>

text \<open>Numbers: the value and the number of characters read, unless it is no number or too big.\<close>

definition is_digit :: "char \<Rightarrow> bool" where
  "is_digit c \<longleftrightarrow> (let n = of_char c :: int in 48 \<le> n \<and> n \<le> 57)"

definition digit_value :: "char \<Rightarrow> int" where
  "digit_value c = of_char c - 48"

definition hex_value :: "char \<Rightarrow> int option" where
  "hex_value c = (let n = of_char c :: int in
     if 48 \<le> n \<and> n \<le> 57 then Some (n - 48)
     else if 97 \<le> n \<and> n \<le> 102 then Some (n - 87)
     else if 65 \<le> n \<and> n \<le> 70 then Some (n - 55)
     else None)"

definition big :: int where "big = 16777215"

fun dtoi_from :: "int \<Rightarrow> nat \<Rightarrow> string \<Rightarrow> (int \<times> nat) option" where
  "dtoi_from n i [] = Some (n, i)"
| "dtoi_from n i (c # s) =
     (if is_digit c
      then let n' = n * 10 + digit_value c in if n' \<ge> big then None else dtoi_from n' (i + 1) s
      else Some (n, i))"

definition dtoi :: "string \<Rightarrow> (int \<times> nat) option" where
  "dtoi s = (case dtoi_from 0 0 s of
     None \<Rightarrow> None | Some (n, i) \<Rightarrow> if i = 0 then None else Some (n, i))"

fun xtoi_from :: "int \<Rightarrow> nat \<Rightarrow> string \<Rightarrow> (int \<times> nat) option" where
  "xtoi_from n i [] = Some (n, i)"
| "xtoi_from n i (c # s) = (case hex_value c of
      None \<Rightarrow> Some (n, i)
    | Some d \<Rightarrow> let n' = n * 16 + d in if n' \<ge> big then None else xtoi_from n' (i + 1) s)"

definition xtoi :: "string \<Rightarrow> (int \<times> nat) option" where
  "xtoi s = (case xtoi_from 0 0 s of
     None \<Rightarrow> None | Some (n, i) \<Rightarrow> if i = 0 then None else Some (n, i))"

text \<open>The loop of \<open>parseIPv4\<close> over the components that remain; the rest of the text when it succeeds.\<close>

fun parseIPv4_from :: "nat \<Rightarrow> bool \<Rightarrow> string \<Rightarrow> string option" where
  "parseIPv4_from 0 first s = Some s"
| "parseIPv4_from (Suc k) first s =
     (if s = [] then None
      else if \<not> first \<and> hd s \<noteq> CHR ''.'' then None
      else let s1 = (if first then s else tl s)
        in case dtoi s1 of
             None \<Rightarrow> None
           | Some (n, c) \<Rightarrow>
               if n > 255 then None
               else if c > 1 \<and> hd s1 = CHR ''0'' then None
               else parseIPv4_from k False (drop c s1))"

definition parseIPv4 :: "string \<Rightarrow> bool" where
  "parseIPv4 s \<longleftrightarrow> parseIPv4_from 4 True s = Some []"

text \<open>
  The loop of \<open>parseIPv6\<close>: bytes filled so far, where the ellipsis is, and the rest of the text. Each
  round fills two bytes of sixteen.
\<close>

function parseIPv6_loop :: "nat \<Rightarrow> nat option \<Rightarrow> string \<Rightarrow> (nat \<times> nat option \<times> string) option" where
  "parseIPv6_loop i ellipsis s =
    (if i \<ge> 16 then Some (i, ellipsis, s)
     else case xtoi s of
       None \<Rightarrow> None
     | Some (n, c) \<Rightarrow>
         if n > 65535 then None
         else if c < length s \<and> s ! c = CHR ''.''
         then (if ellipsis = None \<and> i \<noteq> 12 then None
               else if i + 4 > 16 then None
               else if \<not> parseIPv4 s then None
               else Some (i + 4, ellipsis, []))
         else (let s1 = drop c s in
           if s1 = [] then Some (i + 2, ellipsis, [])
           else if hd s1 \<noteq> CHR '':'' \<or> length s1 = 1 then None
           else let s2 = tl s1 in
             if hd s2 = CHR '':''
             then (if ellipsis \<noteq> None then None
                   else let s3 = tl s2 in
                     if s3 = [] then Some (i + 2, Some (i + 2), [])
                     else parseIPv6_loop (i + 2) (Some (i + 2)) s3)
             else parseIPv6_loop (i + 2) ellipsis s2))"
  by pat_completeness auto
termination by (relation "measure (\<lambda>(i, _, _). 16 - i)") auto

definition parseIPv6_end :: "(nat \<times> nat option \<times> string) option \<Rightarrow> bool" where
  "parseIPv6_end r = (case r of
     None \<Rightarrow> False
   | Some (i, ellipsis, s) \<Rightarrow> s = [] \<and> (if i < 16 then ellipsis \<noteq> None else ellipsis = None))"

definition parseIPv6 :: "string \<Rightarrow> bool" where
  "parseIPv6 s =
    (if length s \<ge> 2 \<and> s ! 0 = CHR '':'' \<and> s ! 1 = CHR '':''
     then (let s1 = drop 2 s in if s1 = [] then True else parseIPv6_end (parseIPv6_loop 0 (Some 0) s1))
     else parseIPv6_end (parseIPv6_loop 0 None s))"

text \<open>\<open>net.ParseIP(s) != nil\<close>\<close>

definition ParseIP :: "string \<Rightarrow> bool" where
  "ParseIP s = (case dropWhile (\<lambda>c. c \<noteq> CHR ''.'' \<and> c \<noteq> CHR '':'') s of
     [] \<Rightarrow> False
   | c # _ \<Rightarrow> if c = CHR ''.'' then parseIPv4 s else parseIPv6 s)"

section \<open>Decimal numbers\<close>

text \<open>\<open>%d\<close> of a number that is not negative.\<close>

fun Sprint_nat :: "nat \<Rightarrow> string" where
  "Sprint_nat n = (if n < 10 then [char_of (48 + n)] else Sprint_nat (n div 10) @ [char_of (48 + n mod 10)])"

declare Sprint_nat.simps [simp del]

lemma digit_char [simp]:
  assumes "n < 10"
  shows "is_digit (char_of (48 + n))" "digit_value (char_of (48 + n)) = int n"
proof -
  have "(of_char (char_of (48 + n)) :: nat) = 48 + n"
    using assms by (simp only: of_char_of) simp
  then have "(of_char (char_of (48 + n)) :: int) = int (48 + n)"
    by (metis of_nat_of_char)
  then show "is_digit (char_of (48 + n))" "digit_value (char_of (48 + n)) = int n"
    using assms by (simp_all add: is_digit_def digit_value_def Let_def)
qed

lemma dtoi_from_Sprint:
  "int n < big \<Longrightarrow> dtoi_from 0 0 (Sprint_nat n @ s) = dtoi_from (int n) (length (Sprint_nat n)) s"
proof (induction n arbitrary: s rule: Sprint_nat.induct)
  case (1 n)
  show ?case
  proof (cases "n < 10")
    case True
    then show ?thesis by (simp add: Sprint_nat.simps [of n] big_def)
  next
    case False
    with 1 have "dtoi_from 0 0 (Sprint_nat (n div 10) @ char_of (48 + n mod 10) # s) =
        dtoi_from (int (n div 10)) (length (Sprint_nat (n div 10))) (char_of (48 + n mod 10) # s)"
      by (simp add: big_def)
    moreover have "int (n div 10) * 10 + int (n mod 10) = int n"
      by (simp add: zdiv_int zmod_int)
    ultimately show ?thesis using False 1(2) by (simp add: Sprint_nat.simps [of n] Let_def)
  qed
qed

lemma dtoi_Sprint:
  assumes "int n < big" and "s = [] \<or> \<not> is_digit (hd s)"
  shows "dtoi (Sprint_nat n @ s) = Some (int n, length (Sprint_nat n))"
proof -
  have "Sprint_nat n \<noteq> []" by (simp add: Sprint_nat.simps [of n])
  moreover have "dtoi_from (int n) k s = Some (int n, k)" for k
    using assms(2) by (cases s) auto
  ultimately show ?thesis using dtoi_from_Sprint [OF assms(1), of s] by (simp add: dtoi_def)
qed

lemma Sprint_nat_digits: "list_all is_digit (Sprint_nat n)"
  by (induction n rule: Sprint_nat.induct) (subst Sprint_nat.simps, auto)

lemma Sprint_nat_not_nil [simp]: "Sprint_nat n \<noteq> []"
  by (simp add: Sprint_nat.simps [of n])

lemma hd_Sprint_nat: "0 < n \<Longrightarrow> hd (Sprint_nat n) \<noteq> CHR ''0''"
proof (induction n rule: Sprint_nat.induct)
  case (1 n)
  show ?case
  proof (cases "n < 10")
    case True
    with 1(2) have "digit_value (char_of (48 + n)) \<noteq> digit_value (CHR ''0'')"
      by (subst digit_char(2)) (simp_all add: digit_value_def)
    then have "char_of (48 + n) \<noteq> CHR ''0''" by metis
    with True show ?thesis by (simp add: Sprint_nat.simps [of n])
  next
    case False
    then show ?thesis using 1 by (simp add: Sprint_nat.simps [of n])
  qed
qed

lemma parseIPv4_component:
  assumes "n \<le> 255" and "s = [] \<or> hd s = CHR ''.''"
  shows "parseIPv4_from (Suc k) True (Sprint_nat n @ s) = parseIPv4_from k False s"
    and "parseIPv4_from (Suc k) False (CHR ''.'' # Sprint_nat n @ s) = parseIPv4_from k False s"
proof -
  have "s = [] \<or> \<not> is_digit (hd s)" using assms(2) by (auto simp: is_digit_def)
  then have d: "dtoi (Sprint_nat n @ s) = Some (int n, length (Sprint_nat n))"
    using assms(1) by (intro dtoi_Sprint) (simp_all add: big_def)
  have "\<not> (length (Sprint_nat n) > 1 \<and> hd (Sprint_nat n @ s) = CHR ''0'')"
    using hd_Sprint_nat [of n] by (cases "n = 0") (auto simp: Sprint_nat.simps [of 0])
  with d assms(1) show "parseIPv4_from (Suc k) True (Sprint_nat n @ s) = parseIPv4_from k False s"
    and "parseIPv4_from (Suc k) False (CHR ''.'' # Sprint_nat n @ s) = parseIPv4_from k False s"
    by auto
qed

text \<open>Every IPv4 address in dotted decimal notation is accepted.\<close>

definition dotted :: "nat \<Rightarrow> nat \<Rightarrow> nat \<Rightarrow> nat \<Rightarrow> string" where
  "dotted a b c d = Sprint_nat a @ ''.'' @ Sprint_nat b @ ''.'' @ Sprint_nat c @ ''.'' @ Sprint_nat d"

lemma ParseIP_dotted:
  assumes "a \<le> 255" "b \<le> 255" "c \<le> 255" "d \<le> 255"
  shows "ParseIP (dotted a b c d)"
proof -
  have "dropWhile (\<lambda>c. c \<noteq> CHR ''.'' \<and> c \<noteq> CHR '':'') (Sprint_nat a @ CHR ''.'' # s) = CHR ''.'' # s" for s
    using Sprint_nat_digits [of a]
    by (subst dropWhile_append2) (auto simp: list_all_iff is_digit_def)
  moreover have "parseIPv4 (dotted a b c d)"
    using parseIPv4_component(2) [OF assms(4), of "[]"] assms
    by (simp add: parseIPv4_def dotted_def numeral_eq_Suc parseIPv4_component del: parseIPv4_from.simps(2))
  ultimately show ?thesis by (simp add: ParseIP_def dotted_def)
qed

end
