(* ===== verification/Node_Targets.thy ===== *)
theory Node_Targets
  imports Metricstorage_Pkg Net_Names
begin

text \<open>
  The targets of the node exporter (\<open>getNodeExporterTargets\<close> and the functions it calls in
  \<^verbatim>\<open>controllers/metricstorage_controller.go\<close>): one address with the port for every node of the node sets
  that run the telemetry service.

  \<open>Nodes\<close> of a node set is a Go map; it is a list here, in the order in which the loop over the map
  visits it, which Go leaves open.
\<close>

section \<open>The data plane\<close>

record NodeSection =
  no_HostName :: string
  no_AnsibleHost :: string

record NodeSet =
  nset_Services :: "string list"
  nset_Nodes :: "(string \<times> NodeSection) list"

record Reservation =
  rv_Network :: string
  rv_Address :: string

record IPSet =
  is_Reservation :: "Reservation list"

text \<open>\<open>OpenStackDataPlaneService\<close>: the networks of \<open>Spec.Services\<close>.\<close>

record DataPlaneService =
  ds_Services :: "string list"

datatype AddressType = AddressTypeIPv4 | AddressTypeFQDN | AddressTypeNone

record 'w dataplane_api =
  List_IPSets :: "string \<Rightarrow> ('w, error + IPSet list) state"
  List_NodeSets :: "string \<Rightarrow> ('w, error + NodeSet list) state"
  Get_DataPlaneService :: "NamespacedName \<Rightarrow> ('w, error + DataPlaneService) state"
  Get_IPSet :: "NamespacedName \<Rightarrow> ('w, error + IPSet) state"

definition getTelemetryDataPlaneService :: "'w dataplane_api \<Rightarrow> 'c MetricStorage \<Rightarrow> ('w, error + DataPlaneService) state" where
  "getTelemetryDataPlaneService D instance' =
     Get_DataPlaneService D \<lparr>nn_Namespace = m_Namespace (Meta instance'), nn_Name = ''telemetry''\<rparr>"

definition getIPSetList :: "'w dataplane_api \<Rightarrow> 'c MetricStorage \<Rightarrow> ('w, error + IPSet list) state" where
  "getIPSetList D instance' = List_IPSets D (m_Namespace (Meta instance'))"

definition getNodeSetList :: "'w dataplane_api \<Rightarrow> 'c MetricStorage \<Rightarrow> ('w, error + NodeSet list) state" where
  "getNodeSetList D instance' = List_NodeSets D (m_Namespace (Meta instance'))"

section \<open>The address of a node\<close>

definition getAddressFromAnsibleHost :: "NodeSection \<Rightarrow> string \<times> AddressType" where
  "getAddressFromAnsibleHost item =
    (if ParseIP (no_AnsibleHost item) then (no_AnsibleHost item, AddressTypeIPv4)
     else if isValidDomain (no_AnsibleHost item) then (no_AnsibleHost item, AddressTypeFQDN)
     else if isValidDomain (no_HostName item) then (no_HostName item, AddressTypeFQDN)
     else ('''', AddressTypeNone))"

text \<open>The loop over the reservations, with the loop over the networks of the service inside.\<close>

fun find_reservation :: "Reservation list \<Rightarrow> string list \<Rightarrow> string option" where
  "find_reservation [] networks = None"
| "find_reservation (r # rs) networks =
     (if list_ex (\<lambda>n. rv_Network r = n) networks then Some (rv_Address r) else find_reservation rs networks)"

definition getAddressFromIPSet :: "'w dataplane_api \<Rightarrow> 'c MetricStorage \<Rightarrow> NodeSection \<Rightarrow> NamespacedName
    \<Rightarrow> ('w, string \<times> AddressType) state" where
  "getAddressFromIPSet D instance' item namespacedName = do {
     telemetryService \<leftarrow> getTelemetryDataPlaneService D instance';
     ipset \<leftarrow> Get_IPSet D namespacedName;
     return (case ipset of
       Inl err \<Rightarrow>
         if isValidDomain (no_HostName item) then (no_HostName item, AddressTypeFQDN) else ('''', AddressTypeNone)
     | Inr ipset \<Rightarrow> (case telemetryService of
           Inl err \<Rightarrow> getAddressFromAnsibleHost item
         | Inr service \<Rightarrow>
             if is_Reservation ipset \<noteq> []
             then (case find_reservation (is_Reservation ipset) (ds_Services service) of
                 Some address \<Rightarrow> (address, AddressTypeIPv4)
               | None \<Rightarrow> getAddressFromAnsibleHost item)
             else getAddressFromAnsibleHost item))
   }"

section \<open>The loops\<close>

text \<open>\<open>fmt.Sprintf("%s:%d", address, metricstorage.DefaultNodeExporterPort)\<close>\<close>

definition node_target :: "string \<Rightarrow> string" where
  "node_target address = address @ '':'' @ Sprint_nat (nat DefaultNodeExporterPort)"

text \<open>
  The body of the loop over the nodes: the address, or \<open>None\<close> when the function gives up.
\<close>

definition node_address :: "'w dataplane_api \<Rightarrow> 'c MetricStorage \<Rightarrow> bool \<Rightarrow> string \<Rightarrow> NodeSection
    \<Rightarrow> ('w, string option) state" where
  "node_address D instance' haveIPSets name item =
    (if haveIPSets
     then do {
       (address, _) \<leftarrow> getAddressFromIPSet D instance' item \<lparr>nn_Namespace = m_Namespace (Meta instance'), nn_Name = name\<rparr>;
       return (if address = '''' then None else Some address)
     }
     else if no_AnsibleHost item \<noteq> ''''
     then (let (address, _) = getAddressFromAnsibleHost item
           in return (if address = '''' then None else Some address))
     else return None)"

text \<open>The answer says whether the function goes on (\<open>True\<close>) or has returned.\<close>

fun nodes_loop :: "'w dataplane_api \<Rightarrow> 'c MetricStorage \<Rightarrow> bool \<Rightarrow> (string \<times> NodeSection) list \<Rightarrow> string list
    \<Rightarrow> ('w, bool \<times> string list) state" where
  "nodes_loop D instance' haveIPSets [] addresses = return (True, addresses)"
| "nodes_loop D instance' haveIPSets ((name, item) # nodes) addresses = do {
     address \<leftarrow> node_address D instance' haveIPSets name item;
     case address of
       None \<Rightarrow> return (False, addresses)
     | Some a \<Rightarrow> nodes_loop D instance' haveIPSets nodes (addresses @ [node_target a])
   }"

fun nodesets_loop :: "'w dataplane_api \<Rightarrow> 'c MetricStorage \<Rightarrow> bool \<Rightarrow> NodeSet list \<Rightarrow> string list
    \<Rightarrow> ('w, string list) state" where
  "nodesets_loop D instance' haveIPSets [] addresses = return addresses"
| "nodesets_loop D instance' haveIPSets (nodeSet # nodeSets) addresses =
    (if \<not> list_ex (\<lambda>service. service = ''telemetry'') (nset_Services nodeSet)
     then nodesets_loop D instance' haveIPSets nodeSets addresses
     else do {
       (goOn, addresses) \<leftarrow> nodes_loop D instance' haveIPSets (nset_Nodes nodeSet) addresses;
       if goOn then nodesets_loop D instance' haveIPSets nodeSets addresses else return addresses
     })"

definition getNodeExporterTargets :: "'w dataplane_api \<Rightarrow> 'c MetricStorage \<Rightarrow> ('w, error + string list) state" where
  "getNodeExporterTargets D instance' = do {
     ipSetList \<leftarrow> getIPSetList D instance';
     case ipSetList of
       Inl err \<Rightarrow> return (Inl err)
     | Inr ipSets \<Rightarrow> do {
         nodeSetList \<leftarrow> getNodeSetList D instance';
         case nodeSetList of
           Inl err \<Rightarrow> return (Inl err)
         | Inr nodeSets \<Rightarrow> do {
             addresses \<leftarrow> nodesets_loop D instance' (ipSets \<noteq> []) nodeSets [];
             return (Inr addresses)
           }
       }
   }"

section \<open>What the targets are\<close>

text \<open>
  A snapshot of the data plane: the answers of a cluster that does not change. The specification on it
  is a fold over the nodes of the node sets that run the telemetry service.
\<close>

record dataplane =
  dp_IPSets :: "IPSet list"
  dp_NodeSets :: "NodeSet list"
  dp_Service :: "DataPlaneService option"
  dp_IPSet :: "string \<Rightarrow> IPSet option"

definition snapshot_api :: "string \<Rightarrow> dataplane \<Rightarrow> 'w dataplane_api \<Rightarrow> bool" where
  "snapshot_api ns d D \<longleftrightarrow>
    (\<forall>w. run_state (List_IPSets D ns) w = (Inr (dp_IPSets d), w)) \<and>
    (\<forall>w. run_state (List_NodeSets D ns) w = (Inr (dp_NodeSets d), w)) \<and>
    (\<forall>w. run_state (Get_DataPlaneService D \<lparr>nn_Namespace = ns, nn_Name = ''telemetry''\<rparr>) w =
       ((case dp_Service d of None \<Rightarrow> Inl (Errorf ''not found'') | Some s \<Rightarrow> Inr s), w)) \<and>
    (\<forall>name w. run_state (Get_IPSet D \<lparr>nn_Namespace = ns, nn_Name = name\<rparr>) w =
       ((case dp_IPSet d name of None \<Rightarrow> Inl (Errorf ''not found'') | Some s \<Rightarrow> Inr s), w))"

text \<open>The address of a node on a snapshot, if one is found.\<close>

definition address_of :: "dataplane \<Rightarrow> string \<times> NodeSection \<Rightarrow> string option" where
  "address_of d = (\<lambda>(name, item).
    let from_host = fst (getAddressFromAnsibleHost item);
        address = (if dp_IPSets d \<noteq> []
          then (case dp_IPSet d name of
              None \<Rightarrow> if isValidDomain (no_HostName item) then no_HostName item else ''''
            | Some s \<Rightarrow> (case dp_Service d of
                None \<Rightarrow> from_host
              | Some sv \<Rightarrow> (case find_reservation (is_Reservation s) (ds_Services sv) of
                  Some a \<Rightarrow> a | None \<Rightarrow> from_host)))
          else if no_AnsibleHost item \<noteq> '''' then from_host else '''')
    in if address = '''' then None else Some address)"

definition telemetry_nodes :: "dataplane \<Rightarrow> (string \<times> NodeSection) list" where
  "telemetry_nodes d = concat (map nset_Nodes (filter (\<lambda>n. ''telemetry'' \<in> set (nset_Services n)) (dp_NodeSets d)))"

definition targets_spec :: "dataplane \<Rightarrow> string list" where
  "targets_spec d = map (node_target \<circ> the \<circ> address_of d)
     (takeWhile (\<lambda>n. address_of d n \<noteq> None) (telemetry_nodes d))"

lemma node_address_snapshot:
  assumes "snapshot_api (m_Namespace (Meta i)) d D"
  shows "run_state (node_address D i (dp_IPSets d \<noteq> []) name item) w = (address_of d (name, item), w)"
  using assms
  by (auto simp: snapshot_api_def node_address_def getAddressFromIPSet_def getTelemetryDataPlaneService_def
      address_of_def Let_def split: option.splits prod.splits)

lemma nodes_loop_snapshot:
  assumes "snapshot_api (m_Namespace (Meta i)) d D"
  shows "run_state (nodes_loop D i (dp_IPSets d \<noteq> []) nodes addresses) w =
    ((list_all (\<lambda>n. address_of d n \<noteq> None) nodes,
      addresses @ map (node_target \<circ> the \<circ> address_of d) (takeWhile (\<lambda>n. address_of d n \<noteq> None) nodes)), w)"
  by (induction nodes arbitrary: addresses)
    (auto simp: node_address_snapshot [OF assms] split: option.splits)

lemma nodesets_loop_snapshot:
  assumes "snapshot_api (m_Namespace (Meta i)) d D"
  shows "run_state (nodesets_loop D i (dp_IPSets d \<noteq> []) nodeSets addresses) w =
    (addresses @ map (node_target \<circ> the \<circ> address_of d) (takeWhile (\<lambda>n. address_of d n \<noteq> None)
       (concat (map nset_Nodes (filter (\<lambda>n. ''telemetry'' \<in> set (nset_Services n)) nodeSets)))), w)"
  by (induction nodeSets arbitrary: addresses)
    (auto simp: nodes_loop_snapshot [OF assms] list_ex_iff list_all_iff takeWhile_append
      takeWhile_eq_all_conv [THEN iffD2])

lemma getNodeExporterTargets_snapshot:
  assumes "snapshot_api (m_Namespace (Meta i)) d D"
  shows "run_state (getNodeExporterTargets D i) w = (Inr (targets_spec d), w)"
  using assms nodesets_loop_snapshot [OF assms, of "dp_NodeSets d" "[]"]
  by (simp add: getNodeExporterTargets_def getIPSetList_def getNodeSetList_def snapshot_api_def
      targets_spec_def telemetry_nodes_def)

text \<open>
  C7: On a data plane that does not change, \<open>getNodeExporterTargets\<close> returns, in the order of the node
  sets and their nodes, one target for each node of the node sets that run the telemetry service, up to
  the first node without an address.
\<close>

theorem node_targets_refine:
  assumes "snapshot_api (m_Namespace (Meta i)) d D"
  shows "run_state (getNodeExporterTargets D i) w = (Inr (targets_spec d), w)"
  using assms by (rule getNodeExporterTargets_snapshot)

text \<open>A snapshot for witnesses, with the API that answers from it.\<close>

definition ref_dataplane_api :: "dataplane \<Rightarrow> 'w dataplane_api" where
  "ref_dataplane_api d = \<lparr>
     List_IPSets = (\<lambda>_. return (Inr (dp_IPSets d))),
     List_NodeSets = (\<lambda>_. return (Inr (dp_NodeSets d))),
     Get_DataPlaneService = (\<lambda>_. return (case dp_Service d of None \<Rightarrow> Inl (Errorf ''not found'') | Some s \<Rightarrow> Inr s)),
     Get_IPSet = (\<lambda>key. return (case dp_IPSet d (nn_Name key) of None \<Rightarrow> Inl (Errorf ''not found'') | Some s \<Rightarrow> Inr s))\<rparr>"

lemma snapshot_ref: "snapshot_api ns d (ref_dataplane_api d)"
  by (simp add: snapshot_api_def ref_dataplane_api_def)

definition ref_metricstorage :: "ref_cond MetricStorage" where
  "ref_metricstorage = \<lparr>Meta = (ObjectMeta_named ''metric-storage'' ''openstack'')\<lparr>m_Finalizers := [''metricstorage'']\<rparr>,
     Spec = \<lparr>mt_MonitoringStack = Some MonitoringStack0, mt_CustomMonitoringStack = None\<rparr>,
     Status = \<lparr>Conditions = Some [(ReadyCondition, False)]\<rparr>\<rparr>"

definition ref_dataplane :: "NodeSection list \<Rightarrow> dataplane" where
  "ref_dataplane items = \<lparr>dp_IPSets = [],
     dp_NodeSets = [\<lparr>nset_Services = [''telemetry''], nset_Nodes = map (\<lambda>i. (''node'', i)) items\<rparr>],
     dp_Service = None, dp_IPSet = Map.empty\<rparr>"

lemma node_target_port: "node_target a = a @ '':9100''"
proof -
  have "Sprint_nat (nat DefaultNodeExporterPort) = ''9100''"
    by (simp add: DefaultNodeExporterPort_def Sprint_nat.simps char_of_def bit_0)
  then show ?thesis by (simp add: node_target_def)
qed

lemma ref_addresses:
  "getAddressFromAnsibleHost \<lparr>no_HostName = '''', no_AnsibleHost = ''192.168.122.100''\<rparr> = (''192.168.122.100'', AddressTypeIPv4)"
  by code_simp

lemma ref_targets_spec:
  "targets_spec (ref_dataplane [\<lparr>no_HostName = '''', no_AnsibleHost = ''192.168.122.100''\<rparr>,
      \<lparr>no_HostName = '''', no_AnsibleHost = ''''\<rparr>, \<lparr>no_HostName = '''', no_AnsibleHost = ''192.168.122.102''\<rparr>])
    = [''192.168.122.100:9100'']"
  by (simp add: targets_spec_def telemetry_nodes_def ref_dataplane_def address_of_def ref_addresses node_target_port Let_def)

theorem node_targets_refine_witness:
  "fst (run_state (getNodeExporterTargets (ref_dataplane_api (ref_dataplane
      [\<lparr>no_HostName = '''', no_AnsibleHost = ''192.168.122.100''\<rparr>,
       \<lparr>no_HostName = '''', no_AnsibleHost = ''''\<rparr>, \<lparr>no_HostName = '''', no_AnsibleHost = ''192.168.122.102''\<rparr>]))
      ref_metricstorage) ()) = Inr [''192.168.122.100:9100'']"
  by (subst node_targets_refine [OF snapshot_ref]) (simp add: ref_targets_spec)

text \<open>
  The targets cover every node of the telemetry node sets exactly when every such node has an
  address, and they are always a prefix of the targets of all nodes: no node is skipped, none is listed
  that comes after a node without an address.
\<close>

theorem node_targets_complete_iff:
  assumes "snapshot_api (m_Namespace (Meta i)) d D"
    and "run_state (getNodeExporterTargets D i) w = (Inr targets, w')"
  shows "(length targets = length (telemetry_nodes d) \<longleftrightarrow> list_all (\<lambda>n. address_of d n \<noteq> None) (telemetry_nodes d)) \<and>
    targets = take (length targets) (map (\<lambda>n. case address_of d n of None \<Rightarrow> '''' | Some a \<Rightarrow> node_target a) (telemetry_nodes d))"
proof -
  let ?ns = "telemetry_nodes d" and ?P = "\<lambda>n. address_of d n \<noteq> None"
  let ?f = "\<lambda>n. case address_of d n of None \<Rightarrow> '''' | Some a \<Rightarrow> node_target a"
  have "targets = map (node_target \<circ> the \<circ> address_of d) (takeWhile ?P ?ns)"
    using getNodeExporterTargets_snapshot [OF assms(1), of w] assms(2) by (simp add: targets_spec_def)
  moreover have "map (node_target \<circ> the \<circ> address_of d) (takeWhile ?P ?ns) = map ?f (takeWhile ?P ?ns)"
    by (rule map_cong [OF refl]) (force dest: set_takeWhileD)
  ultimately have t: "targets = map ?f (takeWhile ?P ?ns)" by simp
  have "length (takeWhile ?P ?ns) = length ?ns \<longleftrightarrow> takeWhile ?P ?ns = ?ns"
    by (metis append_eq_conv_conj takeWhile_eq_take take_all_iff order_refl)
  then have "length targets = length ?ns \<longleftrightarrow> list_all ?P ?ns"
    by (simp add: t takeWhile_eq_all_conv list_all_iff)
  moreover have "targets = take (length targets) (map ?f ?ns)"
    by (simp add: t take_map) (metis takeWhile_eq_take)
  ultimately show ?thesis by blast
qed

theorem node_targets_complete_iff_witness:
  "let items = [\<lparr>no_HostName = '''', no_AnsibleHost = ''192.168.122.100''\<rparr>, \<lparr>no_HostName = '''', no_AnsibleHost = ''''\<rparr>]
   in \<exists>targets. run_state (getNodeExporterTargets (ref_dataplane_api (ref_dataplane items)) ref_metricstorage) () = (Inr targets, ()) \<and>
     length targets \<noteq> length (telemetry_nodes (ref_dataplane items))"
proof -
  let ?d = "ref_dataplane [\<lparr>no_HostName = '''', no_AnsibleHost = ''192.168.122.100''\<rparr>, \<lparr>no_HostName = '''', no_AnsibleHost = ''''\<rparr>]"
  obtain targets where run: "run_state (getNodeExporterTargets (ref_dataplane_api ?d) ref_metricstorage) () = (Inr targets, ())"
    by (simp add: getNodeExporterTargets_snapshot [OF snapshot_ref])
  have "\<not> list_all (\<lambda>n. address_of ?d n \<noteq> None) (telemetry_nodes ?d)"
    by (simp add: telemetry_nodes_def ref_dataplane_def address_of_def Let_def)
  with node_targets_complete_iff [OF snapshot_ref run] run show ?thesis by (simp add: Let_def)
qed


text \<open>
  Every IPv4 address in dotted decimal notation is taken as the address of the node as it is.
\<close>

theorem ansible_host_dotted_accepted:
  "getAddressFromAnsibleHost \<lparr>no_HostName = h, no_AnsibleHost =
      dotted (unat (a :: 8 word)) (unat (b :: 8 word)) (unat (c :: 8 word)) (unat (d :: 8 word))\<rparr>
    = (dotted (unat a) (unat b) (unat c) (unat d), AddressTypeIPv4)"
proof -
  have byte: "unat x \<le> 255" for x :: "8 word"
  proof -
    have "unat x < 2 ^ LENGTH(8)" by (rule unsigned_less)
    then show ?thesis by simp
  qed
  show ?thesis by (simp add: getAddressFromAnsibleHost_def ParseIP_dotted byte)
qed


end
