(* ===== verification/Metricstorage_Controller.thy ===== *)
theory Metricstorage_Controller
  imports Node_Targets
begin

text \<open>
  \<^verbatim>\<open>controllers/metricstorage_controller.go\<close>: the MetricStorage controller deploys a monitoring stack, a
  service monitor for the Ceilometer metrics and a scrape configuration for the compute nodes, each after
  it has started to watch the kind. The names of the watched kinds are kept in the reconciler itself
  (\<open>r.Watching\<close>) and outlive a run, so they are part of the state beside the cluster.
\<close>

section \<open>State and client\<close>

record 'w ms_world =
  cluster :: 'w
  Watching :: "string list"

definition on_cluster :: "('w, 'a) state \<Rightarrow> ('w ms_world, 'a) state" where
  "on_cluster m = State (\<lambda>s. case run_state m (cluster s) of (a, w) \<Rightarrow> (a, s\<lparr>cluster := w\<rparr>))"

lemma run_on_cluster [simp]:
  "run_state (on_cluster m) s = (case run_state m (cluster s) of (a, w) \<Rightarrow> (a, s\<lparr>cluster := w\<rparr>))"
  by (simp add: on_cluster_def)

text \<open>A condition of a \<open>MonitoringStack\<close>, as the observability operator reports it.\<close>

record OboCondition =
  oc_Status :: string
  oc_Reason :: string
  oc_Message :: string

type_synonym MonitoringStackObject = "(MonitoringStackSpec, OboCondition list) CR"

datatype watch_handler = EnqueueRequestForOwner string | EnqueueRequestsFromMapFunc string

text \<open>
  The mutate function of the scrape configuration makes calls on the cluster itself, so \<open>CreateOrPatch\<close>
  takes it as a computation.
\<close>

record ('c, 'w) metricstorage_api = "('c MetricStorage, 'w) crapi" +
  Get_CRD :: "string \<Rightarrow> ('w, error option) state"
  Controller_Watch :: "string \<Rightarrow> watch_handler \<Rightarrow> ('w, error option) state"
  MonitoringStack_CreateOrPatch :: "MonitoringStackObject \<Rightarrow> (MonitoringStackObject \<Rightarrow> error + MonitoringStackObject)
     \<Rightarrow> ('w, error + MonitoringStackObject) state"
  ServiceMonitor_CreateOrPatch :: "ServiceMonitorObj \<Rightarrow> (ServiceMonitorObj \<Rightarrow> error + ServiceMonitorObj)
     \<Rightarrow> ('w, error + ServiceMonitorObj) state"
  ScrapeConfig_CreateOrPatch :: "ScrapeConfigObj \<Rightarrow> (ScrapeConfigObj \<Rightarrow> ('w, error + ScrapeConfigObj) state)
     \<Rightarrow> ('w, error + ScrapeConfigObj) state"
  dataplane_of :: "'w dataplane_api"

text \<open>The calls of the frame, on the larger state.\<close>

definition ms_crapi :: "('c, 'w) metricstorage_api \<Rightarrow> ('c MetricStorage, 'w ms_world) crapi" where
  "ms_crapi A = \<lparr>Get_instance = (\<lambda>req. on_cluster (Get_instance A req)), NewHelper = NewHelper A,
     GetFinalizer = GetFinalizer A, PatchInstance = (\<lambda>b a. on_cluster (PatchInstance A b a))\<rparr>"

section \<open>Watches\<close>

definition ensureWatches :: "('c, 'w) metricstorage_api \<Rightarrow> string \<Rightarrow> string \<Rightarrow> watch_handler
    \<Rightarrow> ('w ms_world, error option) state" where
  "ensureWatches A name kind h = do {
     r \<leftarrow> State_Monad.get;
     if list_ex (\<lambda>item. item = name) (Watching r) then return None
     else do {
       err \<leftarrow> on_cluster (Get_CRD A name);
       case err of
         Some e \<Rightarrow> return (Some e)
       | None \<Rightarrow> do {
           err \<leftarrow> on_cluster (Controller_Watch A kind h);
           (if err = None then State_Monad.update (\<lambda>r. r\<lparr>Watching := Watching r @ [name]\<rparr>) else return ());
           return err
         }
     }
   }"

section \<open>The deployed objects\<close>

definition mutate_monitoringStack :: "controllerutil \<Rightarrow> commonlib \<Rightarrow> 'c MetricStorage \<Rightarrow> (string, string) gomap
    \<Rightarrow> MonitoringStackObject \<Rightarrow> error + MonitoringStackObject" where
  "mutate_monitoringStack U L instance' serviceLabels monitoringStack =
    (let custom = mt_CustomMonitoringStack (Spec instance');
         spec = (if custom = Some MonitoringStackSpec0 \<or> custom = None
           then (case metricstorage_MonitoringStack L instance' serviceLabels of
               Inl err \<Rightarrow> Inl err | Inr desired \<Rightarrow> Inr (Spec desired))
           else Inr (the custom))
     in case spec of
          Inl err \<Rightarrow> Inl err
        | Inr sp \<Rightarrow>
            (let ms1 = monitoringStack\<lparr>Spec := sp, Meta := (Meta monitoringStack)\<lparr>m_Labels := serviceLabels\<rparr>\<rparr>
             in case SetControllerReference U ''MetricStorage'' (Meta instance') (Meta ms1) of
                  Inl err \<Rightarrow> Inl err
                | Inr m \<Rightarrow> Inr (ms1\<lparr>Meta := m\<rparr>)))"

definition mutate_ceilometerMonitor :: "controllerutil \<Rightarrow> commonlib \<Rightarrow> 'c MetricStorage \<Rightarrow> (string, string) gomap
    \<Rightarrow> ServiceMonitorObj \<Rightarrow> error + ServiceMonitorObj" where
  "mutate_ceilometerMonitor U L instance' serviceLabels monitor =
    (let ceilometerLabels = Some [AppSelector L \<mapsto> ceilometer_ServiceName];
         desired = ServiceMonitor instance' serviceLabels ceilometerLabels;
         m1 = monitor\<lparr>sm_Endpoints := sm_Endpoints desired, sm_Selector := sm_Selector desired,
           sm_Meta := (sm_Meta monitor)\<lparr>m_Labels := m_Labels (sm_Meta desired)\<rparr>\<rparr>
     in case SetControllerReference U ''MetricStorage'' (Meta instance') (sm_Meta m1) of
          Inl err \<Rightarrow> Inl err
        | Inr m \<Rightarrow> Inr (m1\<lparr>sm_Meta := m\<rparr>))"

definition mutate_scrapeConfig :: "controllerutil \<Rightarrow> 'w dataplane_api \<Rightarrow> 'c MetricStorage \<Rightarrow> (string, string) gomap
    \<Rightarrow> ScrapeConfigObj \<Rightarrow> ('w, error + ScrapeConfigObj) state" where
  "mutate_scrapeConfig U D instance' serviceLabels scrapeConfig = do {
     endpoints \<leftarrow> getNodeExporterTargets D instance';
     return (case endpoints of
       Inl err \<Rightarrow> Inl err
     | Inr endpoints \<Rightarrow>
         (let desired = ScrapeConfig instance' serviceLabels endpoints;
              s1 = scrapeConfig\<lparr>sg_ScrapeInterval := sg_ScrapeInterval desired, sg_StaticConfigs := sg_StaticConfigs desired,
                sg_Meta := (sg_Meta scrapeConfig)\<lparr>m_Labels := m_Labels (sg_Meta desired)\<rparr>\<rparr>
          in case SetControllerReference U ''MetricStorage'' (Meta instance') (sg_Meta s1) of
               Inl err \<Rightarrow> Inl err
             | Inr m \<Rightarrow> Inr (s1\<lparr>sg_Meta := m\<rparr>)))
   }"

text \<open>
  The loop over the conditions of the stack stops at the first one that is not True; a stack without
  conditions is not ready either.
\<close>

definition record_monitoringStack :: "'c condition_pkg \<Rightarrow> OboCondition list \<Rightarrow> 'c conditions \<Rightarrow> 'c conditions" where
  "record_monitoringStack CL conds cs = (case List.find (\<lambda>c. oc_Status c \<noteq> ''True'') conds of
      Some c \<Rightarrow> MarkFalse CL cs MonitoringStackReadyCondition (Reason (oc_Reason c)) SeverityError (Text (oc_Message c)) []
    | None \<Rightarrow> if length conds = 0 then cs
        else MarkTrue CL cs MonitoringStackReadyCondition (Lib ''ReadyMessage''))"

section \<open>Reconcile\<close>

definition MetricStorage_reconcileDelete :: "controllerutil \<Rightarrow> ('c, 'w) metricstorage_api
    \<Rightarrow> (('c MetricStorage, 'w ms_world) handler, reconcile_result) state" where
  "MetricStorage_reconcileDelete U A = do {
     remove_finalizer U (ms_crapi A);
     return (Result0, None)
   }"

text \<open>The reasons that begin with \<open>Can't\<close>.\<close>

definition cant :: "string \<Rightarrow> string" where
  "cant what = ''Can'' @ [CHR 0x27] @ ''t '' @ what"

text \<open>\<open>reconcileNormal\<close> from the scrape configuration on.\<close>

definition MetricStorage_scrapeConfig :: "'c condition_pkg \<Rightarrow> controllerutil \<Rightarrow> ('c, 'w) metricstorage_api
    \<Rightarrow> (string, string) gomap \<Rightarrow> (('c MetricStorage, 'w ms_world) handler, reconcile_result) state" where
  "MetricStorage_scrapeConfig CL U A serviceLabels = do {
     instance' \<leftarrow> get_inst;
     err \<leftarrow> api (ensureWatches A ''openstackdataplanenodesets.dataplane.openstack.org'' ''OpenStackDataPlaneNodeSet''
       (EnqueueRequestsFromMapFunc ''nodeSetWatchFn''));
     case err of
       Some e \<Rightarrow> do {
         update_inst (cmap (\<lambda>cs. MarkFalse CL cs NodeSetReadyCondition (Reason (cant ''watch NodeSet resource'')) SeverityError
           NodeSetUnableToWatchMessage [Error e]));
         return (requeue_after PauseBetweenWatchAttempts, None)
       }
     | None \<Rightarrow> do {
         update_inst (cmap (\<lambda>cs. MarkTrue CL cs NodeSetReadyCondition (Lib ''ReadyMessage'')));
         let scrapeConfig = \<lparr>sg_GVK = (''monitoring.rhobs'', ''v1alpha1'', ''ScrapeConfig''),
           sg_Meta = (ObjectMeta_named (m_Name (Meta instance')) (m_Namespace (Meta instance')))\<lparr>m_Kind := ''ScrapeConfig''\<rparr>,
           sg_ScrapeInterval = '''', sg_StaticConfigs = []\<rparr>;
         err \<leftarrow> api (ensureWatches A ''scrapeconfigs.monitoring.rhobs'' ''ScrapeConfig'' (EnqueueRequestForOwner ''MetricStorage''));
         case err of
           Some e \<Rightarrow> do {
             update_inst (cmap (\<lambda>cs. MarkFalse CL cs ScrapeConfigReadyCondition (Reason (cant ''own ScrapeConfig resource'')) SeverityError
               ScrapeConfigUnableToOwnMessage [Error e]));
             return (requeue_after PauseBetweenWatchAttempts, None)
           }
         | None \<Rightarrow> do {
             instance' \<leftarrow> get_inst;
             r \<leftarrow> api (on_cluster (ScrapeConfig_CreateOrPatch A scrapeConfig
               (mutate_scrapeConfig U (dataplane_of A) instance' serviceLabels)));
             case r of
               Inl e \<Rightarrow> return (Result0, Some e)
             | Inr _ \<Rightarrow> do {
                 update_inst (cmap (\<lambda>cs. MarkTrue CL cs ScrapeConfigReadyCondition (Lib ''ReadyMessage'')));
                 return (Result0, None)
               }
           }
       }
   }"

text \<open>\<open>reconcileNormal\<close> from the service monitor on.\<close>

definition MetricStorage_serviceMonitor :: "'c condition_pkg \<Rightarrow> controllerutil \<Rightarrow> commonlib \<Rightarrow> ('c, 'w) metricstorage_api
    \<Rightarrow> (string, string) gomap \<Rightarrow> (('c MetricStorage, 'w ms_world) handler, reconcile_result) state" where
  "MetricStorage_serviceMonitor CL U L A serviceLabels = do {
     err \<leftarrow> api (ensureWatches A ''servicemonitors.monitoring.rhobs'' ''ServiceMonitor'' (EnqueueRequestForOwner ''MetricStorage''));
     case err of
       Some e \<Rightarrow> do {
         update_inst (cmap (\<lambda>cs. MarkFalse CL cs ServiceMonitorReadyCondition (Reason (cant ''own ServiceMonitor resource''))
           SeverityError ServiceMonitorUnableToOwnMessage [Error e]));
         return (requeue_after PauseBetweenWatchAttempts, None)
       }
     | None \<Rightarrow> do {
         instance' \<leftarrow> get_inst;
         let ceilometerMonitor = \<lparr>sm_Meta = ObjectMeta_named (m_Name (Meta instance')) (m_Namespace (Meta instance')),
           sm_Endpoints = [], sm_Selector = LabelSelector0\<rparr>;
         r \<leftarrow> api (on_cluster (ServiceMonitor_CreateOrPatch A ceilometerMonitor
           (mutate_ceilometerMonitor U L instance' serviceLabels)));
         case r of
           Inl e \<Rightarrow> return (Result0, Some e)
         | Inr _ \<Rightarrow> do {
             update_inst (cmap (\<lambda>cs. MarkTrue CL cs ServiceMonitorReadyCondition (Lib ''ReadyMessage'')));
             MetricStorage_scrapeConfig CL U A serviceLabels
           }
       }
   }"

definition MetricStorage_reconcileNormal :: "'c condition_pkg \<Rightarrow> controllerutil \<Rightarrow> commonlib \<Rightarrow> ('c, 'w) metricstorage_api
    \<Rightarrow> (('c MetricStorage, 'w ms_world) handler, reconcile_result) state" where
  "MetricStorage_reconcileNormal CL U L A = do {
     let serviceLabels = Some [AppSelector L \<mapsto> ''metricStorage''];
     instance' \<leftarrow> get_inst;
     if mt_CustomMonitoringStack (Spec instance') = None \<and> mt_MonitoringStack (Spec instance') = None
     then do {
       update_inst (cmap (\<lambda>cs. MarkFalse CL cs MonitoringStackReadyCondition
         (Reason (''MonitoringStack isn'' @ [CHR 0x27] @ ''t configured properly'')) SeverityError
         MonitoringStackReadyMisconfiguredMessage
         [''Either \"customMonitoringStack\" or \"monitoringStack\" must be set, but both are nil.'']));
       return (Result0, None)
     }
     else do {
       err \<leftarrow> api (ensureWatches A ''monitoringstacks.monitoring.rhobs'' ''MonitoringStack'' (EnqueueRequestForOwner ''MetricStorage''));
       case err of
         Some e \<Rightarrow> do {
           update_inst (cmap (\<lambda>cs. MarkFalse CL cs MonitoringStackReadyCondition (Reason (cant ''own MonitoringStack resource''))
             SeverityError MonitoringStackUnableToOwnMessage [Error e]));
           return (requeue_after PauseBetweenWatchAttempts, None)
         }
       | None \<Rightarrow> do {
           let monitoringStack = \<lparr>Meta = ObjectMeta_named (m_Name (Meta instance')) (m_Namespace (Meta instance')),
             Spec = MonitoringStackSpec0, Status = []\<rparr>;
           r \<leftarrow> api (on_cluster (MonitoringStack_CreateOrPatch A monitoringStack
             (mutate_monitoringStack U L instance' serviceLabels)));
           case r of
             Inl e \<Rightarrow> return (Result0, Some e)
           | Inr stack \<Rightarrow> do {
               update_inst (cmap (record_monitoringStack CL (Status stack)));
               MetricStorage_serviceMonitor CL U L A serviceLabels
             }
         }
     }
   }"

definition MetricStorage_conditions :: "'c condition_pkg \<Rightarrow> 'c list" where
  "MetricStorage_conditions CL =
    [UnknownCondition CL MonitoringStackReadyCondition InitReason MonitoringStackReadyInitMessage,
     UnknownCondition CL ServiceMonitorReadyCondition InitReason ServiceMonitorReadyInitMessage,
     UnknownCondition CL ScrapeConfigReadyCondition InitReason ScrapeConfigReadyInitMessage,
     UnknownCondition CL NodeSetReadyCondition InitReason NodeSetReadyInitMessage]"

definition MetricStorage_work :: "'c condition_pkg \<Rightarrow> controllerutil \<Rightarrow> commonlib \<Rightarrow> ('c, 'w) metricstorage_api
    \<Rightarrow> 'c MetricStorage \<Rightarrow> (('c MetricStorage, 'w ms_world) handler, reconcile_result outcome) state" where
  "MetricStorage_work CL U L A before = do {
     instance' \<leftarrow> get_inst;
     r \<leftarrow> (if m_DeletionTimestamp (Meta instance') \<noteq> None
          then MetricStorage_reconcileDelete U A
          else MetricStorage_reconcileNormal CL U L A);
     returns r
   }"

definition MetricStorage_Reconcile :: "'c condition_pkg \<Rightarrow> controllerutil \<Rightarrow> commonlib \<Rightarrow> ('c, 'w) metricstorage_api
    \<Rightarrow> NamespacedName \<Rightarrow> ('w ms_world, reconcile_result outcome) state" where
  "MetricStorage_Reconcile CL U L A req = do {
     got \<leftarrow> Get_instance (ms_crapi A) req;
     case got of
       Inl err \<Rightarrow> if IsNotFound err then returns (Result0, None) else returns (Result0, Some err)
     | Inr instance' \<Rightarrow> (case NewHelper (ms_crapi A) instance' of
           Some err \<Rightarrow> returns (Result0, Some err)
         | None \<Rightarrow> with_inst instance' (do {
             out \<leftarrow> (do {
               added \<leftarrow> ensure_finalizer U (ms_crapi A);
               if added then returns (Result0, None)
               else do {
                 i \<leftarrow> get_inst;
                 if Conditions (Status i) = None
                 then do { _ \<leftarrow> init_conditions CL (MetricStorage_conditions CL); returns (Result0, None) }
                 else MetricStorage_work CL U L A instance'
               }
             });
             deferred CL (ms_crapi A) False instance' out
           }))
   }"

interpretation ms: reconciler "MetricStorage_Reconcile CL U L A" CL U "ms_crapi A" "MetricStorage_conditions CL"
    "MetricStorage_work CL U L A" False for CL U L A
  by unfold_locales (unfold MetricStorage_Reconcile_def reconcile_frame_def reconcile_body_def, rule refl)

section \<open>Properties\<close>

lemma ms_cond_types_distinct [simp]:
  "MonitoringStackReadyCondition \<noteq> ServiceMonitorReadyCondition" "MonitoringStackReadyCondition \<noteq> ScrapeConfigReadyCondition"
  "MonitoringStackReadyCondition \<noteq> NodeSetReadyCondition" "ServiceMonitorReadyCondition \<noteq> ScrapeConfigReadyCondition"
  "ServiceMonitorReadyCondition \<noteq> NodeSetReadyCondition" "ScrapeConfigReadyCondition \<noteq> NodeSetReadyCondition"
  "ServiceMonitorReadyCondition \<noteq> MonitoringStackReadyCondition" "ScrapeConfigReadyCondition \<noteq> MonitoringStackReadyCondition"
  "NodeSetReadyCondition \<noteq> MonitoringStackReadyCondition" "ScrapeConfigReadyCondition \<noteq> ServiceMonitorReadyCondition"
  "NodeSetReadyCondition \<noteq> ServiceMonitorReadyCondition" "NodeSetReadyCondition \<noteq> ScrapeConfigReadyCondition"
  by (simp_all add: condition_defs)

lemma PauseBetweenWatchAttempts_pos [simp]: "PauseBetweenWatchAttempts \<noteq> 0"
  by (simp add: PauseBetweenWatchAttempts_def seconds_def)

context condition_laws begin

lemma IsTrue_record_monitoringStack:
  "IsTrue CL (record_monitoringStack CL conds cs) t \<longleftrightarrow>
    (if t = MonitoringStackReadyCondition \<and> conds \<noteq> [] then list_all (\<lambda>c. oc_Status c = ''True'') conds
     else IsTrue CL cs t)"
proof -
  have "List.find (\<lambda>c. oc_Status c \<noteq> ''True'') conds = None \<longleftrightarrow> list_all (\<lambda>c. oc_Status c = ''True'') conds"
    by (auto simp: find_None_iff list_all_iff)
  moreover have "conds \<noteq> []" if "List.find (\<lambda>c. oc_Status c \<noteq> ''True'') conds = Some c" for c
    using that by auto
  ultimately show ?thesis
    by (auto simp: record_monitoringStack_def cond_simps split: option.splits)
qed

lemma wp_scrapeConfig:
  assumes "IsTrue CL (Conditions (Status (inst s))) ServiceMonitorReadyCondition"
  shows "wp (MetricStorage_scrapeConfig CL U A labels) (\<lambda>(r, e) s'.
    IsTrue CL (Conditions (Status (inst s'))) MonitoringStackReadyCondition =
      IsTrue CL (Conditions (Status (inst s))) MonitoringStackReadyCondition \<and>
    (r = Result0 \<and> e = None \<longrightarrow> IsTrue CL (Conditions (Status (inst s'))) ServiceMonitorReadyCondition \<and>
       IsTrue CL (Conditions (Status (inst s'))) NodeSetReadyCondition \<and>
       IsTrue CL (Conditions (Status (inst s'))) ScrapeConfigReadyCondition)) s"
  using assms unfolding MetricStorage_scrapeConfig_def Let_def
  by (auto simp: wp_simps cond_simps intro!: wp_api_any split: option.splits sum.splits)

lemma wp_serviceMonitor:
  "wp (MetricStorage_serviceMonitor CL U L A labels) (\<lambda>(r, e) s'.
    IsTrue CL (Conditions (Status (inst s'))) MonitoringStackReadyCondition =
      IsTrue CL (Conditions (Status (inst s))) MonitoringStackReadyCondition \<and>
    (r = Result0 \<and> e = None \<longrightarrow> IsTrue CL (Conditions (Status (inst s'))) ServiceMonitorReadyCondition \<and>
       IsTrue CL (Conditions (Status (inst s'))) NodeSetReadyCondition \<and>
       IsTrue CL (Conditions (Status (inst s'))) ScrapeConfigReadyCondition)) s"
  unfolding MetricStorage_serviceMonitor_def Let_def wp_simps
  by (rule wp_api_any)
    (auto simp: wp_simps cond_simps intro!: wp_api_any wp_mono [OF wp_scrapeConfig] split: option.splits sum.splits)

end

text \<open>
  C4: When a pass of the MetricStorage controller returns neither an error nor a request to be called
  again, then either no stack is configured and the stack is reported not ready, or the service
  monitor, the watch on the node sets and the scrape configuration are reported ready. Whether the
  stack is reported ready is decided by the conditions of the deployed stack, when it has any: all of
  them have to be True.
\<close>

theorem metricstorage_normal_outcome:
  assumes laws: "condition_laws CL Has ct tr"
    and run: "run_state (MetricStorage_reconcileNormal CL U L A) \<lparr>inst = i, world = w\<rparr> = ((Result0, None), s')"
  shows "if mt_CustomMonitoringStack (Spec i) = None \<and> mt_MonitoringStack (Spec i) = None
    then \<not> IsTrue CL (Conditions (Status (inst s'))) MonitoringStackReadyCondition \<and> world s' = w
    else IsTrue CL (Conditions (Status (inst s'))) ServiceMonitorReadyCondition \<and>
      IsTrue CL (Conditions (Status (inst s'))) NodeSetReadyCondition \<and>
      IsTrue CL (Conditions (Status (inst s'))) ScrapeConfigReadyCondition \<and>
      (\<exists>stack w1 w2. run_state (MonitoringStack_CreateOrPatch A
          \<lparr>Meta = ObjectMeta_named (m_Name (Meta i)) (m_Namespace (Meta i)), Spec = MonitoringStackSpec0, Status = []\<rparr>
          (mutate_monitoringStack U L i (Some [AppSelector L \<mapsto> ''metricStorage'']))) w1 = (Inr stack, w2) \<and>
        (IsTrue CL (Conditions (Status (inst s'))) MonitoringStackReadyCondition \<longleftrightarrow>
          (if Status stack = [] then IsTrue CL (Conditions (Status i)) MonitoringStackReadyCondition
           else list_all (\<lambda>c. oc_Status c = ''True'') (Status stack))))"
proof (cases "mt_CustomMonitoringStack (Spec i) = None \<and> mt_MonitoringStack (Spec i) = None")
  case True
  with run show ?thesis
    by (auto simp: MetricStorage_reconcileNormal_def Let_def condition_laws.IsTrue_MarkFalse [OF laws])
next
  case False
  let ?stack0 = "\<lparr>Meta = ObjectMeta_named (m_Name (Meta i)) (m_Namespace (Meta i)), Spec = MonitoringStackSpec0, Status = []\<rparr>"
  let ?f = "mutate_monitoringStack U L i (Some [AppSelector L \<mapsto> ''metricStorage''])"
  obtain e w1 where ew: "run_state (ensureWatches A ''monitoringstacks.monitoring.rhobs'' ''MonitoringStack''
      (EnqueueRequestForOwner ''MetricStorage'')) w = (e, w1)" by fastforce
  obtain r w2 where cp: "run_state (MonitoringStack_CreateOrPatch A ?stack0 ?f) (cluster w1) = (r, w2)" by fastforce
  have "e = None" using run False ew by (cases e) (auto simp: MetricStorage_reconcileNormal_def Let_def)
  moreover obtain stack where r: "r = Inr stack"
    using run False ew cp \<open>e = None\<close> by (cases r) (auto simp: MetricStorage_reconcileNormal_def Let_def)
  ultimately have "run_state (MetricStorage_serviceMonitor CL U L A (Some [AppSelector L \<mapsto> ''metricStorage'']))
      \<lparr>inst = cmap (record_monitoringStack CL (Status stack)) i, world = w1\<lparr>cluster := w2\<rparr>\<rparr> = ((Result0, None), s')"
    using run False ew cp by (simp add: MetricStorage_reconcileNormal_def Let_def)
  from wp_run [OF condition_laws.wp_serviceMonitor [OF laws] this] cp r False show ?thesis
    by (auto simp: condition_laws.IsTrue_record_monitoringStack [OF laws])
qed


text \<open>For witnesses: a cluster where every call succeeds and the stack reports the conditions \<open>conds\<close>.\<close>

definition ref_ms_api :: "OboCondition list \<Rightarrow> (ref_cond, string list) metricstorage_api" where
  "ref_ms_api conds = \<lparr>Get_instance = (\<lambda>_. return (Inr ref_metricstorage)), NewHelper = (\<lambda>_. None),
     GetFinalizer = ''metricstorage'', PatchInstance = (\<lambda>_ _. ref_log ''patch'' None),
     Get_CRD = (\<lambda>name. ref_log (''get '' @ name) None),
     Controller_Watch = (\<lambda>kind h. ref_log (''watch '' @ kind) None),
     MonitoringStack_CreateOrPatch = (\<lambda>ob f. ref_log ''patch stack'' (map_sum id (\<lambda>ob. ob\<lparr>Status := conds\<rparr>) (f ob))),
     ServiceMonitor_CreateOrPatch = (\<lambda>ob f. ref_log ''patch monitor'' (f ob)),
     ScrapeConfig_CreateOrPatch = (\<lambda>ob f. f ob),
     dataplane_of = ref_dataplane_api (ref_dataplane [])\<rparr>"

lemmas ms_pass_defs = MetricStorage_reconcileNormal_def MetricStorage_serviceMonitor_def MetricStorage_scrapeConfig_def
  ensureWatches_def mutate_monitoringStack_def mutate_ceilometerMonitor_def mutate_scrapeConfig_def

lemma ref_ms_pass:
  "fst (run_state (MetricStorage_reconcileNormal ref_pkg ref_controllerutil ref_commonlib
      (ref_ms_api [\<lparr>oc_Status = ''True'', oc_Reason = '''', oc_Message = ''''\<rparr>]))
      \<lparr>inst = ref_metricstorage\<lparr>Spec := \<lparr>mt_MonitoringStack = None,
         mt_CustomMonitoringStack = Some (MonitoringStackSpec0\<lparr>mss_Retention := ''1d''\<rparr>)\<rparr>\<rparr>,
       world = \<lparr>cluster = [], Watching = []\<rparr>\<rparr>) = (Result0, None)"
  by (simp add: ms_pass_defs ref_ms_api_def ref_log_def ref_commonlib_def ref_controllerutil_def
      ref_metricstorage_def MonitoringStackSpec0_def State_Monad.update_def Let_def getNodeExporterTargets_def
      getIPSetList_def getNodeSetList_def ref_dataplane_api_def ref_dataplane_def)


theorem metricstorage_normal_outcome_witness:
  "\<exists>s'. run_state (MetricStorage_reconcileNormal ref_pkg ref_controllerutil ref_commonlib
      (ref_ms_api [\<lparr>oc_Status = ''True'', oc_Reason = '''', oc_Message = ''''\<rparr>]))
      \<lparr>inst = ref_metricstorage\<lparr>Spec := \<lparr>mt_MonitoringStack = None,
         mt_CustomMonitoringStack = Some (MonitoringStackSpec0\<lparr>mss_Retention := ''1d''\<rparr>)\<rparr>\<rparr>,
       world = \<lparr>cluster = [], Watching = []\<rparr>\<rparr> = ((Result0, None), s') \<and>
     IsTrue ref_pkg (Conditions (Status (inst s'))) MonitoringStackReadyCondition \<and>
     IsTrue ref_pkg (Conditions (Status (inst s'))) ScrapeConfigReadyCondition"
proof -
  let ?i = "ref_metricstorage\<lparr>Spec := \<lparr>mt_MonitoringStack = None,
    mt_CustomMonitoringStack = Some (MonitoringStackSpec0\<lparr>mss_Retention := ''1d''\<rparr>)\<rparr>\<rparr>"
  let ?c = "[\<lparr>oc_Status = ''True'', oc_Reason = '''', oc_Message = ''''\<rparr>] :: OboCondition list"
  obtain s' where run: "run_state (MetricStorage_reconcileNormal ref_pkg ref_controllerutil ref_commonlib (ref_ms_api ?c))
      \<lparr>inst = ?i, world = \<lparr>cluster = [], Watching = []\<rparr>\<rparr> = ((Result0, None), s')"
    using ref_ms_pass by (metis prod.collapse)
  have conds: "Status stack = ?c"
    if "run_state (MonitoringStack_CreateOrPatch (ref_ms_api ?c) ob f) w1 = (Inr stack, w2)" for ob f w1 w2 stack
    using that by (auto simp: ref_ms_api_def ref_log_def map_sum_def split: sum.splits)
  from metricstorage_normal_outcome [OF ref.condition_laws_axioms run] run show ?thesis
    by (auto dest!: conds)
qed

section \<open>Watches over the life of the operator\<close>

text \<open>
  The operator runs one pass of this controller after another while everybody else changes the cluster.
\<close>

inductive ms_process :: "'c condition_pkg \<Rightarrow> controllerutil \<Rightarrow> commonlib \<Rightarrow> ('c, 'w) metricstorage_api
    \<Rightarrow> 'w ms_world \<Rightarrow> bool" for CL U L A where
  start: "ms_process CL U L A \<lparr>cluster = w, Watching = []\<rparr>"
| pass: "ms_process CL U L A s \<Longrightarrow> run_state (MetricStorage_Reconcile CL U L A req) s = (out, s') \<Longrightarrow> ms_process CL U L A s'"
| others: "ms_process CL U L A s \<Longrightarrow> ms_process CL U L A (s\<lparr>cluster := w\<rparr>)"

definition watchable :: "string set" where
  "watchable = {''monitoringstacks.monitoring.rhobs'', ''servicemonitors.monitoring.rhobs'',
     ''openstackdataplanenodesets.dataplane.openstack.org'', ''scrapeconfigs.monitoring.rhobs''}"

definition watches_ok :: "'w ms_world \<Rightarrow> bool" where
  "watches_ok s \<longleftrightarrow> distinct (Watching s) \<and> set (Watching s) \<subseteq> watchable"

text \<open>A kind that is watched already costs no call; otherwise the name is added exactly on success.\<close>

lemma ensureWatches_result:
  assumes "run_state (ensureWatches A name kind h) w = (err, w')"
  shows "if name \<in> set (Watching w) then err = None \<and> w' = w
    else Watching w' = (if err = None then Watching w @ [name] else Watching w)"
  using assms by (auto simp: ensureWatches_def list_ex_iff State_Monad.update_def
      split: prod.splits option.splits if_splits)

lemma keeps_ensureWatches [keeps_intros]:
  "name \<in> watchable \<Longrightarrow> keeps watches_ok (ensureWatches A name kind h)"
  unfolding keeps_def
proof (intro allI impI)
  fix w :: "'a ms_world"
  assume "name \<in> watchable" "watches_ok w"
  with ensureWatches_result [where A = A and name = name and kind = kind and h = h and w = w, OF surjective_pairing]
  show "watches_ok (snd (run_state (ensureWatches A name kind h) w))"
    by (auto simp: watches_ok_def split: if_splits)
qed

lemma keeps_on_cluster [keeps_intros]: "keeps watches_ok (on_cluster m)"
  by (auto simp: keeps_def watches_ok_def split: prod.splits)

lemma watchable_names [simp]:
  "''monitoringstacks.monitoring.rhobs'' \<in> watchable" "''servicemonitors.monitoring.rhobs'' \<in> watchable"
  "''openstackdataplanenodesets.dataplane.openstack.org'' \<in> watchable" "''scrapeconfigs.monitoring.rhobs'' \<in> watchable"
  by (simp_all add: watchable_def)

lemma keeps_ms_Reconcile: "keeps watches_ok (MetricStorage_Reconcile CL U L A req)"
  unfolding MetricStorage_Reconcile_def MetricStorage_work_def MetricStorage_reconcileDelete_def
    MetricStorage_reconcileNormal_def MetricStorage_serviceMonitor_def MetricStorage_scrapeConfig_def
    ms_crapi_def crapi.simps remove_finalizer_def ensure_finalizer_def init_conditions_def deferred_def
  by (intro keeps_intros watchable_names)

text \<open>
  C8: However often the MetricStorage controller runs and whatever others do to the cluster in between,
  it watches each of the four kinds it deploys or reads at most once: the names it has recorded are
  distinct, and there are never more than these four.
\<close>

theorem metricstorage_watches_once:
  assumes "ms_process CL U L A s"
  shows "distinct (Watching s) \<and> set (Watching s) \<subseteq> watchable \<and> length (Watching s) \<le> 4"
proof -
  have ok: "watches_ok s"
    using assms
  proof (induction rule: ms_process.induct)
    case (pass s req out s')
    then show ?case using keepsD [OF keeps_ms_Reconcile] by blast
  qed (simp_all add: watches_ok_def)
  have "length (Watching s) = card (set (Watching s))"
    using ok by (simp add: watches_ok_def distinct_card)
  also have "\<dots> \<le> card watchable"
    using ok by (intro card_mono) (auto simp: watches_ok_def watchable_def)
  also have "\<dots> = 4" by (simp add: watchable_def)
  finally show ?thesis using ok by (simp add: watches_ok_def)
qed

theorem metricstorage_watches_once_witness:
  "\<exists>s. ms_process ref_pkg ref_controllerutil ref_commonlib (ref_ms_api []) s \<and>
     distinct (Watching s) \<and> length (Watching s) \<le> 4"
proof -
  have "ms_process ref_pkg ref_controllerutil ref_commonlib (ref_ms_api [])
      (snd (run_state (MetricStorage_Reconcile ref_pkg ref_controllerutil ref_commonlib (ref_ms_api [])
        \<lparr>nn_Namespace = ''openstack'', nn_Name = ''metric-storage''\<rparr>) \<lparr>cluster = [], Watching = []\<rparr>))"
    by (rule ms_process.pass [OF ms_process.start surjective_pairing])
  from metricstorage_watches_once [OF this] this show ?thesis by blast
qed

end
