(* ===== verification/Metricstorage_Convergence.thy ===== *)
theory Metricstorage_Convergence
  imports Metricstorage_Controller Convergence
begin

text \<open>
  Liveness of the MetricStorage controller: on a steady cluster the second run of \<open>Reconcile\<close> brings a new
  resource to Ready.
\<close>

section \<open>A steady cluster\<close>

text \<open>
  The custom resource definitions are installed, the objects are accepted (unless a mutate function refuses
  them), the stack reports the conditions \<open>conds\<close>, and the data plane \<open>d\<close> does not change.
\<close>

definition ms_steady :: "controllerutil \<Rightarrow> ('c, 'w) metricstorage_api \<Rightarrow> OboCondition list \<Rightarrow> (string \<Rightarrow> dataplane) \<Rightarrow> bool" where
  "ms_steady U A conds d \<longleftrightarrow>
    (\<forall>n. steady (Get_CRD A n) None) \<and> (\<forall>k h. steady (Controller_Watch A k h) None) \<and>
    (\<forall>ob f. (\<forall>x. \<exists>y. f x = Inr y) \<longrightarrow> (\<exists>st. steady (MonitoringStack_CreateOrPatch A ob f) (Inr st) \<and> Status st = conds)) \<and>
    (\<forall>ob f. (\<forall>x. \<exists>y. f x = Inr y) \<longrightarrow> (\<exists>sm. steady (ServiceMonitor_CreateOrPatch A ob f) (Inr sm))) \<and>
    (\<forall>ob f. (\<forall>x w. \<exists>y w'. run_state (f x) w = (Inr y, w')) \<longrightarrow> (\<exists>sg. steady (ScrapeConfig_CreateOrPatch A ob f) (Inr sg))) \<and>
    (\<forall>ns. snapshot_api ns (d ns) (dataplane_of A)) \<and>
    (\<forall>kind owner m. \<exists>m'. SetControllerReference U kind owner m = Inr m')"

text \<open>The spec describes a stack: a custom one, or one that can be built.\<close>

definition stack_specified :: "commonlib \<Rightarrow> MetricStorageSpec \<Rightarrow> bool" where
  "stack_specified L sp \<longleftrightarrow> (\<exists>c. mt_CustomMonitoringStack sp = Some c \<and> c \<noteq> MonitoringStackSpec0) \<or>
     (\<exists>ms. mt_MonitoringStack sp = Some ms \<and>
        (st_Strategy (ms_Storage ms) = ''persistent'' \<longrightarrow> (\<exists>q. ParseQuantity L (storage_request ms) = Inr q)))"

definition ms_types :: "cond_Type list" where
  "ms_types = [MonitoringStackReadyCondition, ServiceMonitorReadyCondition, NodeSetReadyCondition, ScrapeConfigReadyCondition]"

lemma ms_steady_watches:
  assumes "ms_steady U A conds d"
  shows "steady (ensureWatches A name kind h) None"
proof -
  have "steady (Get_CRD A name) None" "steady (Controller_Watch A kind h) None"
    using assms by (simp_all add: ms_steady_def)
  then show ?thesis
    by (auto simp: steady_def ensureWatches_def State_Monad.update_def split: prod.splits option.splits)
      (metis fst_conv option.distinct(1))+
qed

lemma steady_on_cluster: "steady m a \<Longrightarrow> steady (on_cluster m) a"
  by (auto simp: steady_def split: prod.splits) (metis fst_conv)

lemma ms_steady_objects:
  assumes st: "ms_steady U A conds d"
  shows "stack_specified L (Spec i) \<Longrightarrow> \<exists>stack. steady (MonitoringStack_CreateOrPatch A ob (mutate_monitoringStack U L i labels)) (Inr stack) \<and>
      Status stack = conds"
    and "\<exists>sm. steady (ServiceMonitor_CreateOrPatch A ob' (mutate_ceilometerMonitor U L i labels)) (Inr sm)"
    and "\<exists>sg. steady (ScrapeConfig_CreateOrPatch A ob'' (mutate_scrapeConfig U (dataplane_of A) i labels)) (Inr sg)"
proof -
  have ref: "\<forall>kind owner m. \<exists>m'. SetControllerReference U kind owner m = Inr m'"
    and snap: "\<forall>ns. snapshot_api ns (d ns) (dataplane_of A)"
    and stack: "\<forall>ob f. (\<forall>x. \<exists>y. f x = Inr y) \<longrightarrow> (\<exists>st. steady (MonitoringStack_CreateOrPatch A ob f) (Inr st) \<and> Status st = conds)"
    and monitor: "\<forall>ob f. (\<forall>x. \<exists>y. f x = Inr y) \<longrightarrow> (\<exists>sm. steady (ServiceMonitor_CreateOrPatch A ob f) (Inr sm))"
    and scrape: "\<forall>ob f. (\<forall>x w. \<exists>y w'. run_state (f x) w = (Inr y, w')) \<longrightarrow> (\<exists>sg. steady (ScrapeConfig_CreateOrPatch A ob f) (Inr sg))"
    using st unfolding ms_steady_def by simp_all
  have refE: "\<exists>m'. SetControllerReference U kind owner m = Inr m'" for kind owner m using ref by simp
  have "\<exists>y. mutate_monitoringStack U L i labels x = Inr y" if spec: "stack_specified L (Spec i)" for x
  proof -
    have "\<exists>stack. metricstorage_MonitoringStack L i labels = Inr stack"
      if "mt_CustomMonitoringStack (Spec i) = Some MonitoringStackSpec0 \<or> mt_CustomMonitoringStack (Spec i) = None"
      using monitoring_stack_built [of L i labels] spec that
      by (auto simp: stack_specified_def split: sum.splits)
    then obtain sp where "(if mt_CustomMonitoringStack (Spec i) = Some MonitoringStackSpec0 \<or> mt_CustomMonitoringStack (Spec i) = None
        then (case metricstorage_MonitoringStack L i labels of Inl err \<Rightarrow> Inl err | Inr desired \<Rightarrow> Inr (Spec desired))
        else Inr (the (mt_CustomMonitoringStack (Spec i)))) = Inr sp"
      by (cases "mt_CustomMonitoringStack (Spec i) = Some MonitoringStackSpec0 \<or> mt_CustomMonitoringStack (Spec i) = None") auto
    then show ?thesis
      using refE [of "''MetricStorage''" "Meta i" "(Meta x)\<lparr>m_Labels := labels\<rparr>"]
      by (auto simp: mutate_monitoringStack_def Let_def)
  qed
  with stack show "stack_specified L (Spec i) \<Longrightarrow> \<exists>stack. steady (MonitoringStack_CreateOrPatch A ob (mutate_monitoringStack U L i labels)) (Inr stack) \<and>
      Status stack = conds" by simp
  have "\<exists>y. mutate_ceilometerMonitor U L i labels x = Inr y" for x
    using refE by (auto simp: mutate_ceilometerMonitor_def Let_def split: sum.splits) (metis sum.distinct(1))
  with monitor show "\<exists>sm. steady (ServiceMonitor_CreateOrPatch A ob' (mutate_ceilometerMonitor U L i labels)) (Inr sm)" by simp
  have "\<exists>y w'. run_state (mutate_scrapeConfig U (dataplane_of A) i labels x) w = (Inr y, w')" for x w
    using refE getNodeExporterTargets_snapshot [OF snap [rule_format, of "m_Namespace (Meta i)"], of w]
    by (auto simp: mutate_scrapeConfig_def Let_def split: sum.splits) (metis sum.distinct(1))
  with scrape show "\<exists>sg. steady (ScrapeConfig_CreateOrPatch A ob'' (mutate_scrapeConfig U (dataplane_of A) i labels)) (Inr sg)" by simp
qed

section \<open>One pass\<close>

lemma wp_ms_pass:
  fixes s :: "('c MetricStorage, 'w ms_world) handler"
  assumes laws: "condition_laws CL Has ct tr" and st: "ms_steady U A conds d"
    and conds: "conds \<noteq> []" "list_all (\<lambda>c. oc_Status c = ''True'') conds"
    and spec: "stack_specified L (Spec (inst s))" and only: "\<forall>t. Has (Conditions (Status (inst s))) t \<longrightarrow> t = ReadyCondition \<or> t \<in> set ms_types"
  shows "wp (MetricStorage_reconcileNormal CL U L A) (\<lambda>out s'. out = (Result0, None) \<and>
    (\<forall>t \<in> set ms_types. IsTrue CL (Conditions (Status (inst s'))) t) \<and>
    (\<forall>t. Has (Conditions (Status (inst s'))) t \<longrightarrow> t = ReadyCondition \<or> t \<in> set ms_types)) s"
proof -
  have rec: "record_monitoringStack CL conds = (\<lambda>cs. MarkTrue CL cs MonitoringStackReadyCondition (Lib ''ReadyMessage''))"
  proof -
    have "List.find (\<lambda>c. oc_Status c \<noteq> ''True'') conds = None" using conds(2) by (simp add: find_None_iff list_all_iff)
    then show ?thesis using conds(1) by (intro ext) (simp add: record_monitoringStack_def)
  qed
  have stack: "wp (api (on_cluster (MonitoringStack_CreateOrPatch A ob (mutate_monitoringStack U L (inst s) labels)))) Q s'"
    if "\<And>stack w. record_monitoringStack CL (Status stack) = (\<lambda>cs. MarkTrue CL cs MonitoringStackReadyCondition (Lib ''ReadyMessage'')) \<Longrightarrow>
      Q (Inr stack) (s'\<lparr>world := w\<rparr>)" for ob labels Q and s' :: "('c MetricStorage, 'w ms_world) handler"
    using ms_steady_objects(1) [OF st spec, of ob labels] steady_on_cluster wp_steady that rec by metis
  have monitor: "wp (api (on_cluster (ServiceMonitor_CreateOrPatch A ob (mutate_ceilometerMonitor U L i labels)))) Q s'"
    if "\<And>sm w. Q (Inr sm) (s'\<lparr>world := w\<rparr>)" for ob i labels Q and s' :: "('c MetricStorage, 'w ms_world) handler"
    using ms_steady_objects(2) [OF st, of ob L i labels] steady_on_cluster wp_steady that by metis
  have scrape: "wp (api (on_cluster (ScrapeConfig_CreateOrPatch A ob (mutate_scrapeConfig U (dataplane_of A) i labels)))) Q s'"
    if "\<And>sg w. Q (Inr sg) (s'\<lparr>world := w\<rparr>)" for ob i labels Q and s' :: "('c MetricStorage, 'w ms_world) handler"
    using ms_steady_objects(3) [OF st, of ob i labels] steady_on_cluster wp_steady that by metis
  show ?thesis
    unfolding MetricStorage_reconcileNormal_def MetricStorage_serviceMonitor_def MetricStorage_scrapeConfig_def Let_def
    using spec only
    by (auto simp: wp_simps wp_steady_eq [OF ms_steady_watches [OF st]] stack_specified_def
        condition_laws.cond_simps [OF laws] ms_types_def intro!: stack monitor scrape)
qed

section \<open>From a new resource to Ready\<close>

text \<open>
  C11: On a steady cluster where the custom resource definitions are installed, the objects are accepted and the
  deployed stack reports conditions that are all True, two runs of \<open>Reconcile\<close> bring a new MetricStorage whose
  spec describes a stack to Ready, whatever else happens in the cluster between them: both end without an
  error and without a request to be called again, and in the stored resource Ready and the four conditions of
  the controller are True.
\<close>

theorem metricstorage_becomes_ready:
  assumes laws: "condition_laws CL Has ct tr" and fin: "finalizer_laws U" and st: "ms_steady U A conds d"
    and conds: "conds \<noteq> []" "list_all (\<lambda>c. oc_Status c = ''True'') conds" and spec: "stack_specified L (Spec i)"
    and A: "stores_instance (ms_crapi A) req stored" "stored v = Some i"
    and new: "m_DeletionTimestamp (Meta i) = None" "GetFinalizer A \<notin> set (m_Finalizers (Meta i))" "Conditions (Status i) = None"
  shows "runs_to 2 (MetricStorage_Reconcile CL U L A req) stored (\<lambda>i2. MetricStorage_IsReady CL i2 \<and>
    (\<forall>t \<in> set ms_types. IsTrue CL (Conditions (Status i2)) t)) v"
proof -
  have fin': "GetFinalizer (ms_crapi A) \<notin> set (m_Finalizers (Meta i))" using new(2) by (simp add: ms_crapi_def)
  obtain w1 i1 where r1: "run_state (MetricStorage_Reconcile CL U L A req) v = (Return (Result0, None), w1)" "stored w1 = Some i1"
    and i1: "settled U (ms_crapi A) i1" "Spec i1 = Spec i" "\<forall>t. Has (Conditions (Status i1)) t \<longleftrightarrow> t = ReadyCondition"
    by (rule reconciler.stored_fresh [OF ms.reconciler_axioms laws fin A new(1) fin' new(3)])
  have second: "runs_to 1 (MetricStorage_Reconcile CL U L A req) stored (\<lambda>i2. MetricStorage_IsReady CL i2 \<and>
      (\<forall>t \<in> set ms_types. IsTrue CL (Conditions (Status i2)) t)) v1" if v1: "stored v1 = Some i1" for v1
  proof -
    have "wp (MetricStorage_reconcileNormal CL U L A) (\<lambda>out s'. out = (Result0, None) \<and>
        (\<forall>t \<in> set ms_types. IsTrue CL (Conditions (Status (inst s'))) t) \<and>
        (\<forall>t. Has (Conditions (Status (inst s'))) t \<longrightarrow> t = ReadyCondition \<or> t \<in> set ms_types)) \<lparr>inst = i1, world = v1\<rparr>"
      by (rule wp_ms_pass [OF laws st conds]) (simp_all add: i1 spec)
    then obtain s where run: "run_state (MetricStorage_reconcileNormal CL U L A) \<lparr>inst = i1, world = v1\<rparr> = ((Result0, None), s)"
      and s: "\<forall>t \<in> set ms_types. IsTrue CL (Conditions (Status (inst s))) t"
        "\<forall>t. Has (Conditions (Status (inst s))) t \<longrightarrow> t = ReadyCondition \<or> t \<in> set ms_types"
      using wp_exists by fastforce
    have work: "run_state (MetricStorage_work CL U L A i1) \<lparr>inst = i1, world = v1\<rparr> = (Return (Result0, None), s)"
      using run i1(1) by (simp add: MetricStorage_work_def settled_def)
    obtain w where "run_state (MetricStorage_Reconcile CL U L A req) v1 = (Return (Result0, None), w)"
      "stored w = Some (cmap (update_ready CL) (inst s))"
      by (rule reconciler.stored_pass [OF ms.reconciler_axioms A(1) v1 i1(1) work])
    moreover have "IsTrue CL (update_ready CL (Conditions (Status (inst s)))) ReadyCondition"
      using s unfolding condition_laws.update_ready_iff [OF laws] condition_laws.AllSub_iff [OF laws] by blast
    moreover have "\<forall>t \<in> set ms_types. IsTrue CL (update_ready CL (Conditions (Status (inst s)))) t"
      using s(1) condition_laws.IsTrue_update_ready_sub [OF laws] by (simp add: ms_types_def condition_defs)
    ultimately show ?thesis by (auto simp: MetricStorage_IsReady_def)
  qed
  show ?thesis using runs_to_step [where stored = stored, OF r1 second] by (simp add: numeral_2_eq_2)
qed

section \<open>Witness\<close>

text \<open>A cluster whose state is the stored MetricStorage.\<close>

definition ref_ms_store :: "(ref_cond, ref_cond MetricStorage option) metricstorage_api" where
  "ref_ms_store = \<lparr>
     Get_instance = (\<lambda>_. State (\<lambda>w. (case w of None \<Rightarrow> Inl ref_NotFound | Some i \<Rightarrow> Inr i, w))),
     NewHelper = (\<lambda>_. None), GetFinalizer = ''metricstorage'', PatchInstance = (\<lambda>_ i. State (\<lambda>_. (None, Some i))),
     Get_CRD = (\<lambda>name. return None), Controller_Watch = (\<lambda>kind h. return None),
     MonitoringStack_CreateOrPatch = (\<lambda>ob f. return
       (map_sum id (\<lambda>ob. ob\<lparr>Status := [\<lparr>oc_Status = ''True'', oc_Reason = '''', oc_Message = ''''\<rparr>]\<rparr>) (f ob))),
     ServiceMonitor_CreateOrPatch = (\<lambda>ob f. return (f ob)),
     ScrapeConfig_CreateOrPatch = (\<lambda>ob f. return (Inr ob)),
     dataplane_of = ref_dataplane_api (ref_dataplane [])\<rparr>"

definition ref_ms_new :: "ref_cond MetricStorage" where
  "ref_ms_new = ref_metricstorage\<lparr>Meta := ObjectMeta_named ''metric-storage'' ''openstack'',
     Spec := \<lparr>mt_MonitoringStack = None, mt_CustomMonitoringStack = Some (MonitoringStackSpec0\<lparr>mss_Retention := ''1d''\<rparr>)\<rparr>,
     Status := MetricStorageStatus0\<rparr>"

theorem metricstorage_becomes_ready_witness:
  "runs_to 2 (MetricStorage_Reconcile ref_pkg ref_controllerutil ref_commonlib ref_ms_store
      \<lparr>nn_Namespace = ''openstack'', nn_Name = ''metric-storage''\<rparr>) cluster (MetricStorage_IsReady ref_pkg)
      \<lparr>cluster = Some ref_ms_new, Watching = []\<rparr>"
proof -
  let ?conds = "[\<lparr>oc_Status = ''True'', oc_Reason = '''', oc_Message = ''''\<rparr>]"
  have st: "ms_steady ref_controllerutil ref_ms_store ?conds (\<lambda>_. ref_dataplane [])"
    unfolding ms_steady_def
  proof (intro conjI allI impI)
    fix ob :: MonitoringStackObject and f :: "MonitoringStackObject \<Rightarrow> error + MonitoringStackObject"
    assume "\<forall>x. \<exists>y. f x = Inr y"
    then obtain y where "f ob = Inr y" by blast
    then show "\<exists>st. steady (MonitoringStack_CreateOrPatch ref_ms_store ob f) (Inr st) \<and> Status st = ?conds"
      by (simp add: ref_ms_store_def)
  qed (auto simp: ref_ms_store_def ref_controllerutil_def snapshot_ref)
  have spec: "stack_specified ref_commonlib (Spec ref_ms_new)"
    by (simp add: stack_specified_def ref_ms_new_def MonitoringStackSpec0_def)
  have A: "stores_instance (ms_crapi ref_ms_store) req cluster" for req
    by (auto simp: stores_instance_def ms_crapi_def ref_ms_store_def)
  have new: "m_DeletionTimestamp (Meta ref_ms_new) = None"
    "GetFinalizer ref_ms_store \<notin> set (m_Finalizers (Meta ref_ms_new))" "Conditions (Status ref_ms_new) = None"
    by (simp_all add: ref_ms_new_def ObjectMeta_named_def MetricStorageStatus0_def)
  show ?thesis
    by (rule runs_to_mono [OF metricstorage_becomes_ready [OF ref.condition_laws_axioms ref_util.finalizer_laws_axioms
          st _ _ spec A _ new]]) simp_all
qed

end
