(* ===== verification/Telemetry_Controller.thy ===== *)
theory Telemetry_Controller
  imports Workloads Consts
begin

text \<open>
  \<^verbatim>\<open>controllers/telemetry_controller.go\<close>: the Telemetry controller owns one Ceilometer, one Autoscaling
  and one MetricStorage custom resource. It creates or patches the children of the enabled sections,
  deletes the others, and mirrors their readiness into its own conditions.
\<close>

section \<open>The client\<close>

text \<open>
  The calls on one kind of child. \<open>controllerutil.CreateOrPatch\<close> is given the object with its key and
  the function that mutates it, and answers with an error or the object as the API server returned it
  (the operation result is only logged).
\<close>

record ('o, 'w) kind_client =
  kc_Get :: "NamespacedName \<Rightarrow> ('w, error + 'o) state"
  kc_Delete :: "'o \<Rightarrow> ('w, error option) state"
  kc_CreateOrPatch :: "'o \<Rightarrow> ('o \<Rightarrow> error + 'o) \<Rightarrow> ('w, error + 'o) state"

record ('c, 'w) telemetry_api = "('c Telemetry, 'w) crapi" +
  ceilometers :: "('c Ceilometer, 'w) kind_client"
  autoscalings :: "('c Autoscaling, 'w) kind_client"
  metricstorages :: "('c MetricStorage, 'w) kind_client"

section \<open>Deleting a child\<close>

definition ensureDeleted :: "(('sp, 'st) CR, 'w) kind_client \<Rightarrow> ('sp, 'st) CR \<Rightarrow> ('w, reconcile_result) state" where
  "ensureDeleted K obj = do {
     got \<leftarrow> kc_Get K (ObjectKeyFromObject (Meta obj));
     case got of
       Inl err \<Rightarrow> if IsNotFound err then return (Result0, None) else return (Result0, Some err)
     | Inr obj' \<Rightarrow>
         if m_DeletionTimestamp (Meta obj') = None
         then do {
           err \<leftarrow> kc_Delete K obj';
           case err of Some e \<Rightarrow> return (Result0, Some e) | None \<Rightarrow> return (Result0, None)
         }
         else return (Result0, None)
   }"

section \<open>The children\<close>

text \<open>The mutate functions: what the controller writes into a child, given the child as it is stored.\<close>

definition mutate_ceilometer :: "controllerutil \<Rightarrow> 'c Telemetry \<Rightarrow> 'c Telemetry
    \<Rightarrow> 'c Ceilometer \<Rightarrow> error + 'c Ceilometer" where
  "mutate_ceilometer U before instance' child =
    (let child1 = child\<lparr>Spec := cse_CeilometerSpec (te_Ceilometer (Spec instance'))\<rparr>
     in case SetControllerReference U ''Telemetry'' (Meta before) (Meta child1) of
          Inl err \<Rightarrow> Inl err
        | Inr m \<Rightarrow> Inr (child1\<lparr>Meta := m\<rparr>))"

definition mutate_autoscaling :: "controllerutil \<Rightarrow> 'c Telemetry \<Rightarrow> 'c Telemetry
    \<Rightarrow> 'c Autoscaling \<Rightarrow> error + 'c Autoscaling" where
  "mutate_autoscaling U before instance' child =
    (let child1 = child\<lparr>Spec := ase_AutoscalingSpec (te_Autoscaling (Spec instance'))\<rparr>
     in case SetControllerReference U ''Telemetry'' (Meta before) (Meta child1) of
          Inl err \<Rightarrow> Inl err
        | Inr m \<Rightarrow> Inr (child1\<lparr>Meta := m\<rparr>))"

definition mutate_metricstorage :: "controllerutil \<Rightarrow> 'c Telemetry \<Rightarrow> 'c Telemetry
    \<Rightarrow> 'c MetricStorage \<Rightarrow> error + 'c MetricStorage" where
  "mutate_metricstorage U before instance' child =
    (let section' = mse_MetricStorageSpec (te_MetricStorage (Spec instance'));
         child1 = (case mt_CustomMonitoringStack section' of
             None \<Rightarrow> child
           | Some c \<Rightarrow> child\<lparr>Spec := (Spec child)\<lparr>mt_CustomMonitoringStack := Some c\<rparr>\<rparr>);
         child2 = (case mt_MonitoringStack section' of
             None \<Rightarrow> child1
           | Some ms \<Rightarrow> child1\<lparr>Spec := (Spec child1)\<lparr>mt_MonitoringStack := Some ms\<rparr>\<rparr>)
     in case SetControllerReference U ''Telemetry'' (Meta before) (Meta child2) of
          Inl err \<Rightarrow> Inl err
        | Inr m \<Rightarrow> Inr (child2\<lparr>Meta := m\<rparr>))"

definition reconcileCeilometer :: "'c condition_pkg \<Rightarrow> controllerutil \<Rightarrow> ('c, 'w) telemetry_api \<Rightarrow> 'c Telemetry
    \<Rightarrow> (('c Telemetry, 'w) handler, reconcile_result) state" where
  "reconcileCeilometer CL U A before = do {
     instance' \<leftarrow> get_inst;
     let ceilometerInstance = \<lparr>Meta = ObjectMeta_named ceilometer_ServiceName (m_Namespace (Meta instance')),
        Spec = CeilometerSpec0, Status = CeilometerStatus0\<rparr>;
     if \<not> cse_Enabled (te_Ceilometer (Spec instance'))
     then do {
       (res, err) \<leftarrow> api (ensureDeleted (ceilometers A) ceilometerInstance);
       if err \<noteq> None then return (res, err)
       else do {
         update_inst (cmap (\<lambda>cs. cond_Remove CL cs CeilometerReadyCondition));
         return (Result0, None)
       }
     }
     else do {
       r \<leftarrow> api (kc_CreateOrPatch (ceilometers A) ceilometerInstance (mutate_ceilometer U before instance'));
       case r of
         Inl err \<Rightarrow> do {
           update_inst (cmap (\<lambda>cs. cond_Set CL cs (Some (FalseCondition CL CeilometerReadyCondition ErrorReason
              SeverityWarning CeilometerReadyErrorMessage [Error err]))));
           return (Result0, Some err)
         }
       | Inr child \<Rightarrow> do {
           (if Ceilometer_IsReady CL child
            then update_inst (cmap (\<lambda>cs. MarkTrue CL cs CeilometerReadyCondition CeilometerReadyMessage))
            else update_inst (cmap (\<lambda>cs. cond_Set CL cs (Some (FalseCondition CL CeilometerReadyCondition
              RequestedReason SeverityInfo CeilometerReadyRunningMessage [])))));
           return (Result0, None)
         }
     }
   }"

definition reconcileAutoscaling :: "'c condition_pkg \<Rightarrow> controllerutil \<Rightarrow> ('c, 'w) telemetry_api \<Rightarrow> 'c Telemetry
    \<Rightarrow> (('c Telemetry, 'w) handler, reconcile_result) state" where
  "reconcileAutoscaling CL U A before = do {
     instance' \<leftarrow> get_inst;
     let autoscalingInstance = \<lparr>Meta = ObjectMeta_named ''autoscaling'' (m_Namespace (Meta instance')),
        Spec = AutoscalingSpec0, Status = AutoscalingStatus0\<rparr>;
     if \<not> ase_Enabled (te_Autoscaling (Spec instance'))
     then do {
       (res, err) \<leftarrow> api (ensureDeleted (autoscalings A) autoscalingInstance);
       if err \<noteq> None then return (res, err)
       else do {
         update_inst (cmap (\<lambda>cs. cond_Remove CL cs AutoscalingReadyCondition));
         return (Result0, None)
       }
     }
     else do {
       r \<leftarrow> api (kc_CreateOrPatch (autoscalings A) autoscalingInstance (mutate_autoscaling U before instance'));
       case r of
         Inl err \<Rightarrow> do {
           update_inst (cmap (\<lambda>cs. cond_Set CL cs (Some (FalseCondition CL AutoscalingReadyCondition ErrorReason
              SeverityWarning AutoscalingReadyErrorMessage [Error err]))));
           return (Result0, Some err)
         }
       | Inr child \<Rightarrow> do {
           (if Autoscaling_IsReady CL child
            then update_inst (cmap (\<lambda>cs. MarkTrue CL cs AutoscalingReadyCondition AutoscalingReadyMessage))
            else update_inst (cmap (\<lambda>cs. cond_Set CL cs (Some (FalseCondition CL AutoscalingReadyCondition
              RequestedReason SeverityInfo AutoscalingReadyRunningMessage [])))));
           return (Result0, None)
         }
     }
   }"

definition reconcileMetricStorage :: "'c condition_pkg \<Rightarrow> controllerutil \<Rightarrow> ('c, 'w) telemetry_api \<Rightarrow> 'c Telemetry
    \<Rightarrow> (('c Telemetry, 'w) handler, reconcile_result) state" where
  "reconcileMetricStorage CL U A before = do {
     instance' \<leftarrow> get_inst;
     let metricStorageInstance = \<lparr>Meta = ObjectMeta_named metricstorage_DefaultServiceName (m_Namespace (Meta instance')),
        Spec = MetricStorageSpec0, Status = MetricStorageStatus0\<rparr>;
     if \<not> mse_Enabled (te_MetricStorage (Spec instance'))
     then do {
       (res, err) \<leftarrow> api (ensureDeleted (metricstorages A) metricStorageInstance);
       if err \<noteq> None then return (res, err)
       else do {
         update_inst (cmap (\<lambda>cs. cond_Remove CL cs MetricStorageReadyCondition));
         return (Result0, None)
       }
     }
     else do {
       r \<leftarrow> api (kc_CreateOrPatch (metricstorages A) metricStorageInstance (mutate_metricstorage U before instance'));
       case r of
         Inl err \<Rightarrow> do {
           update_inst (cmap (\<lambda>cs. cond_Set CL cs (Some (FalseCondition CL MetricStorageReadyCondition ErrorReason
              SeverityWarning MetricStorageReadyErrorMessage [Error err]))));
           return (Result0, Some err)
         }
       | Inr child \<Rightarrow> do {
           (if MetricStorage_IsReady CL child
            then update_inst (cmap (\<lambda>cs. MarkTrue CL cs MetricStorageReadyCondition MetricStorageReadyMessage))
            else update_inst (cmap (\<lambda>cs. cond_Set CL cs (Some (FalseCondition CL MetricStorageReadyCondition
              RequestedReason SeverityInfo MetricStorageReadyRunningMessage [])))));
           return (Result0, None)
         }
     }
   }"

section \<open>Reconcile\<close>

definition Telemetry_reconcileDelete :: "controllerutil \<Rightarrow> ('c, 'w) telemetry_api
    \<Rightarrow> (('c Telemetry, 'w) handler, reconcile_result) state" where
  "Telemetry_reconcileDelete U A = do {
     remove_finalizer U A;
     return (Result0, None)
   }"

definition Telemetry_reconcileInit :: "(('c Telemetry, 'w) handler, reconcile_result) state" where
  "Telemetry_reconcileInit = return (Result0, None)"

definition Telemetry_reconcileNormal :: "'c condition_pkg \<Rightarrow> controllerutil \<Rightarrow> ('c, 'w) telemetry_api
    \<Rightarrow> 'c Telemetry \<Rightarrow> (('c Telemetry, 'w) handler, reconcile_result) state" where
  "Telemetry_reconcileNormal CL U A before = do {
     (ctrlResult, err) \<leftarrow> reconcileAutoscaling CL U A before;
     if err \<noteq> None then return (Result0, err)
     else if ctrlResult \<noteq> Result0 then return (ctrlResult, None)
     else do {
       (ctrlResult, err) \<leftarrow> reconcileCeilometer CL U A before;
       if err \<noteq> None then return (Result0, err)
       else if ctrlResult \<noteq> Result0 then return (ctrlResult, None)
       else do {
         (ctrlResult, err) \<leftarrow> reconcileMetricStorage CL U A before;
         if err \<noteq> None then return (Result0, err)
         else if ctrlResult \<noteq> Result0 then return (ctrlResult, None)
         else return (Result0, None)
       }
     }
   }"

text \<open>The conditions \<open>Reconcile\<close> initialises.\<close>

definition Telemetry_conditions :: "'c condition_pkg \<Rightarrow> 'c list" where
  "Telemetry_conditions CL =
    [UnknownCondition CL CeilometerReadyCondition InitReason CeilometerReadyInitMessage,
     UnknownCondition CL AutoscalingReadyCondition InitReason AutoscalingReadyInitMessage,
     UnknownCondition CL MetricStorageReadyCondition InitReason MetricStorageReadyInitMessage]"

text \<open>\<open>Reconcile\<close> from the check of the hash map on.\<close>

definition Telemetry_work :: "'c condition_pkg \<Rightarrow> controllerutil \<Rightarrow> ('c, 'w) telemetry_api \<Rightarrow> 'c Telemetry
    \<Rightarrow> (('c Telemetry, 'w) handler, reconcile_result outcome) state" where
  "Telemetry_work CL U A before = do {
     _ \<leftarrow> init_hash;
     (ctrlResult, err) \<leftarrow> Telemetry_reconcileInit;
     if err \<noteq> None then returns (ctrlResult, err)
     else if ctrlResult \<noteq> Result0 then returns (ctrlResult, None)
     else do {
       instance' \<leftarrow> get_inst;
       r \<leftarrow> (if m_DeletionTimestamp (Meta instance') \<noteq> None
            then Telemetry_reconcileDelete U A
            else Telemetry_reconcileNormal CL U A before);
       returns r
     }
   }"

definition Telemetry_Reconcile :: "'c condition_pkg \<Rightarrow> controllerutil \<Rightarrow> ('c, 'w) telemetry_api
    \<Rightarrow> NamespacedName \<Rightarrow> ('w, reconcile_result outcome) state" where
  "Telemetry_Reconcile CL U A req = do {
     got \<leftarrow> Get_instance A req;
     case got of
       Inl err \<Rightarrow> if IsNotFound err then returns (Result0, None) else returns (Result0, Some err)
     | Inr instance' \<Rightarrow> (case NewHelper A instance' of
           Some err \<Rightarrow> returns (Result0, Some err)
         | None \<Rightarrow> with_inst instance' (do {
             out \<leftarrow> (do {
               added \<leftarrow> ensure_finalizer U A;
               if added then returns (Result0, None)
               else do {
                 i \<leftarrow> get_inst;
                 if Conditions (Status i) = None
                 then do { _ \<leftarrow> init_conditions CL (Telemetry_conditions CL); returns (Result0, None) }
                 else Telemetry_work CL U A instance'
               }
             });
             deferred CL A True instance' out
           }))
   }"

interpretation tel: reconciler "Telemetry_Reconcile CL U A" CL U A "Telemetry_conditions CL"
    "Telemetry_work CL U A" True for CL U A
  by unfold_locales (unfold Telemetry_Reconcile_def reconcile_frame_def reconcile_body_def, rule refl)

section \<open>The contract of a section\<close>

text \<open>
  The three child functions follow one pattern. \<open>child_call\<close> is the part of it that talks to the
  cluster: it deletes the child of a disabled section (answer \<^term>\<open>Inr None\<close>) or creates or patches the
  child and reads its readiness (answer \<^term>\<open>Inr (Some ready)\<close>). \<open>reconcile_child\<close> then records the answer
  in the condition of the section.
\<close>

definition child_call :: "bool \<Rightarrow> ('w, reconcile_result) state \<Rightarrow> ('w, error + 'o) state \<Rightarrow> ('o \<Rightarrow> bool)
    \<Rightarrow> ('w, error + bool option) state" where
  "child_call enabled del patch ready =
    (if \<not> enabled
     then do { (res, err) \<leftarrow> del; return (case err of Some e \<Rightarrow> Inl e | None \<Rightarrow> Inr None) }
     else do { r \<leftarrow> patch; return (case r of Inl e \<Rightarrow> Inl e | Inr c \<Rightarrow> Inr (Some (ready c))) })"

definition record_child :: "'c condition_pkg \<Rightarrow> bool \<Rightarrow> cond_Type \<Rightarrow> cond_Message \<Rightarrow> cond_Message \<Rightarrow> cond_Message
    \<Rightarrow> error + bool option \<Rightarrow> 'c conditions \<Rightarrow> 'c conditions" where
  "record_child CL enabled T errM okM runM a cs = (case a of
      Inl e \<Rightarrow> if enabled
        then cond_Set CL cs (Some (FalseCondition CL T ErrorReason SeverityWarning errM [Error e])) else cs
    | Inr None \<Rightarrow> cond_Remove CL cs T
    | Inr (Some ready) \<Rightarrow> if ready then MarkTrue CL cs T okM
        else cond_Set CL cs (Some (FalseCondition CL T RequestedReason SeverityInfo runM [])))"

definition reconcile_child :: "'c condition_pkg \<Rightarrow> cond_Type \<Rightarrow> cond_Message \<Rightarrow> cond_Message \<Rightarrow> cond_Message
    \<Rightarrow> ('c Telemetry \<Rightarrow> bool) \<Rightarrow> ('c Telemetry \<Rightarrow> ('w, error + bool option) state)
    \<Rightarrow> (('c Telemetry, 'w) handler, reconcile_result) state" where
  "reconcile_child CL T errM okM runM enabled call = do {
     i \<leftarrow> get_inst;
     a \<leftarrow> api (call i);
     update_inst (cmap (record_child CL (enabled i) T errM okM runM a));
     return (Result0, case a of Inl e \<Rightarrow> Some e | Inr _ \<Rightarrow> None)
   }"

abbreviation ceilometer_enabled :: "'c Telemetry \<Rightarrow> bool" where
  "ceilometer_enabled i \<equiv> cse_Enabled (te_Ceilometer (Spec i))"
abbreviation autoscaling_enabled :: "'c Telemetry \<Rightarrow> bool" where
  "autoscaling_enabled i \<equiv> ase_Enabled (te_Autoscaling (Spec i))"
abbreviation metricstorage_enabled :: "'c Telemetry \<Rightarrow> bool" where
  "metricstorage_enabled i \<equiv> mse_Enabled (te_MetricStorage (Spec i))"

definition ceilometer_child :: "'c Telemetry \<Rightarrow> 'c Ceilometer" where
  "ceilometer_child i = \<lparr>Meta = ObjectMeta_named ceilometer_ServiceName (m_Namespace (Meta i)),
     Spec = CeilometerSpec0, Status = CeilometerStatus0\<rparr>"
definition autoscaling_child :: "'c Telemetry \<Rightarrow> 'c Autoscaling" where
  "autoscaling_child i = \<lparr>Meta = ObjectMeta_named ''autoscaling'' (m_Namespace (Meta i)),
     Spec = AutoscalingSpec0, Status = AutoscalingStatus0\<rparr>"
definition metricstorage_child :: "'c Telemetry \<Rightarrow> 'c MetricStorage" where
  "metricstorage_child i = \<lparr>Meta = ObjectMeta_named metricstorage_DefaultServiceName (m_Namespace (Meta i)),
     Spec = MetricStorageSpec0, Status = MetricStorageStatus0\<rparr>"

definition ceilometer_call :: "'c condition_pkg \<Rightarrow> controllerutil \<Rightarrow> ('c, 'w) telemetry_api \<Rightarrow> 'c Telemetry
    \<Rightarrow> 'c Telemetry \<Rightarrow> ('w, error + bool option) state" where
  "ceilometer_call CL U A before i = child_call (ceilometer_enabled i)
     (ensureDeleted (ceilometers A) (ceilometer_child i))
     (kc_CreateOrPatch (ceilometers A) (ceilometer_child i) (mutate_ceilometer U before i))
     (Ceilometer_IsReady CL)"
definition autoscaling_call :: "'c condition_pkg \<Rightarrow> controllerutil \<Rightarrow> ('c, 'w) telemetry_api \<Rightarrow> 'c Telemetry
    \<Rightarrow> 'c Telemetry \<Rightarrow> ('w, error + bool option) state" where
  "autoscaling_call CL U A before i = child_call (autoscaling_enabled i)
     (ensureDeleted (autoscalings A) (autoscaling_child i))
     (kc_CreateOrPatch (autoscalings A) (autoscaling_child i) (mutate_autoscaling U before i))
     (Autoscaling_IsReady CL)"
definition metricstorage_call :: "'c condition_pkg \<Rightarrow> controllerutil \<Rightarrow> ('c, 'w) telemetry_api \<Rightarrow> 'c Telemetry
    \<Rightarrow> 'c Telemetry \<Rightarrow> ('w, error + bool option) state" where
  "metricstorage_call CL U A before i = child_call (metricstorage_enabled i)
     (ensureDeleted (metricstorages A) (metricstorage_child i))
     (kc_CreateOrPatch (metricstorages A) (metricstorage_child i) (mutate_metricstorage U before i))
     (MetricStorage_IsReady CL)"

lemma ensureDeleted_result:
  "run_state (ensureDeleted K obj) w = ((r, e), w') \<Longrightarrow> r = Result0"
  by (auto simp: ensureDeleted_def split: prod.splits sum.splits if_splits option.splits)

lemmas child_defs = reconcile_child_def child_call_def record_child_def

lemma reconcileCeilometer_child:
  "reconcileCeilometer CL U A before = reconcile_child CL CeilometerReadyCondition CeilometerReadyErrorMessage
     CeilometerReadyMessage CeilometerReadyRunningMessage ceilometer_enabled (ceilometer_call CL U A before)"
  by (rule state_ext) (auto simp: reconcileCeilometer_def child_defs ceilometer_call_def ceilometer_child_def
      Let_def cmap_def split: prod.splits sum.splits option.splits dest: ensureDeleted_result)

lemma reconcileAutoscaling_child:
  "reconcileAutoscaling CL U A before = reconcile_child CL AutoscalingReadyCondition AutoscalingReadyErrorMessage
     AutoscalingReadyMessage AutoscalingReadyRunningMessage autoscaling_enabled (autoscaling_call CL U A before)"
  by (rule state_ext) (auto simp: reconcileAutoscaling_def child_defs autoscaling_call_def autoscaling_child_def
      Let_def cmap_def split: prod.splits sum.splits option.splits dest: ensureDeleted_result)

lemma reconcileMetricStorage_child:
  "reconcileMetricStorage CL U A before = reconcile_child CL MetricStorageReadyCondition MetricStorageReadyErrorMessage
     MetricStorageReadyMessage MetricStorageReadyRunningMessage metricstorage_enabled (metricstorage_call CL U A before)"
  by (rule state_ext) (auto simp: reconcileMetricStorage_def child_defs metricstorage_call_def metricstorage_child_def
      Let_def cmap_def split: prod.splits sum.splits option.splits dest: ensureDeleted_result)

lemmas reconcile_children = reconcileCeilometer_child reconcileAutoscaling_child reconcileMetricStorage_child

lemma run_reconcile_child:
  "run_state (reconcile_child CL T errM okM runM enabled call) s =
    (case run_state (call (inst s)) (world s) of (a, w) \<Rightarrow>
      ((Result0, case a of Inl e \<Rightarrow> Some e | Inr _ \<Rightarrow> None),
       \<lparr>inst = cmap (record_child CL (enabled (inst s)) T errM okM runM a) (inst s), world = w\<rparr>))"
  by (simp add: reconcile_child_def split: prod.splits)

context condition_laws begin

lemma record_child_Has:
  "Has (record_child CL en T errM okM runM (Inr a) cs) t \<longleftrightarrow> (if t = T then a \<noteq> None else Has cs t)"
  by (auto simp: record_child_def cond_simps split: option.splits)

lemma record_child_IsTrue:
  "IsTrue CL (record_child CL en T errM okM runM (Inr a) cs) t \<longleftrightarrow>
     (if t = T then a = Some True else IsTrue CL cs t)"
  by (auto simp: record_child_def cond_simps split: option.splits)

end

lemma child_call_cases:
  assumes "run_state (child_call en del patch ready) w = (Inr a, w')"
  shows "a \<noteq> None \<longleftrightarrow> en"
  using assms by (auto simp: child_call_def split: if_splits prod.splits option.splits sum.splits)

lemma child_calls_enabled:
  "run_state (ceilometer_call CL U A before i) w = (Inr a, w') \<Longrightarrow> a \<noteq> None \<longleftrightarrow> ceilometer_enabled i"
  "run_state (autoscaling_call CL U A before i) w = (Inr a, w') \<Longrightarrow> a \<noteq> None \<longleftrightarrow> autoscaling_enabled i"
  "run_state (metricstorage_call CL U A before i) w = (Inr a, w') \<Longrightarrow> a \<noteq> None \<longleftrightarrow> metricstorage_enabled i"
  unfolding ceilometer_call_def autoscaling_call_def metricstorage_call_def by (auto dest: child_call_cases)

text \<open>The calls depend on spec and metadata only, which no child function changes.\<close>

lemma mutate_cmap [simp]:
  "mutate_ceilometer U before (cmap f i) = mutate_ceilometer U before i"
  "mutate_autoscaling U before (cmap f i) = mutate_autoscaling U before i"
  "mutate_metricstorage U before (cmap f i) = mutate_metricstorage U before i"
  unfolding mutate_ceilometer_def [abs_def] mutate_autoscaling_def [abs_def] mutate_metricstorage_def [abs_def] cmap_simps
  by (rule refl)+

lemma child_calls_cmap [simp]:
  "ceilometer_call CL U A before (cmap f i) = ceilometer_call CL U A before i"
  "autoscaling_call CL U A before (cmap f i) = autoscaling_call CL U A before i"
  "metricstorage_call CL U A before (cmap f i) = metricstorage_call CL U A before i"
  by (simp_all add: ceilometer_call_def autoscaling_call_def metricstorage_call_def ceilometer_child_def
      autoscaling_child_def metricstorage_child_def)

section \<open>Properties\<close>

lemma cond_types_distinct [simp]:
  "CeilometerReadyCondition \<noteq> AutoscalingReadyCondition" "AutoscalingReadyCondition \<noteq> CeilometerReadyCondition"
  "CeilometerReadyCondition \<noteq> MetricStorageReadyCondition" "MetricStorageReadyCondition \<noteq> CeilometerReadyCondition"
  "AutoscalingReadyCondition \<noteq> MetricStorageReadyCondition" "MetricStorageReadyCondition \<noteq> AutoscalingReadyCondition"
  "CeilometerReadyCondition \<noteq> ReadyCondition" "AutoscalingReadyCondition \<noteq> ReadyCondition"
  "MetricStorageReadyCondition \<noteq> ReadyCondition"
  by (simp_all add: condition_defs)

abbreviation record_autoscaling :: "'c condition_pkg \<Rightarrow> bool \<Rightarrow> error + bool option \<Rightarrow> 'c conditions \<Rightarrow> 'c conditions" where
  "record_autoscaling CL en \<equiv> record_child CL en AutoscalingReadyCondition AutoscalingReadyErrorMessage
     AutoscalingReadyMessage AutoscalingReadyRunningMessage"
abbreviation record_ceilometer :: "'c condition_pkg \<Rightarrow> bool \<Rightarrow> error + bool option \<Rightarrow> 'c conditions \<Rightarrow> 'c conditions" where
  "record_ceilometer CL en \<equiv> record_child CL en CeilometerReadyCondition CeilometerReadyErrorMessage
     CeilometerReadyMessage CeilometerReadyRunningMessage"
abbreviation record_metricstorage :: "'c condition_pkg \<Rightarrow> bool \<Rightarrow> error + bool option \<Rightarrow> 'c conditions \<Rightarrow> 'c conditions" where
  "record_metricstorage CL en \<equiv> record_child CL en MetricStorageReadyCondition MetricStorageReadyErrorMessage
     MetricStorageReadyMessage MetricStorageReadyRunningMessage"

lemma telemetry_normal_ok:
  assumes "run_state (autoscaling_call CL U A before i) w = (Inr a, w1)"
    and "run_state (ceilometer_call CL U A before i) w1 = (Inr c, w2)"
    and "run_state (metricstorage_call CL U A before i) w2 = (Inr m, w3)"
  shows "run_state (Telemetry_reconcileNormal CL U A before) \<lparr>inst = i, world = w\<rparr> =
    ((Result0, None), \<lparr>inst = cmap (record_metricstorage CL (metricstorage_enabled i) (Inr m)
        \<circ> record_ceilometer CL (ceilometer_enabled i) (Inr c)
        \<circ> record_autoscaling CL (autoscaling_enabled i) (Inr a)) i, world = w3\<rparr>)"
  using assms by (simp add: Telemetry_reconcileNormal_def reconcile_children run_reconcile_child comp_assoc)

text \<open>
  C1: A pass of the Telemetry controller that succeeds has asked the cluster, in this order, for the
  Autoscaling, the Ceilometer and the MetricStorage child; afterwards a section's condition is present
  exactly when the section is enabled, it is True exactly when the child was answered ready, and every
  other condition is as before.
\<close>

theorem telemetry_normal_mirrors_children:
  assumes laws: "condition_laws CL Has ct tr"
    and run: "run_state (Telemetry_reconcileNormal CL U A before) \<lparr>inst = i, world = w\<rparr> = ((r, None), s')"
  shows "\<exists>a c m w1 w2.
    run_state (autoscaling_call CL U A before i) w = (Inr a, w1) \<and> (a \<noteq> None \<longleftrightarrow> autoscaling_enabled i) \<and>
    run_state (ceilometer_call CL U A before i) w1 = (Inr c, w2) \<and> (c \<noteq> None \<longleftrightarrow> ceilometer_enabled i) \<and>
    run_state (metricstorage_call CL U A before i) w2 = (Inr m, world s') \<and> (m \<noteq> None \<longleftrightarrow> metricstorage_enabled i) \<and>
    r = Result0 \<and>
    (\<forall>t. Has (Conditions (Status (inst s'))) t \<longleftrightarrow>
      (if t = AutoscalingReadyCondition then a \<noteq> None
       else if t = CeilometerReadyCondition then c \<noteq> None
       else if t = MetricStorageReadyCondition then m \<noteq> None
       else Has (Conditions (Status i)) t)) \<and>
    (\<forall>t. IsTrue CL (Conditions (Status (inst s'))) t \<longleftrightarrow>
      (if t = AutoscalingReadyCondition then a = Some True
       else if t = CeilometerReadyCondition then c = Some True
       else if t = MetricStorageReadyCondition then m = Some True
       else IsTrue CL (Conditions (Status i)) t))"
proof -
  note rec = condition_laws.record_child_Has [OF laws] condition_laws.record_child_IsTrue [OF laws]
  obtain a w1 where a: "run_state (autoscaling_call CL U A before i) w = (Inr a, w1)"
    using run by (auto simp: Telemetry_reconcileNormal_def reconcile_children run_reconcile_child
        split: prod.splits sum.splits if_splits)
  obtain c w2 where c: "run_state (ceilometer_call CL U A before i) w1 = (Inr c, w2)"
    using run a by (auto simp: Telemetry_reconcileNormal_def reconcile_children run_reconcile_child
        split: prod.splits sum.splits if_splits)
  obtain m w3 where m: "run_state (metricstorage_call CL U A before i) w2 = (Inr m, w3)"
    using run a c by (auto simp: Telemetry_reconcileNormal_def reconcile_children run_reconcile_child
        split: prod.splits sum.splits if_splits)
  have "r = Result0 \<and> world s' = w3 \<and>
    (\<forall>t. Has (Conditions (Status (inst s'))) t \<longleftrightarrow>
      (if t = AutoscalingReadyCondition then a \<noteq> None
       else if t = CeilometerReadyCondition then c \<noteq> None
       else if t = MetricStorageReadyCondition then m \<noteq> None
       else Has (Conditions (Status i)) t)) \<and>
    (\<forall>t. IsTrue CL (Conditions (Status (inst s'))) t \<longleftrightarrow>
      (if t = AutoscalingReadyCondition then a = Some True
       else if t = CeilometerReadyCondition then c = Some True
       else if t = MetricStorageReadyCondition then m = Some True
       else IsTrue CL (Conditions (Status i)) t))"
    using run a c m by (auto simp: telemetry_normal_ok rec)
  then show ?thesis
    using a c m child_calls_enabled(1) [OF c] child_calls_enabled(2) [OF a] child_calls_enabled(3) [OF m] by blast
qed

section \<open>A pass as a sequence of calls\<close>

text \<open>
  The abstract view of a pass: a list of calls on the cluster, made in order up to the first error, and
  a list of functions that record their answers in the conditions.
\<close>

fun run_calls :: "('w, error + 'a) state list \<Rightarrow> 'w \<Rightarrow> (error + 'a) list \<times> 'w" where
  "run_calls [] w = ([], w)"
| "run_calls (m # ms) w = (case run_state m w of
      (Inl e, w') \<Rightarrow> ([Inl e], w')
    | (Inr a, w') \<Rightarrow> (case run_calls ms w' of (as, w'') \<Rightarrow> (Inr a # as, w'')))"

definition record_all :: "('a \<Rightarrow> 'b \<Rightarrow> 'b) list \<Rightarrow> 'a list \<Rightarrow> 'b \<Rightarrow> 'b" where
  "record_all fs as b = fold (\<lambda>(f, a) b. f a b) (zip fs as) b"

definition error_of :: "(error + 'a) list \<Rightarrow> error option" where
  "error_of as = (case last as of Inl e \<Rightarrow> Some e | Inr _ \<Rightarrow> None)"

text \<open>
  C6: A pass of the Telemetry controller is the sequence of the calls for the Autoscaling, the
  Ceilometer and the MetricStorage child, ended by the first error, which it returns; it records the
  answers, in that order, in the conditions of the instance and changes nothing else of it. In
  particular no child is touched after an error of an earlier one.
\<close>

theorem telemetry_normal_refines_calls:
  "run_state (Telemetry_reconcileNormal CL U A before) \<lparr>inst = i, world = w\<rparr> =
    (case run_calls [autoscaling_call CL U A before i, ceilometer_call CL U A before i,
        metricstorage_call CL U A before i] w of
      (as, w') \<Rightarrow> ((Result0, error_of as),
        \<lparr>inst = cmap (record_all [record_autoscaling CL (autoscaling_enabled i),
            record_ceilometer CL (ceilometer_enabled i),
            record_metricstorage CL (metricstorage_enabled i)] as) i, world = w'\<rparr>))"
  by (auto simp: Telemetry_reconcileNormal_def reconcile_children run_reconcile_child record_all_def [abs_def]
      error_of_def comp_def split: prod.splits sum.splits)

definition gone :: "('sp, 'st) CR option \<Rightarrow> bool" where
  "gone x = (case x of None \<Rightarrow> True | Some o' \<Rightarrow> m_DeletionTimestamp (Meta o') \<noteq> None)"

lemma gone_simps [simp]: "gone None" "gone (Some o') \<longleftrightarrow> m_DeletionTimestamp (Meta o') \<noteq> None"
  by (simp_all add: gone_def)

text \<open>
  The API server as the controller relies on it when it deletes a child: \<open>stored\<close> is what is stored under
  a key; \<open>Get\<close> reads it, and \<open>Delete\<close>, unless it reports an error, leaves it absent or terminating.
\<close>

definition store_client :: "(('sp, 'st) CR, 'w) kind_client \<Rightarrow> ('w \<Rightarrow> NamespacedName \<Rightarrow> ('sp, 'st) CR option) \<Rightarrow> bool" where
  "store_client K stored \<longleftrightarrow>
    (\<forall>key w. (case run_state (kc_Get K key) w of
        (Inr o', w') \<Rightarrow> w' = w \<and> stored w key = Some o' \<and> ObjectKeyFromObject (Meta o') = key
      | (Inl e, w') \<Rightarrow> w' = w \<and> (IsNotFound e \<longrightarrow> stored w key = None))) \<and>
    (\<forall>o' w. (case run_state (kc_Delete K o') w of
        (None, w') \<Rightarrow> gone (stored w' (ObjectKeyFromObject (Meta o')))
      | (Some e, w') \<Rightarrow> True))"

text \<open>
  \<open>ensureDeleted\<close> returns without an error only when the child is absent from the cluster or on its
  way out, and it calls \<open>Delete\<close> on no child that is already terminating.
\<close>

theorem ensureDeleted_gone:
  assumes "store_client K stored"
    and "run_state (ensureDeleted K obj) w = ((r, None), w')"
  shows "gone (stored w' (ObjectKeyFromObject (Meta obj))) \<and>
    (gone (stored w (ObjectKeyFromObject (Meta obj))) \<longrightarrow> w' = w)"
proof -
  let ?key = "ObjectKeyFromObject (Meta obj)"
  obtain got w1 where got: "run_state (kc_Get K ?key) w = (got, w1)" by fastforce
  have get: "w1 = w" "case got of Inr o' \<Rightarrow> stored w ?key = Some o' \<and> ObjectKeyFromObject (Meta o') = ?key
      | Inl e \<Rightarrow> IsNotFound e \<longrightarrow> stored w ?key = None"
    using assms(1) got unfolding store_client_def by (cases got; auto dest!: spec [of _ ?key] spec [of _ w])+
  have del: "\<And>o' w2. run_state (kc_Delete K o') w = (None, w2) \<Longrightarrow> ObjectKeyFromObject (Meta o') = ?key \<Longrightarrow>
      gone (stored w2 ?key)"
    using assms(1) unfolding store_client_def by (metis (mono_tags, lifting) case_prod_conv option.simps(4))
  show ?thesis
    using assms(2) got get del
    by (auto simp: ensureDeleted_def split: sum.splits if_splits option.splits prod.splits)
qed

section \<open>Witnesses\<close>

text \<open>
  A cluster for witnesses: it stores nothing, logs the calls, and answers every child as ready or not.
\<close>

definition ref_kind :: "string \<Rightarrow> ('o \<Rightarrow> 'o) \<Rightarrow> ('o, string list) kind_client" where
  "ref_kind name stored = \<lparr>
     kc_Get = (\<lambda>_. ref_log (''get '' @ name) (Inl ref_NotFound)),
     kc_Delete = (\<lambda>_. ref_log (''delete '' @ name) None),
     kc_CreateOrPatch = (\<lambda>obj f. ref_log (''patch '' @ name) (map_sum id stored (f obj)))\<rparr>"

definition ref_telemetry_api :: "(ref_cond, string list) telemetry_api" where
  "ref_telemetry_api = \<lparr>
     Get_instance = (\<lambda>_. ref_log ''get telemetry'' (Inl ref_NotFound)),
     NewHelper = (\<lambda>_. None),
     GetFinalizer = ''telemetry'',
     PatchInstance = (\<lambda>_ _. ref_log ''patch telemetry'' None),
     ceilometers = ref_kind ''ceilometer'' (cmap (\<lambda>_. Some [(ReadyCondition, True)])),
     autoscalings = ref_kind ''autoscaling'' id,
     metricstorages = ref_kind ''metricstorage'' id\<rparr>"

definition ref_TelemetrySpec :: TelemetrySpec where
  "ref_TelemetrySpec = \<lparr>
     te_Autoscaling = \<lparr>ase_Enabled = False, ase_AutoscalingSpec = AutoscalingSpec0\<rparr>,
     te_Ceilometer = \<lparr>cse_Enabled = True, cse_CeilometerSpec = CeilometerSpec0\<rparr>,
     te_MetricStorage = \<lparr>mse_Enabled = True, mse_MetricStorageSpec = MetricStorageSpec0\<rparr>\<rparr>"

definition ref_telemetry :: "ref_cond Telemetry" where
  "ref_telemetry = \<lparr>Meta = ObjectMeta_named ''telemetry'' ''openstack'', Spec = ref_TelemetrySpec,
     Status = \<lparr>Conditions = Some [(AutoscalingReadyCondition, False)], Hash = None\<rparr>\<rparr>"

lemma ref_telemetry_run:
  "map_prod id world (run_state
      (Telemetry_reconcileNormal ref_pkg ref_controllerutil ref_telemetry_api ref_telemetry)
      \<lparr>inst = ref_telemetry, world = []\<rparr>) =
    ((Result0, None), [''get autoscaling'', ''patch ceilometer'', ''patch metricstorage''])"
  by code_simp

theorem telemetry_normal_mirrors_children_witness:
  "\<exists>s'. run_state (Telemetry_reconcileNormal ref_pkg ref_controllerutil ref_telemetry_api ref_telemetry)
      \<lparr>inst = ref_telemetry, world = []\<rparr> = ((Result0, None), s') \<and>
    \<not> ref_Has (Conditions (Status (inst s'))) AutoscalingReadyCondition \<and>
    ref_Has (Conditions (Status (inst s'))) CeilometerReadyCondition \<and>
    ref_Has (Conditions (Status (inst s'))) MetricStorageReadyCondition"
proof -
  obtain s' where run: "run_state (Telemetry_reconcileNormal ref_pkg ref_controllerutil ref_telemetry_api ref_telemetry)
      \<lparr>inst = ref_telemetry, world = []\<rparr> = ((Result0, None), s')"
    using ref_telemetry_run by (auto simp: map_prod_def split: prod.splits)
  then show ?thesis
    using telemetry_normal_mirrors_children [OF ref.condition_laws_axioms run]
    by (auto simp: ref_telemetry_def ref_TelemetrySpec_def)
qed

text \<open>A store that keeps its objects in a list.\<close>

definition ref_find :: "('sp, 'st) CR list \<Rightarrow> NamespacedName \<Rightarrow> ('sp, 'st) CR option" where
  "ref_find w key = List.find (\<lambda>o'. ObjectKeyFromObject (Meta o') = key) w"

definition ref_store :: "(('sp, 'st) CR, ('sp, 'st) CR list) kind_client" where
  "ref_store = \<lparr>
     kc_Get = (\<lambda>key. State (\<lambda>w. (case ref_find w key of None \<Rightarrow> Inl ref_NotFound | Some o' \<Rightarrow> Inr o', w))),
     kc_Delete = (\<lambda>obj. State (\<lambda>w.
       (None, filter (\<lambda>o'. ObjectKeyFromObject (Meta o') \<noteq> ObjectKeyFromObject (Meta obj)) w))),
     kc_CreateOrPatch = (\<lambda>obj f. State (\<lambda>w. case f obj of Inl e \<Rightarrow> (Inl e, w) | Inr o' \<Rightarrow> (Inr o', o' # w)))\<rparr>"

lemma ref_find_filter:
  "ref_find (filter (\<lambda>o'. ObjectKeyFromObject (Meta o') \<noteq> key) w) key = None"
  by (induction w) (auto simp: ref_find_def)

lemma store_client_ref_store: "store_client ref_store ref_find"
  by (auto simp: store_client_def ref_store_def ref_find_filter split: option.splits)
    (auto simp: ref_find_def find_Some_iff)

theorem ensureDeleted_gone_witness:
  "let obj = ceilometer_child ref_telemetry :: ref_cond Ceilometer
   in store_client ref_store (ref_find :: ref_cond Ceilometer list \<Rightarrow> _) \<and>
      run_state (ensureDeleted ref_store obj) [obj] = ((Result0, None), []) \<and>
      gone (ref_find [] (ObjectKeyFromObject (Meta obj)) :: ref_cond Ceilometer option)"
proof -
  let ?obj = "ceilometer_child ref_telemetry :: ref_cond Ceilometer"
  have run: "run_state (ensureDeleted ref_store ?obj) [?obj] = ((Result0, None), [])"
    by (simp add: ensureDeleted_def ref_store_def ref_find_def ceilometer_child_def ObjectMeta_named_def)
  from ensureDeleted_gone [OF store_client_ref_store run] run show ?thesis
    by (simp add: store_client_ref_store Let_def)
qed

text \<open>
  The MetricStorage child takes the stacks that its section sets. A stack that the section does not
  set keeps the value the child has: removing \<open>customMonitoringStack\<close> or \<open>monitoringStack\<close> from the
  Telemetry resource does not remove it from the child.
\<close>

theorem metricstorage_section_cannot_be_unset:
  "pred_sum (\<lambda>_. True) (\<lambda>m. Status m = Status me \<and>
      mt_CustomMonitoringStack (Spec m) = (case mt_CustomMonitoringStack (mse_MetricStorageSpec (te_MetricStorage (Spec i))) of
          None \<Rightarrow> mt_CustomMonitoringStack (Spec me) | Some c \<Rightarrow> Some c) \<and>
      mt_MonitoringStack (Spec m) = (case mt_MonitoringStack (mse_MetricStorageSpec (te_MetricStorage (Spec i))) of
          None \<Rightarrow> mt_MonitoringStack (Spec me) | Some c \<Rightarrow> Some c))
    (mutate_metricstorage U before i me)"
  by (auto simp: mutate_metricstorage_def Let_def split: option.splits sum.splits)

text \<open>
  When a Telemetry resource that has been initialised is being deleted, \<open>Reconcile\<close> removes its own
  finalizer in the instance it patches and makes no other call: no child is touched.
\<close>

theorem telemetry_delete_releases:
  assumes "finalizer_laws U"
    and "run_state (Get_instance A req) w = (Inr i, w1)" and "NewHelper A i = None"
    and "m_DeletionTimestamp (Meta i) \<noteq> None" and "Conditions (Status i) \<noteq> None"
  shows "\<exists>i'. run_state (Telemetry_Reconcile CL U A req) w =
      run_state (patch_and_report A True i i' (Return (Result0, None))) w1 \<and>
    m_Finalizers (Meta i') = filter (\<lambda>f. f \<noteq> GetFinalizer A) (m_Finalizers (Meta i)) \<and>
    Spec i' = Spec i"
proof -
  have ready: "meta_ready U A i" using assms by (simp add: meta_ready_def)
  obtain s where "run_state (Telemetry_work CL U A i) \<lparr>inst = i, world = w1\<rparr> = (Return (Result0, None), s)"
    and s: "world s = w1" "m_Finalizers (Meta (inst s)) = filter (\<lambda>f. f \<noteq> GetFinalizer A) (m_Finalizers (Meta i))"
      "Spec (inst s) = Spec i"
    using assms(4) finalizer_laws.RemoveFinalizer [OF assms(1)]
    by (simp add: Telemetry_work_def Telemetry_reconcileInit_def Telemetry_reconcileDelete_def
        remove_finalizer_def)
  then have body: "run_state (reconcile_body CL U A (Telemetry_conditions CL) (Telemetry_work CL U A i))
      \<lparr>inst = i, world = w1\<rparr> = (Return (Result0, None), s)"
    using tel.body_work [OF ready assms(5)] by simp
  show ?thesis
    using tel.exit [OF assms(2,3) body] s body by (auto simp: reconciled_def)
qed

definition ref_telemetry_at :: "ref_cond Telemetry \<Rightarrow> (ref_cond, string list) telemetry_api" where
  "ref_telemetry_at i = ref_telemetry_api\<lparr>Get_instance := \<lambda>_. ref_log ''get telemetry'' (Inr i)\<rparr>"

definition ref_telemetry_terminating :: "ref_cond Telemetry" where
  "ref_telemetry_terminating = ref_telemetry\<lparr>Meta := (Meta ref_telemetry)
     \<lparr>m_DeletionTimestamp := Some 1, m_Finalizers := [''telemetry'']\<rparr>\<rparr>"

theorem telemetry_delete_releases_witness:
  "\<exists>i'. run_state (Telemetry_Reconcile ref_pkg ref_controllerutil (ref_telemetry_at ref_telemetry_terminating)
        \<lparr>nn_Namespace = ''openstack'', nn_Name = ''telemetry''\<rparr>) [] =
      run_state (patch_and_report (ref_telemetry_at ref_telemetry_terminating) True ref_telemetry_terminating i'
        (Return (Result0, None))) [''get telemetry''] \<and> m_Finalizers (Meta i') = []"
proof -
  have get: "run_state (Get_instance (ref_telemetry_at ref_telemetry_terminating)
        \<lparr>nn_Namespace = ''openstack'', nn_Name = ''telemetry''\<rparr>) [] = (Inr ref_telemetry_terminating, [''get telemetry''])"
    and "NewHelper (ref_telemetry_at ref_telemetry_terminating) ref_telemetry_terminating = None"
    and "m_DeletionTimestamp (Meta ref_telemetry_terminating) \<noteq> None"
    and "Conditions (Status ref_telemetry_terminating) \<noteq> None"
    by (simp_all add: ref_telemetry_at_def ref_telemetry_api_def ref_log_def ref_telemetry_terminating_def ref_telemetry_def)
  note del = telemetry_delete_releases [OF ref_util.finalizer_laws_axioms this, of ref_pkg]
  have "filter (\<lambda>f. f \<noteq> GetFinalizer (ref_telemetry_at ref_telemetry_terminating))
      (m_Finalizers (Meta ref_telemetry_terminating)) = []"
    by (simp add: ref_telemetry_terminating_def ref_telemetry_at_def ref_telemetry_api_def)
  with del show ?thesis by metis
qed

text \<open>
  C28: The first \<open>Reconcile\<close> of a fresh Telemetry resource stores the finalizer and Ready=True, before
  any child exists: the early return after \<open>AddFinalizer\<close> runs the deferred function on conditions that
  are still nil. No other condition is stored, and the next \<open>Reconcile\<close> of the stored resource does not
  initialise the conditions any more.
\<close>

theorem telemetry_fresh_reported_ready:
  assumes "condition_laws CL Has ct tr" and "finalizer_laws U"
    and "run_state (Get_instance A req) w = (Inr i, w1)" and "NewHelper A i = None"
    and "m_DeletionTimestamp (Meta i) = None" and "GetFinalizer A \<notin> set (m_Finalizers (Meta i))"
    and "Conditions (Status i) = None"
  shows "\<exists>i'. run_state (Telemetry_Reconcile CL U A req) w =
        run_state (patch_and_report A True i i' (Return (Result0, None))) w1 \<and>
      Telemetry_IsReady CL i' \<and> (\<forall>t. Has (Conditions (Status i')) t \<longleftrightarrow> t = ReadyCondition) \<and>
      (\<forall>w2. run_state (reconcile_body CL U A (Telemetry_conditions CL) (Telemetry_work CL U A i'))
          \<lparr>inst = i', world = w2\<rparr> = run_state (Telemetry_work CL U A i') \<lparr>inst = i', world = w2\<rparr>)"
  unfolding Telemetry_IsReady_def using tel.fresh [OF assms] by blast

definition ref_telemetry_fresh :: "ref_cond Telemetry" where
  "ref_telemetry_fresh = ref_telemetry\<lparr>Status := \<lparr>Conditions = None, Hash = None\<rparr>\<rparr>"

theorem telemetry_fresh_reported_ready_witness:
  "\<exists>i'. run_state (Telemetry_Reconcile ref_pkg ref_controllerutil (ref_telemetry_at ref_telemetry_fresh)
        \<lparr>nn_Namespace = ''openstack'', nn_Name = ''telemetry''\<rparr>) [] =
      run_state (patch_and_report (ref_telemetry_at ref_telemetry_fresh) True ref_telemetry_fresh i'
        (Return (Result0, None))) [''get telemetry''] \<and> Telemetry_IsReady ref_pkg i'"
proof -
  have "run_state (Get_instance (ref_telemetry_at ref_telemetry_fresh)
        \<lparr>nn_Namespace = ''openstack'', nn_Name = ''telemetry''\<rparr>) [] = (Inr ref_telemetry_fresh, [''get telemetry''])"
    and "NewHelper (ref_telemetry_at ref_telemetry_fresh) ref_telemetry_fresh = None"
    and "m_DeletionTimestamp (Meta ref_telemetry_fresh) = None"
    and "GetFinalizer (ref_telemetry_at ref_telemetry_fresh) \<notin> set (m_Finalizers (Meta ref_telemetry_fresh))"
    and "Conditions (Status ref_telemetry_fresh) = None"
    by (simp_all add: ref_telemetry_at_def ref_telemetry_api_def ref_log_def ref_telemetry_fresh_def
        ref_telemetry_def ObjectMeta_named_def)
  from telemetry_fresh_reported_ready [OF ref.condition_laws_axioms ref_util.finalizer_laws_axioms this]
  show ?thesis by blast
qed

end
