(* ===== verification/Teardown.thy ===== *)
theory Teardown
  imports Convergence Telemetry_Controller
begin

text \<open>
  Disabling a section of the Telemetry resource: the Telemetry controller deletes the child, which stays until
  the controller of the child has released it. The two controllers meet only in the API server. The locale
  \<open>teardown\<close> shows, for any interleaving of their passes, that the child is gone for good after one pass of the
  Telemetry controller and then two of its own.
\<close>

section \<open>The API server\<close>

text \<open>
  The client for the children of one kind, with \<open>look\<close> for what is stored under \<open>key\<close> and \<open>frame\<close> for the rest
  that matters: \<open>Get\<close> reads, \<open>Delete\<close> removes the object or marks it as terminating, \<open>CreateOrPatch\<close> fails
  only if the mutate function does, and each call leaves the rest alone.
\<close>

definition serves :: "(('sp, 'st) CR, 'w) kind_client \<Rightarrow> NamespacedName \<Rightarrow> ('w \<Rightarrow> ('sp, 'st) CR option) \<Rightarrow> ('w \<Rightarrow> 'f) \<Rightarrow> bool" where
  "serves K key look frame \<longleftrightarrow>
    (\<forall>w o'. look w = Some o' \<longrightarrow> run_state (kc_Get K key) w = (Inr o', w)) \<and>
    (\<forall>w. look w = None \<longrightarrow> (\<exists>e. run_state (kc_Get K key) w = (Inl e, w) \<and> IsNotFound e)) \<and>
    (\<forall>w o'. look w = Some o' \<longrightarrow> (\<exists>w'. run_state (kc_Delete K o') w = (None, w') \<and> frame w' = frame w \<and>
       (look w' = None \<or> (\<exists>t. look w' = Some (o'\<lparr>Meta := (Meta o')\<lparr>m_DeletionTimestamp := Some t\<rparr>\<rparr>))))) \<and>
    (\<forall>o' f w. (\<forall>x. \<exists>y. f x = Inr y) \<longrightarrow> (\<exists>y w'. run_state (kc_CreateOrPatch K o' f) w = (Inr y, w') \<and> frame w' = frame w))"

text \<open>
  The client of the controller of the child: a patch that leaves a terminating object without finalizers
  removes it. What the patch answers then is left open.
\<close>

definition reaps :: "(('sp, 'st) CR, 'w, 'x) crapi_scheme \<Rightarrow> NamespacedName \<Rightarrow> ('w \<Rightarrow> ('sp, 'st) CR option) \<Rightarrow> ('w \<Rightarrow> 'f) \<Rightarrow> bool" where
  "reaps A req look frame \<longleftrightarrow> (\<forall>k. NewHelper A k = None) \<and>
    (\<forall>w k. look w = Some k \<longrightarrow> run_state (Get_instance A req) w = (Inr k, w)) \<and>
    (\<forall>w. look w = None \<longrightarrow> (\<exists>e. run_state (Get_instance A req) w = (Inl e, w) \<and> IsNotFound e)) \<and>
    (\<forall>w k k'. look w = Some k \<longrightarrow> m_DeletionTimestamp (Meta k') = m_DeletionTimestamp (Meta k) \<longrightarrow>
      m_DeletionTimestamp (Meta k) \<noteq> None \<longrightarrow>
      frame (snd (run_state (PatchInstance A k k') w)) = frame w \<and>
      look (snd (run_state (PatchInstance A k k') w)) = (if m_Finalizers (Meta k') = [] then None else Some k'))"

text \<open>What \<open>ensureDeleted\<close> makes of a stored child.\<close>

definition dropped :: "('sp, 'st) CR option \<Rightarrow> ('sp, 'st) CR option \<Rightarrow> bool" where
  "dropped x y \<longleftrightarrow> gone y \<and> (gone x \<longrightarrow> y = x) \<and>
     (\<forall>k. y = Some k \<longrightarrow> x \<noteq> None \<and> m_Finalizers (Meta k) = m_Finalizers (Meta (the x)))"

section \<open>A pass of the Telemetry controller\<close>

definition succeeds :: "('w, error + 'a) state \<Rightarrow> ('w \<Rightarrow> 'w \<Rightarrow> bool) \<Rightarrow> bool" where
  "succeeds m R \<longleftrightarrow> (\<forall>w. \<exists>a w'. run_state m w = (Inr a, w') \<and> R w w')"

lemma ensureDeleted_drops:
  assumes "serves K (ObjectKeyFromObject (Meta obj)) look frame"
  shows "\<exists>w'. run_state (ensureDeleted K obj) w = ((Result0, None), w') \<and> frame w' = frame w \<and> dropped (look w) (look w')"
proof (cases "look w")
  case None
  then obtain e where "run_state (kc_Get K (ObjectKeyFromObject (Meta obj))) w = (Inl e, w)" "IsNotFound e"
    using assms unfolding serves_def by blast
  with None show ?thesis by (simp add: ensureDeleted_def dropped_def)
next
  case (Some k)
  then have get: "run_state (kc_Get K (ObjectKeyFromObject (Meta obj))) w = (Inr k, w)"
    using assms by (simp add: serves_def)
  obtain w' where "run_state (kc_Delete K k) w = (None, w')" "frame w' = frame w"
    "look w' = None \<or> (\<exists>t. look w' = Some (k\<lparr>Meta := (Meta k)\<lparr>m_DeletionTimestamp := Some t\<rparr>\<rparr>))"
    using assms Some unfolding serves_def by blast
  with Some get show ?thesis by (auto simp: ensureDeleted_def dropped_def)
qed

lemma child_call_drops:
  assumes "serves K (ObjectKeyFromObject (Meta obj)) look frame"
  shows "succeeds (child_call False (ensureDeleted K obj) patch ready) (\<lambda>w w'. frame w' = frame w \<and> dropped (look w) (look w'))"
  unfolding succeeds_def
proof
  fix w
  show "\<exists>a w'. run_state (child_call False (ensureDeleted K obj) patch ready) w = (Inr a, w') \<and> frame w' = frame w \<and> dropped (look w) (look w')"
    using ensureDeleted_drops [OF assms, of w] by (auto simp: child_call_def)
qed

lemma child_call_keeps:
  assumes serves: "serves K (ObjectKeyFromObject (Meta obj)) look frame" and f: "\<And>x. \<exists>y. f x = Inr y"
  shows "succeeds (child_call enabled (ensureDeleted K obj) (kc_CreateOrPatch K obj f) ready) (\<lambda>w w'. frame w' = frame w)"
proof (cases enabled)
  case True
  have "\<exists>y w'. run_state (kc_CreateOrPatch K obj f) w = (Inr y, w') \<and> frame w' = frame w" for w
    using serves f unfolding serves_def by blast
  then show ?thesis unfolding succeeds_def by (auto simp: child_call_def True) (metis case_prod_conv sum.case(2))
next
  case False
  with child_call_drops [OF serves] show ?thesis by (simp add: succeeds_def) blast
qed

text \<open>
  The API server for the Telemetry controller: \<open>tel\<close> is the stored Telemetry, the children are in the namespace
  \<open>ns\<close>. The calls on one object leave the others alone.
\<close>

definition telemetry_server :: "('c, 'w) telemetry_api \<Rightarrow> NamespacedName \<Rightarrow> string \<Rightarrow> ('w \<Rightarrow> 'c Telemetry option)
    \<Rightarrow> ('w \<Rightarrow> 'c Autoscaling option) \<Rightarrow> ('w \<Rightarrow> 'c Ceilometer option) \<Rightarrow> ('w \<Rightarrow> 'c MetricStorage option) \<Rightarrow> bool" where
  "telemetry_server A req ns tel a c m \<longleftrightarrow> stores_instance A req tel \<and>
    (\<forall>before i w. let w' = snd (run_state (PatchInstance A before i) w) in a w' = a w \<and> c w' = c w \<and> m w' = m w) \<and>
    serves (autoscalings A) \<lparr>nn_Namespace = ns, nn_Name = ''autoscaling''\<rparr> a (\<lambda>w. (tel w, c w, m w)) \<and>
    serves (ceilometers A) \<lparr>nn_Namespace = ns, nn_Name = ceilometer_ServiceName\<rparr> c (\<lambda>w. (tel w, a w, m w)) \<and>
    serves (metricstorages A) \<lparr>nn_Namespace = ns, nn_Name = metricstorage_DefaultServiceName\<rparr> m (\<lambda>w. (tel w, a w, c w))"

text \<open>The stored Telemetry has been initialised and has the section turned off.\<close>

definition section_off :: "controllerutil \<Rightarrow> ('c, 'w) telemetry_api \<Rightarrow> string \<Rightarrow> ('c Telemetry \<Rightarrow> bool)
    \<Rightarrow> ('w \<Rightarrow> 'c Telemetry option) \<Rightarrow> 'w \<Rightarrow> bool" where
  "section_off U A ns enabled tel w \<longleftrightarrow>
     (\<exists>i. tel w = Some i \<and> settled U A i \<and> m_Namespace (Meta i) = ns \<and> \<not> enabled i)"


lemma child_calls_with_hash:
  "autoscaling_call CL U A i (with_hash j) = autoscaling_call CL U A i j"
  "ceilometer_call CL U A i (with_hash j) = ceilometer_call CL U A i j"
  "metricstorage_call CL U A i (with_hash j) = metricstorage_call CL U A i j"
  unfolding ceilometer_call_def autoscaling_call_def metricstorage_call_def ceilometer_child_def autoscaling_child_def
    metricstorage_child_def mutate_ceilometer_def [abs_def] mutate_autoscaling_def [abs_def] mutate_metricstorage_def [abs_def] with_hash_simps
  by (rule refl)+

text \<open>A pass over an initialised Telemetry whose three calls succeed, and what they do to the cluster.\<close>

lemma telemetry_pass:
  assumes server: "telemetry_server A req ns tel a c m" and i: "tel w = Some i" "settled U A i"
    and calls: "succeeds (autoscaling_call CL U A i i) R1" "succeeds (ceilometer_call CL U A i i) R2" "succeeds (metricstorage_call CL U A i i) R3"
    and laws: "condition_laws CL Has ct tr"
  obtains w1 w2 w3 w' i' where "run_state (Telemetry_Reconcile CL U A req) w = (Return (Result0, None), w')"
    "R1 w w1" "R2 w1 w2" "R3 w2 w3" "a w' = a w3" "c w' = c w3" "m w' = m w3"
    "tel w' = Some i'" "settled U A i'" "Meta i' = Meta i" "Spec i' = Spec i"
proof -
  have store: "stores_instance A req tel"
    and keep: "\<And>before i w. let w' = snd (run_state (PatchInstance A before i) w) in a w' = a w \<and> c w' = c w \<and> m w' = m w"
    using server by (simp_all add: telemetry_server_def)
  obtain x1 w1 where r1: "run_state (autoscaling_call CL U A i i) w = (Inr x1, w1)" "R1 w w1"
    using calls(1) unfolding succeeds_def by blast
  obtain x2 w2 where r2: "run_state (ceilometer_call CL U A i i) w1 = (Inr x2, w2)" "R2 w1 w2"
    using calls(2) unfolding succeeds_def by blast
  obtain x3 w3 where r3: "run_state (metricstorage_call CL U A i i) w2 = (Inr x3, w3)" "R3 w2 w3"
    using calls(3) unfolding succeeds_def by blast
  obtain j where work: "run_state (Telemetry_work CL U A i) \<lparr>inst = i, world = w\<rparr> = (Return (Result0, None), \<lparr>inst = j, world = w3\<rparr>)"
    and j: "Meta j = Meta i" "Spec j = Spec i"
    using telemetry_normal_ok [of CL U A i "with_hash i", unfolded child_calls_with_hash, OF r1(1) r2(1) r3(1)] i(2)
    by (simp add: Telemetry_work_def Telemetry_reconcileInit_def settled_def)
  have get: "run_state (Get_instance A req) w = (Inr i, w)" "NewHelper A i = None"
    using store i(1) by (simp_all add: stores_instance_def)
  have body: "run_state (reconcile_body CL U A (Telemetry_conditions CL) (Telemetry_work CL U A i)) \<lparr>inst = i, world = w\<rparr> =
      (Return (Result0, None), \<lparr>inst = j, world = w3\<rparr>)"
    using tel.body_work [OF settled_meta_ready [OF i(2)]] i(2) work by (simp add: settled_def)
  let ?j = "cmap (update_ready CL) j"
  obtain w' where patch: "run_state (PatchInstance A i ?j) w3 = (None, w')" "tel w' = Some ?j"
    using store unfolding stores_instance_def by blast
  have run: "run_state (Telemetry_Reconcile CL U A req) w = (Return (Result0, None), w')"
    using tel.exit [OF get body] body patch(1) by (simp add: reconciled_def patch_and_report_def)
  have "settled U A ?j"
    by (rule settled_cong [OF _ _ i(2)]) (simp_all add: j condition_laws.update_ready_not_nil [OF laws] del: not_None_eq)
  with run r1(2) r2(2) r3(2) keep [of i ?j w3] patch j show thesis
    by (intro that [of w' w1 w2 w3 ?j]) (simp_all add: Let_def)
qed


text \<open>The owner reference can be set, so no mutate function refuses.\<close>

lemma mutate_total:
  assumes "\<And>kind o' m. \<exists>m'. SetControllerReference U kind o' m = Inr m'"
  shows "\<exists>y. mutate_ceilometer U before i x = Inr y" "\<exists>y. mutate_autoscaling U before i x' = Inr y"
    "\<exists>y. mutate_metricstorage U before i x'' = Inr y"
proof -
  obtain m where m: "SetControllerReference U kind o' x = Inr (m kind o' x)" for kind o' x using assms by metis
  show "\<exists>y. mutate_ceilometer U before i x = Inr y" "\<exists>y. mutate_autoscaling U before i x' = Inr y"
    "\<exists>y. mutate_metricstorage U before i x'' = Inr y"
    by (simp_all add: mutate_ceilometer_def mutate_autoscaling_def mutate_metricstorage_def Let_def m)
qed

lemma child_keys:
  "ObjectKeyFromObject (Meta (ceilometer_child i)) = \<lparr>nn_Namespace = m_Namespace (Meta i), nn_Name = ceilometer_ServiceName\<rparr>"
  "ObjectKeyFromObject (Meta (autoscaling_child i)) = \<lparr>nn_Namespace = m_Namespace (Meta i), nn_Name = ''autoscaling''\<rparr>"
  "ObjectKeyFromObject (Meta (metricstorage_child i)) = \<lparr>nn_Namespace = m_Namespace (Meta i), nn_Name = metricstorage_DefaultServiceName\<rparr>"
  by (simp_all add: ObjectKeyFromObject_def ceilometer_child_def autoscaling_child_def metricstorage_child_def ObjectMeta_named_def)

lemma server_children:
  assumes "telemetry_server A req ns tel a c m" and "m_Namespace (Meta i) = ns"
  shows "serves (autoscalings A) (ObjectKeyFromObject (Meta (autoscaling_child i))) a (\<lambda>w. (tel w, c w, m w))"
    and "serves (ceilometers A) (ObjectKeyFromObject (Meta (ceilometer_child i))) c (\<lambda>w. (tel w, a w, m w))"
    and "serves (metricstorages A) (ObjectKeyFromObject (Meta (metricstorage_child i))) m (\<lambda>w. (tel w, a w, c w))"
  using assms by (simp_all add: telemetry_server_def child_keys)

text \<open>Each call leaves the Telemetry and the children of the other sections alone, and drops the child of a section that is off.\<close>

lemma calls_frame:
  assumes server: "telemetry_server A req ns tel a c m" and ns: "m_Namespace (Meta i) = ns"
    and ref: "\<And>kind o' m. \<exists>m'. SetControllerReference U kind o' m = Inr m'"
  shows "succeeds (autoscaling_call CL U A i i) (\<lambda>w w'. (tel w', c w', m w') = (tel w, c w, m w))"
    and "succeeds (ceilometer_call CL U A i i) (\<lambda>w w'. (tel w', a w', m w') = (tel w, a w, m w))"
    and "succeeds (metricstorage_call CL U A i i) (\<lambda>w w'. (tel w', a w', c w') = (tel w, a w, c w))"
  unfolding autoscaling_call_def ceilometer_call_def metricstorage_call_def
  by (rule child_call_keeps [OF server_children(1) [OF server ns] mutate_total(2) [OF ref]]
      child_call_keeps [OF server_children(2) [OF server ns] mutate_total(1) [OF ref]]
      child_call_keeps [OF server_children(3) [OF server ns] mutate_total(3) [OF ref]])+

lemma calls_drop:
  assumes server: "telemetry_server A req ns tel a c m" and ns: "m_Namespace (Meta i) = ns"
  shows "\<not> autoscaling_enabled i \<Longrightarrow> succeeds (autoscaling_call CL U A i i)
      (\<lambda>w w'. (tel w', c w', m w') = (tel w, c w, m w) \<and> dropped (a w) (a w'))"
    and "\<not> ceilometer_enabled i \<Longrightarrow> succeeds (ceilometer_call CL U A i i)
      (\<lambda>w w'. (tel w', a w', m w') = (tel w, a w, m w) \<and> dropped (c w) (c w'))"
    and "\<not> metricstorage_enabled i \<Longrightarrow> succeeds (metricstorage_call CL U A i i)
      (\<lambda>w w'. (tel w', a w', c w') = (tel w, a w, c w) \<and> dropped (m w) (m w'))"
  using server_children [OF server ns, THEN child_call_drops]
  by (simp_all add: autoscaling_call_def ceilometer_call_def metricstorage_call_def)

lemma telemetry_drops:
  assumes laws: "condition_laws CL Has ct tr" and server: "telemetry_server A req ns tel a c m"
    and ref: "\<And>kind o' m. \<exists>m'. SetControllerReference U kind o' m = Inr m'"
  defines "after \<equiv> \<lambda>w. snd (run_state (Telemetry_Reconcile CL U A req) w)"
  shows "section_off U A ns autoscaling_enabled tel w \<Longrightarrow>
      section_off U A ns autoscaling_enabled tel (after w) \<and> dropped (a w) (a (after w))"
    and "section_off U A ns ceilometer_enabled tel w \<Longrightarrow>
      section_off U A ns ceilometer_enabled tel (after w) \<and> dropped (c w) (c (after w))"
    and "section_off U A ns metricstorage_enabled tel w \<Longrightarrow>
      section_off U A ns metricstorage_enabled tel (after w) \<and> dropped (m w) (m (after w))"
proof -
  note frame = calls_frame [OF server _ ref] and drop = calls_drop [OF server]
  show "section_off U A ns autoscaling_enabled tel (after w) \<and> dropped (a w) (a (after w))"
    if off: "section_off U A ns autoscaling_enabled tel w"
  proof -
    obtain i where i: "tel w = Some i" "settled U A i" "m_Namespace (Meta i) = ns" "\<not> autoscaling_enabled i"
      using off by (auto simp: section_off_def)
    show ?thesis
      by (rule telemetry_pass [OF server i(1,2) drop(1) [OF i(3,4)] frame(2,3) [OF i(3)] laws])
        (use i in \<open>simp add: after_def section_off_def\<close>)
  qed
  show "section_off U A ns ceilometer_enabled tel (after w) \<and> dropped (c w) (c (after w))"
    if off: "section_off U A ns ceilometer_enabled tel w"
  proof -
    obtain i where i: "tel w = Some i" "settled U A i" "m_Namespace (Meta i) = ns" "\<not> ceilometer_enabled i"
      using off by (auto simp: section_off_def)
    show ?thesis
      by (rule telemetry_pass [OF server i(1,2) frame(1) [OF i(3)] drop(2) [OF i(3,4)] frame(3) [OF i(3)] laws])
        (use i in \<open>simp add: after_def section_off_def\<close>)
  qed
  show "section_off U A ns metricstorage_enabled tel (after w) \<and> dropped (m w) (m (after w))"
    if off: "section_off U A ns metricstorage_enabled tel w"
  proof -
    obtain i where i: "tel w = Some i" "settled U A i" "m_Namespace (Meta i) = ns" "\<not> metricstorage_enabled i"
      using off by (auto simp: section_off_def)
    show ?thesis
      by (rule telemetry_pass [OF server i(1,2) frame(1,2) [OF i(3)] drop(3) [OF i(3,4)] laws])
        (use i in \<open>simp add: after_def section_off_def\<close>)
  qed
qed


section \<open>The two controllers\<close>

text \<open>
  A schedule: passes of the Telemetry controller and of the controller of the child in any order, and between
  them changes by others that leave the child alone and the section turned off.
\<close>

datatype actor = Tel | Kid | Others

inductive schedule :: "('w, 'a) state \<Rightarrow> ('w, 'b) state \<Rightarrow> ('w \<Rightarrow> bool) \<Rightarrow> ('w \<Rightarrow> 'k) \<Rightarrow> actor list \<Rightarrow> 'w \<Rightarrow> 'w \<Rightarrow> bool"
  for tel_pass kid_pass off kid where
  finished: "schedule tel_pass kid_pass off kid [] w w"
| tel_step: "run_state tel_pass w = (out, v) \<Longrightarrow> schedule tel_pass kid_pass off kid es v w' \<Longrightarrow>
    schedule tel_pass kid_pass off kid (Tel # es) w w'"
| kid_step: "run_state kid_pass w = (out', v) \<Longrightarrow> schedule tel_pass kid_pass off kid es v w' \<Longrightarrow>
    schedule tel_pass kid_pass off kid (Kid # es) w w'"
| others_step: "off v \<Longrightarrow> kid v = kid w \<Longrightarrow> schedule tel_pass kid_pass off kid es v w' \<Longrightarrow>
    schedule tel_pass kid_pass off kid (Others # es) w w'"

inductive_cases schedule_telE: "schedule tel_pass kid_pass off kid (Tel # es) w w'"

text \<open>The finalizer that the controller of the child has set is the only one.\<close>

definition held_by :: "string \<Rightarrow> ('sp, 'st) CR option \<Rightarrow> bool" where
  "held_by f x \<longleftrightarrow> pred_option (\<lambda>k. set (m_Finalizers (Meta k)) \<subseteq> {f}) x"

text \<open>The passes of its controller that a terminating child still needs: one more when its conditions are not initialised.\<close>

definition remaining :: "('sp, ('c, 'z) StatusBase_scheme) CR option \<Rightarrow> nat" where
  "remaining x = (case x of None \<Rightarrow> 0 | Some k \<Rightarrow> if Conditions (Status k) = None then 2 else 1)"

lemma remaining_simps [simp]:
  "remaining None = 0" "remaining (Some k) = (if Conditions (Status k) = None then 2 else 1)"
  by (simp_all add: remaining_def)

lemma remaining_bound: "remaining x \<le> 2"
  by (cases x) simp_all

lemma remaining_0: "remaining x = 0 \<longleftrightarrow> x = None"
  by (cases x) auto

text \<open>
  Tearing down ends: from a state where the section is off and nobody else holds the child, every schedule that
  starts with a pass of the Telemetry controller and has two of the controller of the child can be run, and it
  ends without the child, wherever the passes are and whatever follows them.
\<close>

definition tears_down :: "('w, 'a) state \<Rightarrow> ('w, 'b) state \<Rightarrow> ('w \<Rightarrow> bool) \<Rightarrow> ('w \<Rightarrow> ('sp, 'st) CR option) \<Rightarrow> string \<Rightarrow> bool" where
  "tears_down tel_pass kid_pass off kid f \<longleftrightarrow> (\<forall>w es. off w \<longrightarrow> held_by f (kid w) \<longrightarrow> 2 \<le> count_list es Kid \<longrightarrow>
     (\<exists>w'. schedule tel_pass kid_pass off kid (Tel # es) w w') \<and>
     (\<forall>w'. schedule tel_pass kid_pass off kid (Tel # es) w w' \<longrightarrow> kid w' = None))"

text \<open>The work over a terminating child \<open>k\<close> releases it and leaves the rest alone.\<close>

definition releases :: "string \<Rightarrow> ((('sp, 'st) CR, 'w) handler, 'a) state \<Rightarrow> ('w \<Rightarrow> 'f) \<Rightarrow> ('sp, 'st) CR \<Rightarrow> bool" where
  "releases f work frame k \<longleftrightarrow> (\<forall>w. let s = snd (run_state work \<lparr>inst = k, world = w\<rparr>) in frame (world s) = frame w \<and>
     Meta (inst s) = (Meta k)\<lparr>m_Finalizers := filter (\<lambda>g. g \<noteq> f) (m_Finalizers (Meta k))\<rparr>)"

text \<open>What holds from the first pass of the Telemetry controller on.\<close>

definition leaving :: "('w \<Rightarrow> bool) \<Rightarrow> ('w \<Rightarrow> ('sp, 'st) CR option) \<Rightarrow> string \<Rightarrow> 'w \<Rightarrow> bool" where
  "leaving off kid f w \<longleftrightarrow> off w \<and> gone (kid w) \<and> held_by f (kid w)"

locale teardown = reconciler Reconcile CL U A cl work named
  for Reconcile :: "NamespacedName \<Rightarrow> ('w, reconcile_result outcome) state"
    and CL :: "'c condition_pkg" and U :: controllerutil
    and A :: "(('sp, ('c, 'z) StatusBase_scheme) CR, 'w, 'x) crapi_scheme"
    and cl :: "'c list"
    and work :: "('sp, ('c, 'z) StatusBase_scheme) CR \<Rightarrow> ((('sp, ('c, 'z) StatusBase_scheme) CR, 'w) handler, reconcile_result outcome) state"
    and named :: bool +
  fixes Has :: "'c conditions \<Rightarrow> cond_Type \<Rightarrow> bool" and ct :: "'c \<Rightarrow> cond_Type" and tr :: "'c \<Rightarrow> bool"
    and tel_pass :: "('w, reconcile_result outcome) state" and req :: NamespacedName
    and off :: "'w \<Rightarrow> bool" and kid :: "'w \<Rightarrow> ('sp, ('c, 'z) StatusBase_scheme) CR option"
  assumes laws: "condition_laws CL Has ct tr" and server: "reaps A req kid off"
    and drops: "off w \<Longrightarrow> off (snd (run_state tel_pass w)) \<and> dropped (kid w) (kid (snd (run_state tel_pass w)))"
    and work: "m_DeletionTimestamp (Meta k) \<noteq> None \<Longrightarrow> releases (GetFinalizer A) (work k) (\<lambda>w. (off w, kid w)) k"
begin

lemma tel_leaves:
  assumes "off w" and "held_by (GetFinalizer A) (kid w)" and run: "run_state tel_pass w = (out, v)"
  shows "leaving off kid (GetFinalizer A) v" and "leaving off kid (GetFinalizer A) w \<Longrightarrow> kid v = kid w"
proof -
  have d: "off v" "dropped (kid w) (kid v)" using drops [OF assms(1)] run by simp_all
  then show "leaving off kid (GetFinalizer A) w \<Longrightarrow> kid v = kid w" by (simp add: leaving_def dropped_def)
  show "leaving off kid (GetFinalizer A) v" using d assms(2) by (cases "kid v") (auto simp: leaving_def dropped_def held_by_def)
qed

lemma body_leaving:
  assumes "kid w = Some k" and "m_DeletionTimestamp (Meta k) \<noteq> None" and "set (m_Finalizers (Meta k)) \<subseteq> {GetFinalizer A}"
  obtains out s where "run_state (reconcile_body CL U A cl (work k)) \<lparr>inst = k, world = w\<rparr> = (out, s)"
    "off (world s) = off w" "kid (world s) = kid w" "m_DeletionTimestamp (Meta (inst s)) = m_DeletionTimestamp (Meta k)"
    "if Conditions (Status k) = None then m_Finalizers (Meta (inst s)) = m_Finalizers (Meta k) else m_Finalizers (Meta (inst s)) = []"
proof -
  have ready: "meta_ready U A k" using assms(2) by (simp add: meta_ready_def)
  obtain out s where run: "run_state (reconcile_body CL U A cl (work k)) \<lparr>inst = k, world = w\<rparr> = (out, s)" by fastforce
  show thesis
  proof (cases "Conditions (Status k) = None")
    case True
    with body_init [OF ready True, of w] run show thesis by (intro that [OF run]) auto
  next
    case False
    have "filter (\<lambda>g. g \<noteq> GetFinalizer A) (m_Finalizers (Meta k)) = []"
      using assms(3) by (auto simp: filter_empty_conv)
    moreover have "run_state (work k) \<lparr>inst = k, world = w\<rparr> = (out, s)" using run body_work [OF ready False] by simp
    ultimately show thesis
      using False work [OF assms(2), unfolded releases_def, rule_format, of w] by (intro that [OF run]) (simp_all add: Let_def del: not_None_eq)
  qed
qed

lemma kid_leaves:
  assumes lv: "leaving off kid (GetFinalizer A) w" and run: "run_state (Reconcile req) w = (out, v)"
  shows "leaving off kid (GetFinalizer A) v \<and> remaining (kid v) \<le> remaining (kid w) - 1"
proof (cases "kid w")
  case None
  then obtain e where "run_state (Get_instance A req) w = (Inl e, w)" "IsNotFound e"
    using server unfolding reaps_def by blast
  then have "v = w" using not_found run by simp
  with lv None show ?thesis by simp
next
  case (Some k)
  have k: "m_DeletionTimestamp (Meta k) \<noteq> None" "set (m_Finalizers (Meta k)) \<subseteq> {GetFinalizer A}"
    using lv Some by (simp_all add: leaving_def held_by_def)
  have get: "run_state (Get_instance A req) w = (Inr k, w)" "NewHelper A k = None"
    using server Some unfolding reaps_def by blast+
  obtain out' s where body: "run_state (reconcile_body CL U A cl (work k)) \<lparr>inst = k, world = w\<rparr> = (out', s)"
    and s: "off (world s) = off w" "kid (world s) = kid w" "m_DeletionTimestamp (Meta (inst s)) = m_DeletionTimestamp (Meta k)"
      "if Conditions (Status k) = None then m_Finalizers (Meta (inst s)) = m_Finalizers (Meta k) else m_Finalizers (Meta (inst s)) = []"
    by (rule body_leaving [OF Some k])
  let ?k = "cmap (update_ready CL) (inst s)"
  have v: "v = snd (run_state (PatchInstance A k ?k) (world s))"
    using exit [OF get body] body run by (simp add: reconciled_def patch_and_report_def split: prod.splits)
  have "off v = off w" "kid v = (if m_Finalizers (Meta ?k) = [] then None else Some ?k)"
    using server s Some k(1) unfolding v reaps_def by simp_all
  then show ?thesis
    using lv s k Some condition_laws.update_ready_not_nil [OF laws]
    by (auto simp: leaving_def held_by_def split: if_splits)
qed

lemma schedule_leaves:
  "schedule tel_pass (Reconcile req) off kid es w w' \<Longrightarrow> leaving off kid (GetFinalizer A) w \<Longrightarrow>
     leaving off kid (GetFinalizer A) w' \<and> remaining (kid w') \<le> remaining (kid w) - count_list es Kid"
proof (induction rule: schedule.induct)
  case (tel_step w out v es w')
  then show ?case using tel_leaves [of w out v] by (auto simp: leaving_def)
next
  case (kid_step w out v es w')
  then show ?case using kid_leaves [of w out v] by (auto simp: leaving_def)
next
  case (others_step v w es w')
  then show ?case by (auto simp: leaving_def)
qed simp

lemma schedule_runs: "leaving off kid (GetFinalizer A) w \<Longrightarrow> \<exists>w'. schedule tel_pass (Reconcile req) off kid es w w'"
proof (induction es arbitrary: w)
  case Nil
  show ?case by (rule exI, rule schedule.finished)
next
  case (Cons e es)
  show ?case
  proof (cases e)
    case Tel
    obtain out v where v: "run_state tel_pass w = (out, v)" by fastforce
    have "leaving off kid (GetFinalizer A) v" using tel_leaves(1) [OF _ _ v] Cons.prems by (simp add: leaving_def)
    then obtain w' where "schedule tel_pass (Reconcile req) off kid es v w'" using Cons.IH by blast
    then show ?thesis unfolding Tel by (intro exI, rule schedule.tel_step [OF v])
  next
    case Kid
    obtain out v where v: "run_state (Reconcile req) w = (out, v)" by fastforce
    obtain w' where "schedule tel_pass (Reconcile req) off kid es v w'" using Cons.IH kid_leaves [OF Cons.prems v] by blast
    then show ?thesis unfolding Kid by (intro exI, rule schedule.kid_step [OF v])
  next
    case Others
    obtain w' where "schedule tel_pass (Reconcile req) off kid es w w'" using Cons by blast
    moreover have "off w" using Cons.prems by (simp add: leaving_def)
    ultimately show ?thesis unfolding Others by (intro exI, intro schedule.others_step) simp_all
  qed
qed

lemma torn_down: "tears_down tel_pass (Reconcile req) off kid (GetFinalizer A)"
  unfolding tears_down_def
proof (intro allI impI conjI)
  fix w es assume off: "off w" and held: "held_by (GetFinalizer A) (kid w)" and n: "2 \<le> count_list es Kid"
  obtain out v where v: "run_state tel_pass w = (out, v)" by fastforce
  note lv = tel_leaves(1) [OF off held v]
  show "\<exists>w'. schedule tel_pass (Reconcile req) off kid (Tel # es) w w'"
    using schedule_runs [OF lv, of es] by (elim exE) (intro exI, rule schedule.tel_step [OF v])
  fix w' assume "schedule tel_pass (Reconcile req) off kid (Tel # es) w w'"
  then have "schedule tel_pass (Reconcile req) off kid es v w'" using v by (auto elim: schedule_telE)
  then have "remaining (kid w') = 0"
    using schedule_leaves [OF _ lv] remaining_bound [of "kid v"] n by fastforce
  then show "kid w' = None" by (simp add: remaining_0)
qed

end

end
