(* ===== verification/Section_Teardown.thy ===== *)
theory Section_Teardown
  imports Teardown Ceilometer_Controller Autoscaling_Controller Metricstorage_Controller
begin

text \<open>
  The three sections of a Telemetry resource are torn down: the controllers of the children meet the contract
  of \<open>teardown\<close> when the objects they release answer.
\<close>

section \<open>The controllers of the children\<close>

text \<open>A call that finds its object or does not, and one that succeeds; both leave \<open>frame\<close> alone.\<close>

definition answers :: "('w \<Rightarrow> 'f) \<Rightarrow> ('w, error + 'm) state \<Rightarrow> bool" where
  "answers frame m \<longleftrightarrow> (\<forall>w. \<exists>got w'. run_state m w = (got, w') \<and> frame w' = frame w \<and> (\<forall>e. got = Inl e \<longrightarrow> IsNotFound e))"

definition accepts :: "('w \<Rightarrow> 'f) \<Rightarrow> ('w, error option) state \<Rightarrow> bool" where
  "accepts frame m \<longleftrightarrow> (\<forall>w. \<exists>w'. run_state m w = (None, w') \<and> frame w' = frame w)"

definition keystone_answers :: "('w \<Rightarrow> 'f) \<Rightarrow> ('c, 'w) platform \<Rightarrow> bool" where
  "keystone_answers frame P \<longleftrightarrow>
    (\<forall>name ns. answers frame (GetKeystoneServiceWithName P name ns)) \<and> (\<forall>m. accepts frame (Update_KeystoneService P m))"

definition aodh_answers :: "('w \<Rightarrow> 'f) \<Rightarrow> ('c, 's, 'w) autoscaling_api \<Rightarrow> bool" where
  "aodh_answers frame A \<longleftrightarrow>
    (\<forall>name ns. answers frame (GetDatabaseByName A name ns)) \<and> (\<forall>m. accepts frame (DB_DeleteFinalizer A m)) \<and>
    (\<forall>name ns. answers frame (GetKeystoneEndpointWithName A name ns)) \<and> (\<forall>m. accepts frame (Update_KeystoneEndpoint A m))"

lemma release_accepts:
  assumes "answers frame get_object" and "\<And>m. accepts frame (update_object m)"
  shows "accepts frame (release U f get_object update_object)"
  unfolding accepts_def
proof
  fix w
  obtain got v where got: "run_state get_object w = (got, v)" "frame v = frame w" "\<forall>e. got = Inl e \<longrightarrow> IsNotFound e"
    using assms(1) unfolding answers_def by blast
  have "\<exists>w'. run_state (update_object m) v = (None, w') \<and> frame w' = frame v" for m
    using assms(2) by (simp add: accepts_def)
  then obtain upd where "run_state (update_object m) v = (None, upd m)" "frame (upd m) = frame v" for m by metis
  with got show "\<exists>w'. run_state (release U f get_object update_object) w = (None, w') \<and> frame w' = frame w"
    by (cases got) (auto simp: release_def Let_def split: prod.splits)
qed

lemma Ceilometer_reconcileDelete_release:
  "Ceilometer_reconcileDelete U P A = do {
     instance' \<leftarrow> get_inst;
     err \<leftarrow> api (release U (GetFinalizer A) (GetKeystoneServiceWithName P ceilometer_ServiceName (m_Namespace (Meta instance'))) (Update_KeystoneService P));
     if err \<noteq> None then return (Result0, err) else do { remove_finalizer U A; return (Result0, None) }
   }"
  by (rule state_ext) (auto simp: Ceilometer_reconcileDelete_def release_def Let_def split: prod.splits sum.splits option.splits)

lemma ceilometer_releases:
  assumes fin: "finalizer_laws U" and ks: "keystone_answers frame P" and k: "m_DeletionTimestamp (Meta k) \<noteq> None"
  shows "releases (GetFinalizer A) (Ceilometer_work CL U L P A k) frame k"
  unfolding releases_def
proof
  fix w
  have "accepts frame (release U (GetFinalizer A) (GetKeystoneServiceWithName P ceilometer_ServiceName (m_Namespace (Meta k))) (Update_KeystoneService P))"
    using ks by (intro release_accepts) (simp_all add: keystone_answers_def)
  then obtain w' where "run_state (release U (GetFinalizer A) (GetKeystoneServiceWithName P ceilometer_ServiceName (m_Namespace (Meta k)))
      (Update_KeystoneService P)) w = (None, w')" "frame w' = frame w"
    unfolding accepts_def by blast
  then show "let s = snd (run_state (Ceilometer_work CL U L P A k) \<lparr>inst = k, world = w\<rparr>) in frame (world s) = frame w \<and>
      Meta (inst s) = (Meta k)\<lparr>m_Finalizers := filter (\<lambda>g. g \<noteq> GetFinalizer A) (m_Finalizers (Meta k))\<rparr>"
    using k by (simp add: Ceilometer_work_def Ceilometer_reconcileDelete_release remove_finalizer_def finalizer_laws.RemoveFinalizer [OF fin])
qed

lemma autoscaling_releases:
  assumes fin: "finalizer_laws U" and ks: "keystone_answers frame P" and ao: "aodh_answers frame A"
    and k: "m_DeletionTimestamp (Meta k) \<noteq> None"
  shows "releases (GetFinalizer A) (Autoscaling_work CL U L V P A visit k) frame k"
  unfolding releases_def
proof
  fix w
  let ?ns = "m_Namespace (Meta k)"
  let ?svc = "release U (GetFinalizer A) (GetKeystoneServiceWithName P autoscaling_ServiceName ?ns) (Update_KeystoneService P)"
  let ?ep = "release U (GetFinalizer A) (GetKeystoneEndpointWithName A autoscaling_ServiceName ?ns) (Update_KeystoneEndpoint A)"
  obtain got w1 where db: "run_state (GetDatabaseByName A autoscaling_ServiceName ?ns) w = (got, w1)" "frame w1 = frame w"
    "\<forall>e. got = Inl e \<longrightarrow> IsNotFound e"
    using ao unfolding aodh_answers_def answers_def by blast
  have "\<exists>w'. run_state (DB_DeleteFinalizer A d) w1 = (None, w') \<and> frame w' = frame w1" for d
    using ao unfolding aodh_answers_def accepts_def by blast
  then obtain w2 where db2: "case got of Inl _ \<Rightarrow> w2 = w1 | Inr d \<Rightarrow> run_state (DB_DeleteFinalizer A d) w1 = (None, w2)" "frame w2 = frame w1"
    by (cases got) (simp, simp, blast)
  have "accepts frame ?svc" "accepts frame ?ep"
    using ks ao by (auto intro!: release_accepts simp: keystone_answers_def aodh_answers_def)
  then obtain w3 w4 where "run_state ?svc w2 = (None, w3)" "frame w3 = frame w2" "run_state ?ep w3 = (None, w4)" "frame w4 = frame w3"
    unfolding accepts_def by metis
  with db db2 k show "let s = snd (run_state (Autoscaling_work CL U L V P A visit k) \<lparr>inst = k, world = w\<rparr>) in frame (world s) = frame w \<and>
      Meta (inst s) = (Meta k)\<lparr>m_Finalizers := filter (\<lambda>g. g \<noteq> GetFinalizer A) (m_Finalizers (Meta k))\<rparr>"
    by (cases got) (auto simp: Autoscaling_work_def Autoscaling_reconcileDelete_def reconcileDeleteAodh_def remove_finalizer_def Let_def
        finalizer_laws.RemoveFinalizer [OF fin])
qed

lemma metricstorage_releases:
  assumes fin: "finalizer_laws U" and k: "m_DeletionTimestamp (Meta k) \<noteq> None"
  shows "releases (GetFinalizer (ms_crapi A)) (MetricStorage_work CL U L A k) frame k"
  using k by (auto simp: releases_def MetricStorage_work_def MetricStorage_reconcileDelete_def remove_finalizer_def
      finalizer_laws.RemoveFinalizer [OF fin])


section \<open>The sections\<close>

text \<open>Whether a section is off is read from the stored Telemetry, so a call that leaves the Telemetry alone keeps it.\<close>

lemma reaps_frame:
  assumes "reaps A req look frame" and "\<And>w w'. frame w' = frame w \<Longrightarrow> frame' w' = frame' w"
  shows "reaps A req look frame'"
  using assms unfolding reaps_def by blast

lemma releases_frame:
  assumes "releases f work frame k" and "\<And>w w'. frame w' = frame w \<Longrightarrow> frame' w' = frame' w"
  shows "releases f work frame' k"
  using assms unfolding releases_def Let_def by blast

lemma keystone_answers_frame:
  assumes "keystone_answers frame P" and "\<And>w w'. frame w' = frame w \<Longrightarrow> frame' w' = frame' w"
  shows "keystone_answers frame' P"
  using assms unfolding keystone_answers_def answers_def accepts_def by metis

lemma section_off_tel: "tel w' = tel w \<Longrightarrow> section_off U A ns enabled tel w' = section_off U A ns enabled tel w"
  by (simp add: section_off_def)

text \<open>
  The cluster that the four controllers share: \<open>tel\<close>, \<open>a\<close>, \<open>c\<close>, \<open>m\<close> are the stored resources. It answers the
  Telemetry controller and the controllers of the children, and the calls on other objects leave it alone.
\<close>

definition shared_cluster :: "('c, 'w) telemetry_api \<Rightarrow> ('c, 's, 'w) autoscaling_api \<Rightarrow> ('c Ceilometer, 'w) crapi
    \<Rightarrow> ('c, 'w) metricstorage_api \<Rightarrow> ('c, 'w) platform \<Rightarrow> NamespacedName \<Rightarrow> string \<Rightarrow> ('w \<Rightarrow> 'c Telemetry option)
    \<Rightarrow> ('w \<Rightarrow> 'c Autoscaling option) \<Rightarrow> ('w \<Rightarrow> 'c Ceilometer option) \<Rightarrow> ('w \<Rightarrow> 'c MetricStorage option) \<Rightarrow> bool" where
  "shared_cluster At Aa Ac Am P req ns tel a c m \<longleftrightarrow> telemetry_server At req ns tel a c m \<and>
    reaps Aa \<lparr>nn_Namespace = ns, nn_Name = ''autoscaling''\<rparr> a tel \<and>
    reaps Ac \<lparr>nn_Namespace = ns, nn_Name = ceilometer_ServiceName\<rparr> c tel \<and>
    reaps Am \<lparr>nn_Namespace = ns, nn_Name = metricstorage_DefaultServiceName\<rparr> m tel \<and>
    keystone_answers (\<lambda>w. (tel w, a w, c w)) P \<and> aodh_answers (\<lambda>w. (tel w, a w)) Aa"

lemma reaps_on_cluster:
  assumes "reaps A req look frame"
  shows "reaps (ms_crapi A) req (\<lambda>w. look (cluster w)) (\<lambda>w. frame (cluster w))"
  unfolding reaps_def
proof (intro conjI allI impI)
  note laws = assms [unfolded reaps_def]
  show "NewHelper (ms_crapi A) k = None" for k using laws by (simp add: ms_crapi_def)
  show "run_state (Get_instance (ms_crapi A) req) w = (Inr k, w)" if "look (cluster w) = Some k" for w k
    using laws that by (simp add: ms_crapi_def)
  show "\<exists>e. run_state (Get_instance (ms_crapi A) req) w = (Inl e, w) \<and> IsNotFound e" if none: "look (cluster w) = None" for w
  proof -
    obtain e where "run_state (Get_instance A req) (cluster w) = (Inl e, cluster w)" "IsNotFound e" using laws none by blast
    then show ?thesis by (simp add: ms_crapi_def)
  qed
qed (use assms in \<open>simp_all add: reaps_def ms_crapi_def split_beta\<close>)


text \<open>The laws that the three sections share.\<close>

definition teardown_laws :: "'c condition_pkg \<Rightarrow> ('c conditions \<Rightarrow> cond_Type \<Rightarrow> bool) \<Rightarrow> ('c \<Rightarrow> cond_Type) \<Rightarrow> ('c \<Rightarrow> bool)
    \<Rightarrow> controllerutil \<Rightarrow> bool" where
  "teardown_laws CL Has ct tr U \<longleftrightarrow> condition_laws CL Has ct tr \<and> finalizer_laws U \<and>
     (\<forall>kind owner m. \<exists>m'. SetControllerReference U kind owner m = Inr m')"

lemma teardown_parts:
  assumes "teardown_laws CL Has ct tr U"
  shows "condition_laws CL Has ct tr" "finalizer_laws U" "\<exists>m'. SetControllerReference U kind owner m = Inr m'"
  using assms by (simp_all add: teardown_laws_def)

lemma cluster_parts:
  assumes "shared_cluster At Aa Ac Am P req ns tel a c m"
  shows "telemetry_server At req ns tel a c m" "reaps Aa \<lparr>nn_Namespace = ns, nn_Name = ''autoscaling''\<rparr> a tel"
    "reaps Ac \<lparr>nn_Namespace = ns, nn_Name = ceilometer_ServiceName\<rparr> c tel"
    "reaps Am \<lparr>nn_Namespace = ns, nn_Name = metricstorage_DefaultServiceName\<rparr> m tel"
    "keystone_answers (\<lambda>w. (tel w, a w, c w)) P" "aodh_answers (\<lambda>w. (tel w, a w)) Aa"
  using assms by (simp_all add: shared_cluster_def)

lemma ceilometer_teardown:
  assumes laws: "teardown_laws CL Has ct tr U" and cl: "shared_cluster At Aa Ac Am P req ns tel a c m"
  shows "teardown (Ceilometer_Reconcile CL U L P Ac) CL U Ac (Ceilometer_conditions CL) (Ceilometer_work CL U L P Ac) True
    Has ct tr (Telemetry_Reconcile CL U At req) \<lparr>nn_Namespace = ns, nn_Name = ceilometer_ServiceName\<rparr>
    (section_off U At ns ceilometer_enabled tel) c"
proof (rule teardown.intro [OF cei.reconciler_axioms teardown_axioms.intro], goal_cases)
  case 1
  show ?case by (rule teardown_parts [OF laws])
next
  case 2
  show ?case by (rule reaps_frame [OF cluster_parts(3) [OF cl] section_off_tel])
next
  case (3 w)
  show ?case by (rule telemetry_drops(2) [OF teardown_parts(1) [OF laws] cluster_parts(1) [OF cl] teardown_parts(3) [OF laws] 3])
next
  case (4 k)
  show ?case
    by (rule releases_frame [OF ceilometer_releases [OF teardown_parts(2) [OF laws] cluster_parts(5) [OF cl] 4]]) (simp add: section_off_def)
qed

lemma autoscaling_teardown:
  assumes laws: "teardown_laws CL Has ct tr U" and cl: "shared_cluster At Aa Ac Am P req ns tel a c m"
  shows "teardown (Autoscaling_Reconcile CL U L V P Aa visit) CL U Aa (Autoscaling_conditions CL) (Autoscaling_work CL U L V P Aa visit) False
    Has ct tr (Telemetry_Reconcile CL U At req) \<lparr>nn_Namespace = ns, nn_Name = ''autoscaling''\<rparr>
    (section_off U At ns autoscaling_enabled tel) a"
proof (rule teardown.intro [OF aut.reconciler_axioms teardown_axioms.intro], goal_cases)
  case 1
  show ?case by (rule teardown_parts [OF laws])
next
  case 2
  show ?case by (rule reaps_frame [OF cluster_parts(2) [OF cl] section_off_tel])
next
  case (3 w)
  show ?case by (rule telemetry_drops(1) [OF teardown_parts(1) [OF laws] cluster_parts(1) [OF cl] teardown_parts(3) [OF laws] 3])
next
  case (4 k)
  have ks: "keystone_answers (\<lambda>w. (tel w, a w)) P" by (rule keystone_answers_frame [OF cluster_parts(5) [OF cl]]) simp
  show ?case
    by (rule releases_frame [OF autoscaling_releases [OF teardown_parts(2) [OF laws] ks cluster_parts(6) [OF cl] 4]])
      (simp add: section_off_def)
qed

lemma metricstorage_teardown:
  assumes laws: "teardown_laws CL Has ct tr U" and cl: "shared_cluster At Aa Ac Am P req ns tel a c m"
  shows "teardown (MetricStorage_Reconcile CL U L Am) CL U (ms_crapi Am) (MetricStorage_conditions CL) (MetricStorage_work CL U L Am) False
    Has ct tr (on_cluster (Telemetry_Reconcile CL U At req)) \<lparr>nn_Namespace = ns, nn_Name = metricstorage_DefaultServiceName\<rparr>
    (\<lambda>w. section_off U At ns metricstorage_enabled tel (cluster w)) (\<lambda>w. m (cluster w))"
proof (rule teardown.intro [OF ms.reconciler_axioms teardown_axioms.intro], goal_cases)
  case 1
  show ?case by (rule teardown_parts [OF laws])
next
  case 2
  show ?case by (rule reaps_frame [OF reaps_on_cluster [OF cluster_parts(4) [OF cl]] section_off_tel])
next
  case (3 w)
  show ?case
    using telemetry_drops(3) [OF teardown_parts(1) [OF laws] cluster_parts(1) [OF cl] teardown_parts(3) [OF laws] 3]
    by (simp add: split_beta)
next
  case (4 k)
  show ?case by (rule metricstorage_releases [OF teardown_parts(2) [OF laws] 4])
qed

text \<open>
  C9: Turning a section of the Telemetry off ends with its child gone. On a cluster whose API server and
  neighbouring operators answer, take any interleaving of passes of the Telemetry controller, passes of the
  controller of the child and changes by others that leave the section off and the child alone: once the
  Telemetry controller has run, two passes of the controller of the child are enough, wherever they fall, for the
  child to be removed, and no later pass brings it back. This holds for the Ceilometer, the Autoscaling and the
  MetricStorage.
\<close>

theorem sections_torn_down:
  assumes laws: "teardown_laws CL Has ct tr U" and cl: "shared_cluster At Aa Ac Am P req ns tel a c m"
  shows "tears_down (Telemetry_Reconcile CL U At req) (Ceilometer_Reconcile CL U L P Ac \<lparr>nn_Namespace = ns, nn_Name = ceilometer_ServiceName\<rparr>)
      (section_off U At ns ceilometer_enabled tel) c (GetFinalizer Ac) \<and>
    tears_down (Telemetry_Reconcile CL U At req) (Autoscaling_Reconcile CL U L V P Aa visit \<lparr>nn_Namespace = ns, nn_Name = ''autoscaling''\<rparr>)
      (section_off U At ns autoscaling_enabled tel) a (GetFinalizer Aa) \<and>
    tears_down (on_cluster (Telemetry_Reconcile CL U At req))
      (MetricStorage_Reconcile CL U L Am \<lparr>nn_Namespace = ns, nn_Name = metricstorage_DefaultServiceName\<rparr>)
      (\<lambda>w. section_off U At ns metricstorage_enabled tel (cluster w)) (\<lambda>w. m (cluster w)) (GetFinalizer Am)"
  using teardown.torn_down [OF ceilometer_teardown [OF assms]] teardown.torn_down [OF autoscaling_teardown [OF assms]]
    teardown.torn_down [OF metricstorage_teardown [OF assms]]
  by (simp add: ms_crapi_def)


section \<open>Witness\<close>

text \<open>A cluster that stores the Telemetry and its children.\<close>

record ref_stored =
  r_tel :: "ref_cond Telemetry option"
  r_a :: "ref_cond Autoscaling option"
  r_c :: "ref_cond Ceilometer option"
  r_m :: "ref_cond MetricStorage option"

definition ref_read :: "(ref_stored \<Rightarrow> 'o option) \<Rightarrow> (ref_stored, error + 'o) state" where
  "ref_read look = State (\<lambda>w. (case look w of None \<Rightarrow> Inl ref_NotFound | Some o' \<Rightarrow> Inr o', w))"

definition ref_write :: "(('sp, 'st) CR option \<Rightarrow> ref_stored \<Rightarrow> ref_stored) \<Rightarrow> ('sp, 'st) CR \<Rightarrow> (ref_stored, error option) state" where
  "ref_write put k = State (\<lambda>w. (None,
     put (if m_DeletionTimestamp (Meta k) \<noteq> None \<and> m_Finalizers (Meta k) = [] then None else Some k) w))"

definition ref_client :: "(ref_stored \<Rightarrow> ('sp, 'st) CR option) \<Rightarrow> (('sp, 'st) CR option \<Rightarrow> ref_stored \<Rightarrow> ref_stored)
    \<Rightarrow> (('sp, 'st) CR, ref_stored) kind_client" where
  "ref_client look put = \<lparr>kc_Get = (\<lambda>_. ref_read look),
     kc_Delete = (\<lambda>k. ref_write put (k\<lparr>Meta := (Meta k)\<lparr>m_DeletionTimestamp := Some 1\<rparr>\<rparr>)),
     kc_CreateOrPatch = (\<lambda>k f. State (\<lambda>w. case f (case look w of None \<Rightarrow> k | Some k' \<Rightarrow> k') of
        Inl e \<Rightarrow> (Inl e, w) | Inr k' \<Rightarrow> (Inr k', put (Some k') w)))\<rparr>"

definition put_a :: "ref_cond Autoscaling option \<Rightarrow> ref_stored \<Rightarrow> ref_stored" where "put_a x w = w\<lparr>r_a := x\<rparr>"
definition put_c :: "ref_cond Ceilometer option \<Rightarrow> ref_stored \<Rightarrow> ref_stored" where "put_c x w = w\<lparr>r_c := x\<rparr>"
definition put_m :: "ref_cond MetricStorage option \<Rightarrow> ref_stored \<Rightarrow> ref_stored" where "put_m x w = w\<lparr>r_m := x\<rparr>"

lemmas put_defs = put_a_def put_c_def put_m_def

lemma ref_client_serves:
  fixes look :: "ref_stored \<Rightarrow> ('sp, 'st) CR option"
  assumes "\<And>x w. look (put x w) = x" and "\<And>x w. frame (put x w) = frame w"
  shows "serves (ref_client look put) key look frame"
  unfolding serves_def
proof (intro conjI allI impI)
  fix k w and f :: "('sp, 'st) CR \<Rightarrow> error + ('sp, 'st) CR"
  assume "\<forall>x. \<exists>y. f x = Inr y"
  then obtain y where "f (case look w of None \<Rightarrow> k | Some k' \<Rightarrow> k') = Inr y" by blast
  then show "\<exists>y w'. run_state (kc_CreateOrPatch (ref_client look put) k f) w = (Inr y, w') \<and> frame w' = frame w"
    using assms(2) by (simp add: ref_client_def)
qed (use assms in \<open>auto simp: ref_client_def ref_read_def ref_write_def ref_NotFound_def\<close>)

lemma ref_reaps:
  assumes "\<And>x w. look (put x w) = x" and "\<And>x w. frame (put x w) = frame w"
    and "\<And>k. NewHelper A k = None" "\<And>req. Get_instance A req = ref_read look" "\<And>before k. PatchInstance A before k = ref_write put k"
  shows "reaps A req look frame"
  using assms by (auto simp: reaps_def ref_read_def ref_write_def ref_NotFound_def)

definition ref_shared_telemetry :: "(ref_cond, ref_stored) telemetry_api" where
  "ref_shared_telemetry = \<lparr>Get_instance = (\<lambda>_. ref_read r_tel), NewHelper = (\<lambda>_. None), GetFinalizer = ''telemetry'',
     PatchInstance = (\<lambda>_ i. State (\<lambda>w. (None, w\<lparr>r_tel := Some i\<rparr>))),
     ceilometers = ref_client r_c put_c, autoscalings = ref_client r_a put_a, metricstorages = ref_client r_m put_m\<rparr>"

definition ref_shared_ceilometer :: "(ref_cond Ceilometer, ref_stored) crapi" where
  "ref_shared_ceilometer = \<lparr>Get_instance = (\<lambda>_. ref_read r_c), NewHelper = (\<lambda>_. None), GetFinalizer = ''ceilometer'',
     PatchInstance = (\<lambda>_. ref_write put_c)\<rparr>"

definition ref_shared_autoscaling :: "(ref_cond, unit, ref_stored) autoscaling_api" where
  "ref_shared_autoscaling = \<lparr>Get_instance = (\<lambda>_. ref_read r_a), NewHelper = (\<lambda>_. None), GetFinalizer = ''autoscaling'',
     PatchInstance = (\<lambda>_. ref_write put_a),
     GetDatabaseByName = (\<lambda>name ns. return (Inr (ObjectMeta_named name ns))), DB_DeleteFinalizer = (\<lambda>m. return None),
     GetKeystoneEndpointWithName = (\<lambda>name ns. return (Inl ref_NotFound)), Update_KeystoneEndpoint = (\<lambda>m. return None),
     CreateOrPatchDBByName = (\<lambda>db name. return (Result0, None)), WaitForDBCreated = (\<lambda>db. return ((Result0, None), '''')),
     DoJob = (\<lambda>job type preserve t hash. return ((Result0, None), False, '''')),
     Svc_CreateOrPatch = (\<lambda>svc. return ((Result0, None), svc)),
     KeystoneEndpoint_CreateOrPatch = (\<lambda>name ns spec labels t. return ((Result0, None), None)),
     Get_Memcached = (\<lambda>nn. return (Inl ref_NotFound)), Get_Heat = (\<lambda>nn. return (Inl ref_NotFound))\<rparr>"

definition ref_shared_metricstorage :: "(ref_cond, ref_stored) metricstorage_api" where
  "ref_shared_metricstorage = \<lparr>Get_instance = (\<lambda>_. ref_read r_m), NewHelper = (\<lambda>_. None), GetFinalizer = ''metricstorage'',
     PatchInstance = (\<lambda>_. ref_write put_m),
     Get_CRD = (\<lambda>name. return None), Controller_Watch = (\<lambda>kind h. return None),
     MonitoringStack_CreateOrPatch = (\<lambda>ob f. return (f ob)), ServiceMonitor_CreateOrPatch = (\<lambda>ob f. return (f ob)),
     ScrapeConfig_CreateOrPatch = (\<lambda>ob f. return (Inr ob)), dataplane_of = ref_dataplane_api (ref_dataplane [])\<rparr>"

definition ref_shared_platform :: "(ref_cond, ref_stored) platform" where
  "ref_shared_platform = \<lparr>
     GetSecret = (\<lambda>name ns. return (None, '''', Some ref_NotFound)),
     EnsureSecrets = (\<lambda>m ts vars. return (vars, None)),
     ReconcileRbac = (\<lambda>ns name rules. return ([], Result0, None)),
     GetKeystoneAPI = (\<lambda>ns. return (Inl ref_NotFound)),
     GetKeystoneServiceWithName = (\<lambda>name ns. return (Inr ((ObjectMeta_named name ns)\<lparr>m_Finalizers := [''ceilometer'', ''autoscaling'']\<rparr>))),
     Update_KeystoneService = (\<lambda>m. return None),
     KeystoneService_CreateOrPatch = (\<lambda>spec ns labels t. return ((Result0, None), None)),
     TransportURL_CreateOrUpdate = (\<lambda>t f. return (f t)),
     StatefulSet_CreateOrPatch = (\<lambda>ss t. return ((Result0, None), 1)),
     Service_CreateOrUpdate = (\<lambda>sv f. return (f sv))\<rparr>"

abbreviation ref_telemetry_key :: NamespacedName where
  "ref_telemetry_key \<equiv> \<lparr>nn_Namespace = ''openstack'', nn_Name = ''telemetry''\<rparr>"

lemma ref_shared_server: "telemetry_server ref_shared_telemetry ref_telemetry_key ''openstack'' r_tel r_a r_c r_m"
  unfolding telemetry_server_def
  by (intro conjI)
    (auto simp: stores_instance_def ref_shared_telemetry_def ref_read_def put_defs intro!: ref_client_serves)

lemma ref_shared_cluster:
  "shared_cluster ref_shared_telemetry ref_shared_autoscaling ref_shared_ceilometer ref_shared_metricstorage ref_shared_platform
     ref_telemetry_key ''openstack'' r_tel r_a r_c r_m"
  unfolding shared_cluster_def
proof (intro conjI ref_shared_server)
  show "reaps ref_shared_autoscaling \<lparr>nn_Namespace = ''openstack'', nn_Name = ''autoscaling''\<rparr> r_a r_tel"
    by (rule ref_reaps [where put = put_a]) (simp_all add: put_defs ref_shared_autoscaling_def)
  show "reaps ref_shared_ceilometer \<lparr>nn_Namespace = ''openstack'', nn_Name = ceilometer_ServiceName\<rparr> r_c r_tel"
    by (rule ref_reaps [where put = put_c]) (simp_all add: put_defs ref_shared_ceilometer_def)
  show "reaps ref_shared_metricstorage \<lparr>nn_Namespace = ''openstack'', nn_Name = metricstorage_DefaultServiceName\<rparr> r_m r_tel"
    by (rule ref_reaps [where put = put_m]) (simp_all add: put_defs ref_shared_metricstorage_def)
qed (simp_all add: keystone_answers_def aodh_answers_def answers_def accepts_def ref_shared_platform_def ref_shared_autoscaling_def ref_NotFound_def)

lemma ref_teardown_laws: "teardown_laws ref_pkg ref_Has fst snd ref_controllerutil"
  unfolding teardown_laws_def
  by (intro conjI ref.condition_laws_axioms ref_util.finalizer_laws_axioms) (simp add: ref_controllerutil_def)

interpretation down_ceilometer: teardown "Ceilometer_Reconcile ref_pkg ref_controllerutil L ref_shared_platform ref_shared_ceilometer"
    ref_pkg ref_controllerutil ref_shared_ceilometer "Ceilometer_conditions ref_pkg"
    "Ceilometer_work ref_pkg ref_controllerutil L ref_shared_platform ref_shared_ceilometer" True ref_Has fst snd
    "Telemetry_Reconcile ref_pkg ref_controllerutil ref_shared_telemetry ref_telemetry_key"
    "\<lparr>nn_Namespace = ''openstack'', nn_Name = ceilometer_ServiceName\<rparr>"
    "section_off ref_controllerutil ref_shared_telemetry ''openstack'' ceilometer_enabled r_tel" r_c for L
  by (rule ceilometer_teardown [OF ref_teardown_laws ref_shared_cluster])

text \<open>The Ceilometer of \<open>ref_ceilometer\<close>, with its section turned off: one pass each, then the second one of its controller.\<close>

definition ref_section_off :: ref_stored where
  "ref_section_off = \<lparr>r_tel = Some (ref_telemetry\<lparr>Meta := (Meta ref_telemetry)\<lparr>m_Finalizers := [''telemetry'']\<rparr>,
      Spec := (Spec ref_telemetry)\<lparr>te_Ceilometer := \<lparr>cse_Enabled = False, cse_CeilometerSpec = CeilometerSpec0\<rparr>\<rparr>\<rparr>),
     r_a = None, r_c = Some ref_ceilometer, r_m = None\<rparr>"

theorem sections_torn_down_witness:
  "\<exists>w'. schedule (Telemetry_Reconcile ref_pkg ref_controllerutil ref_shared_telemetry ref_telemetry_key)
      (Ceilometer_Reconcile ref_pkg ref_controllerutil ref_commonlib ref_shared_platform ref_shared_ceilometer
        \<lparr>nn_Namespace = ''openstack'', nn_Name = ceilometer_ServiceName\<rparr>)
      (section_off ref_controllerutil ref_shared_telemetry ''openstack'' ceilometer_enabled r_tel) r_c
      [Tel, Kid, Tel, Others, Kid] ref_section_off w' \<and> r_c w' = None"
proof -
  have off: "section_off ref_controllerutil ref_shared_telemetry ''openstack'' ceilometer_enabled r_tel ref_section_off"
    by (simp add: section_off_def ref_section_off_def settled_def ref_telemetry_def ObjectMeta_named_def ref_controllerutil_def
        ref_shared_telemetry_def)
  have held: "held_by (GetFinalizer ref_shared_ceilometer) (r_c ref_section_off)"
    by (simp add: held_by_def ref_section_off_def ref_ceilometer_def ref_shared_ceilometer_def)
  have "2 \<le> count_list [Kid, Tel, Others, Kid] Kid" by simp
  with sections_torn_down [OF ref_teardown_laws ref_shared_cluster, THEN conjunct1, unfolded tears_down_def, rule_format, OF off held]
  show ?thesis by blast
qed

end
