(* ===== verification/Flags.thy ===== *)
theory Flags
  imports Prelude
begin

text \<open>
  The command line of \<^verbatim>\<open>main.go\<close>. Go's package \<open>flag\<close> is modelled as far as \<open>main\<close> uses it: \<open>Parse\<close> on
  the global flag set, which ends the process on an error. The flags that other packages bind to the same
  set (\<open>opts.BindFlags\<close> of zap, \<open>--kubeconfig\<close> of controller-runtime) are a parameter: for each name,
  whether it is a boolean flag, and how its \<open>Set\<close> method changes the state \<open>'z\<close> of those packages.
\<close>

section \<open>Flags\<close>

record 'z flags =
  metricsAddr :: string
  enableLeaderElection :: bool
  probeAddr :: string
  enableHTTP2 :: bool
  foreign_flags :: 'z

text \<open>The values before \<open>Parse\<close>: the zero value for \<open>enable-http2\<close>, the given defaults for the others.\<close>

definition flags0 :: "'z \<Rightarrow> 'z flags" where
  "flags0 z = \<lparr>metricsAddr = '':8083'', enableLeaderElection = False, probeAddr = '':8084'', enableHTTP2 = False,
     foreign_flags = z\<rparr>"

type_synonym 'f flag_value = "bool \<times> (string \<Rightarrow> 'f \<Rightarrow> error + 'f)"

text \<open>\<open>strconv.ParseBool\<close>.\<close>

definition ParseBool :: "string \<Rightarrow> error + bool" where
  "ParseBool s =
    (if s \<in> {''1'', ''t'', ''T'', ''TRUE'', ''true'', ''True''} then Inr True
     else if s \<in> {''0'', ''f'', ''F'', ''FALSE'', ''false'', ''False''} then Inr False
     else Inl (Errorf ''parse error''))"

definition BoolVar :: "(bool \<Rightarrow> 'f \<Rightarrow> 'f) \<Rightarrow> 'f flag_value" where
  "BoolVar store = (True, \<lambda>s f. case ParseBool s of Inl e \<Rightarrow> Inl e | Inr b \<Rightarrow> Inr (store b f))"

definition StringVar :: "(string \<Rightarrow> 'f \<Rightarrow> 'f) \<Rightarrow> 'f flag_value" where
  "StringVar store = (False, \<lambda>s f. Inr (store s f))"

definition foreign :: "'z flag_value \<Rightarrow> 'z flags flag_value" where
  "foreign fv = (fst fv, \<lambda>s f. case snd fv s (foreign_flags f) of
      Inl e \<Rightarrow> Inl e | Inr z \<Rightarrow> Inr (f\<lparr>foreign_flags := z\<rparr>))"

text \<open>The four flags of \<open>main\<close>, then those of the other packages.\<close>

definition formal :: "(string \<rightharpoonup> 'z flag_value) \<Rightarrow> string \<rightharpoonup> 'z flags flag_value" where
  "formal others name =
    (if name = ''enable-http2'' then Some (BoolVar (\<lambda>b f. f\<lparr>enableHTTP2 := b\<rparr>))
     else if name = ''metrics-bind-address'' then Some (StringVar (\<lambda>s f. f\<lparr>metricsAddr := s\<rparr>))
     else if name = ''health-probe-bind-address'' then Some (StringVar (\<lambda>s f. f\<lparr>probeAddr := s\<rparr>))
     else if name = ''leader-elect'' then Some (BoolVar (\<lambda>b f. f\<lparr>enableLeaderElection := b\<rparr>))
     else map_option foreign (others name))"

section \<open>Parse\<close>

text \<open>How \<open>Parse\<close> ends: with the values and the remaining arguments, or the process exits with a code.\<close>

datatype 'f parsed = Parsed 'f "string list" | ParseExit int

text \<open>The name and the value of \<open>name=value\<close>; the first character cannot be the sign.\<close>

definition split_value :: "string \<Rightarrow> string \<times> string option" where
  "split_value s = (let n = hd s # takeWhile (\<lambda>c. c \<noteq> CHR ''='') (tl s);
                        rest = dropWhile (\<lambda>c. c \<noteq> CHR ''='') (tl s)
                    in (n, if rest = [] then None else Some (tl rest)))"

datatype flag_arg = NoFlag | Terminator | BadSyntax | Flag string "string option"

definition scan_arg :: "string \<Rightarrow> flag_arg" where
  "scan_arg s =
    (if length s < 2 \<or> hd s \<noteq> CHR ''-'' then NoFlag
     else if s = ''--'' then Terminator
     else let name = (if s ! 1 = CHR ''-'' then drop 2 s else drop 1 s)
          in if name = [] \<or> hd name = CHR ''-'' \<or> hd name = CHR ''='' then BadSyntax
             else (case split_value name of (n, v) \<Rightarrow> Flag n v))"

text \<open>\<open>parseOne\<close> in a loop; the handling of errors is \<open>ExitOnError\<close>.\<close>

fun Parse :: "(string \<rightharpoonup> 'f flag_value) \<Rightarrow> string list \<Rightarrow> 'f \<Rightarrow> 'f parsed" where
  "Parse fl [] f = Parsed f []"
| "Parse fl (s # args) f = (case scan_arg s of
      NoFlag \<Rightarrow> Parsed f (s # args)
    | Terminator \<Rightarrow> Parsed f args
    | BadSyntax \<Rightarrow> ParseExit 2
    | Flag name val \<Rightarrow> (case fl name of
          None \<Rightarrow> ParseExit (if name = ''help'' \<or> name = ''h'' then 0 else 2)
        | Some (isBool, store) \<Rightarrow>
            if isBool
            then (case store (case val of None \<Rightarrow> ''true'' | Some v \<Rightarrow> v) f of
                Inl e \<Rightarrow> ParseExit 2 | Inr f' \<Rightarrow> Parse fl args f')
            else (case val of
                Some v \<Rightarrow> (case store v f of Inl e \<Rightarrow> ParseExit 2 | Inr f' \<Rightarrow> Parse fl args f')
              | None \<Rightarrow> (case args of
                  [] \<Rightarrow> ParseExit 2
                | v # args' \<Rightarrow> (case store v f of Inl e \<Rightarrow> ParseExit 2 | Inr f' \<Rightarrow> Parse fl args' f')))))"

section \<open>Properties\<close>

definition print_bool :: "bool \<Rightarrow> string" where
  "print_bool b = (if b then ''true'' else ''false'')"

text \<open>The command line that asks for the given values, in the form \<open>--name=value\<close>.\<close>

definition command_line :: "'z flags \<Rightarrow> string list" where
  "command_line f = [''--metrics-bind-address='' @ metricsAddr f, ''--health-probe-bind-address='' @ probeAddr f,
     ''--leader-elect='' @ print_bool (enableLeaderElection f), ''--enable-http2='' @ print_bool (enableHTTP2 f)]"

lemma scan_arg_long:
  assumes "n \<noteq> []" "hd n \<noteq> CHR ''-''" "CHR ''='' \<notin> set n"
  shows "scan_arg (''--'' @ n @ ''='' @ v) = Flag n (Some v)"
proof -
  obtain c cs where n: "n = c # cs" using assms(1) by (cases n) auto
  then have "takeWhile (\<lambda>c. c \<noteq> CHR ''='') (cs @ ''='' @ v) = cs" "dropWhile (\<lambda>c. c \<noteq> CHR ''='') (cs @ ''='' @ v) = CHR ''='' # v"
    using assms(3) by (auto simp: takeWhile_append dropWhile_append)
  then show ?thesis using assms n by (auto simp: scan_arg_def split_value_def)
qed

lemma scan_main_flags:
  "scan_arg (''--metrics-bind-address='' @ v) = Flag ''metrics-bind-address'' (Some v)"
  "scan_arg (''--health-probe-bind-address='' @ v) = Flag ''health-probe-bind-address'' (Some v)"
  "scan_arg (''--leader-elect='' @ v) = Flag ''leader-elect'' (Some v)"
  "scan_arg (''--enable-http2='' @ v) = Flag ''enable-http2'' (Some v)"
  using scan_arg_long [of "''metrics-bind-address''" v] scan_arg_long [of "''health-probe-bind-address''" v]
    scan_arg_long [of "''leader-elect''" v] scan_arg_long [of "''enable-http2''" v]
  by simp_all

lemma ParseBool_print [simp]: "ParseBool (print_bool b) = Inr b"
  by (simp add: ParseBool_def print_bool_def)


text \<open>A flag that nobody has bound ends the process before anything is set up, a request for help with code 0.\<close>

lemma Parse_unknown:
  assumes "formal others n = None" "n \<noteq> []" "hd n \<noteq> CHR ''-''" "CHR ''='' \<notin> set n"
  shows "Parse (formal others) ((''--'' @ n @ ''='' @ v) # args) f =
    ParseExit (if n = ''help'' \<or> n = ''h'' then 0 else 2)"
  using assms(1) by (simp only: Parse.simps scan_arg_long [OF assms(2-4)]) simp

end
