(* ===== verification/Watches.thy ===== *)
theory Watches
  imports Telemetry_Controller Ceilometer_Controller Autoscaling_Controller Metricstorage_Controller
begin

text \<open>
  The functions that map a changed object to the custom resources that have to be reconciled:
  \<open>transportURLSecretFn\<close> of the Ceilometer and of the Autoscaling controller and \<open>memcachedFn\<close>, which
  \<open>SetupWithManager\<close> registers, and \<open>nodeSetWatchFn\<close> of the MetricStorage controller. Each lists the
  custom resources in the namespace of the object; \<open>None\<close> is the nil slice.
\<close>

section \<open>The functions\<close>

text \<open>\<open>if len(result) > 0 { return result }; return nil\<close>\<close>

definition nil_if_empty :: "'a list \<Rightarrow> 'a list option" where
  "nil_if_empty result = (if length result > 0 then Some result else None)"

text \<open>The loop over the custom resources inside the loop over the owners.\<close>

fun transport_crs_loop :: "string \<Rightarrow> string \<Rightarrow> string list \<Rightarrow> NamespacedName list \<Rightarrow> NamespacedName list" where
  "transport_crs_loop ns ownerName [] result = result"
| "transport_crs_loop ns ownerName (crName # crs) result =
     (if ownerName = crName @ ''-transport''
      then transport_crs_loop ns ownerName crs (result @ [\<lparr>nn_Namespace = ns, nn_Name = crName\<rparr>])
      else transport_crs_loop ns ownerName crs result)"

fun transport_owners_loop :: "string \<Rightarrow> OwnerReference list \<Rightarrow> string list \<Rightarrow> NamespacedName list \<Rightarrow> NamespacedName list" where
  "transport_owners_loop ns [] crs result = result"
| "transport_owners_loop ns (ownerRef # refs) crs result =
     (if or_Kind ownerRef = ''TransportURL''
      then transport_owners_loop ns refs crs (transport_crs_loop ns (or_Name ownerRef) crs result)
      else transport_owners_loop ns refs crs result)"

definition Ceilometer_transportURLSecretFn :: "(string \<Rightarrow> ('w, error + 'c Ceilometer list) state) \<Rightarrow> ObjectMeta
    \<Rightarrow> ('w, NamespacedName list option) state" where
  "Ceilometer_transportURLSecretFn list_ceilometers ob = do {
     ceilometers \<leftarrow> list_ceilometers (m_Namespace ob);
     return (case ceilometers of
       Inl err \<Rightarrow> None
     | Inr items \<Rightarrow> nil_if_empty (transport_owners_loop (m_Namespace ob) (m_OwnerReferences ob)
         (map (\<lambda>cr. m_Name (Meta cr)) items) []))
   }"

definition Autoscaling_transportURLSecretFn :: "(string \<Rightarrow> ('w, error + 'c Autoscaling list) state) \<Rightarrow> ObjectMeta
    \<Rightarrow> ('w, NamespacedName list option) state" where
  "Autoscaling_transportURLSecretFn list_autoscalings ob = do {
     autoscalings \<leftarrow> list_autoscalings (m_Namespace ob);
     return (case autoscalings of
       Inl err \<Rightarrow> None
     | Inr items \<Rightarrow> nil_if_empty (transport_owners_loop (m_Namespace ob) (m_OwnerReferences ob)
         (map (\<lambda>cr. m_Name (Meta cr)) items) []))
   }"

fun memcached_crs_loop :: "ObjectMeta \<Rightarrow> 'c Autoscaling list \<Rightarrow> NamespacedName list \<Rightarrow> NamespacedName list" where
  "memcached_crs_loop ob [] result = result"
| "memcached_crs_loop ob (cr # crs) result =
     (if m_Name ob = ao_MemcachedInstance (as_Aodh (Spec cr))
      then memcached_crs_loop ob crs (result @ [\<lparr>nn_Namespace = m_Namespace ob, nn_Name = m_Name (Meta cr)\<rparr>])
      else memcached_crs_loop ob crs result)"

definition memcachedFn :: "(string \<Rightarrow> ('w, error + 'c Autoscaling list) state) \<Rightarrow> ObjectMeta
    \<Rightarrow> ('w, NamespacedName list option) state" where
  "memcachedFn list_autoscalings ob = do {
     autoscalings \<leftarrow> list_autoscalings (m_Namespace ob);
     return (case autoscalings of Inl err \<Rightarrow> None | Inr items \<Rightarrow> nil_if_empty (memcached_crs_loop ob items []))
   }"

definition nodeSetWatchFn :: "(string \<Rightarrow> ('w, error + 'c MetricStorage list) state) \<Rightarrow> ObjectMeta
    \<Rightarrow> ('w, NamespacedName list option) state" where
  "nodeSetWatchFn list_metricstorages ob = do {
     metricstorages \<leftarrow> list_metricstorages (m_Namespace ob);
     return (case metricstorages of
       Inl err \<Rightarrow> None
     | Inr items \<Rightarrow> nil_if_empty (fold (\<lambda>cr result. result @ [\<lparr>nn_Namespace = m_Namespace ob, nn_Name = m_Name (Meta cr)\<rparr>]) items []))
   }"

section \<open>Properties\<close>

definition requests :: "NamespacedName list option \<Rightarrow> NamespacedName set" where
  "requests r = (case r of None \<Rightarrow> {} | Some l \<Rightarrow> set l)"

lemma requests_nil_if_empty [simp]: "requests (nil_if_empty l) = set l"
  by (simp add: requests_def nil_if_empty_def)

lemma requests_None [simp]: "requests None = {}"
  by (simp add: requests_def)

lemma set_transport_crs_loop:
  "set (transport_crs_loop ns owner crs result) = set result \<union>
     {\<lparr>nn_Namespace = ns, nn_Name = n\<rparr> | n. n \<in> set crs \<and> owner = n @ ''-transport''}"
  by (induction crs arbitrary: result) auto

lemma set_transport_owners_loop:
  "set (transport_owners_loop ns refs crs result) = set result \<union>
     {\<lparr>nn_Namespace = ns, nn_Name = n\<rparr> | n. n \<in> set crs \<and>
        (\<exists>r \<in> set refs. or_Kind r = ''TransportURL'' \<and> or_Name r = n @ ''-transport'')}"
  by (induction refs arbitrary: result) (auto simp: set_transport_crs_loop)

lemma set_memcached_crs_loop:
  "set (memcached_crs_loop ob crs result) = set result \<union>
     (\<lambda>cr. \<lparr>nn_Namespace = m_Namespace ob, nn_Name = m_Name (Meta cr)\<rparr>) `
       {cr \<in> set crs. ao_MemcachedInstance (as_Aodh (Spec cr)) = m_Name ob}"
  by (induction crs arbitrary: result) auto

lemma fold_append: "fold (\<lambda>x acc. acc @ [f x]) xs acc = acc @ map f xs"
  by (induction xs arbitrary: acc) auto

text \<open>
  C34: The watches on inputs are exact. A changed Memcached enqueues exactly the Autoscalings of its
  namespace that use it, and a changed node set enqueues every MetricStorage of its namespace, each once
  and in the listed order; nothing is enqueued when the list cannot be read.
\<close>

theorem input_watches_exact:
  "requests (fst (run_state (memcachedFn list_autoscalings ob) w)) =
     (case fst (run_state (list_autoscalings (m_Namespace ob)) w) of
        Inl err \<Rightarrow> {}
      | Inr items \<Rightarrow> (\<lambda>cr. \<lparr>nn_Namespace = m_Namespace ob, nn_Name = m_Name (Meta cr)\<rparr>) `
          {cr \<in> set items. ao_MemcachedInstance (as_Aodh (Spec cr)) = m_Name ob}) \<and>
   fst (run_state (nodeSetWatchFn list_metricstorages ob') w') =
     (case fst (run_state (list_metricstorages (m_Namespace ob')) w') of
        Inr (cr # crs) \<Rightarrow> Some (map (\<lambda>cr. \<lparr>nn_Namespace = m_Namespace ob', nn_Name = m_Name (Meta cr)\<rparr>) (cr # crs))
      | _ \<Rightarrow> None)"
  by (auto simp: memcachedFn_def nodeSetWatchFn_def set_memcached_crs_loop fold_append nil_if_empty_def [of "map _ _"]
      split: prod.splits sum.splits list.splits)


text \<open>The secret with the URL of a message queue, owned by the TransportURL \<open>owner\<close>.\<close>

definition transport_secret :: "string \<Rightarrow> string \<Rightarrow> ObjectMeta" where
  "transport_secret ns owner = (ObjectMeta_named (''rabbitmq-transport-url-'' @ owner) ns)
     \<lparr>m_OwnerReferences := [\<lparr>or_Kind = ''TransportURL'', or_Name = owner\<rparr>]\<rparr>"

lemma transport_requests:
  assumes "fst (run_state (list_ceilometers ns) w) = Inr cs" and "fst (run_state (list_autoscalings ns) w) = Inr as"
  shows "requests (fst (run_state (Ceilometer_transportURLSecretFn list_ceilometers (transport_secret ns owner)) w)) =
      {\<lparr>nn_Namespace = ns, nn_Name = n\<rparr> | n. n \<in> (\<lambda>cr. m_Name (Meta cr)) ` set cs \<and> owner = n @ ''-transport''}"
    and "requests (fst (run_state (Autoscaling_transportURLSecretFn list_autoscalings (transport_secret ns owner)) w)) =
      {\<lparr>nn_Namespace = ns, nn_Name = n\<rparr> | n. n \<in> (\<lambda>cr. m_Name (Meta cr)) ` set as \<and> owner = n @ ''-transport''}"
  using assms
  by (auto simp: Ceilometer_transportURLSecretFn_def Autoscaling_transportURLSecretFn_def set_transport_owners_loop
      set_transport_crs_loop transport_secret_def ObjectMeta_named_def split: prod.splits sum.splits)

text \<open>
  C32: A change of the secret of the message queue reaches the Ceilometer that the Telemetry controller
  deploys, but not the Autoscaling: the TransportURL of Autoscaling is named after the service, \<open>aodh\<close>,
  while the watch looks for a TransportURL named after the custom resource, which is \<open>autoscaling\<close>.
\<close>

theorem transport_watch_misses_autoscaling:
  assumes "fst (run_state (list_ceilometers (m_Namespace (Meta t))) w) = Inr [cei]"
    and "fst (run_state (list_autoscalings (m_Namespace (Meta t))) w) = Inr [aut]"
    and "m_Name (Meta cei) = m_Name (Meta (ceilometer_child t))" and "m_Name (Meta aut) = m_Name (Meta (autoscaling_child t))"
  shows "requests (fst (run_state (Ceilometer_transportURLSecretFn list_ceilometers
      (transport_secret (m_Namespace (Meta t)) (ceilometer_ServiceName @ ''-transport''))) w)) =
      {ObjectKeyFromObject (Meta (ceilometer_child t))} \<and>
    requests (fst (run_state (Autoscaling_transportURLSecretFn list_autoscalings
      (transport_secret (m_Namespace (Meta t)) (autoscaling_ServiceName @ ''-transport''))) w)) = {}"
  using assms(3,4)
  by (auto simp: transport_requests [where ns = "m_Namespace (Meta t)" and list_ceilometers = list_ceilometers
        and list_autoscalings = list_autoscalings, OF assms(1,2)] ceilometer_child_def autoscaling_child_def ObjectMeta_named_def
      ObjectKeyFromObject_def autoscaling_ServiceName_def)

theorem transport_watch_misses_autoscaling_witness:
  "requests (fst (run_state (Autoscaling_transportURLSecretFn
      (\<lambda>ns. return (Inr [ref_autoscaling :: ref_cond Autoscaling])) (transport_secret ''openstack'' ''aodh-transport'')) ())) = {}"
proof -
  have "requests (fst (run_state (Autoscaling_transportURLSecretFn (\<lambda>ns. return (Inr [ref_autoscaling]))
      (transport_secret (m_Namespace (Meta ref_telemetry)) (autoscaling_ServiceName @ ''-transport''))) ())) = {}"
    by (rule transport_watch_misses_autoscaling [where list_ceilometers = "\<lambda>ns. return (Inr [ref_ceilometer])"
          and cei = ref_ceilometer and aut = ref_autoscaling and t = ref_telemetry, THEN conjunct2])
      (simp_all add: ref_autoscaling_def ref_ceilometer_def ceilometer_child_def autoscaling_child_def
        ObjectMeta_named_def ceilometer_ServiceName_def)
  then show ?thesis by (simp add: ref_telemetry_def ObjectMeta_named_def autoscaling_ServiceName_def)
qed

end
