(* ===== verification/Webhooks.thy ===== *)
theory Webhooks
  imports Api_Types
begin

text \<open>
  The admission webhooks of \<^verbatim>\<open>api/v1beta1/*_webhook.go\<close>: the image defaults read from the
  environment at start-up (\<open>SetupDefaults*\<close>, package variables in the Go code, here arguments of the
  defaulting functions), the \<open>Default\<close> methods and the validation methods.
  \<open>util.GetEnvVar\<close> of lib-common is a parameter.

  The locale \<open>defaulter\<close> states what a defaulting method promises about the fields it owns; each
  \<open>Default\<close> that fills images is an interpretation of it.
\<close>

section \<open>Defaults from the environment\<close>

definition AodhAPIContainerImage :: string where
  "AodhAPIContainerImage = ''quay.io/podified-antelope-centos9/openstack-aodh-api:current-podified''"
definition AodhEvaluatorContainerImage :: string where
  "AodhEvaluatorContainerImage = ''quay.io/podified-antelope-centos9/openstack-aodh-evaluator:current-podified''"
definition AodhNotifierContainerImage :: string where
  "AodhNotifierContainerImage = ''quay.io/podified-antelope-centos9/openstack-aodh-notifier:current-podified''"
definition AodhListenerContainerImage :: string where
  "AodhListenerContainerImage = ''quay.io/podified-antelope-centos9/openstack-aodh-listener:current-podified''"
definition CeilometerCentralContainerImage :: string where
  "CeilometerCentralContainerImage = ''quay.io/podified-antelope-centos9/openstack-ceilometer-central:current-podified''"
definition CeilometerNotificationContainerImage :: string where
  "CeilometerNotificationContainerImage = ''quay.io/podified-antelope-centos9/openstack-ceilometer-notification:current-podified''"
definition CeilometerSgCoreContainerImage :: string where
  "CeilometerSgCoreContainerImage = ''quay.io/infrawatch/sg-core:v5.2.0-nextgen''"
definition CeilometerComputeContainerImage :: string where
  "CeilometerComputeContainerImage = ''quay.io/podified-antelope-centos9/openstack-ceilometer-compute:current-podified''"
definition CeilometerIpmiContainerImage :: string where
  "CeilometerIpmiContainerImage = ''quay.io/podified-antelope-centos9/openstack-ceilometer-ipmi:current-podified''"
definition NodeExporterContainerImage :: string where
  "NodeExporterContainerImage = ''quay.io/prometheus/node-exporter:v1.5.0''"

record AutoscalingDefaults =
  ad_AodhAPIContainerImageURL :: string
  ad_AodhEvaluatorContainerImageURL :: string
  ad_AodhNotifierContainerImageURL :: string
  ad_AodhListenerContainerImageURL :: string

record CeilometerDefaults =
  cd_CentralContainerImageURL :: string
  cd_NotificationContainerImageURL :: string
  cd_SgCoreContainerImageURL :: string
  cd_ComputeContainerImageURL :: string
  cd_IpmiContainerImageURL :: string
  cd_NodeExporterContainerImageURL :: string

record TelemetryDefaults =
  td_CentralContainerImageURL :: string
  td_ComputeContainerImageURL :: string
  td_NotificationContainerImageURL :: string
  td_SgCoreContainerImageURL :: string
  td_NodeExporterContainerImageURL :: string
  td_IpmiContainerImageURL :: string
  td_AodhAPIContainerImageURL :: string
  td_AodhEvaluatorContainerImageURL :: string
  td_AodhNotifierContainerImageURL :: string
  td_AodhListenerContainerImageURL :: string
  td_AodhInitContainerImageURL :: string

text \<open>The package variables \<open>autoscalingDefaults\<close>, \<open>ceilometerDefaults\<close> and \<open>telemetryDefaults\<close>.\<close>

record webhook_vars =
  autoscalingDefaults :: AutoscalingDefaults
  ceilometerDefaults :: CeilometerDefaults
  telemetryDefaults :: TelemetryDefaults

definition SetupAutoscalingDefaults :: "AutoscalingDefaults \<Rightarrow> webhook_vars \<Rightarrow> webhook_vars" where
  "SetupAutoscalingDefaults defaults v = v\<lparr>autoscalingDefaults := defaults\<rparr>"

definition SetupCeilometerDefaults :: "CeilometerDefaults \<Rightarrow> webhook_vars \<Rightarrow> webhook_vars" where
  "SetupCeilometerDefaults defaults v = v\<lparr>ceilometerDefaults := defaults\<rparr>"

definition SetupTelemetryDefaults :: "TelemetryDefaults \<Rightarrow> webhook_vars \<Rightarrow> webhook_vars" where
  "SetupTelemetryDefaults defaults v = v\<lparr>telemetryDefaults := defaults\<rparr>"

type_synonym getenv = "string \<Rightarrow> string \<Rightarrow> string"

definition SetupDefaultsAutoscaling :: "getenv \<Rightarrow> webhook_vars \<Rightarrow> webhook_vars" where
  "SetupDefaultsAutoscaling GetEnvVar = SetupAutoscalingDefaults \<lparr>
     ad_AodhAPIContainerImageURL = GetEnvVar ''RELATED_IMAGE_AODH_API_IMAGE_URL_DEFAULT'' AodhAPIContainerImage,
     ad_AodhEvaluatorContainerImageURL = GetEnvVar ''RELATED_IMAGE_AODH_EVALUATOR_IMAGE_URL_DEFAULT'' AodhEvaluatorContainerImage,
     ad_AodhNotifierContainerImageURL = GetEnvVar ''RELATED_IMAGE_AODH_NOTIFIER_IMAGE_URL_DEFAULT'' AodhNotifierContainerImage,
     ad_AodhListenerContainerImageURL = GetEnvVar ''RELATED_IMAGE_AODH_LISTENER_IMAGE_URL_DEFAULT'' AodhListenerContainerImage\<rparr>"

text \<open>The literal of the source sets no \<open>NodeExporterContainerImageURL\<close>: it keeps the zero value.\<close>

definition SetupDefaultsCeilometer :: "getenv \<Rightarrow> webhook_vars \<Rightarrow> webhook_vars" where
  "SetupDefaultsCeilometer GetEnvVar = SetupCeilometerDefaults \<lparr>
     cd_CentralContainerImageURL = GetEnvVar ''RELATED_IMAGE_CEILOMETER_CENTRAL_IMAGE_URL_DEFAULT'' CeilometerCentralContainerImage,
     cd_NotificationContainerImageURL = GetEnvVar ''RELATED_IMAGE_CEILOMETER_NOTIFICATION_IMAGE_URL_DEFAULT'' CeilometerNotificationContainerImage,
     cd_SgCoreContainerImageURL = GetEnvVar ''RELATED_IMAGE_CEILOMETER_SGCORE_IMAGE_URL_DEFAULT'' CeilometerSgCoreContainerImage,
     cd_ComputeContainerImageURL = GetEnvVar ''RELATED_IMAGE_CEILOMETER_COMPUTE_IMAGE_URL_DEFAULT'' CeilometerComputeContainerImage,
     cd_IpmiContainerImageURL = GetEnvVar ''RELATED_IMAGE_CEILOMETER_IPMI_IMAGE_URL_DEFAULT'' CeilometerIpmiContainerImage,
     cd_NodeExporterContainerImageURL = ''''\<rparr>"

definition SetupDefaultsTelemetry :: "getenv \<Rightarrow> webhook_vars \<Rightarrow> webhook_vars" where
  "SetupDefaultsTelemetry GetEnvVar = SetupTelemetryDefaults \<lparr>
     td_CentralContainerImageURL = GetEnvVar ''RELATED_IMAGE_CEILOMETER_CENTRAL_IMAGE_URL_DEFAULT'' CeilometerCentralContainerImage,
     td_ComputeContainerImageURL = GetEnvVar ''RELATED_IMAGE_CEILOMETER_COMPUTE_IMAGE_URL_DEFAULT'' CeilometerComputeContainerImage,
     td_NotificationContainerImageURL = GetEnvVar ''RELATED_IMAGE_CEILOMETER_NOTIFICATION_IMAGE_URL_DEFAULT'' CeilometerNotificationContainerImage,
     td_SgCoreContainerImageURL = GetEnvVar ''RELATED_IMAGE_CEILOMETER_SGCORE_IMAGE_URL_DEFAULT'' CeilometerSgCoreContainerImage,
     td_NodeExporterContainerImageURL = GetEnvVar ''RELATED_IMAGE_TELEMETRY_NODE_EXPORTER_IMAGE_URL_DEFAULT'' NodeExporterContainerImage,
     td_IpmiContainerImageURL = GetEnvVar ''RELATED_IMAGE_CEILOMETER_IPMI_IMAGE_URL_DEFAULT'' CeilometerIpmiContainerImage,
     td_AodhAPIContainerImageURL = GetEnvVar ''RELATED_IMAGE_AODH_API_IMAGE_URL_DEFAULT'' AodhAPIContainerImage,
     td_AodhEvaluatorContainerImageURL = GetEnvVar ''RELATED_IMAGE_AODH_EVALUATOR_IMAGE_URL_DEFAULT'' AodhEvaluatorContainerImage,
     td_AodhNotifierContainerImageURL = GetEnvVar ''RELATED_IMAGE_AODH_NOTIFIER_IMAGE_URL_DEFAULT'' AodhNotifierContainerImage,
     td_AodhListenerContainerImageURL = GetEnvVar ''RELATED_IMAGE_AODH_LISTENER_IMAGE_URL_DEFAULT'' AodhListenerContainerImage,
     td_AodhInitContainerImageURL = GetEnvVar ''RELATED_IMAGE_AODH_API_IMAGE_URL_DEFAULT'' AodhAPIContainerImage\<rparr>"

text \<open>The three calls that \<open>main\<close> makes before it registers the webhooks.\<close>

definition setup_defaults :: "getenv \<Rightarrow> webhook_vars \<Rightarrow> webhook_vars" where
  "setup_defaults GetEnvVar v =
     SetupDefaultsAutoscaling GetEnvVar (SetupDefaultsCeilometer GetEnvVar (SetupDefaultsTelemetry GetEnvVar v))"

section \<open>Defaulting\<close>

text \<open>\<open>if x == "" { x = d }\<close>\<close>

definition or_default :: "string \<Rightarrow> string \<Rightarrow> string" where
  "or_default d x = (if x = '''' then d else x)"

definition AutoscalingSpec_Default :: "AutoscalingDefaults \<Rightarrow> AutoscalingSpec \<Rightarrow> AutoscalingSpec" where
  "AutoscalingSpec_Default D spec = spec\<lparr>as_Aodh := (as_Aodh spec)\<lparr>
     ao_APIImage := or_default (ad_AodhAPIContainerImageURL D) (ao_APIImage (as_Aodh spec)),
     ao_EvaluatorImage := or_default (ad_AodhEvaluatorContainerImageURL D) (ao_EvaluatorImage (as_Aodh spec)),
     ao_NotifierImage := or_default (ad_AodhNotifierContainerImageURL D) (ao_NotifierImage (as_Aodh spec)),
     ao_ListenerImage := or_default (ad_AodhListenerContainerImageURL D) (ao_ListenerImage (as_Aodh spec))\<rparr>\<rparr>"

definition CeilometerSpec_Default :: "CeilometerDefaults \<Rightarrow> CeilometerSpec \<Rightarrow> CeilometerSpec" where
  "CeilometerSpec_Default D spec = spec\<lparr>
     ce_CentralImage := or_default (cd_CentralContainerImageURL D) (ce_CentralImage spec),
     ce_NotificationImage := or_default (cd_NotificationContainerImageURL D) (ce_NotificationImage spec),
     ce_SgCoreImage := or_default (cd_SgCoreContainerImageURL D) (ce_SgCoreImage spec),
     ce_ComputeImage := or_default (cd_ComputeContainerImageURL D) (ce_ComputeImage spec),
     ce_IpmiImage := or_default (cd_IpmiContainerImageURL D) (ce_IpmiImage spec),
     ce_NodeExporterImage := or_default (cd_NodeExporterContainerImageURL D) (ce_NodeExporterImage spec)\<rparr>"

definition TelemetrySpec_Default :: "TelemetryDefaults \<Rightarrow> TelemetrySpec \<Rightarrow> TelemetrySpec" where
  "TelemetrySpec_Default D spec =
    (let c = cse_CeilometerSpec (te_Ceilometer spec);
         c' = c\<lparr>
           ce_CentralImage := or_default (td_CentralContainerImageURL D) (ce_CentralImage c),
           ce_ComputeImage := or_default (td_ComputeContainerImageURL D) (ce_ComputeImage c),
           ce_IpmiImage := or_default (td_IpmiContainerImageURL D) (ce_IpmiImage c),
           ce_NotificationImage := or_default (td_NotificationContainerImageURL D) (ce_NotificationImage c),
           ce_SgCoreImage := or_default (td_SgCoreContainerImageURL D) (ce_SgCoreImage c),
           ce_NodeExporterImage := or_default (td_NodeExporterContainerImageURL D) (ce_NodeExporterImage c)\<rparr>;
         a = ase_AutoscalingSpec (te_Autoscaling spec);
         a' = a\<lparr>as_Aodh := (as_Aodh a)\<lparr>
           ao_APIImage := or_default (td_AodhAPIContainerImageURL D) (ao_APIImage (as_Aodh a)),
           ao_EvaluatorImage := or_default (td_AodhEvaluatorContainerImageURL D) (ao_EvaluatorImage (as_Aodh a)),
           ao_NotifierImage := or_default (td_AodhNotifierContainerImageURL D) (ao_NotifierImage (as_Aodh a)),
           ao_ListenerImage := or_default (td_AodhListenerContainerImageURL D) (ao_ListenerImage (as_Aodh a))\<rparr>\<rparr>
     in spec\<lparr>te_Ceilometer := (te_Ceilometer spec)\<lparr>cse_CeilometerSpec := c'\<rparr>,
             te_Autoscaling := (te_Autoscaling spec)\<lparr>ase_AutoscalingSpec := a'\<rparr>\<rparr>)"

definition PersistentStorage_Default :: "PersistentStorage \<Rightarrow> PersistentStorage" where
  "PersistentStorage_Default ps =
     ps\<lparr>ps_PvcStorageRequest := or_default ''20G'' (ps_PvcStorageRequest ps)\<rparr>"

definition Storage_Default :: "Storage \<Rightarrow> Storage" where
  "Storage_Default storage =
    (let s1 = storage\<lparr>st_Strategy := or_default ''persistent'' (st_Strategy storage)\<rparr>;
         s2 = s1\<lparr>st_Retention := or_default ''24h'' (st_Retention s1)\<rparr>
     in if st_Strategy s2 = ''persistent''
        then s2\<lparr>st_Persistent := PersistentStorage_Default (st_Persistent s2)\<rparr> else s2)"

definition MonitoringStack_Default :: "MonitoringStack \<Rightarrow> MonitoringStack" where
  "MonitoringStack_Default ms =
    (let ms1 = ms\<lparr>ms_ScrapeInterval := or_default ''30s'' (ms_ScrapeInterval ms)\<rparr>
     in ms1\<lparr>ms_Storage := Storage_Default (ms_Storage ms1)\<rparr>)"

definition MetricStorageSpec_Default :: "MetricStorageSpec \<Rightarrow> MetricStorageSpec" where
  "MetricStorageSpec_Default spec =
    (let spec1 = (if mt_MonitoringStack spec = None \<and> mt_CustomMonitoringStack spec = None
                  then spec\<lparr>mt_MonitoringStack := Some (MonitoringStack0\<lparr>ms_AlertingEnabled := True\<rparr>)\<rparr>
                  else spec)
     in case mt_MonitoringStack spec1 of
          None \<Rightarrow> spec1
        | Some ms \<Rightarrow> spec1\<lparr>mt_MonitoringStack := Some (MonitoringStack_Default ms)\<rparr>)"

definition Autoscaling_Default :: "webhook_vars \<Rightarrow> 'c Autoscaling \<Rightarrow> 'c Autoscaling" where
  "Autoscaling_Default v r = r\<lparr>Spec := AutoscalingSpec_Default (autoscalingDefaults v) (Spec r)\<rparr>"

definition Ceilometer_Default :: "webhook_vars \<Rightarrow> 'c Ceilometer \<Rightarrow> 'c Ceilometer" where
  "Ceilometer_Default v r = r\<lparr>Spec := CeilometerSpec_Default (ceilometerDefaults v) (Spec r)\<rparr>"

definition Telemetry_Default :: "webhook_vars \<Rightarrow> 'c Telemetry \<Rightarrow> 'c Telemetry" where
  "Telemetry_Default v r = r\<lparr>Spec := TelemetrySpec_Default (telemetryDefaults v) (Spec r)\<rparr>"

definition MetricStorage_Default :: "'c MetricStorage \<Rightarrow> 'c MetricStorage" where
  "MetricStorage_Default r = r\<lparr>Spec := MetricStorageSpec_Default (Spec r)\<rparr>"

section \<open>Validation\<close>

text \<open>No webhook rejects anything: every \<open>Validate*\<close> method logs and returns nil.\<close>

definition Autoscaling_ValidateCreate :: "'c Autoscaling \<Rightarrow> error option" where
  "Autoscaling_ValidateCreate r = None"
definition Autoscaling_ValidateUpdate :: "'c Autoscaling \<Rightarrow> 'c Autoscaling \<Rightarrow> error option" where
  "Autoscaling_ValidateUpdate r old = None"
definition Autoscaling_ValidateDelete :: "'c Autoscaling \<Rightarrow> error option" where
  "Autoscaling_ValidateDelete r = None"
definition Ceilometer_ValidateCreate :: "'c Ceilometer \<Rightarrow> error option" where
  "Ceilometer_ValidateCreate r = None"
definition Ceilometer_ValidateUpdate :: "'c Ceilometer \<Rightarrow> 'c Ceilometer \<Rightarrow> error option" where
  "Ceilometer_ValidateUpdate r old = None"
definition Ceilometer_ValidateDelete :: "'c Ceilometer \<Rightarrow> error option" where
  "Ceilometer_ValidateDelete r = None"
definition Telemetry_ValidateCreate :: "'c Telemetry \<Rightarrow> error option" where
  "Telemetry_ValidateCreate r = None"
definition Telemetry_ValidateUpdate :: "'c Telemetry \<Rightarrow> 'c Telemetry \<Rightarrow> error option" where
  "Telemetry_ValidateUpdate r old = None"
definition Telemetry_ValidateDelete :: "'c Telemetry \<Rightarrow> error option" where
  "Telemetry_ValidateDelete r = None"
definition MetricStorage_ValidateCreate :: "'c MetricStorage \<Rightarrow> error option" where
  "MetricStorage_ValidateCreate r = None"
definition MetricStorage_ValidateUpdate :: "'c MetricStorage \<Rightarrow> 'c MetricStorage \<Rightarrow> error option" where
  "MetricStorage_ValidateUpdate r old = None"
definition MetricStorage_ValidateDelete :: "'c MetricStorage \<Rightarrow> error option" where
  "MetricStorage_ValidateDelete r = None"

section \<open>The contract of a defaulting method\<close>

text \<open>
  \<open>fields\<close> lists the fields the method owns with their defaults. It fills the empty ones, keeps the
  others, and writes nothing when there is nothing to fill.
\<close>

locale defaulter =
  fixes Default :: "'s \<Rightarrow> 's"
    and fields :: "(('s \<Rightarrow> string) \<times> string) list"
  assumes field: "(get, d) \<in> set fields \<Longrightarrow> get (Default s) = or_default d (get s)"
    and nothing_to_fill:
      "(\<And>get d. (get, d) \<in> set fields \<Longrightarrow> get s \<noteq> '''' \<or> d = '''') \<Longrightarrow> Default s = s"
begin

lemma idempotent: "Default (Default s) = Default s"
  by (rule nothing_to_fill) (auto simp: field or_default_def)

lemma keeps_user_value: "(get, d) \<in> set fields \<Longrightarrow> get s \<noteq> '''' \<Longrightarrow> get (Default s) = get s"
  by (simp add: field or_default_def)

lemma fills: "(get, d) \<in> set fields \<Longrightarrow> d \<noteq> '''' \<Longrightarrow> get (Default s) \<noteq> ''''"
  by (simp add: field or_default_def)

lemma left_empty: "(get, '''') \<in> set fields \<Longrightarrow> get s = '''' \<Longrightarrow> get (Default s) = ''''"
  by (simp add: field or_default_def)

end

definition AutoscalingSpec_fields :: "AutoscalingDefaults \<Rightarrow> ((AutoscalingSpec \<Rightarrow> string) \<times> string) list" where
  "AutoscalingSpec_fields D =
    [(\<lambda>s. ao_APIImage (as_Aodh s), ad_AodhAPIContainerImageURL D),
     (\<lambda>s. ao_EvaluatorImage (as_Aodh s), ad_AodhEvaluatorContainerImageURL D),
     (\<lambda>s. ao_NotifierImage (as_Aodh s), ad_AodhNotifierContainerImageURL D),
     (\<lambda>s. ao_ListenerImage (as_Aodh s), ad_AodhListenerContainerImageURL D)]"

definition CeilometerSpec_fields :: "CeilometerDefaults \<Rightarrow> ((CeilometerSpec \<Rightarrow> string) \<times> string) list" where
  "CeilometerSpec_fields D =
    [(ce_CentralImage, cd_CentralContainerImageURL D),
     (ce_NotificationImage, cd_NotificationContainerImageURL D),
     (ce_SgCoreImage, cd_SgCoreContainerImageURL D),
     (ce_ComputeImage, cd_ComputeContainerImageURL D),
     (ce_IpmiImage, cd_IpmiContainerImageURL D),
     (ce_NodeExporterImage, cd_NodeExporterContainerImageURL D)]"

definition TelemetrySpec_fields :: "TelemetryDefaults \<Rightarrow> ((TelemetrySpec \<Rightarrow> string) \<times> string) list" where
  "TelemetrySpec_fields D =
    (let c = (\<lambda>s. cse_CeilometerSpec (te_Ceilometer s)); a = (\<lambda>s. as_Aodh (ase_AutoscalingSpec (te_Autoscaling s)))
     in [(\<lambda>s. ce_CentralImage (c s), td_CentralContainerImageURL D),
         (\<lambda>s. ce_ComputeImage (c s), td_ComputeContainerImageURL D),
         (\<lambda>s. ce_IpmiImage (c s), td_IpmiContainerImageURL D),
         (\<lambda>s. ce_NotificationImage (c s), td_NotificationContainerImageURL D),
         (\<lambda>s. ce_SgCoreImage (c s), td_SgCoreContainerImageURL D),
         (\<lambda>s. ce_NodeExporterImage (c s), td_NodeExporterContainerImageURL D),
         (\<lambda>s. ao_APIImage (a s), td_AodhAPIContainerImageURL D),
         (\<lambda>s. ao_EvaluatorImage (a s), td_AodhEvaluatorContainerImageURL D),
         (\<lambda>s. ao_NotifierImage (a s), td_AodhNotifierContainerImageURL D),
         (\<lambda>s. ao_ListenerImage (a s), td_AodhListenerContainerImageURL D)])"

lemma or_default_same [simp]: "x \<noteq> '''' \<or> d = '''' \<Longrightarrow> or_default d x = x"
  by (auto simp: or_default_def)

lemma or_default_idem [simp]: "or_default d (or_default d x) = or_default d x"
  by (simp add: or_default_def)

interpretation autoscaling_defaults: defaulter "AutoscalingSpec_Default D" "AutoscalingSpec_fields D" for D
proof
  fix s
  assume "\<And>get d. (get, d) \<in> set (AutoscalingSpec_fields D) \<Longrightarrow> get s \<noteq> '''' \<or> d = ''''"
  note this [unfolded AutoscalingSpec_fields_def, simplified]
  then have "or_default (ad_AodhAPIContainerImageURL D) (ao_APIImage (as_Aodh s)) = ao_APIImage (as_Aodh s)"
    "or_default (ad_AodhEvaluatorContainerImageURL D) (ao_EvaluatorImage (as_Aodh s)) = ao_EvaluatorImage (as_Aodh s)"
    "or_default (ad_AodhNotifierContainerImageURL D) (ao_NotifierImage (as_Aodh s)) = ao_NotifierImage (as_Aodh s)"
    "or_default (ad_AodhListenerContainerImageURL D) (ao_ListenerImage (as_Aodh s)) = ao_ListenerImage (as_Aodh s)"
    by (intro or_default_same, blast)+
  then show "AutoscalingSpec_Default D s = s"
    by (simp add: AutoscalingSpec_Default_def)
qed (auto simp: AutoscalingSpec_Default_def AutoscalingSpec_fields_def)

interpretation ceilometer_defaults: defaulter "CeilometerSpec_Default D" "CeilometerSpec_fields D" for D
proof
  fix s
  assume "\<And>get d. (get, d) \<in> set (CeilometerSpec_fields D) \<Longrightarrow> get s \<noteq> '''' \<or> d = ''''"
  note this [unfolded CeilometerSpec_fields_def, simplified]
  then have "or_default (cd_CentralContainerImageURL D) (ce_CentralImage s) = ce_CentralImage s"
    "or_default (cd_NotificationContainerImageURL D) (ce_NotificationImage s) = ce_NotificationImage s"
    "or_default (cd_SgCoreContainerImageURL D) (ce_SgCoreImage s) = ce_SgCoreImage s"
    "or_default (cd_ComputeContainerImageURL D) (ce_ComputeImage s) = ce_ComputeImage s"
    "or_default (cd_IpmiContainerImageURL D) (ce_IpmiImage s) = ce_IpmiImage s"
    "or_default (cd_NodeExporterContainerImageURL D) (ce_NodeExporterImage s) = ce_NodeExporterImage s"
    by (intro or_default_same, blast)+
  then show "CeilometerSpec_Default D s = s"
    by (simp add: CeilometerSpec_Default_def)
qed (auto simp: CeilometerSpec_Default_def CeilometerSpec_fields_def)

text \<open>The Telemetry webhook does to its two sections what the webhooks of the children do to theirs.\<close>

definition ceilometer_part :: "TelemetryDefaults \<Rightarrow> CeilometerDefaults" where
  "ceilometer_part D = \<lparr>
     cd_CentralContainerImageURL = td_CentralContainerImageURL D,
     cd_NotificationContainerImageURL = td_NotificationContainerImageURL D,
     cd_SgCoreContainerImageURL = td_SgCoreContainerImageURL D,
     cd_ComputeContainerImageURL = td_ComputeContainerImageURL D,
     cd_IpmiContainerImageURL = td_IpmiContainerImageURL D,
     cd_NodeExporterContainerImageURL = td_NodeExporterContainerImageURL D\<rparr>"

definition autoscaling_part :: "TelemetryDefaults \<Rightarrow> AutoscalingDefaults" where
  "autoscaling_part D = \<lparr>
     ad_AodhAPIContainerImageURL = td_AodhAPIContainerImageURL D,
     ad_AodhEvaluatorContainerImageURL = td_AodhEvaluatorContainerImageURL D,
     ad_AodhNotifierContainerImageURL = td_AodhNotifierContainerImageURL D,
     ad_AodhListenerContainerImageURL = td_AodhListenerContainerImageURL D\<rparr>"

lemma TelemetrySpec_Default_sections:
  "TelemetrySpec_Default D spec = spec\<lparr>
     te_Ceilometer := (te_Ceilometer spec)\<lparr>cse_CeilometerSpec :=
        CeilometerSpec_Default (ceilometer_part D) (cse_CeilometerSpec (te_Ceilometer spec))\<rparr>,
     te_Autoscaling := (te_Autoscaling spec)\<lparr>ase_AutoscalingSpec :=
        AutoscalingSpec_Default (autoscaling_part D) (ase_AutoscalingSpec (te_Autoscaling spec))\<rparr>\<rparr>"
  by (simp add: TelemetrySpec_Default_def CeilometerSpec_Default_def AutoscalingSpec_Default_def
      ceilometer_part_def autoscaling_part_def Let_def)

interpretation telemetry_defaults: defaulter "TelemetrySpec_Default D" "TelemetrySpec_fields D" for D
proof
  fix s
  assume a: "\<And>get d. (get, d) \<in> set (TelemetrySpec_fields D) \<Longrightarrow> get s \<noteq> '''' \<or> d = ''''"
  note a' = a [unfolded TelemetrySpec_fields_def Let_def, simplified]
  have "CeilometerSpec_Default (ceilometer_part D) (cse_CeilometerSpec (te_Ceilometer s))
      = cse_CeilometerSpec (te_Ceilometer s)"
    by (rule ceilometer_defaults.nothing_to_fill)
      (use a' in \<open>auto simp: CeilometerSpec_fields_def ceilometer_part_def\<close>)
  moreover have "AutoscalingSpec_Default (autoscaling_part D) (ase_AutoscalingSpec (te_Autoscaling s))
      = ase_AutoscalingSpec (te_Autoscaling s)"
    by (rule autoscaling_defaults.nothing_to_fill)
      (use a' in \<open>auto simp: AutoscalingSpec_fields_def autoscaling_part_def\<close>)
  ultimately show "TelemetrySpec_Default D s = s"
    by (simp add: TelemetrySpec_Default_sections)
qed (auto simp: TelemetrySpec_Default_def TelemetrySpec_fields_def Let_def)

section \<open>The MetricStorage defaults\<close>

lemma PersistentStorage_Default_idem [simp]:
  "PersistentStorage_Default (PersistentStorage_Default ps) = PersistentStorage_Default ps"
  by (simp add: PersistentStorage_Default_def)

lemma Storage_Default_fields [simp]:
  "st_Strategy (Storage_Default s) = or_default ''persistent'' (st_Strategy s)"
  "st_Retention (Storage_Default s) = or_default ''24h'' (st_Retention s)"
  "st_Persistent (Storage_Default s) =
     (if or_default ''persistent'' (st_Strategy s) = ''persistent''
      then PersistentStorage_Default (st_Persistent s) else st_Persistent s)"
  by (simp_all add: Storage_Default_def Let_def)

lemma Storage_Default_idem [simp]: "Storage_Default (Storage_Default s) = Storage_Default s"
  by (rule Storage.equality) simp_all

lemma MonitoringStack_Default_idem [simp]:
  "MonitoringStack_Default (MonitoringStack_Default ms) = MonitoringStack_Default ms"
  by (simp add: MonitoringStack_Default_def Let_def)

lemma MetricStorageSpec_Default_cases:
  "MetricStorageSpec_Default spec =
    (case mt_MonitoringStack spec of
       Some ms \<Rightarrow> spec\<lparr>mt_MonitoringStack := Some (MonitoringStack_Default ms)\<rparr>
     | None \<Rightarrow> if mt_CustomMonitoringStack spec = None
        then spec\<lparr>mt_MonitoringStack := Some (MonitoringStack_Default (MonitoringStack0\<lparr>ms_AlertingEnabled := True\<rparr>))\<rparr>
        else spec)"
  by (cases "mt_MonitoringStack spec") (simp_all add: MetricStorageSpec_Default_def Let_def)

lemma MetricStorageSpec_Default_idem [simp]:
  "MetricStorageSpec_Default (MetricStorageSpec_Default spec) = MetricStorageSpec_Default spec"
  by (cases "mt_MonitoringStack spec") (simp_all add: MetricStorageSpec_Default_cases)

lemma ceilometerDefaults_setup [simp]:
  "ceilometerDefaults (setup_defaults env v) =
     (ceilometer_part (telemetryDefaults (setup_defaults env v)))\<lparr>cd_NodeExporterContainerImageURL := ''''\<rparr>"
  by (simp add: setup_defaults_def SetupDefaultsAutoscaling_def SetupDefaultsCeilometer_def
      SetupDefaultsTelemetry_def SetupAutoscalingDefaults_def SetupCeilometerDefaults_def
      SetupTelemetryDefaults_def ceilometer_part_def)

lemma autoscalingDefaults_setup [simp]:
  "autoscalingDefaults (setup_defaults env v) = autoscaling_part (telemetryDefaults (setup_defaults env v))"
  by (simp add: setup_defaults_def SetupDefaultsAutoscaling_def SetupDefaultsCeilometer_def
      SetupDefaultsTelemetry_def SetupAutoscalingDefaults_def SetupCeilometerDefaults_def
      SetupTelemetryDefaults_def autoscaling_part_def)

section \<open>Properties\<close>


lemma CeilometerSpec_Default_without_node_exporter:
  "CeilometerSpec_Default (D\<lparr>cd_NodeExporterContainerImageURL := ''''\<rparr>) (CeilometerSpec_Default D c)
     = CeilometerSpec_Default D c"
  by (rule ceilometer_defaults.nothing_to_fill)
    (auto simp: CeilometerSpec_fields_def CeilometerSpec_Default_def or_default_def)


text \<open>
  A Ceilometer that is created on its own, without an image for the node exporter, keeps the empty
  image: whatever the environment, \<open>SetupDefaultsCeilometer\<close> sets no default for that field, while the
  other empty images receive the default the Telemetry webhook would give them.
\<close>

theorem ceilometer_node_exporter_stays_empty:
  assumes "ce_NodeExporterImage (Spec c) = ''''"
  shows "Spec (Ceilometer_Default (setup_defaults env v0) c) =
    (CeilometerSpec_Default (ceilometer_part (telemetryDefaults (setup_defaults env v0))) (Spec c))
      \<lparr>ce_NodeExporterImage := ''''\<rparr>"
  using assms
  by (simp add: Ceilometer_Default_def CeilometerSpec_Default_def ceilometer_part_def or_default_def)

theorem ceilometer_node_exporter_stays_empty_witness:
  "ce_NodeExporterImage CeilometerSpec0 = '''' \<and>
   (\<forall>env v0. ce_NodeExporterImage (Spec (Ceilometer_Default (setup_defaults env v0)
      (\<lparr>Meta = ObjectMeta_named ''ceilometer'' ''openstack'', Spec = CeilometerSpec0,
        Status = CeilometerStatus0\<rparr> :: unit Ceilometer))) = '''')"
  using ceilometer_node_exporter_stays_empty
    [of "\<lparr>Meta = ObjectMeta_named ''ceilometer'' ''openstack'', Spec = CeilometerSpec0,
        Status = CeilometerStatus0\<rparr> :: unit Ceilometer"]
  by (simp add: CeilometerSpec0_def)

text \<open>
  C23: An admitted MetricStorage always names a stack: after defaulting, one of the two stacks is set;
  a stack that the webhook adds has alerting enabled; and a \<open>monitoringStack\<close> has a scrape interval, a
  retention and a storage strategy, with a storage request when the strategy is persistent.
\<close>

theorem metricstorage_defaults_complete:
  "case mt_MonitoringStack (MetricStorageSpec_Default spec) of
     None \<Rightarrow> mt_CustomMonitoringStack (MetricStorageSpec_Default spec) \<noteq> None
   | Some ms \<Rightarrow>
       ms_ScrapeInterval ms \<noteq> '''' \<and> st_Retention (ms_Storage ms) \<noteq> '''' \<and>
       st_Strategy (ms_Storage ms) \<noteq> '''' \<and>
       (if st_Strategy (ms_Storage ms) = ''persistent''
        then ps_PvcStorageRequest (st_Persistent (ms_Storage ms)) \<noteq> '''' else True) \<and>
       (if mt_MonitoringStack spec = None then ms_AlertingEnabled ms else True)"
  by (cases "mt_MonitoringStack spec"; cases "mt_CustomMonitoringStack spec")
    (auto simp: MetricStorageSpec_Default_cases MonitoringStack_Default_def Let_def
      PersistentStorage_Default_def or_default_def MonitoringStack0_def)

end
