(* ===== verification/Registration.thy ===== *)
theory Registration
  imports Watches Logging_Controller Webhooks
begin

text \<open>
  What the program registers with controller-runtime before the manager starts: the kinds of its own API
  group (\<^verbatim>\<open>groupversion_info.go\<close> and the \<open>init\<close> functions of the \<^verbatim>\<open>*_types.go\<close> files), the five controllers
  with the objects whose changes they react to (\<open>SetupWithManager\<close>) and the four webhooks
  (\<open>SetupWebhookWithManager\<close>). The builder of controller-runtime is data here; what the running manager
  makes of it is the parameter \<open>Enqueue\<close> with its documented behaviour \<open>enqueue_law\<close>.

  The locale \<open>controlled\<close> is the contract of the mutate functions that make an instance the controller of
  the object they fill in; each of them interprets it.
\<close>

section \<open>Go types and their packages\<close>

record GoType =
  gt_Package :: string
  gt_Kind :: string

abbreviation corev1 :: "string \<Rightarrow> GoType" where
  "corev1 k \<equiv> \<lparr>gt_Package = ''k8s.io/api/core/v1'', gt_Kind = k\<rparr>"
abbreviation appsv1 :: "string \<Rightarrow> GoType" where
  "appsv1 k \<equiv> \<lparr>gt_Package = ''k8s.io/api/apps/v1'', gt_Kind = k\<rparr>"
abbreviation rbacv1 :: "string \<Rightarrow> GoType" where
  "rbacv1 k \<equiv> \<lparr>gt_Package = ''k8s.io/api/rbac/v1'', gt_Kind = k\<rparr>"
abbreviation keystonev1 :: "string \<Rightarrow> GoType" where
  "keystonev1 k \<equiv> \<lparr>gt_Package = ''keystone-operator/api/v1beta1'', gt_Kind = k\<rparr>"
abbreviation rabbitmqv1 :: "string \<Rightarrow> GoType" where
  "rabbitmqv1 k \<equiv> \<lparr>gt_Package = ''infra-operator/apis/rabbitmq/v1beta1'', gt_Kind = k\<rparr>"
abbreviation memcachedv1 :: "string \<Rightarrow> GoType" where
  "memcachedv1 k \<equiv> \<lparr>gt_Package = ''infra-operator/apis/memcached/v1beta1'', gt_Kind = k\<rparr>"
abbreviation mariadbv1 :: "string \<Rightarrow> GoType" where
  "mariadbv1 k \<equiv> \<lparr>gt_Package = ''mariadb-operator/api/v1beta1'', gt_Kind = k\<rparr>"
abbreviation telemetryv1 :: "string \<Rightarrow> GoType" where
  "telemetryv1 k \<equiv> \<lparr>gt_Package = ''telemetry-operator/api/v1beta1'', gt_Kind = k\<rparr>"

abbreviation obov1 :: "string \<Rightarrow> GoType" where
  "obov1 k \<equiv> \<lparr>gt_Package = ''observability-operator/pkg/apis/monitoring/v1alpha1'', gt_Kind = k\<rparr>"
abbreviation monv1 :: "string \<Rightarrow> GoType" where
  "monv1 k \<equiv> \<lparr>gt_Package = ''obo-prometheus-operator/pkg/apis/monitoring/v1'', gt_Kind = k\<rparr>"
abbreviation dataplanev1 :: "string \<Rightarrow> GoType" where
  "dataplanev1 k \<equiv> \<lparr>gt_Package = ''dataplane-operator/api/v1beta1'', gt_Kind = k\<rparr>"

text \<open>The scrape configuration is an unstructured object, its kind is data: it needs no Go type.\<close>

abbreviation unstructured_ScrapeConfig :: GoType where
  "unstructured_ScrapeConfig \<equiv> \<lparr>gt_Package = ''k8s.io/apimachinery/pkg/apis/meta/v1/unstructured'', gt_Kind = ''ScrapeConfig''\<rparr>"

record GroupVersion_t =
  gv_Group :: string
  gv_Version :: string

definition GroupVersion :: GroupVersion_t where
  "GroupVersion = \<lparr>gv_Group = ''telemetry.openstack.org'', gv_Version = ''v1beta1''\<rparr>"

text \<open>
  \<open>SchemeBuilder.Register\<close> collects the types; the \<open>init\<close> functions of a package run in the order of its
  file names.
\<close>

definition Register :: "string list \<Rightarrow> GoType list \<Rightarrow> GoType list" where
  "Register kinds types = types @ map telemetryv1 kinds"

definition Autoscaling_init :: "GoType list \<Rightarrow> GoType list" where
  "Autoscaling_init = Register [''Autoscaling'', ''AutoscalingList'']"
definition Ceilometer_init :: "GoType list \<Rightarrow> GoType list" where
  "Ceilometer_init = Register [''Ceilometer'', ''CeilometerList'']"
definition Logging_init :: "GoType list \<Rightarrow> GoType list" where
  "Logging_init = Register [''Logging'', ''LoggingList'']"
definition MetricStorage_init :: "GoType list \<Rightarrow> GoType list" where
  "MetricStorage_init = Register [''MetricStorage'', ''MetricStorageList'']"
definition Telemetry_init :: "GoType list \<Rightarrow> GoType list" where
  "Telemetry_init = Register [''Telemetry'', ''TelemetryList'']"

definition SchemeBuilder :: "GoType list" where
  "SchemeBuilder = Telemetry_init (MetricStorage_init (Logging_init (Ceilometer_init (Autoscaling_init []))))"

section \<open>Controllers and webhooks\<close>

text \<open>The calls on the builder, with the map function of a watch on the cluster \<open>'w\<close>.\<close>

datatype 'w event_source =
    For GoType
  | Owns GoType
  | Watches GoType "ObjectMeta \<Rightarrow> ('w, NamespacedName list option) state"

type_synonym 'w builder = "'w event_source list"

text \<open>
  The reconcilers are built with the client and the scheme of the manager, which are part of its state,
  and the client \<open>Kclient\<close>.
\<close>

datatype 'k Reconciler =
    TelemetryReconciler 'k | CeilometerReconciler 'k | AutoscalingReconciler 'k | LoggingReconciler 'k
  | MetricStorageReconciler 'k

text \<open>\<open>Complete\<close> and \<open>Build\<close> end the chain of calls on the builder; \<open>Build\<close> also returns the controller.\<close>

record ('w, 'm, 'k, 'ctl) registrar =
  Complete :: "'k Reconciler \<Rightarrow> 'w builder \<Rightarrow> ('m, error option) state"
  Build :: "'k Reconciler \<Rightarrow> 'w builder \<Rightarrow> ('m, 'ctl option \<times> error option) state"
  Webhook_Complete :: "GoType \<Rightarrow> ('m, error option) state"

definition Telemetry_sources :: "'w builder" where
  "Telemetry_sources = [For (telemetryv1 ''Telemetry''), Owns (telemetryv1 ''Ceilometer''),
     Owns (telemetryv1 ''Autoscaling''), Owns (telemetryv1 ''MetricStorage'')]"

definition Telemetry_SetupWithManager :: "('w, 'm, 'k, 'ctl, 'x) registrar_scheme \<Rightarrow> 'k \<Rightarrow> ('m, error option) state" where
  "Telemetry_SetupWithManager R k = Complete R (TelemetryReconciler k) Telemetry_sources"

definition Ceilometer_sources :: "(string \<Rightarrow> ('w, error + 'c Ceilometer list) state) \<Rightarrow> 'w builder" where
  "Ceilometer_sources list_ceilometers = [For (telemetryv1 ''Ceilometer''), Owns (keystonev1 ''KeystoneService''),
     Owns (appsv1 ''StatefulSet''), Owns (corev1 ''ConfigMap''), Owns (corev1 ''Service''),
     Owns (rabbitmqv1 ''TransportURL''), Owns (corev1 ''ServiceAccount''), Owns (rbacv1 ''Role''),
     Owns (rbacv1 ''RoleBinding''),
     Watches (corev1 ''Secret'') (Ceilometer_transportURLSecretFn list_ceilometers)]"

definition Ceilometer_SetupWithManager :: "('w, 'm, 'k, 'ctl, 'x) registrar_scheme
    \<Rightarrow> (string \<Rightarrow> ('w, error + 'c Ceilometer list) state) \<Rightarrow> 'k \<Rightarrow> ('m, error option) state" where
  "Ceilometer_SetupWithManager R list_ceilometers k =
     Complete R (CeilometerReconciler k) (Ceilometer_sources list_ceilometers)"

definition Autoscaling_sources :: "(string \<Rightarrow> ('w, error + 'c Autoscaling list) state) \<Rightarrow> 'w builder" where
  "Autoscaling_sources list_autoscalings = [For (telemetryv1 ''Autoscaling''), Owns (appsv1 ''StatefulSet''),
     Owns (corev1 ''ConfigMap''), Owns (corev1 ''Service''), Owns (corev1 ''Secret''),
     Owns (corev1 ''ServiceAccount''), Owns (keystonev1 ''KeystoneService''),
     Owns (keystonev1 ''KeystoneEndpoint''), Owns (mariadbv1 ''MariaDBDatabase''),
     Owns (rabbitmqv1 ''TransportURL''), Owns (rbacv1 ''Role''), Owns (rbacv1 ''RoleBinding''),
     Watches (corev1 ''Secret'') (Autoscaling_transportURLSecretFn list_autoscalings),
     Watches (memcachedv1 ''Memcached'') (memcachedFn list_autoscalings)]"

definition Autoscaling_SetupWithManager :: "('w, 'm, 'k, 'ctl, 'x) registrar_scheme
    \<Rightarrow> (string \<Rightarrow> ('w, error + 'c Autoscaling list) state) \<Rightarrow> 'k \<Rightarrow> ('m, error option) state" where
  "Autoscaling_SetupWithManager R list_autoscalings k =
     Complete R (AutoscalingReconciler k) (Autoscaling_sources list_autoscalings)"

definition Logging_sources :: "'w builder" where
  "Logging_sources = [For (telemetryv1 ''Logging''), Owns (corev1 ''Secret'')]"

definition Logging_SetupWithManager :: "('w, 'm, 'k, 'ctl, 'x) registrar_scheme \<Rightarrow> 'k \<Rightarrow> ('m, error option) state" where
  "Logging_SetupWithManager R k = Complete R (LoggingReconciler k) Logging_sources"

definition MetricStorage_sources :: "'w builder" where
  "MetricStorage_sources = [For (telemetryv1 ''MetricStorage'')]"

text \<open>The built controller is kept in \<open>r.Controller\<close>, for the watches that a pass starts.\<close>

definition MetricStorage_SetupWithManager :: "('w, 'm, 'k, 'ctl, 'x) registrar_scheme \<Rightarrow> 'k
    \<Rightarrow> ('m, 'ctl option \<times> error option) state" where
  "MetricStorage_SetupWithManager R k = do {
     (control, err) \<leftarrow> Build R (MetricStorageReconciler k) MetricStorage_sources;
     return (control, err)
   }"

definition Telemetry_SetupWebhookWithManager :: "('w, 'm, 'k, 'ctl, 'x) registrar_scheme \<Rightarrow> ('m, error option) state" where
  "Telemetry_SetupWebhookWithManager R = Webhook_Complete R (telemetryv1 ''Telemetry'')"
definition Ceilometer_SetupWebhookWithManager :: "('w, 'm, 'k, 'ctl, 'x) registrar_scheme \<Rightarrow> ('m, error option) state" where
  "Ceilometer_SetupWebhookWithManager R = Webhook_Complete R (telemetryv1 ''Ceilometer'')"
definition Autoscaling_SetupWebhookWithManager :: "('w, 'm, 'k, 'ctl, 'x) registrar_scheme \<Rightarrow> ('m, error option) state" where
  "Autoscaling_SetupWebhookWithManager R = Webhook_Complete R (telemetryv1 ''Autoscaling'')"
definition MetricStorage_SetupWebhookWithManager :: "('w, 'm, 'k, 'ctl, 'x) registrar_scheme \<Rightarrow> ('m, error option) state" where
  "MetricStorage_SetupWebhookWithManager R = Webhook_Complete R (telemetryv1 ''MetricStorage'')"

section \<open>Events\<close>

text \<open>
  Documented behaviour of the running manager. A changed object of the type of \<open>For\<close> is enqueued itself; a
  changed object of a type of \<open>Owns\<close> enqueues its controller if that is of the kind of \<open>For\<close>; a changed
  object of a type of \<open>Watches\<close> enqueues what the map function returns. \<open>ControllerOf\<close> is
  \<open>metav1.GetControllerOf\<close>: the owner reference whose flag \<open>controller\<close> is set.
\<close>

definition source_requests :: "(ObjectMeta \<Rightarrow> OwnerReference option) \<Rightarrow> string \<Rightarrow> GoType \<Rightarrow> ObjectMeta \<Rightarrow> 'w
    \<Rightarrow> 'w event_source \<Rightarrow> NamespacedName set" where
  "source_requests ControllerOf kind ty m w s = (case s of
      For t \<Rightarrow> if t = ty then {ObjectKeyFromObject m} else {}
    | Owns t \<Rightarrow> (case ControllerOf m of
          Some r \<Rightarrow> if t = ty \<and> or_Kind r = kind then {\<lparr>nn_Namespace = m_Namespace m, nn_Name = or_Name r\<rparr>} else {}
        | None \<Rightarrow> {})
    | Watches t f \<Rightarrow> if t = ty then requests (fst (run_state (f m) w)) else {})"

definition enqueue_law :: "(ObjectMeta \<Rightarrow> OwnerReference option)
    \<Rightarrow> ('w builder \<Rightarrow> GoType \<Rightarrow> ObjectMeta \<Rightarrow> 'w \<Rightarrow> NamespacedName set) \<Rightarrow> bool" where
  "enqueue_law ControllerOf Enqueue \<longleftrightarrow> (\<forall>own rest ty m w. Enqueue (For own # rest) ty m w =
     (\<Union>s \<in> set (For own # rest). source_requests ControllerOf (gt_Kind own) ty m w s))"

text \<open>\<open>SetControllerReference\<close> makes the owner the controller and changes neither name nor namespace.\<close>

definition owner_law :: "controllerutil \<Rightarrow> (ObjectMeta \<Rightarrow> OwnerReference option) \<Rightarrow> bool" where
  "owner_law U ControllerOf \<longleftrightarrow> (\<forall>kind owner m m'. SetControllerReference U kind owner m = Inr m' \<longrightarrow>
     ControllerOf m' = Some \<lparr>or_Kind = kind, or_Name = m_Name owner\<rparr> \<and>
     m_Name m' = m_Name m \<and> m_Namespace m' = m_Namespace m)"

definition reaches :: "('o \<Rightarrow> error + 'o) \<Rightarrow> ('o \<Rightarrow> ObjectMeta) \<Rightarrow> ObjectMeta
    \<Rightarrow> (ObjectMeta \<Rightarrow> 'w \<Rightarrow> NamespacedName set) \<Rightarrow> bool" where
  "reaches mutate meta owner enq \<longleftrightarrow> (\<forall>ob ob' w. mutate ob = Inr ob' \<longrightarrow>
     m_Namespace (meta ob) = m_Namespace owner \<longrightarrow> ObjectKeyFromObject owner \<in> enq (meta ob') w)"

locale controlled =
  fixes mutate :: "'o \<Rightarrow> error + 'o"
    and meta :: "'o \<Rightarrow> ObjectMeta"
    and U :: controllerutil
    and kind :: string
    and owner :: ObjectMeta
  assumes sets_controller: "mutate ob = Inr ob' \<Longrightarrow>
    \<exists>m. SetControllerReference U kind owner m = Inr (meta ob') \<and> m_Namespace m = m_Namespace (meta ob)"
begin

lemma controller_of:
  assumes "owner_law U ControllerOf" and "mutate ob = Inr ob'"
  shows "ControllerOf (meta ob') = Some \<lparr>or_Kind = kind, or_Name = m_Name owner\<rparr>"
    and "m_Namespace (meta ob') = m_Namespace (meta ob)"
  using sets_controller [OF assms(2)] assms(1) by (auto simp: owner_law_def)

text \<open>
  A change of the object enqueues its controller, provided that the builder owns the type of the object
  and the object lies in the namespace of the instance.
\<close>

lemma enqueues_owner:
  assumes "owner_law U ControllerOf" and "enqueue_law ControllerOf Enqueue" and "mutate ob = Inr ob'"
    and "m_Namespace (meta ob) = m_Namespace owner" and "gt_Kind own = kind" and "Owns ty \<in> set rest"
  shows "ObjectKeyFromObject owner \<in> Enqueue (For own # rest) ty (meta ob') w"
proof -
  have "ObjectKeyFromObject owner \<in> source_requests ControllerOf (gt_Kind own) ty (meta ob') w (Owns ty)"
    using controller_of [OF assms(1,3)] assms(4,5) by (simp add: source_requests_def ObjectKeyFromObject_def)
  with assms(2,6) show ?thesis unfolding enqueue_law_def by fastforce
qed

lemma reaches:
  assumes "owner_law U ControllerOf" and "enqueue_law ControllerOf Enqueue" and "gt_Kind own = kind" and "Owns ty \<in> set rest"
  shows "reaches mutate meta owner (Enqueue (For own # rest) ty)"
  unfolding reaches_def using enqueues_owner [OF assms(1,2) _ _ assms(3,4)] by blast

text \<open>Nothing else is enqueued when no other source has the type.\<close>

lemma enqueues_only_owner:
  assumes "owner_law U ControllerOf" and "enqueue_law ControllerOf Enqueue" and "mutate ob = Inr ob'"
    and "m_Namespace (meta ob) = m_Namespace owner" and "gt_Kind own = kind" and "Owns ty \<in> set rest"
    and "own \<noteq> ty" and "\<And>t f. Watches t f \<in> set rest \<Longrightarrow> t \<noteq> ty" and "\<And>t. For t \<in> set rest \<Longrightarrow> t \<noteq> ty"
  shows "Enqueue (For own # rest) ty (meta ob') w = {ObjectKeyFromObject owner}"
proof -
  have "source_requests ControllerOf (gt_Kind own) ty (meta ob') w s \<subseteq> {ObjectKeyFromObject owner}"
    if "s \<in> set (For own # rest)" for s
    using controller_of [OF assms(1,3)] assms(4,7-9) that
    by (cases s) (auto simp: source_requests_def ObjectKeyFromObject_def)
  with enqueues_owner [OF assms(1-6), of w] assms(2) show ?thesis
    unfolding enqueue_law_def by (metis (no_types, lifting) UN_least subset_singletonD empty_iff)
qed

end

interpretation own_ceilometer: controlled "mutate_ceilometer U t t'" Meta U "''Telemetry''" "Meta t" for U t t'
  by unfold_locales (auto simp: mutate_ceilometer_def Let_def split: sum.splits)

interpretation own_autoscaling: controlled "mutate_autoscaling U t t'" Meta U "''Telemetry''" "Meta t" for U t t'
  by unfold_locales (auto simp: mutate_autoscaling_def Let_def split: sum.splits)

interpretation own_metricstorage: controlled "mutate_metricstorage U t t'" Meta U "''Telemetry''" "Meta t" for U t t'
  by unfold_locales (auto simp: mutate_metricstorage_def Let_def split: sum.splits option.splits)

interpretation own_cei_transport: controlled "Ceilometer_mutate_transportURL U i" tu_Meta U "''Ceilometer''" "Meta i" for U i
  by unfold_locales (auto simp: Ceilometer_mutate_transportURL_def Let_def split: sum.splits)

interpretation own_cei_service: controlled "mutate_ceilometer_Service U i port labels" sc_Meta U "''Ceilometer''" "Meta i"
    for U i port labels
  by unfold_locales (auto simp: mutate_ceilometer_Service_def Let_def split: sum.splits)

interpretation own_aut_transport: controlled "Autoscaling_mutate_transportURL U i" tu_Meta U "''Autoscaling''" "Meta i" for U i
  by unfold_locales (auto simp: Autoscaling_mutate_transportURL_def Let_def split: sum.splits)

interpretation own_stack: controlled "mutate_monitoringStack U L i labels" Meta U "''MetricStorage''" "Meta i" for U L i labels
  by unfold_locales (auto simp: mutate_monitoringStack_def Let_def split: sum.splits if_splits)

interpretation own_monitor: controlled "mutate_ceilometerMonitor U L i labels" sm_Meta U "''MetricStorage''" "Meta i" for U L i labels
  by unfold_locales (auto simp: mutate_ceilometerMonitor_def Let_def split: sum.splits)

interpretation own_scrape_config: controlled "\<lambda>s. fst (run_state (mutate_scrapeConfig U D i labels s) w)" sg_Meta U "''MetricStorage''" "Meta i"
    for U D i labels w
  by unfold_locales (auto simp: mutate_scrapeConfig_def Let_def split: sum.splits prod.splits)

section \<open>Properties\<close>

text \<open>The sources of the MetricStorage controller once a pass has started the watches of \<open>r.Watching\<close>.\<close>

definition watch_source :: "(string \<Rightarrow> ('w, error + 'c MetricStorage list) state) \<Rightarrow> string \<Rightarrow> 'w event_source" where
  "watch_source list_metricstorages name =
    (if name = ''monitoringstacks.monitoring.rhobs'' then Owns (obov1 ''MonitoringStack'')
     else if name = ''servicemonitors.monitoring.rhobs'' then Owns (monv1 ''ServiceMonitor'')
     else if name = ''scrapeconfigs.monitoring.rhobs'' then Owns unstructured_ScrapeConfig
     else Watches (dataplanev1 ''OpenStackDataPlaneNodeSet'')
       (nodeSetWatchFn list_metricstorages))"

definition running_sources :: "(string \<Rightarrow> ('w, error + 'c MetricStorage list) state) \<Rightarrow> 'w2 ms_world \<Rightarrow> 'w builder" where
  "running_sources list_metricstorages r = MetricStorage_sources @ map (watch_source list_metricstorages) (Watching r)"

lemma watched:
  "''monitoringstacks.monitoring.rhobs'' \<in> set names \<Longrightarrow>
     Owns (obov1 ''MonitoringStack'') \<in> set (map (watch_source l) names)"
  "''servicemonitors.monitoring.rhobs'' \<in> set names \<Longrightarrow>
     Owns (monv1 ''ServiceMonitor'') \<in> set (map (watch_source l) names)"
  "''scrapeconfigs.monitoring.rhobs'' \<in> set names \<Longrightarrow>
     Owns unstructured_ScrapeConfig \<in> set (map (watch_source l) names)"
  unfolding set_map by (erule rev_image_eqI; simp add: watch_source_def)+

text \<open>
  C15: A change of a child that the Telemetry controller has written enqueues exactly the Telemetry it
  belongs to, so that the conditions of the child are mirrored again.
\<close>

theorem child_changes_reach_telemetry:
  assumes owner: "owner_law U ControllerOf" and enq: "enqueue_law ControllerOf Enqueue"
    and written: "mutate_ceilometer U t t' c = Inr c'" "mutate_autoscaling U t t' a = Inr a'"
      "mutate_metricstorage U t t' s = Inr s'"
    and ns: "m_Namespace (Meta c) = m_Namespace (Meta t)" "m_Namespace (Meta a) = m_Namespace (Meta t)"
      "m_Namespace (Meta s) = m_Namespace (Meta t)"
  shows "Enqueue Telemetry_sources (telemetryv1 ''Ceilometer'') (Meta c') w = {ObjectKeyFromObject (Meta t)} \<and>
    Enqueue Telemetry_sources (telemetryv1 ''Autoscaling'') (Meta a') w = {ObjectKeyFromObject (Meta t)} \<and>
    Enqueue Telemetry_sources (telemetryv1 ''MetricStorage'') (Meta s') w = {ObjectKeyFromObject (Meta t)}"
  unfolding Telemetry_sources_def
  by (intro conjI own_ceilometer.enqueues_only_owner [OF owner enq written(1) ns(1)]
      own_autoscaling.enqueues_only_owner [OF owner enq written(2) ns(2)]
      own_metricstorage.enqueues_only_owner [OF owner enq written(3) ns(3)]) auto


text \<open>
  C33: The service that the Logging controller creates in another namespace is nobody's: writing it leaves
  its owners as they are, no change of a service enqueues a Logging, and the deletion of a Logging removes
  the finalizer without a call on the cluster, so the service stays behind.
\<close>

theorem logging_service_left_behind:
  assumes enq: "enqueue_law ControllerOf Enqueue" and fin: "finalizer_laws U"
  shows "(\<exists>sv'. mutate_logging_Service i sv = Inr sv' \<and> m_OwnerReferences (sc_Meta sv') = m_OwnerReferences (sc_Meta sv)) \<and>
    Enqueue Logging_sources (corev1 ''Service'') m c = {} \<and>
    (\<exists>i'. run_state (Logging_reconcileDelete U A) \<lparr>inst = i, world = w\<rparr> = ((Result0, None), \<lparr>inst = i', world = w\<rparr>) \<and>
       GetFinalizer A \<notin> set (m_Finalizers (Meta i')))"
  using enq finalizer_laws.RemoveFinalizer_absent [OF fin]
  by (simp add: mutate_logging_Service_def enqueue_law_def Logging_sources_def source_requests_def
      Logging_reconcileDelete_def remove_finalizer_def split: option.splits)

section \<open>Witnesses\<close>

text \<open>A manager with the documented behaviour, whose objects have at most one owner.\<close>

definition ref_ControllerOf :: "ObjectMeta \<Rightarrow> OwnerReference option" where
  "ref_ControllerOf m = (case m_OwnerReferences m of [] \<Rightarrow> None | r # _ \<Rightarrow> Some r)"

definition ref_Enqueue :: "'w builder \<Rightarrow> GoType \<Rightarrow> ObjectMeta \<Rightarrow> 'w \<Rightarrow> NamespacedName set" where
  "ref_Enqueue b ty m w = (case b of
      For own # _ \<Rightarrow> (\<Union>s \<in> set b. source_requests ref_ControllerOf (gt_Kind own) ty m w s)
    | _ \<Rightarrow> {})"

lemma ref_enqueue_law: "enqueue_law ref_ControllerOf ref_Enqueue"
  by (simp add: enqueue_law_def ref_Enqueue_def)

lemma ref_owner_law: "owner_law ref_controllerutil ref_ControllerOf"
  by (auto simp: owner_law_def ref_SetControllerReference ref_ControllerOf_def)

theorem child_changes_reach_telemetry_witness:
  "\<exists>c'. mutate_ceilometer ref_controllerutil ref_telemetry ref_telemetry (ceilometer_child ref_telemetry) = Inr c' \<and>
     ref_Enqueue Telemetry_sources (telemetryv1 ''Ceilometer'') (Meta c') () = {ObjectKeyFromObject (Meta ref_telemetry)}"
proof -
  let ?t = ref_telemetry
  let ?U = ref_controllerutil
  obtain c' a' s' where w: "mutate_ceilometer ?U ?t ?t (ceilometer_child ?t) = Inr c'"
      "mutate_autoscaling ?U ?t ?t (autoscaling_child ?t) = Inr a'"
      "mutate_metricstorage ?U ?t ?t (metricstorage_child ?t) = Inr s'"
    by (simp add: mutate_ceilometer_def mutate_autoscaling_def mutate_metricstorage_def ref_SetControllerReference Let_def)
  have ns: "m_Namespace (Meta (ceilometer_child ?t)) = m_Namespace (Meta ?t)"
      "m_Namespace (Meta (autoscaling_child ?t)) = m_Namespace (Meta ?t)"
      "m_Namespace (Meta (metricstorage_child ?t)) = m_Namespace (Meta ?t)"
    by (simp_all add: ceilometer_child_def autoscaling_child_def metricstorage_child_def ObjectMeta_named_def)
  from w(1) child_changes_reach_telemetry [OF ref_owner_law ref_enqueue_law w ns, THEN conjunct1] show ?thesis by (intro exI conjI)
qed


theorem logging_service_left_behind_witness:
  "ref_Enqueue Logging_sources (corev1 ''Service'') (ObjectMeta_named ''openstack-rsyslog'' ''openshift-logging'') () = {}"
  using logging_service_left_behind [OF ref_enqueue_law ref_util.finalizer_laws_axioms, where i = ref_logging
      and A = "ref_logging_api ref_logging" and w = "[]" and c = "()"] by blast

end
