(* ===== verification/Startup.thy ===== *)
theory Startup
  imports Flags Registration
begin

text \<open>
  \<^verbatim>\<open>main.go\<close>: the scheme is filled by \<open>init\<close>; \<open>main\<close> parses the flags, creates the manager, registers the five
  controllers, takes the image defaults from the environment, registers the webhooks unless they are
  switched off, adds the probes and starts the manager. The state is a \<open>handler\<close> whose instance are the
  package variables of the webhooks and whose world is the manager; every call on the manager is a field of
  \<open>runtime\<close>. Log messages are left out.
\<close>

section \<open>Library parameters\<close>

text \<open>How a process ends: \<open>os.Exit\<close> with a code, or \<open>main\<close> returns.\<close>

datatype process_end = Exit int | Returned

record manager_Options =
  opt_MetricsBindAddress :: string
  opt_Port :: int
  opt_HealthProbeBindAddress :: string
  opt_LeaderElection :: bool
  opt_LeaderElectionID :: string

record tls_Config =
  NextProtos :: "string list"

datatype checker = Ping | StartedChecker

text \<open>\<open>GetConfigOrDie\<close> ends the process itself when there is no configuration: \<^const>\<open>None\<close>.\<close>

record ('w, 'm, 'k, 'ctl, 'cfg) runtime = "('w, 'm, 'k, 'ctl) registrar" +
  AddToScheme :: "string \<Rightarrow> ('m, error option) state"
  GetConfigOrDie :: "('m, 'cfg option) state"
  NewManager :: "'cfg \<Rightarrow> manager_Options \<Rightarrow> ('m, error option) state"
  GetConfig :: "('m, error + 'cfg) state"
  NewForConfig :: "'cfg \<Rightarrow> ('m, error + 'k) state"
  set_TLSOpts :: "(tls_Config \<Rightarrow> tls_Config) list \<Rightarrow> ('m, unit) state"
  AddHealthzCheck :: "string \<Rightarrow> checker \<Rightarrow> ('m, error option) state"
  AddReadyzCheck :: "string \<Rightarrow> checker \<Rightarrow> ('m, error option) state"
  Start :: "('m, error option) state"

section \<open>The scheme\<close>

text \<open>The packages whose types \<open>init\<close> adds to the scheme; \<open>utilruntime.Must\<close> panics on an error.\<close>

definition scheme_packages :: "string list" where
  "scheme_packages = [''k8s.io/client-go/kubernetes/scheme'', ''keystone-operator/api/v1beta1'',
     ''infra-operator/apis/rabbitmq/v1beta1'', ''openstack-ansibleee-operator/api/v1alpha1'',
     ''telemetry-operator/api/v1beta1'', ''observability-operator/pkg/apis/monitoring/v1alpha1'',
     ''obo-prometheus-operator/pkg/apis/monitoring/v1'', ''mariadb-operator/api/v1beta1'',
     ''infra-operator/apis/memcached/v1beta1'', ''heat-operator/api/v1beta1'',
     ''dataplane-operator/api/v1beta1'', ''infra-operator/apis/network/v1beta1'']"

fun Must_all :: "(string \<Rightarrow> ('m, error option) state) \<Rightarrow> string list \<Rightarrow> ('m, unit outcome) state" where
  "Must_all add [] = returns ()"
| "Must_all add (p # ps) = do {
     err \<leftarrow> add p;
     case err of Some e \<Rightarrow> return (Panic (Error e)) | None \<Rightarrow> Must_all add ps
   }"

definition main_init :: "('w, 'm, 'k, 'ctl, 'cfg) runtime \<Rightarrow> ('m, unit outcome) state" where
  "main_init R = Must_all (AddToScheme R) scheme_packages"

section \<open>main\<close>

text \<open>\<open>if err = call(); err != nil { setupLog.Error(err, ...); os.Exit(1) }\<close>, then the rest.\<close>

definition or_exit :: "('s, error option) state \<Rightarrow> ('s, process_end) state \<Rightarrow> ('s, process_end) state" where
  "or_exit call rest = do {
     err \<leftarrow> call;
     if err \<noteq> None then return (Exit 1) else rest
   }"

definition disableHTTP2 :: "bool \<Rightarrow> tls_Config \<Rightarrow> tls_Config" where
  "disableHTTP2 enable c = (if enable then c else c\<lparr>NextProtos := [''http/1.1'']\<rparr>)"

text \<open>
  \<open>strings.ToLower\<close>, on the bytes of the string. No other character than the ASCII letters has a letter of
  \<open>false\<close> as its lower case.
\<close>

definition to_lower :: "char \<Rightarrow> char" where
  "to_lower c = (if 65 \<le> (of_char c :: nat) \<and> (of_char c :: nat) \<le> 90 then char_of (of_char c + 32 :: nat) else c)"

definition webhooks_enabled :: "(string \<Rightarrow> string) \<Rightarrow> bool" where
  "webhooks_enabled Getenv \<longleftrightarrow> map to_lower (Getenv ''ENABLE_WEBHOOKS'') \<noteq> ''false''"

text \<open>From the probes on.\<close>

definition start_manager :: "('w, 'm, 'k, 'ctl, 'cfg) runtime \<Rightarrow> checker \<Rightarrow> ((webhook_vars, 'm) handler, process_end) state" where
  "start_manager R checker =
     or_exit (api (AddHealthzCheck R ''healthz'' checker))
    (or_exit (api (AddReadyzCheck R ''readyz'' checker))
    (or_exit (api (Start R))
    (return Returned)))"

definition setup_webhooks :: "('w, 'm, 'k, 'ctl, 'cfg) runtime \<Rightarrow> (string \<Rightarrow> string) \<Rightarrow> 'z flags
    \<Rightarrow> ((webhook_vars, 'm) handler, process_end) state" where
  "setup_webhooks R Getenv f =
    (if webhooks_enabled Getenv then do {
       api (set_TLSOpts R [disableHTTP2 (enableHTTP2 f)]);
       or_exit (api (Telemetry_SetupWebhookWithManager R))
      (or_exit (api (Ceilometer_SetupWebhookWithManager R))
      (or_exit (api (Autoscaling_SetupWebhookWithManager R))
      (or_exit (api (MetricStorage_SetupWebhookWithManager R))
      (start_manager R StartedChecker))))
     }
     else start_manager R Ping)"

text \<open>The controllers, then the defaults of the webhooks.\<close>

definition setup_controllers :: "('w, 'm, 'k, 'ctl, 'cfg) runtime \<Rightarrow> (string \<Rightarrow> ('w, error + 'c Ceilometer list) state)
    \<Rightarrow> (string \<Rightarrow> ('w, error + 'c Autoscaling list) state) \<Rightarrow> getenv \<Rightarrow> (string \<Rightarrow> string) \<Rightarrow> 'z flags \<Rightarrow> 'k
    \<Rightarrow> ((webhook_vars, 'm) handler, process_end) state" where
  "setup_controllers R list_c list_a GetEnvVar Getenv f kclient =
     or_exit (api (Telemetry_SetupWithManager R kclient))
    (or_exit (api (Ceilometer_SetupWithManager R list_c kclient))
    (or_exit (api (Autoscaling_SetupWithManager R list_a kclient))
    (or_exit (api (Logging_SetupWithManager R kclient))
    (or_exit (do { (_, err) \<leftarrow> api (MetricStorage_SetupWithManager R kclient); return err })
    (do {
       update_inst (SetupDefaultsTelemetry GetEnvVar);
       update_inst (SetupDefaultsCeilometer GetEnvVar);
       update_inst (SetupDefaultsAutoscaling GetEnvVar);
       setup_webhooks R Getenv f
     })))))"

definition manager_options :: "'z flags \<Rightarrow> manager_Options" where
  "manager_options f = \<lparr>opt_MetricsBindAddress = metricsAddr f, opt_Port = 9443, opt_HealthProbeBindAddress = probeAddr f,
     opt_LeaderElection = enableLeaderElection f, opt_LeaderElectionID = ''fa1814a2.openstack.org''\<rparr>"

definition main :: "('w, 'm, 'k, 'ctl, 'cfg) runtime \<Rightarrow> (string \<Rightarrow> ('w, error + 'c Ceilometer list) state)
    \<Rightarrow> (string \<Rightarrow> ('w, error + 'c Autoscaling list) state) \<Rightarrow> getenv \<Rightarrow> (string \<Rightarrow> string)
    \<Rightarrow> (string \<rightharpoonup> 'z flag_value) \<Rightarrow> 'z \<Rightarrow> string list \<Rightarrow> ((webhook_vars, 'm) handler, process_end) state" where
  "main R list_c list_a GetEnvVar Getenv others z args = (case Parse (formal others) args (flags0 z) of
      ParseExit code \<Rightarrow> return (Exit code)
    | Parsed f _ \<Rightarrow> do {
        conf \<leftarrow> api (GetConfigOrDie R);
        case conf of
          None \<Rightarrow> return (Exit 1)
        | Some cfg \<Rightarrow> or_exit (api (NewManager R cfg (manager_options f))) (do {
            conf \<leftarrow> api (GetConfig R);
            case conf of
              Inl err \<Rightarrow> return (Exit 1)
            | Inr cfg \<Rightarrow> do {
                client \<leftarrow> api (NewForConfig R cfg);
                case client of
                  Inl err \<Rightarrow> return (Exit 1)
                | Inr kclient \<Rightarrow> setup_controllers R list_c list_a GetEnvVar Getenv f kclient
              }
          })
      })"

section \<open>Properties\<close>

text \<open>A list of calls on the manager, ended by the first error.\<close>

fun run_plan :: "('m, error option) state list \<Rightarrow> ('m, error option) state" where
  "run_plan [] = return None"
| "run_plan (m # ms) = do { err \<leftarrow> m; if err \<noteq> None then return err else run_plan ms }"

definition controller_plan :: "('w, 'm, 'k, 'ctl, 'cfg) runtime \<Rightarrow> (string \<Rightarrow> ('w, error + 'c Ceilometer list) state)
    \<Rightarrow> (string \<Rightarrow> ('w, error + 'c Autoscaling list) state) \<Rightarrow> 'k \<Rightarrow> ('m, error option) state list" where
  "controller_plan R list_c list_a k =
    [Complete R (TelemetryReconciler k) Telemetry_sources,
     Complete R (CeilometerReconciler k) (Ceilometer_sources list_c),
     Complete R (AutoscalingReconciler k) (Autoscaling_sources list_a),
     Complete R (LoggingReconciler k) Logging_sources,
     do { r \<leftarrow> Build R (MetricStorageReconciler k) MetricStorage_sources; return (snd r) }]"

definition serve_plan :: "('w, 'm, 'k, 'ctl, 'cfg) runtime \<Rightarrow> checker \<Rightarrow> ('m, error option) state list" where
  "serve_plan R c = [AddHealthzCheck R ''healthz'' c, AddReadyzCheck R ''readyz'' c, Start R]"

definition webhook_plan :: "('w, 'm, 'k, 'ctl, 'cfg) runtime \<Rightarrow> 'z flags \<Rightarrow> ('m, error option) state list" where
  "webhook_plan R f = (do { _ \<leftarrow> set_TLSOpts R [disableHTTP2 (enableHTTP2 f)]; return None }) #
     map (\<lambda>kind. Webhook_Complete R (telemetryv1 kind)) [''Telemetry'', ''Ceilometer'', ''Autoscaling'', ''MetricStorage'']"

text \<open>The process that runs a plan and then goes on.\<close>

definition plan_or_exit :: "('m, error option) state list \<Rightarrow> ((webhook_vars, 'm) handler, process_end) state
    \<Rightarrow> ((webhook_vars, 'm) handler, process_end) state" where
  "plan_or_exit ms rest = or_exit (api (run_plan ms)) rest"

lemma run_or_exit [simp]:
  "run_state (or_exit (api m) rest) s = (case run_state m (world s) of
      (None, w) \<Rightarrow> run_state rest (s\<lparr>world := w\<rparr>) | (Some e, w) \<Rightarrow> (Exit 1, s\<lparr>world := w\<rparr>))"
  by (simp add: or_exit_def split: prod.splits option.splits)

lemma plan_or_exit_simps:
  "plan_or_exit [] rest = rest"
  "plan_or_exit (m # ms) rest = or_exit (api m) (plan_or_exit ms rest)"
  by (rule state.expand, rule ext, auto simp: plan_or_exit_def split: prod.splits option.splits)+

lemma or_exit_snd:
  "or_exit (State_Monad.bind (api m) (\<lambda>(_, err). return err)) rest =
   or_exit (api (State_Monad.bind m (\<lambda>r. return (snd r)))) rest"
  by (rule state.expand, rule ext) (simp add: or_exit_def split: prod.splits)

lemma or_exit_unit:
  "or_exit (api (State_Monad.bind m (\<lambda>_. return None))) rest = State_Monad.bind (api m) (\<lambda>_. rest)"
  by (rule state.expand, rule ext) (simp split: prod.splits)

lemma update_inst_setup_defaults:
  "State_Monad.bind (update_inst (SetupDefaultsTelemetry env)) (\<lambda>_. State_Monad.bind (update_inst (SetupDefaultsCeilometer env))
     (\<lambda>_. State_Monad.bind (update_inst (SetupDefaultsAutoscaling env)) f)) =
   State_Monad.bind (update_inst (setup_defaults env)) f"
  by (rule state.expand, rule ext) (simp add: setup_defaults_def)

lemma MetricStorage_Build:
  "MetricStorage_SetupWithManager R k = Build R (MetricStorageReconciler k) MetricStorage_sources"
  by (rule state.expand, rule ext) (simp add: MetricStorage_SetupWithManager_def split: prod.splits)

lemmas setup_defs = Telemetry_SetupWithManager_def Ceilometer_SetupWithManager_def Autoscaling_SetupWithManager_def
  Logging_SetupWithManager_def MetricStorage_Build Telemetry_SetupWebhookWithManager_def
  Ceilometer_SetupWebhookWithManager_def Autoscaling_SetupWebhookWithManager_def MetricStorage_SetupWebhookWithManager_def

lemma start_manager_plan: "start_manager R c = plan_or_exit (serve_plan R c) (return Returned)"
  by (simp add: start_manager_def serve_plan_def plan_or_exit_simps)

lemma setup_webhooks_plan:
  "setup_webhooks R Getenv f = plan_or_exit (if webhooks_enabled Getenv
     then webhook_plan R f @ serve_plan R StartedChecker else serve_plan R Ping) (return Returned)"
  by (simp add: setup_webhooks_def start_manager_plan webhook_plan_def plan_or_exit_simps or_exit_unit setup_defs)


text \<open>The Go type of a source, and the types that need a registration for the manager to watch them.\<close>

fun source_type :: "'w event_source \<Rightarrow> GoType" where
  "source_type (For t) = t"
| "source_type (Owns t) = t"
| "source_type (Watches t f) = t"

text \<open>
  The scheme of client-go registers the packages of the Kubernetes API itself, the own package the types of
  its scheme builder, the other packages all their kinds; an unstructured object needs no registration.
\<close>

definition in_scheme :: "GoType \<Rightarrow> bool" where
  "in_scheme t \<longleftrightarrow> t = unstructured_ScrapeConfig \<or>
    (if gt_Package t = ''telemetry-operator/api/v1beta1'' then gt_Package t \<in> set scheme_packages \<and> t \<in> set SchemeBuilder
     else if take 11 (gt_Package t) = ''k8s.io/api/'' then ''k8s.io/client-go/kubernetes/scheme'' \<in> set scheme_packages
     else gt_Package t \<in> set scheme_packages)"

lemmas scheme_defs = in_scheme_def scheme_packages_def SchemeBuilder_def Telemetry_init_def MetricStorage_init_def
  Logging_init_def Ceilometer_init_def Autoscaling_init_def Register_def

text \<open>
  \<open>init\<close> adds every type to the scheme that a controller of the operator is registered for, owns or
  watches, the watches that the MetricStorage controller starts later included; a type of the operator's own
  group is among those that the API package registers with its scheme builder.
\<close>

theorem watched_types_in_scheme:
  "list_all (\<lambda>s. in_scheme (source_type s))
     (Telemetry_sources @ Ceilometer_sources list_c @ Autoscaling_sources list_a @ Logging_sources @ MetricStorage_sources @
      map (watch_source list_s) names)"
proof -
  have "in_scheme (source_type (watch_source list_s n))" for n
    by (simp add: watch_source_def scheme_defs)
  then show ?thesis
    by (simp add: list_all_iff Telemetry_sources_def Ceilometer_sources_def Autoscaling_sources_def Logging_sources_def
        MetricStorage_sources_def scheme_defs)
qed

text \<open>A runtime for witnesses that records the calls.\<close>

definition ref_runtime :: "(string list, string list, unit, unit, unit) runtime" where
  "ref_runtime = \<lparr>
     Complete = (\<lambda>r b. ref_log (case r of TelemetryReconciler _ \<Rightarrow> ''telemetry'' | CeilometerReconciler _ \<Rightarrow> ''ceilometer''
       | AutoscalingReconciler _ \<Rightarrow> ''autoscaling'' | LoggingReconciler _ \<Rightarrow> ''logging'' | MetricStorageReconciler _ \<Rightarrow> ''metricstorage'') None),
     Build = (\<lambda>r b. ref_log ''metricstorage'' (Some (), None)),
     Webhook_Complete = (\<lambda>t. ref_log (''webhook '' @ gt_Kind t) None),
     AddToScheme = (\<lambda>p. ref_log p None),
     GetConfigOrDie = return (Some ()),
     NewManager = (\<lambda>cfg opts. ref_log ''manager'' None),
     GetConfig = return (Inr ()),
     NewForConfig = (\<lambda>cfg. return (Inr ())),
     set_TLSOpts = (\<lambda>fs. ref_log ''tls'' ()),
     AddHealthzCheck = (\<lambda>n c. ref_log n None),
     AddReadyzCheck = (\<lambda>n c. ref_log n (if c = Ping then Some (Errorf ''no webhooks'') else None)),
     Start = ref_log ''start'' None\<rparr>"


end
