(* ===== verification/Go_Heap.thy ===== *)
theory Go_Heap
  imports Prelude "HOL-Library.AList"
begin

text \<open>
  A heap of Go values, for the functions whose point is what they share. A value is a scalar, a struct or a
  reference (a pointer, a slice or a map; \<^const>\<open>None\<close> is nil); the heap maps addresses to what references
  refer to. \<open>read h t v\<close> reads the value \<open>v\<close> at the type \<open>t\<close>: it is defined when the value has the type, and
  gives the tree that the value stands for together with the addresses it reaches. The statements from which
  the generated deep copies are made are computations on the heap; \<open>deep_copier t f\<close> says that \<open>f\<close> copies values
  of the type \<open>t\<close>: the copy has the type and the same tree, shares no address with what was there, and changes
  nothing that was there.

  The capacity of a slice is left out: a slice is the elements up to its length.
\<close>

section \<open>Values, types, heaps\<close>

type_synonym addr = nat

datatype gval = Scalar string | Struct "(string \<times> gval) list" | Ref "addr option"

datatype gcell = Pointee gval | Elements "gval list" | Entries "(string \<times> string) list"

record gheap =
  cells :: "addr \<rightharpoonup> gcell"
  next_addr :: addr

definition wf_heap :: "gheap \<Rightarrow> bool" where
  "wf_heap h \<longleftrightarrow> (\<forall>a. cells h a \<noteq> None \<longrightarrow> a < next_addr h)"

datatype gtype = TScalar | TStruct "(string \<times> gtype) list" | TPtr gtype | TSlice gtype | TMap

datatype gtree = Leaf string | Node "(string \<times> gtree) list" | Nil | Target gtree | Items "gtree list" | Dict "string \<rightharpoonup> string"

fun read :: "gheap \<Rightarrow> gtype \<Rightarrow> gval \<Rightarrow> (gtree \<times> addr list) option" where
  "read h TScalar v = (case v of Scalar s \<Rightarrow> Some (Leaf s, []) | _ \<Rightarrow> None)"
| "read h (TStruct fs) v = (case v of
      Struct vs \<Rightarrow> if map fst vs = map fst fs
        then (case those (map (\<lambda>(n, t). case map_of vs n of None \<Rightarrow> None | Some x \<Rightarrow> read h t x) fs) of
            None \<Rightarrow> None
          | Some rs \<Rightarrow> Some (Node (zip (map fst fs) (map fst rs)), concat (map snd rs)))
        else None
    | _ \<Rightarrow> None)"
| "read h (TPtr t) v = (case v of
      Ref None \<Rightarrow> Some (Nil, [])
    | Ref (Some a) \<Rightarrow> (case cells h a of
          Some (Pointee x) \<Rightarrow> (case read h t x of None \<Rightarrow> None | Some (tr, as) \<Rightarrow> Some (Target tr, a # as))
        | _ \<Rightarrow> None)
    | _ \<Rightarrow> None)"
| "read h (TSlice t) v = (case v of
      Ref None \<Rightarrow> Some (Nil, [])
    | Ref (Some a) \<Rightarrow> (case cells h a of
          Some (Elements xs) \<Rightarrow> (case those (map (\<lambda>x. read h t x) xs) of
              None \<Rightarrow> None
            | Some rs \<Rightarrow> Some (Items (map fst rs), a # concat (map snd rs)))
        | _ \<Rightarrow> None)
    | _ \<Rightarrow> None)"
| "read h TMap v = (case v of
      Ref None \<Rightarrow> Some (Nil, [])
    | Ref (Some a) \<Rightarrow> (case cells h a of
          Some (Entries es) \<Rightarrow> if distinct (map fst es) then Some (Dict (map_of es), [a]) else None
        | _ \<Rightarrow> None)
    | _ \<Rightarrow> None)"

text \<open>Types without references.\<close>

fun plain :: "gtype \<Rightarrow> bool" where
  "plain TScalar = True"
| "plain (TStruct fs) = list_all (\<lambda>(n, t). plain t) fs"
| "plain (TPtr t) = False"
| "plain (TSlice t) = False"
| "plain TMap = False"

section \<open>Statements\<close>

definition load :: "addr \<Rightarrow> (gheap, gcell option) state" where
  "load a = State (\<lambda>h. (cells h a, h))"

definition store :: "addr \<Rightarrow> gcell \<Rightarrow> (gheap, unit) state" where
  "store a c = State (\<lambda>h. ((), h\<lparr>cells := (cells h)(a \<mapsto> c)\<rparr>))"

definition alloc :: "gcell \<Rightarrow> (gheap, addr) state" where
  "alloc c = State (\<lambda>h. (next_addr h, h\<lparr>cells := (cells h)(next_addr h \<mapsto> c), next_addr := Suc (next_addr h)\<rparr>))"

type_synonym copier = "gval \<Rightarrow> (gheap, gval) state"

text \<open>\<open>out.F = in.F\<close>\<close>

definition assign :: copier where
  "assign v = return v"

text \<open>
  \<open>if in.F != nil { *out = new(T); (*in).DeepCopyInto(*out) }\<close>. The first statement of every \<open>DeepCopyInto\<close> is
  \<open>*out = *in\<close>, so the new cell holds the pointee when the fields are copied.
\<close>

definition copy_ptr :: "copier \<Rightarrow> copier" where
  "copy_ptr f v = (case v of
      Ref (Some p) \<Rightarrow> do {
        c \<leftarrow> load p;
        case c of
          Some (Pointee x) \<Rightarrow> do {
            a \<leftarrow> alloc (Pointee x);
            x' \<leftarrow> f x;
            store a (Pointee x');
            return (Ref (Some a))
          }
        | _ \<Rightarrow> return v
      }
    | _ \<Rightarrow> return v)"

text \<open>\<open>for i := range *in { (*in)[i].DeepCopyInto(&(*out)[i]) }\<close> over the slice that \<open>make\<close> has filled with zero values.\<close>

definition gzero :: gval where
  "gzero = Scalar ''''"

fun copy_loop :: "copier \<Rightarrow> addr \<Rightarrow> gval list \<Rightarrow> gval list \<Rightarrow> (gheap, unit) state" where
  "copy_loop f a [] copied = return ()"
| "copy_loop f a (x # xs) copied = do {
     x' \<leftarrow> f x;
     store a (Elements (copied @ x' # replicate (length xs) gzero));
     copy_loop f a xs (copied @ [x'])
   }"

definition copy_slice :: "copier \<Rightarrow> copier" where
  "copy_slice f v = (case v of
      Ref (Some p) \<Rightarrow> do {
        c \<leftarrow> load p;
        case c of
          Some (Elements xs) \<Rightarrow> do {
            a \<leftarrow> alloc (Elements (replicate (length xs) gzero));
            copy_loop f a xs [];
            return (Ref (Some a))
          }
        | _ \<Rightarrow> return v
      }
    | _ \<Rightarrow> return v)"

text \<open>\<open>*out = make([]string, len(*in)); copy(*out, *in)\<close>\<close>

definition copy_strings :: copier where
  "copy_strings v = (case v of
      Ref (Some p) \<Rightarrow> do {
        c \<leftarrow> load p;
        case c of
          Some (Elements xs) \<Rightarrow> do {
            a \<leftarrow> alloc (Elements (replicate (length xs) gzero));
            store a (Elements xs);
            return (Ref (Some a))
          }
        | _ \<Rightarrow> return v
      }
    | _ \<Rightarrow> return v)"

text \<open>\<open>*out = make(map[string]string, len(*in)); for key, val := range *in { (*out)[key] = val }\<close>\<close>

fun copy_entries :: "addr \<Rightarrow> (string \<times> string) list \<Rightarrow> (string \<times> string) list \<Rightarrow> (gheap, unit) state" where
  "copy_entries a [] out = return ()"
| "copy_entries a ((k, v) # es) out = do {
     store a (Entries (AList.update k v out));
     copy_entries a es (AList.update k v out)
   }"

definition copy_map :: copier where
  "copy_map v = (case v of
      Ref (Some p) \<Rightarrow> do {
        c \<leftarrow> load p;
        case c of
          Some (Entries es) \<Rightarrow> do {
            a \<leftarrow> alloc (Entries []);
            copy_entries a es [];
            return (Ref (Some a))
          }
        | _ \<Rightarrow> return v
      }
    | _ \<Rightarrow> return v)"

text \<open>\<open>*out = *in\<close>, then one statement per listed field, in order.\<close>

fun copy_fields :: "(string \<times> copier) list \<Rightarrow> (string \<times> gval) list \<Rightarrow> (string \<times> gval) list
    \<Rightarrow> (gheap, (string \<times> gval) list) state" where
  "copy_fields [] inp out = return out"
| "copy_fields ((n, f) # cs) inp out = (case map_of inp n of
      None \<Rightarrow> copy_fields cs inp out
    | Some x \<Rightarrow> do { x' \<leftarrow> f x; copy_fields cs inp (AList.update n x' out) })"

definition copy_struct :: "(string \<times> copier) list \<Rightarrow> copier" where
  "copy_struct cs v = (case v of
      Struct inp \<Rightarrow> do { out \<leftarrow> copy_fields cs inp inp; return (Struct out) }
    | _ \<Rightarrow> return v)"

section \<open>Reading\<close>

lemma those_map_iff: "those (map f xs) = Some rs \<longleftrightarrow> list_all2 (\<lambda>x r. f x = Some r) xs rs"
  by (induction xs arbitrary: rs) (auto simp: list_all2_Cons1 split: option.splits)

definition field :: "gheap \<Rightarrow> (string \<times> gval) list \<Rightarrow> string \<times> gtype \<Rightarrow> (gtree \<times> addr list) option" where
  "field h vs = (\<lambda>(n, t). case map_of vs n of None \<Rightarrow> None | Some x \<Rightarrow> read h t x)"

lemma read_TStruct:
  "read h (TStruct fs) v = Some (tr, as) \<longleftrightarrow> (\<exists>vs rs. v = Struct vs \<and> map fst vs = map fst fs \<and>
     list_all2 (\<lambda>x r. field h vs x = Some r) fs rs \<and> tr = Node (zip (map fst fs) (map fst rs)) \<and> as = concat (map snd rs))"
  by (auto simp: those_map_iff [symmetric] field_def split: gval.splits option.splits)

lemma read_TSlice:
  "read h (TSlice t) (Ref (Some a)) = Some (tr, as) \<longleftrightarrow> (\<exists>xs rs. cells h a = Some (Elements xs) \<and>
     list_all2 (\<lambda>x r. read h t x = Some r) xs rs \<and> tr = Items (map fst rs) \<and> as = a # concat (map snd rs))"
  by (auto simp: those_map_iff [symmetric] split: option.splits gcell.splits)

lemma read_TPtr:
  "read h (TPtr t) (Ref (Some a)) = Some (tr, as) \<longleftrightarrow> (\<exists>x tr' as'. cells h a = Some (Pointee x) \<and>
     read h t x = Some (tr', as') \<and> tr = Target tr' \<and> as = a # as')"
  by (auto split: option.splits gcell.splits)

lemma read_TMap:
  "read h TMap (Ref (Some a)) = Some (tr, as) \<longleftrightarrow> (\<exists>es. cells h a = Some (Entries es) \<and> distinct (map fst es) \<and>
     tr = Dict (map_of es) \<and> as = [a])"
  by (auto split: option.splits gcell.splits)

text \<open>
  What a value reaches is all that its tree depends on: in a heap with the same cells at these addresses it
  reads the same.
\<close>

lemma read_frame:
  assumes "read h t v = Some (tr, as)" and "\<And>a. a \<in> set as \<Longrightarrow> cells h' a = cells h a"
  shows "read h' t v = Some (tr, as)"
  using assms
proof (induction h t v arbitrary: tr as rule: read.induct)
  case (2 h fs v)
  from "2.prems"(1) obtain vs rs where v: "v = Struct vs" "map fst vs = map fst fs"
    and rs: "list_all2 (\<lambda>x r. field h vs x = Some r) fs rs"
    and out: "tr = Node (zip (map fst fs) (map fst rs))" "as = concat (map snd rs)"
    unfolding read_TStruct by blast
  have "field h' vs x = Some r" if mem: "x \<in> set fs" "r \<in> set rs" and fld: "field h vs x = Some r" for x r
  proof -
    obtain n t y where x: "x = (n, t)" "map_of vs n = Some y" "read h t y = Some (fst r, snd r)"
      using fld by (cases x) (auto simp: field_def split: option.splits)
    have "\<And>a. a \<in> set (snd r) \<Longrightarrow> cells h' a = cells h a" using "2.prems"(2) out(2) mem(2) by auto
    with "2.IH" [OF v mem(1) x(1) [symmetric] x(2,3)] show ?thesis using x by (simp add: field_def)
  qed
  with rs have "list_all2 (\<lambda>x r. field h' vs x = Some r) fs rs" by (rule list.rel_mono_strong) auto
  with v out show ?case unfolding read_TStruct by blast
next
  case (4 h t v)
  show ?case
  proof (cases v)
    case (Ref p)
    show ?thesis
    proof (cases p)
      case None
      with 4 Ref show ?thesis by simp
    next
      case (Some a)
      with "4.prems"(1) Ref obtain xs rs where a: "cells h a = Some (Elements xs)"
        and rs: "list_all2 (\<lambda>x r. read h t x = Some r) xs rs" and out: "tr = Items (map fst rs)" "as = a # concat (map snd rs)"
        using read_TSlice by blast
      have "read h' t x = Some r" if "x \<in> set xs" "r \<in> set rs" "read h t x = Some r" for x r
        using "4.IH" [OF Ref Some a refl that(1), of "fst r" "snd r"] that "4.prems"(2) out(2) by auto
      with rs have "list_all2 (\<lambda>x r. read h' t x = Some r) xs rs" by (rule list.rel_mono_strong) auto
      moreover have "cells h' a = Some (Elements xs)" using a "4.prems"(2) out by simp
      ultimately show ?thesis using Ref Some out read_TSlice by blast
    qed
  qed (use 4 in simp_all)
qed (auto split: gval.splits option.splits gcell.splits if_splits)

lemma list_all2_concat_mem:
  assumes "list_all2 P xs rs" and "a \<in> set (concat (map snd rs))"
  obtains x r where "x \<in> set xs" "P x r" "a \<in> set (snd r)"
  using assms by (fastforce simp: list_all2_conv_all_nth in_set_conv_nth)

text \<open>A value reaches allocated addresses only, and none at a type without references.\<close>

lemma read_allocated: "read h t v = Some (tr, as) \<Longrightarrow> a \<in> set as \<Longrightarrow> cells h a \<noteq> None"
proof (induction h t v arbitrary: tr as rule: read.induct)
  case (2 h fs v)
  from "2.prems"(1) obtain vs rs where v: "v = Struct vs" "map fst vs = map fst fs"
    and rs: "list_all2 (\<lambda>x r. field h vs x = Some r) fs rs" and as: "as = concat (map snd rs)"
    unfolding read_TStruct by blast
  obtain x r where mem: "x \<in> set fs" and fld: "field h vs x = Some r" and a: "a \<in> set (snd r)"
    using list_all2_concat_mem [OF rs] "2.prems"(2) as by blast
  obtain n t y where x: "x = (n, t)" "map_of vs n = Some y" "read h t y = Some (fst r, snd r)"
    using fld by (cases x) (auto simp: field_def split: option.splits)
  from "2.IH" [OF v mem x(1) [symmetric] x(2,3) a] show ?case .
next
  case (4 h t v)
  show ?case
  proof (cases v)
    case (Ref p)
    show ?thesis
    proof (cases p)
      case (Some b)
      with "4.prems"(1) Ref obtain xs rs where b: "cells h b = Some (Elements xs)"
        and rs: "list_all2 (\<lambda>x r. read h t x = Some r) xs rs" and as: "as = b # concat (map snd rs)"
        using read_TSlice by blast
      show ?thesis
      proof (cases "a = b")
        case False
        then obtain x r where mem: "x \<in> set xs" and r: "read h t x = Some r" and a: "a \<in> set (snd r)"
          using list_all2_concat_mem [OF rs, of a] "4.prems"(2) as by auto
        from "4.IH" [OF Ref Some b refl mem _ a] r show ?thesis by (cases r) simp
      qed (simp add: b)
    qed (use 4 Ref in simp)
  qed (use 4 in simp_all)
qed (auto split: gval.splits option.splits gcell.splits if_splits)

lemma plain_read: "plain t \<Longrightarrow> read h t v = Some (tr, as) \<Longrightarrow> as = []"
proof (induction h t v arbitrary: tr as rule: read.induct)
  case (2 h fs v)
  from "2.prems"(2) obtain vs rs where v: "v = Struct vs" "map fst vs = map fst fs"
    and rs: "list_all2 (\<lambda>x r. field h vs x = Some r) fs rs" and as: "as = concat (map snd rs)"
    unfolding read_TStruct by blast
  have "a \<notin> set as" for a
  proof
    assume "a \<in> set as"
    then obtain x r where mem: "x \<in> set fs" and fld: "field h vs x = Some r" and a: "a \<in> set (snd r)"
      using list_all2_concat_mem [OF rs] as by blast
    obtain n t y where x: "x = (n, t)" "map_of vs n = Some y" "read h t y = Some (fst r, snd r)"
      using fld by (cases x) (auto simp: field_def split: option.splits)
    have "plain t" using "2.prems"(1) mem x(1) by (auto simp: list_all_iff)
    from "2.IH" [OF v mem x(1) [symmetric] x(2) this x(3)] a show False by simp
  qed
  then show ?case by (cases as) auto
qed (auto split: gval.splits option.splits gcell.splits if_splits)

section \<open>Deep copies\<close>

text \<open>The heap \<open>h'\<close> has everything of \<open>h\<close> unchanged.\<close>

definition extends :: "gheap \<Rightarrow> gheap \<Rightarrow> bool" where
  "extends h h' \<longleftrightarrow> wf_heap h' \<and> next_addr h \<le> next_addr h' \<and> (\<forall>a < next_addr h. cells h' a = cells h a)"

definition deep_copier :: "gtype \<Rightarrow> copier \<Rightarrow> bool" where
  "deep_copier t f \<longleftrightarrow> (\<forall>h v tr as. wf_heap h \<longrightarrow> read h t v = Some (tr, as) \<longrightarrow>
     (\<exists>v' h' as'. run_state (f v) h = (v', h') \<and> extends h h' \<and> read h' t v' = Some (tr, as') \<and>
        (\<forall>a \<in> set as'. next_addr h \<le> a)))"

lemma deep_copierE:
  assumes "deep_copier t f" "wf_heap h" "read h t v = Some (tr, as)"
  obtains v' h' as' where "run_state (f v) h = (v', h')" "extends h h'" "read h' t v' = Some (tr, as')"
    "\<And>a. a \<in> set as' \<Longrightarrow> next_addr h \<le> a"
  using assms unfolding deep_copier_def by blast

lemma extends_refl: "wf_heap h \<Longrightarrow> extends h h"
  by (simp add: extends_def)

lemma extends_trans: "extends h h' \<Longrightarrow> extends h' h'' \<Longrightarrow> extends h h''"
  by (auto simp: extends_def)

text \<open>Old values read the same in an extended heap.\<close>

lemma read_extends:
  assumes "wf_heap h" "extends h h'" "read h t v = Some (tr, as)"
  shows "read h' t v = Some (tr, as)"
  using assms(3)
proof (rule read_frame)
  fix a assume "a \<in> set as"
  with read_allocated [OF assms(3)] assms(1) have "a < next_addr h" by (simp add: wf_heap_def)
  with assms(2) show "cells h' a = cells h a" by (simp add: extends_def)
qed

lemma run_heap [simp]:
  "run_state (load a) h = (cells h a, h)"
  "run_state (store a c) h = ((), h\<lparr>cells := (cells h)(a \<mapsto> c)\<rparr>)"
  "run_state (alloc c) h = (next_addr h, h\<lparr>cells := (cells h)(next_addr h \<mapsto> c), next_addr := Suc (next_addr h)\<rparr>)"
  by (simp_all add: load_def store_def alloc_def)

lemma deep_assign: "plain t \<Longrightarrow> deep_copier t assign"
  unfolding deep_copier_def assign_def by (auto dest: plain_read intro: extends_refl)

lemma wf_heap_alloc: "wf_heap h \<Longrightarrow> wf_heap (h\<lparr>cells := (cells h)(next_addr h \<mapsto> c), next_addr := Suc (next_addr h)\<rparr>)"
  by (auto simp: wf_heap_def less_Suc_eq)

text \<open>Writing a cell that was allocated after \<open>h\<close> keeps an extension of \<open>h\<close>, and values that do not reach it.\<close>

lemma extends_store:
  assumes "extends h h'" "next_addr h \<le> a" "a < next_addr h'"
  shows "extends h (h'\<lparr>cells := (cells h')(a \<mapsto> c)\<rparr>)"
  using assms by (auto simp: extends_def wf_heap_def)

lemma extends_alloc:
  assumes "wf_heap h"
  shows "extends h (h\<lparr>cells := (cells h)(next_addr h \<mapsto> c), next_addr := Suc (next_addr h)\<rparr>)"
  using wf_heap_alloc [OF assms] by (auto simp: extends_def)

lemma read_store:
  assumes "read h t v = Some (tr, as)" "a \<notin> set as"
  shows "read (h\<lparr>cells := (cells h)(a \<mapsto> c)\<rparr>) t v = Some (tr, as)"
  using assms(1) by (rule read_frame) (use assms(2) in auto)

text \<open>A copy of a reference: nil is kept, and the rest is about what the reference refers to.\<close>

lemma deep_copier_refI:
  assumes "t = TPtr t' \<or> t = TSlice t' \<or> t = TMap" and "f (Ref None) = return (Ref None)"
    and copy: "\<And>h p tr as. wf_heap h \<Longrightarrow> read h t (Ref (Some p)) = Some (tr, as) \<Longrightarrow>
      \<exists>v' h' as'. run_state (f (Ref (Some p))) h = (v', h') \<and> extends h h' \<and> read h' t v' = Some (tr, as') \<and>
        (\<forall>a \<in> set as'. next_addr h \<le> a)"
  shows "deep_copier t f"
  unfolding deep_copier_def
proof (intro allI impI)
  fix h v tr as
  assume wf: "wf_heap h" and read: "read h t v = Some (tr, as)"
  then obtain p where v: "v = Ref p" using assms(1) by (auto split: gval.splits)
  show "\<exists>v' h' as'. run_state (f v) h = (v', h') \<and> extends h h' \<and> read h' t v' = Some (tr, as') \<and>
      (\<forall>a \<in> set as'. next_addr h \<le> a)"
  proof (cases p)
    case None
    with assms(1,2) v read wf show ?thesis by (auto intro: extends_refl)
  next
    case (Some q)
    with copy wf read v show ?thesis by blast
  qed
qed

lemma deep_ptr:
  assumes "deep_copier t f"
  shows "deep_copier (TPtr t) (copy_ptr f)"
proof (rule deep_copier_refI [where t' = t], goal_cases)
  case (3 h p tr as)
  note wf = 3(1)
  obtain x tr' as1 where p: "cells h p = Some (Pointee x)" "read h t x = Some (tr', as1)" "tr = Target tr'"
    using 3(2) read_TPtr by blast
  let ?h1 = "h\<lparr>cells := (cells h)(next_addr h \<mapsto> Pointee x), next_addr := Suc (next_addr h)\<rparr>"
  note e1 = extends_alloc [OF wf, of "Pointee x"]
  obtain x' h2 as' where run: "run_state (f x) ?h1 = (x', h2)" and e2: "extends ?h1 h2"
    and r2: "read h2 t x' = Some (tr', as')" and fresh: "\<And>a. a \<in> set as' \<Longrightarrow> next_addr ?h1 \<le> a"
    using deep_copierE [OF assms wf_heap_alloc [OF wf] read_extends [OF wf e1 p(2)]] by blast
  let ?h3 = "h2\<lparr>cells := (cells h2)(next_addr h \<mapsto> Pointee x')\<rparr>"
  have "extends h ?h3"
    by (rule extends_store [OF extends_trans [OF e1 e2]]) (use e2 in \<open>auto simp: extends_def\<close>)
  moreover have "read ?h3 (TPtr t) (Ref (Some (next_addr h))) = Some (tr, next_addr h # as')"
    using read_store [OF r2, of "next_addr h" "Pointee x'"] fresh p(3) by (fastforce simp: read_TPtr)
  ultimately show ?case
    using p(1) run fresh by (fastforce simp: copy_ptr_def)
qed (simp_all add: copy_ptr_def)

lemma run_copy_entries:
  "run_state (copy_entries a es out) h =
     ((), if es = [] then h else h\<lparr>cells := (cells h)(a \<mapsto> Entries (fold (\<lambda>(k, v). AList.update k v) es out))\<rparr>)"
proof (induction es arbitrary: out h)
  case (Cons e es)
  then show ?case by (cases e) auto
qed simp

lemma map_of_fold_update:
  "map_of (fold (\<lambda>(k, v). AList.update k v) es out) = map_of out ++ map_of (rev es)"
  by (induction es arbitrary: out) (auto simp: AList.update_conv' map_add_def fun_eq_iff split: option.splits)

lemma distinct_fold_update:
  "distinct (map fst out) \<Longrightarrow> distinct (map fst (fold (\<lambda>(k, v). AList.update k v) es out))"
  by (induction es arbitrary: out) (auto simp: AList.distinct_update)

lemma map_of_rev_distinct: "distinct (map fst es) \<Longrightarrow> map_of (rev es) = map_of es"
  by (rule map_of_eqI) (auto simp: rev_map [symmetric])

lemma deep_map: "deep_copier TMap copy_map"
proof (rule deep_copier_refI, goal_cases)
  case (3 h p tr as)
  obtain es where p: "cells h p = Some (Entries es)" "distinct (map fst es)" "tr = Dict (map_of es)"
    using 3(2) read_TMap by blast
  let ?es = "fold (\<lambda>(k, v). AList.update k v) es []"
  let ?h = "h\<lparr>cells := (cells h)(next_addr h \<mapsto> Entries ?es), next_addr := Suc (next_addr h)\<rparr>"
  have "read ?h TMap (Ref (Some (next_addr h))) = Some (tr, [next_addr h])"
    using distinct_fold_update [of "[]" es] p(2,3) by (simp add: map_of_fold_update map_of_rev_distinct)
  moreover have "run_state (copy_map (Ref (Some p))) h = (Ref (Some (next_addr h)), ?h)"
    using p(1) by (simp add: copy_map_def run_copy_entries)
  ultimately show ?case using extends_alloc [OF 3(1)] by fastforce
qed (simp_all add: copy_map_def)

lemma deep_strings: "deep_copier (TSlice TScalar) copy_strings"
proof (rule deep_copier_refI [where t' = TScalar], goal_cases)
  case (3 h p tr as)
  obtain xs rs where p: "cells h p = Some (Elements xs)" "list_all2 (\<lambda>x r. read h TScalar x = Some r) xs rs" "tr = Items (map fst rs)"
    using 3(2) read_TSlice by blast
  let ?h = "h\<lparr>cells := (cells h)(next_addr h \<mapsto> Elements xs), next_addr := Suc (next_addr h)\<rparr>"
  have "list_all2 (\<lambda>x r. read ?h TScalar x = Some r) xs rs" using p(2) by simp
  then have "read ?h (TSlice TScalar) (Ref (Some (next_addr h))) = Some (tr, next_addr h # concat (map snd rs))"
    using p(3) unfolding read_TSlice by auto
  moreover have "concat (map snd rs) = []"
    using p(2) by (induction rule: list_all2_induct) (auto split: gval.splits)
  moreover have "run_state (copy_strings (Ref (Some p))) h = (Ref (Some (next_addr h)), ?h)"
    using p(1) by (simp add: copy_strings_def)
  ultimately show ?case using extends_alloc [OF 3(1)] by fastforce
qed (simp_all add: copy_strings_def)

text \<open>Reading the members of a composite one by one.\<close>

lemma collect_reads:
  assumes "list_all2 (\<lambda>x r. \<exists>as. g x = Some (fst r, as) \<and> (\<forall>b \<in> set as. Q b)) xs rs"
  shows "\<exists>rs'. list_all2 (\<lambda>x r. g x = Some r) xs rs' \<and> map fst rs' = map fst rs \<and> (\<forall>b \<in> set (concat (map snd rs')). Q b)"
  using assms
proof (induction rule: list_all2_induct)
  case (Cons x xs r rs)
  then obtain as rs' where "g x = Some (fst r, as)" "\<forall>b \<in> set as. Q b"
    "list_all2 (\<lambda>x r. g x = Some r) xs rs'" "map fst rs' = map fst rs" "\<forall>b \<in> set (concat (map snd rs')). Q b"
    by blast
  then show ?case by (intro exI [of _ "(fst r, as) # rs'"]) auto
qed simp

text \<open>The elements copied so far read as their originals and reach only new addresses.\<close>

definition copies_of :: "gtype \<Rightarrow> gheap \<Rightarrow> addr \<Rightarrow> gval list \<Rightarrow> (gtree \<times> addr list) list \<Rightarrow> bool" where
  "copies_of t h a copied rs \<longleftrightarrow> list_all2 (\<lambda>x r. \<exists>as. read h t x = Some (fst r, as) \<and> (\<forall>b \<in> set as. a < b)) copied rs"

lemma copies_of_extends:
  assumes "copies_of t h a copied rs" "wf_heap h" "extends h h'"
  shows "copies_of t h' a copied rs"
  using assms(1) unfolding copies_of_def
  by (rule list_all2_mono) (use read_extends [OF assms(2,3)] in blast)

lemma copies_of_store:
  assumes "copies_of t h a copied rs"
  shows "copies_of t (h\<lparr>cells := (cells h)(a \<mapsto> c)\<rparr>) a copied rs"
  using assms unfolding copies_of_def
  by (rule list_all2_mono) (use read_store in blast)

lemma copies_of_snoc:
  "copies_of t h a copied rs \<Longrightarrow> read h t x = Some (fst r, as) \<Longrightarrow> (\<And>b. b \<in> set as \<Longrightarrow> a < b) \<Longrightarrow>
     copies_of t h a (copied @ [x]) (rs @ [r])"
  unfolding copies_of_def by (auto intro!: list_all2_appendI)

lemma copy_loop_copies:
  assumes f: "deep_copier t f" and "wf_heap h0" "a = next_addr h0" "extends h0 h" "a < next_addr h"
    and "cells h a = Some (Elements (copied @ replicate (length xs) gzero))"
    and "list_all2 (\<lambda>x r. read h0 t x = Some r) xs rs" and "copies_of t h a copied rs0"
  shows "\<exists>h' copied'. run_state (copy_loop f a xs copied) h = ((), h') \<and> extends h0 h' \<and>
    cells h' a = Some (Elements copied') \<and> copies_of t h' a copied' (rs0 @ rs)"
  using assms(4-8)
proof (induction xs arbitrary: rs rs0 copied h)
  case Nil
  then show ?case by auto
next
  case (Cons x xs)
  then obtain r rs' where rs: "rs = r # rs'" "read h0 t x = Some (fst r, snd r)" "list_all2 (\<lambda>x r. read h0 t x = Some r) xs rs'"
    by (auto simp: list_all2_Cons1)
  have wf: "wf_heap h" using Cons.prems(1) by (simp add: extends_def)
  obtain x' h1 as' where run: "run_state (f x) h = (x', h1)" and e1: "extends h h1"
    and r1: "read h1 t x' = Some (fst r, as')" and fresh: "\<And>b. b \<in> set as' \<Longrightarrow> next_addr h \<le> b"
    using deep_copierE [OF f wf read_extends [OF assms(2) Cons.prems(1) rs(2)]] by blast
  let ?h2 = "h1\<lparr>cells := (cells h1)(a \<mapsto> Elements (copied @ x' # replicate (length xs) gzero))\<rparr>"
  have new: "\<And>b. b \<in> set as' \<Longrightarrow> a < b" using fresh Cons.prems(2) by fastforce
  have a1: "a < next_addr h1" using e1 Cons.prems(2) by (simp add: extends_def)
  have ext: "extends h0 ?h2"
    using extends_store [OF extends_trans [OF Cons.prems(1) e1] _ a1] assms(3) by simp
  have "copies_of t h1 a (copied @ [x']) (rs0 @ [r])"
    using copies_of_snoc [OF copies_of_extends [OF Cons.prems(5) wf e1] r1 new] .
  then have "copies_of t ?h2 a (copied @ [x']) (rs0 @ [r])" by (rule copies_of_store)
  from Cons.IH [OF ext _ _ rs(3) this] a1 obtain h' copied' where
    "run_state (copy_loop f a xs (copied @ [x'])) ?h2 = ((), h')" "extends h0 h'"
    "cells h' a = Some (Elements copied')" "copies_of t h' a copied' (rs0 @ rs)"
    using rs(1) by auto
  with run show ?case by auto
qed

lemma deep_slice:
  assumes "deep_copier t f"
  shows "deep_copier (TSlice t) (copy_slice f)"
proof (rule deep_copier_refI [where t' = t], goal_cases)
  case (3 h p tr as)
  obtain xs rs where p: "cells h p = Some (Elements xs)" "list_all2 (\<lambda>x r. read h t x = Some r) xs rs" "tr = Items (map fst rs)"
    using 3(2) read_TSlice by blast
  let ?a = "next_addr h"
  let ?h1 = "h\<lparr>cells := (cells h)(?a \<mapsto> Elements (replicate (length xs) gzero)), next_addr := Suc ?a\<rparr>"
  obtain h' copied where run: "run_state (copy_loop f ?a xs []) ?h1 = ((), h')" and ext: "extends h h'"
    and a: "cells h' ?a = Some (Elements copied)" and copies: "copies_of t h' ?a copied rs"
    using copy_loop_copies [OF assms 3(1) refl extends_alloc [OF 3(1)] _ _ p(2), of "Elements (replicate (length xs) gzero)" "[]" "[]"]
    by (auto simp: copies_of_def)
  obtain rs' where rs': "list_all2 (\<lambda>x r. read h' t x = Some r) copied rs'" "map fst rs' = map fst rs"
    and fresh: "\<And>b. b \<in> set (concat (map snd rs')) \<Longrightarrow> ?a < b"
    using collect_reads [OF copies [unfolded copies_of_def]] by blast
  have "read h' (TSlice t) (Ref (Some ?a)) = Some (tr, ?a # concat (map snd rs'))"
    using a rs' p(3) unfolding read_TSlice by auto
  then show ?case
    using p(1) run ext fresh by (fastforce simp: copy_slice_def)
qed (simp_all add: copy_slice_def)

text \<open>
  The fields of \<open>D\<close> have been copied, the others are still those of the original: what holds between two
  statements of a \<open>DeepCopyInto\<close>.
\<close>

definition fields_copied :: "(string \<times> gtype) list \<Rightarrow> gheap \<Rightarrow> (string \<times> gval) list \<Rightarrow> string set \<Rightarrow> gheap
    \<Rightarrow> (string \<times> gval) list \<Rightarrow> bool" where
  "fields_copied fs h0 inp D h out \<longleftrightarrow> map fst out = map fst inp \<and> (\<forall>(n, t) \<in> set fs.
     if n \<in> D then \<exists>r as. field h0 inp (n, t) = Some r \<and> field h out (n, t) = Some (fst r, as) \<and> (\<forall>b \<in> set as. next_addr h0 \<le> b)
     else map_of out n = map_of inp n)"

lemma fields_copiedD:
  assumes "fields_copied fs h0 inp D h out" "(n, t) \<in> set fs"
  shows "n \<in> D \<Longrightarrow> field h0 inp (n, t) = Some r \<Longrightarrow>
      \<exists>as. field h out (n, t) = Some (fst r, as) \<and> (\<forall>b \<in> set as. next_addr h0 \<le> b)"
    and "n \<notin> D \<Longrightarrow> map_of out n = map_of inp n"
  using assms unfolding fields_copied_def by (fastforce simp only: prod.case if_True if_False option.inject)+

lemma field_extends:
  assumes "wf_heap h" "extends h h'" "field h vs x = Some r"
  shows "field h' vs x = Some r"
  using assms(3) read_extends [OF assms(1,2)] by (cases x; cases r) (auto simp: field_def split: option.splits)

lemma fields_copied_step:
  assumes "distinct (map fst fs)" and D: "fields_copied fs h0 inp D h out" and wf: "wf_heap h" and ext: "extends h h'"
    and new: "(n, t) \<in> set fs" "field h0 inp (n, t) = Some r" "read h' t x' = Some (fst r, as)" "\<And>b. b \<in> set as \<Longrightarrow> next_addr h0 \<le> b"
  shows "fields_copied fs h0 inp (insert n D) h' (AList.update n x' out)"
proof -
  have "map_of inp n \<noteq> None" using new(2) by (auto simp: field_def split: option.splits)
  then have "n \<in> set (map fst out)" using D by (simp add: fields_copied_def map_of_eq_None_iff)
  then have keys: "map fst (AList.update n x' out) = map fst out" by (simp add: AList.update_keys)
  have unique: "u = t" if "(n, u) \<in> set fs" for u
    using that new(1) assms(1) by (simp add: eq_key_imp_eq_value)
  have all: "if m \<in> insert n D then \<exists>r as. field h0 inp (m, u) = Some r \<and> field h' (AList.update n x' out) (m, u) = Some (fst r, as) \<and>
        (\<forall>b \<in> set as. next_addr h0 \<le> b)
      else map_of (AList.update n x' out) m = map_of inp m" if mem: "(m, u) \<in> set fs" for m u
  proof (cases "m = n")
    case True
    then have "field h' (AList.update n x' out) (m, u) = Some (fst r, as)"
      using new(3) unique mem by (simp add: field_def AList.update_conv')
    with True new(2,4) unique mem show ?thesis by auto
  next
    case False
    then have "field h' (AList.update n x' out) (m, u) = field h' out (m, u)" "map_of (AList.update n x' out) m = map_of out m"
      by (simp_all add: field_def AList.update_conv')
    moreover have "if m \<in> D then \<exists>r as. field h0 inp (m, u) = Some r \<and> field h out (m, u) = Some (fst r, as) \<and>
        (\<forall>b \<in> set as. next_addr h0 \<le> b) else map_of out m = map_of inp m"
      using D mem by (auto simp: fields_copied_def)
    ultimately show ?thesis using False field_extends [OF wf ext, of out "(m, u)"] by (auto split: if_splits)
  qed
  have "map fst (AList.update n x' out) = map fst inp" using D keys by (simp add: fields_copied_def)
  moreover have "\<forall>(m, u) \<in> set fs. if m \<in> insert n D
      then \<exists>r as. field h0 inp (m, u) = Some r \<and> field h' (AList.update n x' out) (m, u) = Some (fst r, as) \<and>
        (\<forall>b \<in> set as. next_addr h0 \<le> b)
      else map_of (AList.update n x' out) m = map_of inp m"
    using all by (intro ballI) (simp only: split_paired_all prod.case)
  ultimately show ?thesis unfolding fields_copied_def by (rule conjI)
qed

lemma copy_fields_copies:
  assumes "distinct (map fst fs)" and wf: "wf_heap h0" and reads: "\<And>x. x \<in> set fs \<Longrightarrow> field h0 inp x \<noteq> None"
    and "\<And>n f. (n, f) \<in> set cs \<Longrightarrow> \<exists>t. (n, t) \<in> set fs \<and> deep_copier t f"
    and "extends h0 h" "fields_copied fs h0 inp D h out"
  shows "\<exists>h' out'. run_state (copy_fields cs inp out) h = (out', h') \<and> extends h0 h' \<and>
    fields_copied fs h0 inp (D \<union> fst ` set cs) h' out'"
  using assms(4-6)
proof (induction cs arbitrary: D h out)
  case Nil
  then show ?case by simp
next
  case (Cons c cs)
  obtain n f where c0: "c = (n, f)" by (cases c)
  with Cons.prems(1) [of n f] obtain t where c: "c = (n, f)" "(n, t) \<in> set fs" "deep_copier t f" by auto
  have wfh: "wf_heap h" using Cons.prems(2) by (simp add: extends_def)
  obtain x r where x: "map_of inp n = Some x" "read h0 t x = Some (fst r, snd r)" "field h0 inp (n, t) = Some r"
    using reads [OF c(2)] by (auto simp: field_def split: option.splits)
  obtain x' h1 as' where run: "run_state (f x) h = (x', h1)" and e1: "extends h h1"
    and r1: "read h1 t x' = Some (fst r, as')" and fresh: "\<And>b. b \<in> set as' \<Longrightarrow> next_addr h \<le> b"
    using deep_copierE [OF c(3) wfh read_extends [OF wf Cons.prems(2) x(2)]] by blast
  have "\<And>b. b \<in> set as' \<Longrightarrow> next_addr h0 \<le> b" using fresh Cons.prems(2) by (fastforce simp: extends_def)
  from fields_copied_step [OF assms(1) Cons.prems(3) wfh e1 c(2) x(3) r1 this]
  have "fields_copied fs h0 inp (insert n D) h1 (AList.update n x' out)" .
  from Cons.IH [OF _ extends_trans [OF Cons.prems(2) e1] this] Cons.prems(1)
  obtain h' out' where "run_state (copy_fields cs inp (AList.update n x' out)) h1 = (out', h')" "extends h0 h'"
    "fields_copied fs h0 inp (insert n D \<union> fst ` set cs) h' out'" by auto
  with run x(1) c(1) show ?case by auto
qed

lemma deep_struct:
  assumes dist: "distinct (map fst fs)" and cs: "\<And>n f. (n, f) \<in> set cs \<Longrightarrow> \<exists>t. (n, t) \<in> set fs \<and> deep_copier t f"
    and rest: "\<And>n t. (n, t) \<in> set fs \<Longrightarrow> n \<notin> fst ` set cs \<Longrightarrow> plain t"
  shows "deep_copier (TStruct fs) (copy_struct cs)"
  unfolding deep_copier_def
proof (intro allI impI)
  fix h v tr as
  assume wf: "wf_heap h" and "read h (TStruct fs) v = Some (tr, as)"
  then obtain inp rs where v: "v = Struct inp" "map fst inp = map fst fs"
    and rs: "list_all2 (\<lambda>x r. field h inp x = Some r) fs rs" and tr: "tr = Node (zip (map fst fs) (map fst rs))"
    unfolding read_TStruct by blast
  have reads: "field h inp x \<noteq> None" if "x \<in> set fs" for x
    using rs that by (auto simp: list_all2_conv_all_nth in_set_conv_nth)
  have start: "fields_copied fs h inp {} h inp" by (simp add: fields_copied_def)
  obtain h' out where run: "run_state (copy_fields cs inp inp) h = (out, h')" and ext: "extends h h'"
    and copied: "fields_copied fs h inp (fst ` set cs) h' out"
    using copy_fields_copies [OF dist wf reads, where cs = cs and h = h and D = "{}" and out = inp] cs extends_refl [OF wf] start by auto
  have "\<exists>as. field h' out x = Some (fst r, as) \<and> (\<forall>b \<in> set as. next_addr h \<le> b)"
    if x: "x \<in> set fs" and r: "field h inp x = Some r" for x r
  proof (cases "fst x \<in> fst ` set cs")
    case True
    with fields_copiedD(1) [OF copied, of "fst x" "snd x" r] x r show ?thesis by simp
  next
    case False
    obtain n t where nt: "x = (n, t)" by (cases x)
    with False fields_copiedD(2) [OF copied, of n t] x have "field h' out x = field h' inp x" by (simp add: field_def)
    also have "\<dots> = Some r" using field_extends [OF wf ext r] .
    finally have "field h' out x = Some (fst r, snd r)" by simp
    moreover have "snd r = []"
      using plain_read [OF rest [of n t]] False x nt r by (cases r) (auto simp: field_def split: option.splits)
    ultimately show ?thesis by auto
  qed
  with rs have "list_all2 (\<lambda>x r. \<exists>as. field h' out x = Some (fst r, as) \<and> (\<forall>b \<in> set as. next_addr h \<le> b)) fs rs"
    by (rule list.rel_mono_strong)
  from collect_reads [OF this] obtain rs' where "list_all2 (\<lambda>x r. field h' out x = Some r) fs rs'" "map fst rs' = map fst rs"
    "\<forall>b \<in> set (concat (map snd rs')). next_addr h \<le> b" by blast
  moreover have "map fst out = map fst fs" using copied v(2) by (simp add: fields_copied_def)
  ultimately have "read h' (TStruct fs) (Struct out) = Some (tr, concat (map snd rs'))"
    unfolding read_TStruct using tr by auto
  then show "\<exists>v' h' as'. run_state (copy_struct cs v) h = (v', h') \<and> extends h h' \<and> read h' (TStruct fs) v' = Some (tr, as') \<and>
      (\<forall>a \<in> set as'. next_addr h \<le> a)"
    using v(1) run ext \<open>\<forall>b \<in> set (concat (map snd rs')). next_addr h \<le> b\<close> by (auto simp: copy_struct_def)
qed

text \<open>The same with premises that can be computed from the two lists.\<close>

lemma deep_structI:
  assumes "distinct (map fst fs)"
    and "list_all (\<lambda>(n, f). case map_of fs n of None \<Rightarrow> False | Some t \<Rightarrow> deep_copier t f) cs"
    and "list_all (\<lambda>(n, t). n \<in> set (map fst cs) \<or> plain t) fs"
  shows "deep_copier (TStruct fs) (copy_struct cs)"
  using assms by (intro deep_struct) (fastforce simp: list_all_iff split: option.splits dest: map_of_SomeD)+

end
