(* ===== verification/Deep_Copy.thy ===== *)
theory Deep_Copy
  imports Go_Heap
begin

text \<open>
  \<^verbatim>\<open>api/v1beta1/zz_generated.deepcopy.go\<close>: the deep copies that controller-gen has generated for the API types.
  \<open>T_t\<close> is the struct \<open>T\<close> of the API package as a type of the heap model, field by field, and \<open>T_DeepCopyInto\<close>
  lists the statements of the generated method after \<open>*out = *in\<close>. The library relies on these copies: objects
  that it hands out from its cache, and the object from which a patch is computed, must not change when the
  operator writes to its own object.

  The types of other packages and their generated copies are the fields of \<open>ext_types\<close>; the locale
  \<open>ext_laws\<close> states that they are deep copies themselves.
\<close>

named_theorems deep_defs \<open>the structs of the API and the statements of their generated copies\<close>
named_theorems deep_copy_defs \<open>the methods DeepCopy\<close>

section \<open>Types of other packages\<close>

record ext_types =
  TypeMeta_t :: gtype
  ObjectMeta_t :: gtype
  ObjectMeta_DeepCopyInto :: copier
  ListMeta_t :: gtype
  ListMeta_DeepCopyInto :: copier
  LabelSelector_t :: gtype
  LabelSelector_DeepCopyInto :: copier
  Condition_t :: gtype
  Condition_DeepCopyInto :: copier
  RoutedOverrideSpec_t :: gtype
  RoutedOverrideSpec_DeepCopyInto :: copier
  MonitoringStackSpec_t :: gtype
  MonitoringStackSpec_DeepCopyInto :: copier

section \<open>The structs\<close>

definition APIOverrideSpec_t :: "ext_types \<Rightarrow> gtype" where [deep_defs]:
  "APIOverrideSpec_t X = TStruct [(''Service'', TPtr (RoutedOverrideSpec_t X))]"
definition PasswordsSelector_t :: "gtype" where [deep_defs]:
  "PasswordsSelector_t = TStruct [(''Service'', TScalar), (''AodhService'', TScalar), (''Database'', TScalar)]"
definition Aodh_t :: "ext_types \<Rightarrow> gtype" where [deep_defs]:
  "Aodh_t X = TStruct [(''RabbitMqClusterName'', TScalar), (''DatabaseInstance'', TScalar), (''DatabaseUser'', TScalar),
     (''PasswordSelectors'', PasswordsSelector_t), (''ServiceUser'', TScalar), (''Secret'', TScalar), (''CustomServiceConfig'', TScalar),
     (''DefaultConfigOverwrite'', TMap), (''NetworkAttachmentDefinitions'', TSlice TScalar), (''Override'', APIOverrideSpec_t X),
     (''PreserveJobs'', TScalar), (''MemcachedInstance'', TScalar), (''APIImage'', TScalar), (''EvaluatorImage'', TScalar),
     (''NotifierImage'', TScalar), (''ListenerImage'', TScalar)]"
definition AutoscalingSpec_t :: "ext_types \<Rightarrow> gtype" where [deep_defs]:
  "AutoscalingSpec_t X = TStruct [(''PrometheusHost'', TScalar), (''PrometheusPort'', TScalar), (''Aodh'', Aodh_t X),
     (''HeatInstance'', TScalar)]"
definition AutoscalingStatus_t :: "ext_types \<Rightarrow> gtype" where [deep_defs]:
  "AutoscalingStatus_t X = TStruct [(''ReadyCount'', TScalar), (''Hash'', TMap), (''Conditions'', TSlice (Condition_t X)),
     (''Networks'', TSlice TScalar), (''TransportURLSecret'', TScalar), (''DatabaseHostname'', TScalar), (''PrometheusHost'', TScalar),
     (''PrometheusPort'', TScalar), (''APIEndpoints'', TMap)]"
definition Autoscaling_t :: "ext_types \<Rightarrow> gtype" where [deep_defs]:
  "Autoscaling_t X = TStruct [(''TypeMeta'', TypeMeta_t X), (''ObjectMeta'', ObjectMeta_t X), (''Spec'', AutoscalingSpec_t X),
     (''Status'', AutoscalingStatus_t X)]"
definition AutoscalingDefaults_t :: "gtype" where [deep_defs]:
  "AutoscalingDefaults_t = TStruct [(''AodhAPIContainerImageURL'', TScalar), (''AodhEvaluatorContainerImageURL'', TScalar),
     (''AodhNotifierContainerImageURL'', TScalar), (''AodhListenerContainerImageURL'', TScalar)]"
definition AutoscalingList_t :: "ext_types \<Rightarrow> gtype" where [deep_defs]:
  "AutoscalingList_t X = TStruct [(''TypeMeta'', TypeMeta_t X), (''ListMeta'', ListMeta_t X), (''Items'', TSlice (Autoscaling_t X))]"
definition AutoscalingSection_t :: "ext_types \<Rightarrow> gtype" where [deep_defs]:
  "AutoscalingSection_t X = TStruct [(''Enabled'', TScalar), (''AutoscalingSpec'', AutoscalingSpec_t X)]"
definition CeilometerSpec_t :: "gtype" where [deep_defs]:
  "CeilometerSpec_t = TStruct [(''RabbitMqClusterName'', TScalar), (''PasswordSelectors'', PasswordsSelector_t),
     (''ServiceUser'', TScalar), (''Secret'', TScalar), (''CustomServiceConfig'', TScalar), (''DefaultConfigOverwrite'', TMap),
     (''NetworkAttachmentDefinitions'', TSlice TScalar), (''CentralImage'', TScalar), (''NotificationImage'', TScalar),
     (''SgCoreImage'', TScalar), (''ComputeImage'', TScalar), (''IpmiImage'', TScalar), (''NodeExporterImage'', TScalar)]"
definition CeilometerStatus_t :: "ext_types \<Rightarrow> gtype" where [deep_defs]:
  "CeilometerStatus_t X = TStruct [(''ReadyCount'', TScalar), (''Hash'', TMap), (''Conditions'', TSlice (Condition_t X)),
     (''TransportURLSecret'', TScalar), (''Networks'', TSlice TScalar)]"
definition Ceilometer_t :: "ext_types \<Rightarrow> gtype" where [deep_defs]:
  "Ceilometer_t X = TStruct [(''TypeMeta'', TypeMeta_t X), (''ObjectMeta'', ObjectMeta_t X), (''Spec'', CeilometerSpec_t),
     (''Status'', CeilometerStatus_t X)]"
definition CeilometerDefaults_t :: "gtype" where [deep_defs]:
  "CeilometerDefaults_t = TStruct [(''CentralContainerImageURL'', TScalar), (''NotificationContainerImageURL'', TScalar),
     (''SgCoreContainerImageURL'', TScalar), (''ComputeContainerImageURL'', TScalar), (''IpmiContainerImageURL'', TScalar),
     (''NodeExporterContainerImageURL'', TScalar)]"
definition CeilometerList_t :: "ext_types \<Rightarrow> gtype" where [deep_defs]:
  "CeilometerList_t X = TStruct [(''TypeMeta'', TypeMeta_t X), (''ListMeta'', ListMeta_t X), (''Items'', TSlice (Ceilometer_t X))]"
definition CeilometerSection_t :: "gtype" where [deep_defs]:
  "CeilometerSection_t = TStruct [(''Enabled'', TScalar), (''CeilometerSpec'', CeilometerSpec_t)]"
definition LoggingSpec_t :: "gtype" where [deep_defs]:
  "LoggingSpec_t = TStruct [(''Network'', TScalar), (''IPAddr'', TScalar), (''Port'', TScalar), (''TargetPort'', TScalar),
     (''CLONamespace'', TScalar), (''RsyslogRetries'', TScalar), (''RsyslogQueueType'', TScalar), (''RsyslogQueueSize'', TScalar)]"
definition LoggingStatus_t :: "ext_types \<Rightarrow> gtype" where [deep_defs]:
  "LoggingStatus_t X = TStruct [(''Hash'', TMap), (''Conditions'', TSlice (Condition_t X))]"
definition Logging_t :: "ext_types \<Rightarrow> gtype" where [deep_defs]:
  "Logging_t X = TStruct [(''TypeMeta'', TypeMeta_t X), (''ObjectMeta'', ObjectMeta_t X), (''Spec'', LoggingSpec_t),
     (''Status'', LoggingStatus_t X)]"
definition LoggingList_t :: "ext_types \<Rightarrow> gtype" where [deep_defs]:
  "LoggingList_t X = TStruct [(''TypeMeta'', TypeMeta_t X), (''ListMeta'', ListMeta_t X), (''Items'', TSlice (Logging_t X))]"
definition PersistentStorage_t :: "ext_types \<Rightarrow> gtype" where [deep_defs]:
  "PersistentStorage_t X = TStruct [(''PvcStorageRequest'', TScalar), (''PvcStorageSelector'', LabelSelector_t X),
     (''PvcStorageClass'', TScalar)]"
definition Storage_t :: "ext_types \<Rightarrow> gtype" where [deep_defs]:
  "Storage_t X = TStruct [(''Strategy'', TScalar), (''Retention'', TScalar), (''Persistent'', PersistentStorage_t X)]"
definition MonitoringStack_t :: "ext_types \<Rightarrow> gtype" where [deep_defs]:
  "MonitoringStack_t X = TStruct [(''AlertingEnabled'', TScalar), (''ScrapeInterval'', TScalar), (''Storage'', Storage_t X)]"
definition MetricStorageSpec_t :: "ext_types \<Rightarrow> gtype" where [deep_defs]:
  "MetricStorageSpec_t X = TStruct [(''MonitoringStack'', TPtr (MonitoringStack_t X)),
     (''CustomMonitoringStack'', TPtr (MonitoringStackSpec_t X))]"
definition MetricStorageStatus_t :: "ext_types \<Rightarrow> gtype" where [deep_defs]:
  "MetricStorageStatus_t X = TStruct [(''Conditions'', TSlice (Condition_t X))]"
definition MetricStorage_t :: "ext_types \<Rightarrow> gtype" where [deep_defs]:
  "MetricStorage_t X = TStruct [(''TypeMeta'', TypeMeta_t X), (''ObjectMeta'', ObjectMeta_t X), (''Spec'', MetricStorageSpec_t X),
     (''Status'', MetricStorageStatus_t X)]"
definition MetricStorageList_t :: "ext_types \<Rightarrow> gtype" where [deep_defs]:
  "MetricStorageList_t X = TStruct [(''TypeMeta'', TypeMeta_t X), (''ListMeta'', ListMeta_t X), (''Items'', TSlice (MetricStorage_t X))]"
definition MetricStorageSection_t :: "ext_types \<Rightarrow> gtype" where [deep_defs]:
  "MetricStorageSection_t X = TStruct [(''Enabled'', TScalar), (''MetricStorageSpec'', MetricStorageSpec_t X)]"
definition TelemetrySpec_t :: "ext_types \<Rightarrow> gtype" where [deep_defs]:
  "TelemetrySpec_t X = TStruct [(''Autoscaling'', AutoscalingSection_t X), (''Ceilometer'', CeilometerSection_t),
     (''MetricStorage'', MetricStorageSection_t X)]"
definition TelemetryStatus_t :: "ext_types \<Rightarrow> gtype" where [deep_defs]:
  "TelemetryStatus_t X = TStruct [(''Hash'', TMap), (''Conditions'', TSlice (Condition_t X))]"
definition Telemetry_t :: "ext_types \<Rightarrow> gtype" where [deep_defs]:
  "Telemetry_t X = TStruct [(''TypeMeta'', TypeMeta_t X), (''ObjectMeta'', ObjectMeta_t X), (''Spec'', TelemetrySpec_t X),
     (''Status'', TelemetryStatus_t X)]"
definition TelemetryDefaults_t :: "gtype" where [deep_defs]:
  "TelemetryDefaults_t = TStruct [(''CentralContainerImageURL'', TScalar), (''ComputeContainerImageURL'', TScalar),
     (''NotificationContainerImageURL'', TScalar), (''SgCoreContainerImageURL'', TScalar), (''NodeExporterContainerImageURL'', TScalar),
     (''IpmiContainerImageURL'', TScalar), (''AodhAPIContainerImageURL'', TScalar), (''AodhEvaluatorContainerImageURL'', TScalar),
     (''AodhNotifierContainerImageURL'', TScalar), (''AodhListenerContainerImageURL'', TScalar), (''AodhInitContainerImageURL'', TScalar)]"
definition TelemetryList_t :: "ext_types \<Rightarrow> gtype" where [deep_defs]:
  "TelemetryList_t X = TStruct [(''TypeMeta'', TypeMeta_t X), (''ListMeta'', ListMeta_t X), (''Items'', TSlice (Telemetry_t X))]"

section \<open>The generated copies\<close>

text \<open>\<open>DeepCopy\<close> keeps nil, and copies into a new object otherwise.\<close>

definition APIOverrideSpec_DeepCopyInto :: "ext_types \<Rightarrow> copier" where [deep_defs]:
  "APIOverrideSpec_DeepCopyInto X = copy_struct [(''Service'', copy_ptr (RoutedOverrideSpec_DeepCopyInto X))]"
definition APIOverrideSpec_DeepCopy :: "ext_types \<Rightarrow> copier" where [deep_copy_defs]:
  "APIOverrideSpec_DeepCopy X = copy_ptr (APIOverrideSpec_DeepCopyInto X)"

definition PasswordsSelector_DeepCopyInto :: "copier" where [deep_defs]:
  "PasswordsSelector_DeepCopyInto = copy_struct []"
definition PasswordsSelector_DeepCopy :: "copier" where [deep_copy_defs]:
  "PasswordsSelector_DeepCopy = copy_ptr (PasswordsSelector_DeepCopyInto)"

definition Aodh_DeepCopyInto :: "ext_types \<Rightarrow> copier" where [deep_defs]:
  "Aodh_DeepCopyInto X = copy_struct [(''PasswordSelectors'', assign), (''DefaultConfigOverwrite'', copy_map),
     (''NetworkAttachmentDefinitions'', copy_strings), (''Override'', APIOverrideSpec_DeepCopyInto X)]"
definition Aodh_DeepCopy :: "ext_types \<Rightarrow> copier" where [deep_copy_defs]:
  "Aodh_DeepCopy X = copy_ptr (Aodh_DeepCopyInto X)"

definition AutoscalingSpec_DeepCopyInto :: "ext_types \<Rightarrow> copier" where [deep_defs]:
  "AutoscalingSpec_DeepCopyInto X = copy_struct [(''Aodh'', Aodh_DeepCopyInto X)]"
definition AutoscalingSpec_DeepCopy :: "ext_types \<Rightarrow> copier" where [deep_copy_defs]:
  "AutoscalingSpec_DeepCopy X = copy_ptr (AutoscalingSpec_DeepCopyInto X)"

definition AutoscalingStatus_DeepCopyInto :: "ext_types \<Rightarrow> copier" where [deep_defs]:
  "AutoscalingStatus_DeepCopyInto X = copy_struct [(''Hash'', copy_map), (''Conditions'', copy_slice (Condition_DeepCopyInto X)),
     (''Networks'', copy_strings), (''APIEndpoints'', copy_map)]"
definition AutoscalingStatus_DeepCopy :: "ext_types \<Rightarrow> copier" where [deep_copy_defs]:
  "AutoscalingStatus_DeepCopy X = copy_ptr (AutoscalingStatus_DeepCopyInto X)"

definition Autoscaling_DeepCopyInto :: "ext_types \<Rightarrow> copier" where [deep_defs]:
  "Autoscaling_DeepCopyInto X = copy_struct [(''TypeMeta'', assign), (''ObjectMeta'', ObjectMeta_DeepCopyInto X),
     (''Spec'', AutoscalingSpec_DeepCopyInto X), (''Status'', AutoscalingStatus_DeepCopyInto X)]"
definition Autoscaling_DeepCopy :: "ext_types \<Rightarrow> copier" where [deep_copy_defs]:
  "Autoscaling_DeepCopy X = copy_ptr (Autoscaling_DeepCopyInto X)"

definition AutoscalingDefaults_DeepCopyInto :: "copier" where [deep_defs]:
  "AutoscalingDefaults_DeepCopyInto = copy_struct []"
definition AutoscalingDefaults_DeepCopy :: "copier" where [deep_copy_defs]:
  "AutoscalingDefaults_DeepCopy = copy_ptr (AutoscalingDefaults_DeepCopyInto)"

definition AutoscalingList_DeepCopyInto :: "ext_types \<Rightarrow> copier" where [deep_defs]:
  "AutoscalingList_DeepCopyInto X = copy_struct [(''TypeMeta'', assign), (''ListMeta'', ListMeta_DeepCopyInto X),
     (''Items'', copy_slice (Autoscaling_DeepCopyInto X))]"
definition AutoscalingList_DeepCopy :: "ext_types \<Rightarrow> copier" where [deep_copy_defs]:
  "AutoscalingList_DeepCopy X = copy_ptr (AutoscalingList_DeepCopyInto X)"

definition AutoscalingSection_DeepCopyInto :: "ext_types \<Rightarrow> copier" where [deep_defs]:
  "AutoscalingSection_DeepCopyInto X = copy_struct [(''AutoscalingSpec'', AutoscalingSpec_DeepCopyInto X)]"
definition AutoscalingSection_DeepCopy :: "ext_types \<Rightarrow> copier" where [deep_copy_defs]:
  "AutoscalingSection_DeepCopy X = copy_ptr (AutoscalingSection_DeepCopyInto X)"

definition CeilometerSpec_DeepCopyInto :: "copier" where [deep_defs]:
  "CeilometerSpec_DeepCopyInto = copy_struct [(''PasswordSelectors'', assign), (''DefaultConfigOverwrite'', copy_map),
     (''NetworkAttachmentDefinitions'', copy_strings)]"
definition CeilometerSpec_DeepCopy :: "copier" where [deep_copy_defs]:
  "CeilometerSpec_DeepCopy = copy_ptr (CeilometerSpec_DeepCopyInto)"

definition CeilometerStatus_DeepCopyInto :: "ext_types \<Rightarrow> copier" where [deep_defs]:
  "CeilometerStatus_DeepCopyInto X = copy_struct [(''Hash'', copy_map), (''Conditions'', copy_slice (Condition_DeepCopyInto X)),
     (''Networks'', copy_strings)]"
definition CeilometerStatus_DeepCopy :: "ext_types \<Rightarrow> copier" where [deep_copy_defs]:
  "CeilometerStatus_DeepCopy X = copy_ptr (CeilometerStatus_DeepCopyInto X)"

definition Ceilometer_DeepCopyInto :: "ext_types \<Rightarrow> copier" where [deep_defs]:
  "Ceilometer_DeepCopyInto X = copy_struct [(''TypeMeta'', assign), (''ObjectMeta'', ObjectMeta_DeepCopyInto X),
     (''Spec'', CeilometerSpec_DeepCopyInto), (''Status'', CeilometerStatus_DeepCopyInto X)]"
definition Ceilometer_DeepCopy :: "ext_types \<Rightarrow> copier" where [deep_copy_defs]:
  "Ceilometer_DeepCopy X = copy_ptr (Ceilometer_DeepCopyInto X)"

definition CeilometerDefaults_DeepCopyInto :: "copier" where [deep_defs]:
  "CeilometerDefaults_DeepCopyInto = copy_struct []"
definition CeilometerDefaults_DeepCopy :: "copier" where [deep_copy_defs]:
  "CeilometerDefaults_DeepCopy = copy_ptr (CeilometerDefaults_DeepCopyInto)"

definition CeilometerList_DeepCopyInto :: "ext_types \<Rightarrow> copier" where [deep_defs]:
  "CeilometerList_DeepCopyInto X = copy_struct [(''TypeMeta'', assign), (''ListMeta'', ListMeta_DeepCopyInto X),
     (''Items'', copy_slice (Ceilometer_DeepCopyInto X))]"
definition CeilometerList_DeepCopy :: "ext_types \<Rightarrow> copier" where [deep_copy_defs]:
  "CeilometerList_DeepCopy X = copy_ptr (CeilometerList_DeepCopyInto X)"

definition CeilometerSection_DeepCopyInto :: "copier" where [deep_defs]:
  "CeilometerSection_DeepCopyInto = copy_struct [(''CeilometerSpec'', CeilometerSpec_DeepCopyInto)]"
definition CeilometerSection_DeepCopy :: "copier" where [deep_copy_defs]:
  "CeilometerSection_DeepCopy = copy_ptr (CeilometerSection_DeepCopyInto)"

definition LoggingSpec_DeepCopyInto :: "copier" where [deep_defs]:
  "LoggingSpec_DeepCopyInto = copy_struct []"
definition LoggingSpec_DeepCopy :: "copier" where [deep_copy_defs]:
  "LoggingSpec_DeepCopy = copy_ptr (LoggingSpec_DeepCopyInto)"

definition LoggingStatus_DeepCopyInto :: "ext_types \<Rightarrow> copier" where [deep_defs]:
  "LoggingStatus_DeepCopyInto X = copy_struct [(''Hash'', copy_map), (''Conditions'', copy_slice (Condition_DeepCopyInto X))]"
definition LoggingStatus_DeepCopy :: "ext_types \<Rightarrow> copier" where [deep_copy_defs]:
  "LoggingStatus_DeepCopy X = copy_ptr (LoggingStatus_DeepCopyInto X)"

definition Logging_DeepCopyInto :: "ext_types \<Rightarrow> copier" where [deep_defs]:
  "Logging_DeepCopyInto X = copy_struct [(''TypeMeta'', assign), (''ObjectMeta'', ObjectMeta_DeepCopyInto X), (''Spec'', assign),
     (''Status'', LoggingStatus_DeepCopyInto X)]"
definition Logging_DeepCopy :: "ext_types \<Rightarrow> copier" where [deep_copy_defs]:
  "Logging_DeepCopy X = copy_ptr (Logging_DeepCopyInto X)"

definition LoggingList_DeepCopyInto :: "ext_types \<Rightarrow> copier" where [deep_defs]:
  "LoggingList_DeepCopyInto X = copy_struct [(''TypeMeta'', assign), (''ListMeta'', ListMeta_DeepCopyInto X),
     (''Items'', copy_slice (Logging_DeepCopyInto X))]"
definition LoggingList_DeepCopy :: "ext_types \<Rightarrow> copier" where [deep_copy_defs]:
  "LoggingList_DeepCopy X = copy_ptr (LoggingList_DeepCopyInto X)"

definition PersistentStorage_DeepCopyInto :: "ext_types \<Rightarrow> copier" where [deep_defs]:
  "PersistentStorage_DeepCopyInto X = copy_struct [(''PvcStorageSelector'', LabelSelector_DeepCopyInto X)]"
definition PersistentStorage_DeepCopy :: "ext_types \<Rightarrow> copier" where [deep_copy_defs]:
  "PersistentStorage_DeepCopy X = copy_ptr (PersistentStorage_DeepCopyInto X)"

definition Storage_DeepCopyInto :: "ext_types \<Rightarrow> copier" where [deep_defs]:
  "Storage_DeepCopyInto X = copy_struct [(''Persistent'', PersistentStorage_DeepCopyInto X)]"
definition Storage_DeepCopy :: "ext_types \<Rightarrow> copier" where [deep_copy_defs]:
  "Storage_DeepCopy X = copy_ptr (Storage_DeepCopyInto X)"

definition MonitoringStack_DeepCopyInto :: "ext_types \<Rightarrow> copier" where [deep_defs]:
  "MonitoringStack_DeepCopyInto X = copy_struct [(''Storage'', Storage_DeepCopyInto X)]"
definition MonitoringStack_DeepCopy :: "ext_types \<Rightarrow> copier" where [deep_copy_defs]:
  "MonitoringStack_DeepCopy X = copy_ptr (MonitoringStack_DeepCopyInto X)"

definition MetricStorageSpec_DeepCopyInto :: "ext_types \<Rightarrow> copier" where [deep_defs]:
  "MetricStorageSpec_DeepCopyInto X = copy_struct [(''MonitoringStack'', copy_ptr (MonitoringStack_DeepCopyInto X)),
     (''CustomMonitoringStack'', copy_ptr (MonitoringStackSpec_DeepCopyInto X))]"
definition MetricStorageSpec_DeepCopy :: "ext_types \<Rightarrow> copier" where [deep_copy_defs]:
  "MetricStorageSpec_DeepCopy X = copy_ptr (MetricStorageSpec_DeepCopyInto X)"

definition MetricStorageStatus_DeepCopyInto :: "ext_types \<Rightarrow> copier" where [deep_defs]:
  "MetricStorageStatus_DeepCopyInto X = copy_struct [(''Conditions'', copy_slice (Condition_DeepCopyInto X))]"
definition MetricStorageStatus_DeepCopy :: "ext_types \<Rightarrow> copier" where [deep_copy_defs]:
  "MetricStorageStatus_DeepCopy X = copy_ptr (MetricStorageStatus_DeepCopyInto X)"

definition MetricStorage_DeepCopyInto :: "ext_types \<Rightarrow> copier" where [deep_defs]:
  "MetricStorage_DeepCopyInto X = copy_struct [(''TypeMeta'', assign), (''ObjectMeta'', ObjectMeta_DeepCopyInto X),
     (''Spec'', MetricStorageSpec_DeepCopyInto X), (''Status'', MetricStorageStatus_DeepCopyInto X)]"
definition MetricStorage_DeepCopy :: "ext_types \<Rightarrow> copier" where [deep_copy_defs]:
  "MetricStorage_DeepCopy X = copy_ptr (MetricStorage_DeepCopyInto X)"

definition MetricStorageList_DeepCopyInto :: "ext_types \<Rightarrow> copier" where [deep_defs]:
  "MetricStorageList_DeepCopyInto X = copy_struct [(''TypeMeta'', assign), (''ListMeta'', ListMeta_DeepCopyInto X),
     (''Items'', copy_slice (MetricStorage_DeepCopyInto X))]"
definition MetricStorageList_DeepCopy :: "ext_types \<Rightarrow> copier" where [deep_copy_defs]:
  "MetricStorageList_DeepCopy X = copy_ptr (MetricStorageList_DeepCopyInto X)"

definition MetricStorageSection_DeepCopyInto :: "ext_types \<Rightarrow> copier" where [deep_defs]:
  "MetricStorageSection_DeepCopyInto X = copy_struct [(''MetricStorageSpec'', MetricStorageSpec_DeepCopyInto X)]"
definition MetricStorageSection_DeepCopy :: "ext_types \<Rightarrow> copier" where [deep_copy_defs]:
  "MetricStorageSection_DeepCopy X = copy_ptr (MetricStorageSection_DeepCopyInto X)"

definition TelemetrySpec_DeepCopyInto :: "ext_types \<Rightarrow> copier" where [deep_defs]:
  "TelemetrySpec_DeepCopyInto X = copy_struct [(''Autoscaling'', AutoscalingSection_DeepCopyInto X),
     (''Ceilometer'', CeilometerSection_DeepCopyInto), (''MetricStorage'', MetricStorageSection_DeepCopyInto X)]"
definition TelemetrySpec_DeepCopy :: "ext_types \<Rightarrow> copier" where [deep_copy_defs]:
  "TelemetrySpec_DeepCopy X = copy_ptr (TelemetrySpec_DeepCopyInto X)"

definition TelemetryStatus_DeepCopyInto :: "ext_types \<Rightarrow> copier" where [deep_defs]:
  "TelemetryStatus_DeepCopyInto X = copy_struct [(''Hash'', copy_map), (''Conditions'', copy_slice (Condition_DeepCopyInto X))]"
definition TelemetryStatus_DeepCopy :: "ext_types \<Rightarrow> copier" where [deep_copy_defs]:
  "TelemetryStatus_DeepCopy X = copy_ptr (TelemetryStatus_DeepCopyInto X)"

definition Telemetry_DeepCopyInto :: "ext_types \<Rightarrow> copier" where [deep_defs]:
  "Telemetry_DeepCopyInto X = copy_struct [(''TypeMeta'', assign), (''ObjectMeta'', ObjectMeta_DeepCopyInto X),
     (''Spec'', TelemetrySpec_DeepCopyInto X), (''Status'', TelemetryStatus_DeepCopyInto X)]"
definition Telemetry_DeepCopy :: "ext_types \<Rightarrow> copier" where [deep_copy_defs]:
  "Telemetry_DeepCopy X = copy_ptr (Telemetry_DeepCopyInto X)"

definition TelemetryDefaults_DeepCopyInto :: "copier" where [deep_defs]:
  "TelemetryDefaults_DeepCopyInto = copy_struct []"
definition TelemetryDefaults_DeepCopy :: "copier" where [deep_copy_defs]:
  "TelemetryDefaults_DeepCopy = copy_ptr (TelemetryDefaults_DeepCopyInto)"

definition TelemetryList_DeepCopyInto :: "ext_types \<Rightarrow> copier" where [deep_defs]:
  "TelemetryList_DeepCopyInto X = copy_struct [(''TypeMeta'', assign), (''ListMeta'', ListMeta_DeepCopyInto X),
     (''Items'', copy_slice (Telemetry_DeepCopyInto X))]"
definition TelemetryList_DeepCopy :: "ext_types \<Rightarrow> copier" where [deep_copy_defs]:
  "TelemetryList_DeepCopy X = copy_ptr (TelemetryList_DeepCopyInto X)"

text \<open>\<open>DeepCopyObject\<close>: the copy as an interface value, where a nil pointer becomes the nil interface \<^const>\<open>None\<close>.\<close>

definition as_object :: "copier \<Rightarrow> gval \<Rightarrow> (gheap, gval option) state" where
  "as_object copy v = do {
     c \<leftarrow> copy v;
     return (if c \<noteq> Ref None then Some c else None)
   }"

definition Autoscaling_DeepCopyObject :: "ext_types \<Rightarrow> gval \<Rightarrow> (gheap, gval option) state" where
  "Autoscaling_DeepCopyObject X = as_object (Autoscaling_DeepCopy X)"
definition AutoscalingList_DeepCopyObject :: "ext_types \<Rightarrow> gval \<Rightarrow> (gheap, gval option) state" where
  "AutoscalingList_DeepCopyObject X = as_object (AutoscalingList_DeepCopy X)"
definition Ceilometer_DeepCopyObject :: "ext_types \<Rightarrow> gval \<Rightarrow> (gheap, gval option) state" where
  "Ceilometer_DeepCopyObject X = as_object (Ceilometer_DeepCopy X)"
definition CeilometerList_DeepCopyObject :: "ext_types \<Rightarrow> gval \<Rightarrow> (gheap, gval option) state" where
  "CeilometerList_DeepCopyObject X = as_object (CeilometerList_DeepCopy X)"
definition Logging_DeepCopyObject :: "ext_types \<Rightarrow> gval \<Rightarrow> (gheap, gval option) state" where
  "Logging_DeepCopyObject X = as_object (Logging_DeepCopy X)"
definition LoggingList_DeepCopyObject :: "ext_types \<Rightarrow> gval \<Rightarrow> (gheap, gval option) state" where
  "LoggingList_DeepCopyObject X = as_object (LoggingList_DeepCopy X)"
definition MetricStorage_DeepCopyObject :: "ext_types \<Rightarrow> gval \<Rightarrow> (gheap, gval option) state" where
  "MetricStorage_DeepCopyObject X = as_object (MetricStorage_DeepCopy X)"
definition MetricStorageList_DeepCopyObject :: "ext_types \<Rightarrow> gval \<Rightarrow> (gheap, gval option) state" where
  "MetricStorageList_DeepCopyObject X = as_object (MetricStorageList_DeepCopy X)"
definition Telemetry_DeepCopyObject :: "ext_types \<Rightarrow> gval \<Rightarrow> (gheap, gval option) state" where
  "Telemetry_DeepCopyObject X = as_object (Telemetry_DeepCopy X)"
definition TelemetryList_DeepCopyObject :: "ext_types \<Rightarrow> gval \<Rightarrow> (gheap, gval option) state" where
  "TelemetryList_DeepCopyObject X = as_object (TelemetryList_DeepCopy X)"
text \<open>The API types with their copies.\<close>

definition api_types :: "ext_types \<Rightarrow> (string \<times> gtype \<times> copier) list" where
  "api_types X = [(''APIOverrideSpec'', APIOverrideSpec_t X, APIOverrideSpec_DeepCopy X),
     (''Aodh'', Aodh_t X, Aodh_DeepCopy X),
     (''Autoscaling'', Autoscaling_t X, Autoscaling_DeepCopy X),
     (''AutoscalingDefaults'', AutoscalingDefaults_t, AutoscalingDefaults_DeepCopy),
     (''AutoscalingList'', AutoscalingList_t X, AutoscalingList_DeepCopy X),
     (''AutoscalingSection'', AutoscalingSection_t X, AutoscalingSection_DeepCopy X),
     (''AutoscalingSpec'', AutoscalingSpec_t X, AutoscalingSpec_DeepCopy X),
     (''AutoscalingStatus'', AutoscalingStatus_t X, AutoscalingStatus_DeepCopy X),
     (''Ceilometer'', Ceilometer_t X, Ceilometer_DeepCopy X),
     (''CeilometerDefaults'', CeilometerDefaults_t, CeilometerDefaults_DeepCopy),
     (''CeilometerList'', CeilometerList_t X, CeilometerList_DeepCopy X),
     (''CeilometerSection'', CeilometerSection_t, CeilometerSection_DeepCopy),
     (''CeilometerSpec'', CeilometerSpec_t, CeilometerSpec_DeepCopy),
     (''CeilometerStatus'', CeilometerStatus_t X, CeilometerStatus_DeepCopy X),
     (''Logging'', Logging_t X, Logging_DeepCopy X),
     (''LoggingList'', LoggingList_t X, LoggingList_DeepCopy X),
     (''LoggingSpec'', LoggingSpec_t, LoggingSpec_DeepCopy),
     (''LoggingStatus'', LoggingStatus_t X, LoggingStatus_DeepCopy X),
     (''MetricStorage'', MetricStorage_t X, MetricStorage_DeepCopy X),
     (''MetricStorageList'', MetricStorageList_t X, MetricStorageList_DeepCopy X),
     (''MetricStorageSection'', MetricStorageSection_t X, MetricStorageSection_DeepCopy X),
     (''MetricStorageSpec'', MetricStorageSpec_t X, MetricStorageSpec_DeepCopy X),
     (''MetricStorageStatus'', MetricStorageStatus_t X, MetricStorageStatus_DeepCopy X),
     (''MonitoringStack'', MonitoringStack_t X, MonitoringStack_DeepCopy X),
     (''PasswordsSelector'', PasswordsSelector_t, PasswordsSelector_DeepCopy),
     (''PersistentStorage'', PersistentStorage_t X, PersistentStorage_DeepCopy X),
     (''Storage'', Storage_t X, Storage_DeepCopy X),
     (''Telemetry'', Telemetry_t X, Telemetry_DeepCopy X),
     (''TelemetryDefaults'', TelemetryDefaults_t, TelemetryDefaults_DeepCopy),
     (''TelemetryList'', TelemetryList_t X, TelemetryList_DeepCopy X),
     (''TelemetrySpec'', TelemetrySpec_t X, TelemetrySpec_DeepCopy X),
     (''TelemetryStatus'', TelemetryStatus_t X, TelemetryStatus_DeepCopy X)]"



section \<open>Properties\<close>

locale ext_laws =
  fixes X :: ext_types
  assumes TypeMeta: "plain (TypeMeta_t X)"
    and ObjectMeta: "deep_copier (ObjectMeta_t X) (ObjectMeta_DeepCopyInto X)"
    and ListMeta: "deep_copier (ListMeta_t X) (ListMeta_DeepCopyInto X)"
    and LabelSelector: "deep_copier (LabelSelector_t X) (LabelSelector_DeepCopyInto X)"
    and Condition: "deep_copier (Condition_t X) (Condition_DeepCopyInto X)"
    and RoutedOverrideSpec: "deep_copier (RoutedOverrideSpec_t X) (RoutedOverrideSpec_DeepCopyInto X)"
    and MonitoringStackSpec: "deep_copier (MonitoringStackSpec_t X) (MonitoringStackSpec_DeepCopyInto X)"
begin

lemmas deep_lib = TypeMeta ObjectMeta ListMeta LabelSelector Condition RoutedOverrideSpec MonitoringStackSpec
  deep_map deep_strings deep_ptr deep_slice deep_assign

lemma deep_APIOverrideSpec: "deep_copier (APIOverrideSpec_t X) (APIOverrideSpec_DeepCopyInto X)"
  unfolding APIOverrideSpec_t_def APIOverrideSpec_DeepCopyInto_def by (rule deep_structI) (simp_all add: deep_lib)

lemma deep_PasswordsSelector: "deep_copier (PasswordsSelector_t) (PasswordsSelector_DeepCopyInto)"
  unfolding PasswordsSelector_t_def PasswordsSelector_DeepCopyInto_def by (rule deep_structI) (simp_all add: deep_lib)

lemma deep_Aodh: "deep_copier (Aodh_t X) (Aodh_DeepCopyInto X)"
  unfolding Aodh_t_def Aodh_DeepCopyInto_def by (rule deep_structI) (simp_all add: deep_lib deep_PasswordsSelector deep_APIOverrideSpec PasswordsSelector_t_def)

lemma deep_AutoscalingSpec: "deep_copier (AutoscalingSpec_t X) (AutoscalingSpec_DeepCopyInto X)"
  unfolding AutoscalingSpec_t_def AutoscalingSpec_DeepCopyInto_def by (rule deep_structI) (simp_all add: deep_lib deep_Aodh)

lemma deep_AutoscalingStatus: "deep_copier (AutoscalingStatus_t X) (AutoscalingStatus_DeepCopyInto X)"
  unfolding AutoscalingStatus_t_def AutoscalingStatus_DeepCopyInto_def by (rule deep_structI) (simp_all add: deep_lib)

lemma deep_Autoscaling: "deep_copier (Autoscaling_t X) (Autoscaling_DeepCopyInto X)"
  unfolding Autoscaling_t_def Autoscaling_DeepCopyInto_def by (rule deep_structI) (simp_all add: deep_lib deep_AutoscalingSpec deep_AutoscalingStatus)

lemma deep_AutoscalingDefaults: "deep_copier (AutoscalingDefaults_t) (AutoscalingDefaults_DeepCopyInto)"
  unfolding AutoscalingDefaults_t_def AutoscalingDefaults_DeepCopyInto_def by (rule deep_structI) (simp_all add: deep_lib)

lemma deep_AutoscalingList: "deep_copier (AutoscalingList_t X) (AutoscalingList_DeepCopyInto X)"
  unfolding AutoscalingList_t_def AutoscalingList_DeepCopyInto_def by (rule deep_structI) (simp_all add: deep_lib deep_Autoscaling)

lemma deep_AutoscalingSection: "deep_copier (AutoscalingSection_t X) (AutoscalingSection_DeepCopyInto X)"
  unfolding AutoscalingSection_t_def AutoscalingSection_DeepCopyInto_def by (rule deep_structI) (simp_all add: deep_lib deep_AutoscalingSpec)

lemma deep_CeilometerSpec: "deep_copier (CeilometerSpec_t) (CeilometerSpec_DeepCopyInto)"
  unfolding CeilometerSpec_t_def CeilometerSpec_DeepCopyInto_def by (rule deep_structI) (simp_all add: deep_lib deep_PasswordsSelector PasswordsSelector_t_def)

lemma deep_CeilometerStatus: "deep_copier (CeilometerStatus_t X) (CeilometerStatus_DeepCopyInto X)"
  unfolding CeilometerStatus_t_def CeilometerStatus_DeepCopyInto_def by (rule deep_structI) (simp_all add: deep_lib)

lemma deep_Ceilometer: "deep_copier (Ceilometer_t X) (Ceilometer_DeepCopyInto X)"
  unfolding Ceilometer_t_def Ceilometer_DeepCopyInto_def by (rule deep_structI) (simp_all add: deep_lib deep_CeilometerSpec deep_CeilometerStatus)

lemma deep_CeilometerDefaults: "deep_copier (CeilometerDefaults_t) (CeilometerDefaults_DeepCopyInto)"
  unfolding CeilometerDefaults_t_def CeilometerDefaults_DeepCopyInto_def by (rule deep_structI) (simp_all add: deep_lib)

lemma deep_CeilometerList: "deep_copier (CeilometerList_t X) (CeilometerList_DeepCopyInto X)"
  unfolding CeilometerList_t_def CeilometerList_DeepCopyInto_def by (rule deep_structI) (simp_all add: deep_lib deep_Ceilometer)

lemma deep_CeilometerSection: "deep_copier (CeilometerSection_t) (CeilometerSection_DeepCopyInto)"
  unfolding CeilometerSection_t_def CeilometerSection_DeepCopyInto_def by (rule deep_structI) (simp_all add: deep_lib deep_CeilometerSpec)

lemma deep_LoggingSpec: "deep_copier (LoggingSpec_t) (LoggingSpec_DeepCopyInto)"
  unfolding LoggingSpec_t_def LoggingSpec_DeepCopyInto_def by (rule deep_structI) (simp_all add: deep_lib)

lemma deep_LoggingStatus: "deep_copier (LoggingStatus_t X) (LoggingStatus_DeepCopyInto X)"
  unfolding LoggingStatus_t_def LoggingStatus_DeepCopyInto_def by (rule deep_structI) (simp_all add: deep_lib)

lemma deep_Logging: "deep_copier (Logging_t X) (Logging_DeepCopyInto X)"
  unfolding Logging_t_def Logging_DeepCopyInto_def by (rule deep_structI) (simp_all add: deep_lib deep_LoggingSpec deep_LoggingStatus LoggingSpec_t_def)

lemma deep_LoggingList: "deep_copier (LoggingList_t X) (LoggingList_DeepCopyInto X)"
  unfolding LoggingList_t_def LoggingList_DeepCopyInto_def by (rule deep_structI) (simp_all add: deep_lib deep_Logging)

lemma deep_PersistentStorage: "deep_copier (PersistentStorage_t X) (PersistentStorage_DeepCopyInto X)"
  unfolding PersistentStorage_t_def PersistentStorage_DeepCopyInto_def by (rule deep_structI) (simp_all add: deep_lib)

lemma deep_Storage: "deep_copier (Storage_t X) (Storage_DeepCopyInto X)"
  unfolding Storage_t_def Storage_DeepCopyInto_def by (rule deep_structI) (simp_all add: deep_lib deep_PersistentStorage)

lemma deep_MonitoringStack: "deep_copier (MonitoringStack_t X) (MonitoringStack_DeepCopyInto X)"
  unfolding MonitoringStack_t_def MonitoringStack_DeepCopyInto_def by (rule deep_structI) (simp_all add: deep_lib deep_Storage)

lemma deep_MetricStorageSpec: "deep_copier (MetricStorageSpec_t X) (MetricStorageSpec_DeepCopyInto X)"
  unfolding MetricStorageSpec_t_def MetricStorageSpec_DeepCopyInto_def by (rule deep_structI) (simp_all add: deep_lib deep_MonitoringStack)

lemma deep_MetricStorageStatus: "deep_copier (MetricStorageStatus_t X) (MetricStorageStatus_DeepCopyInto X)"
  unfolding MetricStorageStatus_t_def MetricStorageStatus_DeepCopyInto_def by (rule deep_structI) (simp_all add: deep_lib)

lemma deep_MetricStorage: "deep_copier (MetricStorage_t X) (MetricStorage_DeepCopyInto X)"
  unfolding MetricStorage_t_def MetricStorage_DeepCopyInto_def by (rule deep_structI) (simp_all add: deep_lib deep_MetricStorageSpec deep_MetricStorageStatus)

lemma deep_MetricStorageList: "deep_copier (MetricStorageList_t X) (MetricStorageList_DeepCopyInto X)"
  unfolding MetricStorageList_t_def MetricStorageList_DeepCopyInto_def by (rule deep_structI) (simp_all add: deep_lib deep_MetricStorage)

lemma deep_MetricStorageSection: "deep_copier (MetricStorageSection_t X) (MetricStorageSection_DeepCopyInto X)"
  unfolding MetricStorageSection_t_def MetricStorageSection_DeepCopyInto_def by (rule deep_structI) (simp_all add: deep_lib deep_MetricStorageSpec)

lemma deep_TelemetrySpec: "deep_copier (TelemetrySpec_t X) (TelemetrySpec_DeepCopyInto X)"
  unfolding TelemetrySpec_t_def TelemetrySpec_DeepCopyInto_def by (rule deep_structI) (simp_all add: deep_lib deep_AutoscalingSection deep_CeilometerSection deep_MetricStorageSection)

lemma deep_TelemetryStatus: "deep_copier (TelemetryStatus_t X) (TelemetryStatus_DeepCopyInto X)"
  unfolding TelemetryStatus_t_def TelemetryStatus_DeepCopyInto_def by (rule deep_structI) (simp_all add: deep_lib)

lemma deep_Telemetry: "deep_copier (Telemetry_t X) (Telemetry_DeepCopyInto X)"
  unfolding Telemetry_t_def Telemetry_DeepCopyInto_def by (rule deep_structI) (simp_all add: deep_lib deep_TelemetrySpec deep_TelemetryStatus)

lemma deep_TelemetryDefaults: "deep_copier (TelemetryDefaults_t) (TelemetryDefaults_DeepCopyInto)"
  unfolding TelemetryDefaults_t_def TelemetryDefaults_DeepCopyInto_def by (rule deep_structI) (simp_all add: deep_lib)

lemma deep_TelemetryList: "deep_copier (TelemetryList_t X) (TelemetryList_DeepCopyInto X)"
  unfolding TelemetryList_t_def TelemetryList_DeepCopyInto_def by (rule deep_structI) (simp_all add: deep_lib deep_Telemetry)

lemma api_types_deep: "list_all (\<lambda>(n, t, copy). deep_copier (TPtr t) copy) (api_types X)"
  by (simp add: api_types_def deep_copy_defs deep_ptr
      deep_APIOverrideSpec deep_Aodh deep_Autoscaling deep_AutoscalingDefaults deep_AutoscalingList deep_AutoscalingSection deep_AutoscalingSpec deep_AutoscalingStatus
      deep_Ceilometer deep_CeilometerDefaults deep_CeilometerList deep_CeilometerSection deep_CeilometerSpec deep_CeilometerStatus deep_Logging deep_LoggingList
      deep_LoggingSpec deep_LoggingStatus deep_MetricStorage deep_MetricStorageList deep_MetricStorageSection deep_MetricStorageSpec deep_MetricStorageStatus deep_MonitoringStack
      deep_PasswordsSelector deep_PersistentStorage deep_Storage deep_Telemetry deep_TelemetryDefaults deep_TelemetryList deep_TelemetrySpec deep_TelemetryStatus)

end

lemma api_type_deep:
  assumes "ext_laws X" and "(n, t, copy) \<in> set (api_types X)"
  shows "deep_copier (TPtr t) copy"
  using bspec [OF ext_laws.api_types_deep [OF assms(1), unfolded list_all_iff] assms(2)] by simp


text \<open>
  C14: A copy is isolated from its original: whatever is later written to the cells that the copy reaches, the
  original still reads as before; and whatever is written to the cells that the original
  reaches, the copy still reads as the original did.
\<close>

theorem deep_copies_isolated:
  assumes "ext_laws X" and "(n, t, copy) \<in> set (api_types X)"
    and "wf_heap h" and "read h (TPtr t) v = Some (tr, as)"
    and "run_state (copy v) h = (v', h')" and "read h' (TPtr t) v' = Some (tr', as')"
  shows "(\<forall>h''. (\<forall>a. a \<notin> set as' \<longrightarrow> cells h'' a = cells h' a) \<longrightarrow> read h'' (TPtr t) v = Some (tr, as)) \<and>
    (\<forall>h''. (\<forall>a. a \<notin> set as \<longrightarrow> cells h'' a = cells h' a) \<longrightarrow> read h'' (TPtr t) v' = Some (tr, as'))"
proof -
  from deep_copierE [OF api_type_deep [OF assms(1,2)] assms(3,4)] assms(5,6) have ext: "extends h h'" and tr: "tr' = tr"
    and fresh: "\<And>a. a \<in> set as' \<Longrightarrow> next_addr h \<le> a"
    by (metis (no_types, lifting) option.inject prod.inject)+
  have old: "\<And>a. a \<in> set as \<Longrightarrow> a < next_addr h"
    using read_allocated [OF assms(4)] assms(3) by (simp add: wf_heap_def)
  show ?thesis
  proof (intro conjI allI impI)
    fix h'' :: gheap assume same: "\<forall>a. a \<notin> set as' \<longrightarrow> cells h'' a = cells h' a"
    from assms(4) show "read h'' (TPtr t) v = Some (tr, as)"
    proof (rule read_frame)
      fix a assume "a \<in> set as"
      then have "a < next_addr h" by (rule old)
      moreover from this have "a \<notin> set as'" using fresh by force
      ultimately show "cells h'' a = cells h a" using same ext by (simp add: extends_def)
    qed
  next
    fix h'' :: gheap assume same: "\<forall>a. a \<notin> set as \<longrightarrow> cells h'' a = cells h' a"
    from assms(6) have "read h'' (TPtr t) v' = Some (tr', as')"
      by (rule read_frame) (use same old fresh in force)
    with tr show "read h'' (TPtr t) v' = Some (tr, as')" by simp
  qed
qed

section \<open>Witnesses\<close>

text \<open>Some fields of the types of the other packages, with their copies.\<close>

definition ref_ext :: ext_types where
  "ref_ext =
    (let meta = [(''Name'', TScalar), (''Labels'', TMap), (''Finalizers'', TSlice TScalar)];
         copy_meta = copy_struct [(''Labels'', copy_map), (''Finalizers'', copy_strings)];
         plain_t = TStruct [(''Type'', TScalar), (''Status'', TScalar)]
     in \<lparr>TypeMeta_t = plain_t, ObjectMeta_t = TStruct meta, ObjectMeta_DeepCopyInto = copy_meta,
         ListMeta_t = plain_t, ListMeta_DeepCopyInto = assign,
         LabelSelector_t = TStruct [(''MatchLabels'', TMap)], LabelSelector_DeepCopyInto = copy_struct [(''MatchLabels'', copy_map)],
         Condition_t = plain_t, Condition_DeepCopyInto = copy_struct [],
         RoutedOverrideSpec_t = TStruct [(''EndpointURL'', TPtr TScalar)],
         RoutedOverrideSpec_DeepCopyInto = copy_struct [(''EndpointURL'', copy_ptr assign)],
         MonitoringStackSpec_t = TStruct [(''ResourceSelector'', TPtr (TStruct [(''MatchLabels'', TMap)]))],
         MonitoringStackSpec_DeepCopyInto = copy_struct [(''ResourceSelector'', copy_ptr (copy_struct [(''MatchLabels'', copy_map)]))]\<rparr>)"

lemma ref_ext_laws: "ext_laws ref_ext"
  by unfold_locales (simp_all add: ref_ext_def Let_def deep_structI deep_map deep_strings deep_ptr deep_assign)

interpretation ref_ext: ext_laws ref_ext
  by (rule ref_ext_laws)

text \<open>A Ceilometer status with a hash, a condition and a network.\<close>

definition ref_status_heap :: gheap where
  "ref_status_heap = \<lparr>cells = [
     0 \<mapsto> Pointee (Struct [(''ReadyCount'', Scalar ''1''), (''Hash'', Ref (Some 1)), (''Conditions'', Ref (Some 2)),
       (''TransportURLSecret'', Scalar ''s''), (''Networks'', Ref (Some 3))]),
     1 \<mapsto> Entries [(''input'', ''h'')],
     2 \<mapsto> Elements [Struct [(''Type'', Scalar ''Ready''), (''Status'', Scalar ''True'')]],
     3 \<mapsto> Elements [Scalar ''internalapi'']], next_addr = 4\<rparr>"

lemma ref_status_read:
  "read ref_status_heap (TPtr (CeilometerStatus_t ref_ext)) (Ref (Some 0)) =
    Some (Target (Node [(''ReadyCount'', Leaf ''1''), (''Hash'', Dict [''input'' \<mapsto> ''h'']),
      (''Conditions'', Items [Node [(''Type'', Leaf ''Ready''), (''Status'', Leaf ''True'')]]),
      (''TransportURLSecret'', Leaf ''s''), (''Networks'', Items [Leaf ''internalapi''])]), [0, 1, 2, 3])"
  by (simp add: ref_status_heap_def CeilometerStatus_t_def ref_ext_def Let_def)

lemma ref_status_wf: "wf_heap ref_status_heap"
  by (simp add: wf_heap_def ref_status_heap_def)

lemma ref_status_listed: "(''CeilometerStatus'', CeilometerStatus_t ref_ext, CeilometerStatus_DeepCopy ref_ext) \<in> set (api_types ref_ext)"
  by (simp add: api_types_def)


theorem deep_copies_isolated_witness:
  "\<exists>v' h' tr as'. run_state (CeilometerStatus_DeepCopy ref_ext (Ref (Some 0))) ref_status_heap = (v', h') \<and>
     read h' (TPtr (CeilometerStatus_t ref_ext)) v' = Some (tr, as') \<and>
     read (h'\<lparr>cells := (cells h')(1 \<mapsto> Entries [])\<rparr>) (TPtr (CeilometerStatus_t ref_ext)) v' = Some (tr, as')"
proof -
  obtain tr where r0: "read ref_status_heap (TPtr (CeilometerStatus_t ref_ext)) (Ref (Some 0)) = Some (tr, [0, 1, 2, 3])"
    using ref_status_read by blast
  obtain v' h' as' where run: "run_state (CeilometerStatus_DeepCopy ref_ext (Ref (Some 0))) ref_status_heap = (v', h')"
    and r: "read h' (TPtr (CeilometerStatus_t ref_ext)) v' = Some (tr, as')"
    by (rule deep_copierE [OF api_type_deep [OF ref_ext_laws ref_status_listed] ref_status_wf r0]) (rule that)
  have "read (h'\<lparr>cells := (cells h')(1 \<mapsto> Entries [])\<rparr>) (TPtr (CeilometerStatus_t ref_ext)) v' = Some (tr, as')"
    by (rule deep_copies_isolated [OF ref_ext_laws ref_status_listed ref_status_wf r0 run r, THEN conjunct2, rule_format]) simp
  with run r show ?thesis by blast
qed

end
