(* ===== verification/Spec2Isabelle.thy ===== *)
theory Spec2Isabelle
  imports Autoscaling_Errors Autoscaling_Deletion Autoscaling_Rendering Ceilometer_Convergence Logging_Convergence
    Metricstorage_Convergence Section_Teardown Startup Deep_Copy
begin

text \<open>
  A verification library for the OpenStack telemetry operator (Go, \<^verbatim>\<open>src/\<close>).

  \<^bold>\<open>The program.\<close> The operator reconciles five kinds of custom resources. A Telemetry resource owns one
  child of each of three kinds: Ceilometer (agents that collect metrics), Autoscaling (the alarming service
  Aodh) and MetricStorage (a Prometheus stack). A Logging resource is independent. Admission webhooks
  (\<^verbatim>\<open>api/v1beta1/*_webhook.go\<close>) fill in defaults; one controller per kind (\<^verbatim>\<open>controllers/\<close>) brings the
  cluster to what the resource asks for and reports progress as status conditions; the packages under
  \<^verbatim>\<open>pkg/\<close> build the Kubernetes objects.

  \<^bold>\<open>How it is modelled.\<close> A handler is a computation in the state monad over a record of the instance it
  holds a pointer to and the cluster (\<open>Prelude\<close>). The cluster is a type variable and every call on it an
  arbitrary state transformer, so the theorems hold for every answer of the API server and every change
  that others make between two calls. Errors are values, panics (nil maps, nil pointers) are the
  constructor \<open>Panic\<close> of \<open>outcome\<close>, Go maps have \<open>None\<close> for nil, sized integers are words. Code outside the
  repository is a parameter: lib-common's \<open>condition\<close> package (\<open>condition_pkg\<close> with the laws
  \<open>condition_laws\<close>), its pure helpers (\<open>commonlib\<close>, \<open>commonlib_laws\<close>), \<open>controllerutil\<close> (\<open>finalizer_laws\<close>),
  the client and the calls on other operators (\<open>crapi\<close>, \<open>platform\<close>, \<open>autoscaling_api\<close>, \<open>metricstorage_api\<close>,
  \<open>dataplane_api\<close>, \<open>service_pkg\<close>), the registrars and the manager (\<open>registrar\<close>, \<open>runtime\<close>), and the copies of
  types of other modules (\<open>ext_types\<close>, \<open>ext_laws\<close>). Each of these has a reference instance for the witnesses. All loops
  are structural recursions over lists, so no fuel is needed; a loop over a Go map takes the order in which
  this run visits it as data.

  \<^bold>\<open>The theories.\<close>
  \<^item> \<open>Prelude\<close>: Go values, the monad, weakest preconditions, preserved invariants, absence of panics.
  \<^item> \<open>Conditions\<close>, \<open>Api_Types\<close>: \<^verbatim>\<open>conditions.go\<close> and the \<^verbatim>\<open>*_types.go\<close> files.
  \<^item> \<open>Webhooks\<close>: the defaulting webhooks are idempotent, the sections of an admitted Telemetry are fixed
    points of the webhooks of the children, and the one image that gets no default.
  \<^item> \<open>Reconcile\<close>: the frame of the five \<open>Reconcile\<close> methods and the locale \<open>reconciler\<close>, which every
    controller interprets: fetch, deferred patch, finalizer, initialisation, work.
  \<^item> \<open>Consts\<close>, \<open>Workloads\<close>, \<open>Input_Hash\<close>: constants of \<^verbatim>\<open>pkg/*/const.go\<close>, Kubernetes objects and library
    calls, and the locale \<open>input_hasher\<close> for the three methods \<open>createHashOfInputHashes\<close>.
  \<^item> \<open>Ceilometer_Pkg\<close>, \<open>Autoscaling_Pkg\<close>, \<open>Metricstorage_Pkg\<close>: the builders of \<^verbatim>\<open>pkg/\<close>; the pods are
    consistent, and change when the hash of the configuration does.
  \<^item> \<open>Telemetry_Controller\<close>: a pass refines the sequence of its child calls, mirrors the children in the
    conditions, and releases the resource on deletion.
  \<^item> \<open>Ceilometer_Controller\<close>, \<open>Logging_Controller\<close>: outcome of a pass, panics, deletion.
  \<^item> \<open>Convergence\<close>: liveness in terms of runs of \<open>Reconcile\<close> in a row, between which the rest of the cluster may
    change; the locale \<open>hash_reconciler\<close> extends \<open>reconciler\<close> by the stop at a changed hash of the inputs.
    \<open>Ceilometer_Convergence\<close> and \<open>Logging_Convergence\<close> (three runs) and \<open>Metricstorage_Convergence\<close> (two runs)
    bring a new resource to Ready on a cluster with steady answers.
  \<^item> \<open>Teardown\<close>, \<open>Section_Teardown\<close>: the Telemetry controller and the controllers of its children composed through
    the API server. Under any schedule of their passes a child whose section is turned off is removed; the locale
    \<open>teardown\<close> is the contract of one section, with the number of passes that are left as its measure.
  \<^item> \<open>Aodh_Controller\<close>, \<open>Autoscaling_Controller\<close> (the model of \<^verbatim>\<open>aodh_controller.go\<close> and
    \<^verbatim>\<open>autoscaling_controller.go\<close>), \<open>Autoscaling_Passes\<close> (outcome, no panic), \<open>Autoscaling_Errors\<close> (dropped
    errors, the condition that never recovers), \<open>Autoscaling_Deletion\<close>, \<open>Autoscaling_Rendering\<close> (the host of
    the database is rendered one pass late).
  \<^item> \<open>Net_Names\<close>, \<open>Node_Targets\<close>: the regular expression for domain names and \<open>net.ParseIP\<close>, and the scrape
    targets of the compute nodes, refined to a specification.
  \<^item> \<open>Metricstorage_Controller\<close>: outcome of a pass, and the watches over the life of the operator as a
    transition system.
  \<^item> \<open>Watches\<close>: the functions that map a changed object to the resources to reconcile.
  \<^item> \<open>Registration\<close>: \<^verbatim>\<open>groupversion_info.go\<close>, the \<open>init\<close> functions, \<open>SetupWithManager\<close> and
    \<open>SetupWebhookWithManager\<close>. What a controller watches is a list of event sources; the locale \<open>controlled\<close>
    joins them with the owner references that its handler writes: which changes reach which controller.
  \<^item> \<open>Flags\<close>, \<open>Startup\<close>: the command line (Go's package \<open>flag\<close>) and \<^verbatim>\<open>main.go\<close>; \<open>main\<close> runs the plan of its
    steps and stops with exit code 1 at the first one that fails.
  \<^item> \<open>Go_Heap\<close>, \<open>Deep_Copy\<close>: \<^verbatim>\<open>zz_generated.deepcopy.go\<close> over an explicit heap of addresses. A copy reads as
    the original and shares no memory with it; the laws of a copier are stated once per Go type constructor.

  \<^bold>\<open>Not modelled.\<close> Log lines, metrics and the profiler hooks of the manager, the templates that are
  rendered in pods, the shell and Ansible files, and the tests: they hold no decision of the operator, or run
  outside of it. The transition times of the conditions, the spare capacity of Go slices and the scheduling of
  the work queue (its rate limits, and the deduplication of requests) are left out; a pass runs from start to
  end on its own copy of the resource, while the cluster may change at each of its calls.

  This theory holds what spans the controllers.
\<close>

section \<open>All controllers\<close>

text \<open>
  C5: What each of the five controllers stores when it has fetched its resource: the Ready condition is
  True exactly when every other condition of the stored resource is True. There is one patch, at the end
  of \<open>Reconcile\<close>, on every path.
\<close>

theorem controllers_store_ready:
  assumes "condition_laws CL Has ct tr"
  shows "stores_ready CL Has At True (Telemetry_Reconcile CL U At) \<and>
    stores_ready CL Has Ac True (Ceilometer_Reconcile CL U L P Ac) \<and>
    stores_ready CL Has Al True (Logging_Reconcile CL U L P Al) \<and>
    stores_ready CL Has Aa False (Autoscaling_Reconcile CL U L V P Aa visit) \<and>
    stores_ready CL Has (ms_crapi Am) False (MetricStorage_Reconcile CL U L Am)"
  by (intro conjI tel.stores_ready [OF assms] cei.stores_ready [OF assms] log.stores_ready [OF assms]
      aut.stores_ready [OF assms] ms.stores_ready [OF assms])

theorem controllers_store_ready_witness:
  "stores_ready ref_pkg ref_Has (ms_crapi (ref_ms_api [])) False
     (MetricStorage_Reconcile ref_pkg ref_controllerutil ref_commonlib (ref_ms_api []))"
  using controllers_store_ready [OF ref.condition_laws_axioms] by blast

text \<open>
  C27: When the final patch fails, Telemetry, Ceilometer and Logging return its error, so that the pass is
  tried again. Autoscaling and MetricStorage have no named results and drop it: the first pass over a new
  resource returns success although its finalizer and status were not stored.
\<close>

theorem patch_errors:
  "reports_patch_error At (Telemetry_Reconcile CL U At) \<and>
   reports_patch_error Ac (Ceilometer_Reconcile CL U L P Ac) \<and>
   reports_patch_error Al (Logging_Reconcile CL U L P Al) \<and>
   drops_patch_error U Aa (Autoscaling_Reconcile CL U L V P Aa visit) \<and>
   drops_patch_error U (ms_crapi Am) (MetricStorage_Reconcile CL U L Am)"
  by (intro conjI tel.reports_patch_error cei.reports_patch_error log.reports_patch_error
      aut.drops_patch_error ms.drops_patch_error) simp_all

text \<open>
  A resource of any kind is stored as Ready by its first \<open>Reconcile\<close>, before anything was done for it
  (the theorem for Telemetry is in \<open>Telemetry_Controller\<close>).
\<close>

lemma fresh_resources_reported_ready:
  assumes "condition_laws CL Has ct tr" "finalizer_laws U"
  shows "fresh_is_ready CL Has At True (Telemetry_Reconcile CL U At)"
    and "fresh_is_ready CL Has Ac True (Ceilometer_Reconcile CL U L P Ac)"
    and "fresh_is_ready CL Has Al True (Logging_Reconcile CL U L P Al)"
    and "fresh_is_ready CL Has Aa False (Autoscaling_Reconcile CL U L V P Aa visit)"
    and "fresh_is_ready CL Has (ms_crapi Am) False (MetricStorage_Reconcile CL U L Am)"
  by (rule tel.fresh_is_ready [OF assms] cei.fresh_is_ready [OF assms] log.fresh_is_ready [OF assms]
      aut.fresh_is_ready [OF assms] ms.fresh_is_ready [OF assms])+

section \<open>The workloads\<close>

text \<open>
  C24: The StatefulSets that the builders return are consistent: the selector is the labels of the pods, every
  volume that a container mounts is declared, and the containers run the images of the spec in order. A new
  configuration restarts the pods: for two different configuration hashes the pod templates differ, whatever
  the instances and the labels.
\<close>

theorem statefulsets_consistent:
  assumes "commonlib_laws L"
    and "ceilometer_StatefulSet L i h labels = Inr ss" and "AodhStatefulSet L j h labels = Inr sa"
  shows "MatchLabels (ss_Selector ss) = m_Labels (po_Meta (ss_Template ss)) \<and> mounts_declared (ss_Template ss) \<and>
    map co_Image (po_Containers (ss_Template ss)) =
      [ce_CentralImage (Spec i), ce_NotificationImage (Spec i), ce_SgCoreImage (Spec i)] \<and>
    MatchLabels (ss_Selector sa) = m_Labels (po_Meta (ss_Template sa)) \<and> mounts_declared (ss_Template sa) \<and>
    map co_Image (po_Containers (ss_Template sa)) = [ao_APIImage (as_Aodh (Spec j)),
      ao_EvaluatorImage (as_Aodh (Spec j)), ao_NotifierImage (as_Aodh (Spec j)), ao_ListenerImage (as_Aodh (Spec j))] \<and>
    (\<forall>h' i' labels' ss'. ceilometer_StatefulSet L i' h' labels' = Inr ss' \<and> h' \<noteq> h \<longrightarrow> ss_Template ss' \<noteq> ss_Template ss) \<and>
    (\<forall>h' j' labels' sa'. AodhStatefulSet L j' h' labels' = Inr sa' \<and> h' \<noteq> h \<longrightarrow> ss_Template sa' \<noteq> ss_Template sa)"
  using ceilometer_statefulset_consistent [OF assms(2)] aodh_statefulset_consistent [OF assms(3)]
    ceilometer_hash_changes_pods [OF assms(1) _ assms(2)] aodh_hash_changes_pods [OF assms(1) _ assms(3)]
  by metis

theorem statefulsets_consistent_witness:
  "\<exists>ss sa sn. ceilometer_StatefulSet ref_commonlib ref_ceilometer ''old'' None = Inr ss \<and>
     AodhStatefulSet ref_commonlib ref_autoscaling ''old'' None = Inr sa \<and>
     AodhStatefulSet ref_commonlib ref_autoscaling ''new'' None = Inr sn \<and>
     mounts_declared (ss_Template ss) \<and> mounts_declared (ss_Template sa) \<and> ss_Template sn \<noteq> ss_Template sa"
proof -
  obtain ss where ss: "ceilometer_StatefulSet ref_commonlib ref_ceilometer ''old'' None = Inr ss"
    by (simp add: ceilometer_StatefulSet_def Let_def ref_commonlib_def)
  obtain sa where sa: "AodhStatefulSet ref_commonlib ref_autoscaling ''old'' None = Inr sa"
    by (simp add: AodhStatefulSet_def Let_def ref_commonlib_def)
  obtain sn where sn: "AodhStatefulSet ref_commonlib ref_autoscaling ''new'' None = Inr sn"
    by (simp add: AodhStatefulSet_def Let_def ref_commonlib_def)
  have "''new'' \<noteq> ''old''" by simp
  with statefulsets_consistent [OF ref_lib.commonlib_laws_axioms ss sa] ss sa sn show ?thesis by blast
qed

end
